(* ===== verification/Prelude.thy ===== *)
theory Prelude
  imports
    "HOL-Library.Char_ord"
    "HOL-Library.List_Lexorder"
    "HOL-Library.Word"
    "HOL-Library.Multiset"
    "HOL-Library.Sublist"
begin

text \<open>
  Shared vocabulary of the development.

  Go values: byte strings are \<^typ>\<open>string\<close> ordered bytewise (the order of Go's \<open><\<close> on strings and of
  the BINARY collation of the databases), an \<open>error\<close> result is \<open>error option\<close> (\<open>None\<close> is \<open>nil\<close>), a
  pair \<open>(T, error)\<close> is \<open>error + 'a\<close>, and a method with effects on a receiver of type \<open>'s\<close> is an
  \<open>('s, 'a) op\<close>: it returns the error or the value together with the state it leaves behind, so that
  the effects made before an early return are kept, as they are in the code.

  SQL tables are lists of rows; the primary key of a table is the projection given to
  \<open>lookup_row\<close>, \<open>put_row\<close> and \<open>del_row\<close>.

  Times: a \<open>time.Time\<close> is the number of nanoseconds since the Unix epoch, with the zero time at year 1.
\<close>

named_theorems op_simps \<open>evaluation of effectful operations\<close>
named_theorems row_simps \<open>lookup after a change of a table\<close>

section \<open>Errors and effectful operations\<close>

datatype error = ErrNotFound | Err string

text \<open>What \<open>Error()\<close> returns.\<close>

definition errorText :: "error \<Rightarrow> string" where
  "errorText e = (case e of ErrNotFound \<Rightarrow> ''not found'' | Err m \<Rightarrow> m)"

type_synonym 'a result = "error + 'a"

type_synonym ('s, 'a) op = "'s \<Rightarrow> 'a result \<times> 's"

definition retE :: "'a \<Rightarrow> ('s, 'a) op" where
  "retE a s = (Inr a, s)"

definition throwE :: "error \<Rightarrow> ('s, 'a) op" where
  "throwE e s = (Inl e, s)"

definition bindE :: "('s, 'a) op \<Rightarrow> ('a \<Rightarrow> ('s, 'b) op) \<Rightarrow> ('s, 'b) op" where
  "bindE m f s = (case m s of (Inl e, s') \<Rightarrow> (Inl e, s') | (Inr a, s') \<Rightarrow> f a s')"

primrec foreachE :: "('x \<Rightarrow> ('s, unit) op) \<Rightarrow> 'x list \<Rightarrow> ('s, unit) op" where
  "foreachE f [] s = (Inr (), s)"
| "foreachE f (x # xs) s =
     (case f x s of (Inl e, s') \<Rightarrow> (Inl e, s') | (Inr _, s') \<Rightarrow> foreachE f xs s')"

definition bindR :: "'a result \<Rightarrow> ('a \<Rightarrow> 'b result) \<Rightarrow> 'b result" where
  "bindR r f = (case r of Inl e \<Rightarrow> Inl e | Inr a \<Rightarrow> f a)"

primrec foldR :: "('x \<Rightarrow> 'a \<Rightarrow> 'a result) \<Rightarrow> 'x list \<Rightarrow> 'a \<Rightarrow> 'a result" where
  "foldR f [] a = Inr a"
| "foldR f (x # xs) a = (case f x a of Inl e \<Rightarrow> Inl e | Inr b \<Rightarrow> foldR f xs b)"

text \<open>
  A transaction: its statements run on the tables in turn, an error rolls every one of them back, and
  the value is returned when it commits.
\<close>

definition commit :: "'a \<Rightarrow> 's result \<Rightarrow> ('s, 'a) op" where
  "commit a tx s = (case tx of Inl e \<Rightarrow> (Inl e, s) | Inr s' \<Rightarrow> (Inr a, s'))"

lemma commit_eq_Inr [simp]: "commit a tx s = (Inr b, s') \<longleftrightarrow> tx = Inr s' \<and> b = a"
  by (auto simp: commit_def split: sum.splits)

lemma commit_state: "commit a tx s = (r, s') \<Longrightarrow> s' = s \<or> tx = Inr s'"
  by (auto simp: commit_def split: sum.splits)

lemma retE_apply [simp, op_simps]: "retE a s = (Inr a, s)"
  by (simp add: retE_def)

lemma throwE_apply [simp, op_simps]: "throwE e s = (Inl e, s)"
  by (simp add: throwE_def)

lemma bindE_Inr [op_simps]: "m s = (Inr a, s') \<Longrightarrow> bindE m f s = f a s'"
  by (simp add: bindE_def)

lemma bindE_Inl [op_simps]: "m s = (Inl e, s') \<Longrightarrow> bindE m f s = (Inl e, s')"
  by (simp add: bindE_def)

lemma bindE_eq_Inr:
  "bindE m f s = (Inr b, t) \<longleftrightarrow> (\<exists>a s'. m s = (Inr a, s') \<and> f a s' = (Inr b, t))"
  by (auto simp: bindE_def split: prod.splits sum.splits)

lemma bindR_eq_Inr [simp]: "bindR r f = Inr b \<longleftrightarrow> (\<exists>a. r = Inr a \<and> f a = Inr b)"
  by (auto simp: bindR_def split: sum.splits)

lemma bindR_Inr [simp]: "bindR (Inr a) f = f a"
  by (simp add: bindR_def)

lemma bindR_Inl [simp]: "bindR (Inl e) f = Inl e"
  by (simp add: bindR_def)

lemma foreachE_append:
  "foreachE f (xs @ ys) s =
     (case foreachE f xs s of (Inl e, s') \<Rightarrow> (Inl e, s') | (Inr _, s') \<Rightarrow> foreachE f ys s')"
  by (induction xs arbitrary: s) (auto split: prod.splits sum.splits)

lemma foldR_append:
  "foldR f (xs @ ys) a = bindR (foldR f xs a) (foldR f ys)"
  by (induction xs arbitrary: a) (auto simp: bindR_def split: sum.splits)

lemma foldR_invariant:
  assumes "foldR f xs a = Inr b" "P a"
    and "\<And>x a b. x \<in> set xs \<Longrightarrow> P a \<Longrightarrow> f x a = Inr b \<Longrightarrow> P b"
  shows "P b"
  using assms
proof (induction xs arbitrary: a)
  case Nil
  then show ?case by simp
next
  case (Cons x xs)
  from Cons.prems(1) obtain c where "f x a = Inr c" "foldR f xs c = Inr b"
    by (auto split: sum.splits)
  with Cons.prems(2,3) Cons.IH [of c] show ?case by (meson list.set_intros)
qed

section \<open>Tables\<close>

definition lookup_row :: "('r \<Rightarrow> 'k) \<Rightarrow> 'r list \<Rightarrow> 'k \<Rightarrow> 'r option" where
  "lookup_row key t k = find (\<lambda>r. key r = k) t"

definition put_row :: "('r \<Rightarrow> 'k) \<Rightarrow> 'r \<Rightarrow> 'r list \<Rightarrow> 'r list" where
  "put_row key r t =
     (if key r \<in> key ` set t then map (\<lambda>x. if key x = key r then r else x) t else t @ [r])"

definition del_row :: "('r \<Rightarrow> 'k) \<Rightarrow> 'k \<Rightarrow> 'r list \<Rightarrow> 'r list" where
  "del_row key k t = filter (\<lambda>r. key r \<noteq> k) t"

definition update_rows :: "('r \<Rightarrow> bool) \<Rightarrow> ('r \<Rightarrow> 'r) \<Rightarrow> 'r list \<Rightarrow> 'r list" where
  "update_rows P f t = map (\<lambda>r. if P r then f r else r) t"

abbreviation keyed :: "('r \<Rightarrow> 'k) \<Rightarrow> 'r list \<Rightarrow> bool" where
  "keyed key t \<equiv> distinct (map key t)"

lemma find_append: "find P (xs @ ys) = (case find P xs of None \<Rightarrow> find P ys | Some x \<Rightarrow> Some x)"
  by (induction xs) auto

lemma lookup_row_Nil [simp]: "lookup_row key [] k = None"
  by (simp add: lookup_row_def)

lemma lookup_row_Cons:
  "lookup_row key (r # t) k = (if key r = k then Some r else lookup_row key t k)"
  by (simp add: lookup_row_def)

lemma lookup_row_append:
  "lookup_row key (t @ u) k =
     (case lookup_row key t k of None \<Rightarrow> lookup_row key u k | Some r \<Rightarrow> Some r)"
  by (induction t) (auto simp: lookup_row_Cons)

lemma lookup_row_SomeD: "lookup_row key t k = Some r \<Longrightarrow> r \<in> set t \<and> key r = k"
  by (auto simp: lookup_row_def find_Some_iff)

lemma lookup_row_None_iff: "lookup_row key t k = None \<longleftrightarrow> k \<notin> key ` set t"
  by (auto simp: lookup_row_def find_None_iff)

lemma lookup_row_keyed:
  "keyed key t \<Longrightarrow> lookup_row key t k = Some r \<longleftrightarrow> r \<in> set t \<and> key r = k"
  by (induction t) (auto simp: lookup_row_Cons)

lemma lookup_row_map_same_key:
  "(\<And>r. key (f r) = key r) \<Longrightarrow> lookup_row key (map f t) k = map_option f (lookup_row key t k)"
  by (induction t) (auto simp: lookup_row_Cons)

lemma lookup_update_rows [row_simps]:
  assumes "\<And>r. key (f r) = key r"
  shows "lookup_row key (update_rows P f t) k =
    map_option (\<lambda>r. if P r then f r else r) (lookup_row key t k)"
  unfolding update_rows_def by (rule lookup_row_map_same_key) (simp add: assms)

lemma lookup_put_row [row_simps]:
  "lookup_row key (put_row key r t) k = (if k = key r then Some r else lookup_row key t k)"
proof (cases "key r \<in> key ` set t")
  case True
  let ?f = "\<lambda>x. if key x = key r then r else x"
  obtain q where q: "lookup_row key t (key r) = Some q" "key q = key r"
    using True by (metis lookup_row_None_iff lookup_row_SomeD option.exhaust)
  have "lookup_row key (put_row key r t) k = map_option ?f (lookup_row key t k)"
    using True by (simp add: put_row_def lookup_row_map_same_key)
  also have "\<dots> = (if k = key r then Some r else lookup_row key t k)"
    using q by (cases "lookup_row key t k") (auto dest: lookup_row_SomeD)
  finally show ?thesis .
next
  case False
  then have "lookup_row key t (key r) = None" by (simp add: lookup_row_None_iff)
  with False show ?thesis
    by (auto simp: put_row_def lookup_row_append lookup_row_Cons split: option.split)
qed

lemma lookup_del_row [row_simps]:
  "lookup_row key (del_row key k t) k' = (if k' = k then None else lookup_row key t k')"
  by (induction t) (auto simp: del_row_def lookup_row_Cons)

lemma keyed_put_row [simp, intro]:
  assumes "keyed key t"
  shows "keyed key (put_row key r t)"
proof (cases "key r \<in> key ` set t")
  case True
  then have "map key (put_row key r t) = map key t"
    by (simp add: put_row_def)
  with assms show ?thesis by simp
next
  case False
  with assms show ?thesis by (simp add: put_row_def)
qed

lemma keyed_del_row [simp, intro]: "keyed key t \<Longrightarrow> keyed key (del_row key k t)"
  by (induction t) (auto simp: del_row_def)

lemma keys_update_rows [simp]:
  "(\<And>r. key (f r) = key r) \<Longrightarrow> map key (update_rows P f t) = map key t"
  by (auto simp: update_rows_def)

lemma set_update_rows: "set (update_rows P f t) = (\<lambda>r. if P r then f r else r) ` set t"
  by (simp add: update_rows_def)

lemma image_update_rows:
  assumes "\<And>r. key (f r) = key r"
  shows "key ` set (update_rows P f t) = key ` set t"
proof -
  have "set (map key (update_rows P f t)) = set (map key t)" using assms by (simp only: keys_update_rows)
  then show ?thesis by simp
qed

section \<open>Uniqueness constraints\<close>

text \<open>
  \<open>clash r x\<close> says that the rows \<open>r\<close> and \<open>x\<close> agree on the columns of some unique index they both belong to
  (a partial index has a condition on the rows). A statement that would leave two clashing rows fails.
\<close>

definition uniqueViolation :: error where
  "uniqueViolation = Err ''UNIQUE constraint failed''"

definition foreignKeyViolation :: error where
  "foreignKeyViolation = Err ''FOREIGN KEY constraint failed''"

definition checkViolation :: error where
  "checkViolation = Err ''CHECK constraint failed''"

definition noClash :: "('r \<Rightarrow> 'r \<Rightarrow> bool) \<Rightarrow> 'r list \<Rightarrow> bool" where
  "noClash clash t = sorted_wrt (\<lambda>x y. \<not> clash y x) t"

definition insert_row :: "('r \<Rightarrow> 'r \<Rightarrow> bool) \<Rightarrow> 'r \<Rightarrow> 'r list \<Rightarrow> 'r list result" where
  "insert_row clash r t = (if list_ex (clash r) t then Inl uniqueViolation else Inr (t @ [r]))"

definition checked_update :: "('r \<Rightarrow> 'r \<Rightarrow> bool) \<Rightarrow> ('r \<Rightarrow> bool) \<Rightarrow> ('r \<Rightarrow> 'r) \<Rightarrow> 'r list \<Rightarrow> 'r list result" where
  "checked_update clash P f t =
     (let t' = update_rows P f t in if noClash clash t' then Inr t' else Inl uniqueViolation)"

lemma insert_row_eq:
  "insert_row clash r t = Inr t' \<longleftrightarrow> (\<forall>x \<in> set t. \<not> clash r x) \<and> t' = t @ [r]"
  by (auto simp: insert_row_def list_ex_iff)

lemma noClash_append: "noClash clash (t @ [r]) \<longleftrightarrow> noClash clash t \<and> (\<forall>x \<in> set t. \<not> clash r x)"
  by (auto simp: noClash_def sorted_wrt_append)

lemma noClash_insert: "insert_row clash r t = Inr t' \<Longrightarrow> noClash clash t \<Longrightarrow> noClash clash t'"
  by (auto simp: insert_row_eq noClash_append)

lemma noClash_checked_update: "checked_update clash P f t = Inr t' \<Longrightarrow> noClash clash t' \<and> t' = update_rows P f t"
  by (auto simp: checked_update_def Let_def split: if_splits)

lemma noClash_keyed:
  assumes "noClash clash t" and same: "\<And>x y. key x = key y \<Longrightarrow> clash x y"
  shows "keyed key t"
  using assms(1)
proof (induction t)
  case (Cons r t)
  then have "noClash clash t" "\<forall>y \<in> set t. \<not> clash y r" by (simp_all add: noClash_def)
  moreover from this(2) same have "key r \<notin> key ` set t" by force
  ultimately show ?case using Cons.IH by simp
qed simp

lemma noClash_update_rows:
  assumes "noClash clash t" "\<And>x y. clash (if P x then f x else x) (if P y then f y else y) \<Longrightarrow> clash x y"
  shows "noClash clash (update_rows P f t)"
proof -
  have "sorted_wrt (\<lambda>x y. \<not> clash (if P y then f y else y) (if P x then f x else x)) t"
    using assms(1) unfolding noClash_def by (rule sorted_wrt_mono_rel [rotated]) (use assms(2) in blast)
  then show ?thesis by (simp add: noClash_def update_rows_def sorted_wrt_map)
qed

lemma noClash_D:
  assumes "noClash clash t" "x \<in> set t" "y \<in> set t" "x \<noteq> y" "\<And>x y. clash x y \<Longrightarrow> clash y x"
  shows "\<not> clash x y"
  using assms by (induction t) (auto simp: noClash_def)

section \<open>Strictly ordered lists\<close>

abbreviation ssorted :: "'a::linorder list \<Rightarrow> bool" where
  "ssorted \<equiv> sorted_wrt (<)"

lemma ssorted_distinct: "ssorted xs \<Longrightarrow> distinct xs"
  by (induction xs) auto

lemma ssorted_iff: "ssorted xs \<longleftrightarrow> sorted xs \<and> distinct xs"
  by (induction xs) (auto simp: less_le)

lemma ssorted_sort_key:
  "keyed key t \<Longrightarrow> ssorted (map key (sort_key key t))"
  by (simp add: ssorted_iff) (metis distinct_map distinct_sort set_sort)

lemma sort_key_ssorted [simp]: "ssorted (map key t) \<Longrightarrow> sort_key key t = t"
  by (simp add: ssorted_iff sorted_sort_id sort_key_id_if_sorted)

lemma ssorted_map_filter: "ssorted (map f xs) \<Longrightarrow> ssorted (map f (filter P xs))"
  by (induction xs) auto

lemma ssorted_map_take: "ssorted (map f xs) \<Longrightarrow> ssorted (map f (take n xs))"
  by (metis take_map sorted_wrt_take)

lemma ssorted_last_max:
  assumes "ssorted (map f xs)" "xs \<noteq> []" "x \<in> set xs"
  shows "f x \<le> f (last xs)"
  using assms by (induction xs) (auto simp: less_imp_le)

lemma take_less_exhausts:
  "length (take n xs) < n \<Longrightarrow> take n xs = xs"
  by simp

section \<open>Go integers, strings and times\<close>

abbreviation max_int64 :: int where
  "max_int64 \<equiv> 9223372036854775807"

definition in_int64 :: "int \<Rightarrow> bool" where
  "in_int64 x \<longleftrightarrow> - 9223372036854775808 \<le> x \<and> x \<le> max_int64"

text \<open>
  \<open>strings.TrimSpace\<close>: the encodings of the code points of Unicode's White Space property, stripped
  from both ends of the byte string.
\<close>

definition white_space :: "string list" where
  "white_space =
     map (\<lambda>b. [char_of (b::nat)]) [9, 10, 11, 12, 13, 32] @
     map (map char_of) [[194, 133], [194, 160], [225, 154, 128::nat]] @
     map (\<lambda>b. map char_of [226, 128, b])
       [128, 129, 130, 131, 132, 133, 134, 135, 136, 137, 138, 168, 169, 175::nat] @
     map (map char_of) [[226, 129, 159], [227, 128, 128::nat]]"

definition strip_one :: "string list \<Rightarrow> string \<Rightarrow> string option" where
  "strip_one ws s = map_option (\<lambda>w. drop (length w) s) (find (\<lambda>w. w \<noteq> [] \<and> prefix w s) ws)"

lemma strip_one_length: "strip_one ws s = Some t \<Longrightarrow> length t < length s"
  by (auto simp: strip_one_def find_Some_iff prefix_def)

function trim_left :: "string list \<Rightarrow> string \<Rightarrow> string" where
  "trim_left ws s = (case strip_one ws s of None \<Rightarrow> s | Some t \<Rightarrow> trim_left ws t)"
  by pat_completeness auto
termination
  by (relation "measure (length \<circ> snd)") (auto dest: strip_one_length)

declare trim_left.simps [simp del]

definition TrimSpace :: "string \<Rightarrow> string" where
  "TrimSpace s = rev (trim_left (map rev white_space) (rev (trim_left white_space s)))"

lemma trim_left_idem: "trim_left ws (trim_left ws s) = trim_left ws s"
proof (induction ws s rule: trim_left.induct)
  case (1 ws s)
  then show ?case
    by (cases "strip_one ws s") (simp_all add: trim_left.simps [of ws s])
qed

text \<open>Text that begins and ends with a printing ASCII character is left alone.\<close>

lemma white_space_ends:
  "w \<in> set white_space \<Longrightarrow> w \<noteq> [] \<and> (of_char (hd w) :: nat) \<notin> {33..126} \<and> (of_char (last w) :: nat) \<notin> {33..126}"
  unfolding white_space_def by auto

lemma trim_left_keep: "(\<And>w. w \<in> set ws \<Longrightarrow> w \<noteq> [] \<Longrightarrow> \<not> prefix w s) \<Longrightarrow> trim_left ws s = s"
proof -
  assume "\<And>w. w \<in> set ws \<Longrightarrow> w \<noteq> [] \<Longrightarrow> \<not> prefix w s"
  then have "strip_one ws s = None" by (auto simp: strip_one_def find_None_iff)
  then show ?thesis by (simp add: trim_left.simps)
qed

lemma TrimSpace_ascii:
  assumes "s \<noteq> []" "(of_char (hd s) :: nat) \<in> {33..126}" "(of_char (last s) :: nat) \<in> {33..126}"
  shows "TrimSpace s = s"
proof -
  have "trim_left white_space s = s"
    using white_space_ends assms(1,2) by (intro trim_left_keep) (auto simp: prefix_def)
  moreover have "trim_left (map rev white_space) (rev s) = rev s"
    using white_space_ends assms(1,3) by (intro trim_left_keep) (fastforce simp: prefix_def rev_swap)
  ultimately show ?thesis by (simp add: TrimSpace_def)
qed

definition zero_time :: int where
  "zero_time = - 62135596800 * 10 ^ 9"

definition IsZero :: "int \<Rightarrow> bool" where
  "IsZero t \<longleftrightarrow> t = zero_time"

abbreviation time_UnixMilli :: "int \<Rightarrow> int" where
  "time_UnixMilli t \<equiv> t div 10 ^ 6"

end
