(* ===== verification/Strconv.thy ===== *)
theory Strconv
  imports Prelude
begin

text \<open>
  The decimal conversions of Go's \<open>strconv\<close> that the program uses: \<open>FormatInt\<close> and \<open>ParseInt\<close> in base
  10 with 64 bits, \<open>Atoi\<close> and \<open>ParseUint\<close> on unsigned decimals, with the syntax and range errors.
\<close>

definition is_digit :: "char \<Rightarrow> bool" where
  "is_digit c \<longleftrightarrow> 48 \<le> (of_char c :: nat) \<and> (of_char c :: nat) \<le> 57"

definition digit_char :: "nat \<Rightarrow> char" where
  "digit_char d = char_of (48 + d)"

definition digit_val :: "char \<Rightarrow> nat" where
  "digit_val c = of_char c - 48"

fun show_nat :: "nat \<Rightarrow> string" where
  "show_nat n = (if n < 10 then [digit_char n] else show_nat (n div 10) @ [digit_char (n mod 10)])"

declare show_nat.simps [simp del]

definition read_nat :: "string \<Rightarrow> nat" where
  "read_nat s = foldl (\<lambda>a c. a * 10 + digit_val c) 0 s"

definition FormatInt :: "int \<Rightarrow> string" where
  "FormatInt v = (if v < 0 then CHR ''-'' # show_nat (nat (- v)) else show_nat (nat v))"

definition parse_digits :: "string \<Rightarrow> nat option" where
  "parse_digits s = (if s \<noteq> [] \<and> list_all is_digit s then Some (read_nat s) else None)"

definition errSyntax :: error where
  "errSyntax = Err ''invalid syntax''"

definition errRange :: error where
  "errRange = Err ''value out of range''"

definition ParseInt64 :: "string \<Rightarrow> int result" where
  "ParseInt64 s =
     (let neg = (s \<noteq> [] \<and> hd s = CHR ''-'');
          body = (if s \<noteq> [] \<and> (hd s = CHR ''-'' \<or> hd s = CHR ''+'') then tl s else s)
      in case parse_digits body of
           None \<Rightarrow> Inl errSyntax
         | Some n \<Rightarrow>
             let v = (if neg then - int n else int n)
             in if in_int64 v then Inr v else Inl errRange)"

definition ParseUint :: "nat \<Rightarrow> string \<Rightarrow> nat result" where
  "ParseUint bits s =
     (case parse_digits s of
        None \<Rightarrow> Inl errSyntax
      | Some n \<Rightarrow> if n < 2 ^ bits then Inr n else Inl errRange)"

lemma digit_char_props:
  assumes "d < 10"
  shows "is_digit (digit_char d)" "digit_val (digit_char d) = d"
    "digit_char d \<noteq> CHR ''-''" "digit_char d \<noteq> CHR ''+''"
proof -
  have *: "(of_char (digit_char d) :: nat) = 48 + d"
    using assms by (simp add: digit_char_def)
  then show "is_digit (digit_char d)" "digit_val (digit_char d) = d"
    using assms by (auto simp: is_digit_def digit_val_def)
  have "(of_char CHR ''-'' :: nat) = 45" "(of_char CHR ''+'' :: nat) = 43" by simp_all
  then show "digit_char d \<noteq> CHR ''-''" "digit_char d \<noteq> CHR ''+''"
    using * assms by (auto simp del: of_char_eq_iff)
qed

lemma read_nat_snoc: "read_nat (s @ [c]) = read_nat s * 10 + digit_val c"
  by (simp add: read_nat_def)

lemma read_show_nat [simp]: "read_nat (show_nat n) = n"
proof (induction n rule: show_nat.induct)
  case (1 n)
  show ?case
  proof (cases "n < 10")
    case True
    then show ?thesis
      by (simp add: show_nat.simps [of n] read_nat_def digit_char_props)
  next
    case False
    with 1 show ?thesis
      by (simp add: show_nat.simps [of n] read_nat_snoc digit_char_props)
  qed
qed

lemma show_nat_nonempty [simp]: "show_nat n \<noteq> []"
  by (subst show_nat.simps) simp

lemma show_nat_digits: "list_all is_digit (show_nat n)"
proof (induction n rule: show_nat.induct)
  case (1 n)
  then show ?case
    by (cases "n < 10") (simp_all add: show_nat.simps [of n] digit_char_props)
qed

lemma parse_show_nat [simp]: "parse_digits (show_nat n) = Some n"
  by (simp add: parse_digits_def show_nat_digits)

lemma hd_show_nat: "hd (show_nat n) \<noteq> CHR ''-''" "hd (show_nat n) \<noteq> CHR ''+''"
proof -
  have "is_digit (hd (show_nat n))"
    using show_nat_digits [of n] show_nat_nonempty [of n] by (cases "show_nat n") auto
  then show "hd (show_nat n) \<noteq> CHR ''-''" "hd (show_nat n) \<noteq> CHR ''+''"
    by (auto simp: is_digit_def)
qed

lemma ParseInt_FormatInt: "in_int64 v \<Longrightarrow> ParseInt64 (FormatInt v) = Inr v"
  using hd_show_nat [of "nat v"]
  by (auto simp: ParseInt64_def FormatInt_def Let_def)

lemma ParseUint_show_nat: "n < 2 ^ bits \<Longrightarrow> ParseUint bits (show_nat n) = Inr n"
  by (simp add: ParseUint_def)

end
