(* ===== verification/Agent_Store.thy ===== *)
theory Agent_Store
  imports Strconv "HOL-Library.Product_Lexorder"
begin

text \<open>
  The agent's database, \<open>internal/agent/common/store/store.go\<close> with the constraints of its schema: the
  authorised users, the key/value sync state, and the traffic accounting table.

  A statement is the change of one table, with the unique and check constraints as errors; a
  transaction works on a copy of the tables that replaces the database only at its commit, so that
  every early return rolls back. Failures of the disk are not modelled.
\<close>

section \<open>Tables\<close>

record AuthUser =
  auConnectionID :: string
  auNativeAuthID :: string
  auNativeMeta :: string

record UsageRecord =
  urConnectionID :: string
  urTXBytes :: int
  urRXBytes :: int

record UsageBatch =
  ubRequestID :: string
  ubNodeID :: string
  ubFromMS :: int
  ubToMS :: int
  ubRecords :: "UsageRecord list"
  ubCreatedMS :: int

record ConnectionTrafficState =
  ctConnectionID :: string
  ctObservedRX :: int
  ctObservedTX :: int
  ctAcknowledgedRX :: int
  ctAcknowledgedTX :: int
  ctUnacknowledgedRX :: int
  ctUnacknowledgedTX :: int
  ctSentRX :: int
  ctSentTX :: int
  ctRequestID :: "string option"

record AgentDB =
  auth_users :: "AuthUser list"
  sync_state :: "(string \<times> string) list"
  traffic :: "ConnectionTrafficState list"

definition emptyAgentDB :: AgentDB where
  "emptyAgentDB = \<lparr>auth_users = [], sync_state = [], traffic = []\<rparr>"

section \<open>Authorised users and sync state\<close>

definition nativeTaken :: "AuthUser \<Rightarrow> AuthUser list \<Rightarrow> bool" where
  "nativeTaken u t \<longleftrightarrow>
     list_ex (\<lambda>v. auNativeAuthID v = auNativeAuthID u \<and> auConnectionID v \<noteq> auConnectionID u) t"

definition UpsertAuthUser :: "AuthUser \<Rightarrow> (AgentDB, unit) op" where
  "UpsertAuthUser user db =
     (if nativeTaken user (auth_users db) then (Inl uniqueViolation, db)
      else (Inr (), db\<lparr>auth_users := put_row auConnectionID user (auth_users db)\<rparr>))"

definition DeleteAuthUser :: "string \<Rightarrow> (AgentDB, unit) op" where
  "DeleteAuthUser connectionID db =
     (Inr (), db\<lparr>auth_users := del_row auConnectionID connectionID (auth_users db)\<rparr>)"

definition GetAuthUserByConnectionID :: "string \<Rightarrow> AgentDB \<Rightarrow> AuthUser result" where
  "GetAuthUserByConnectionID connectionID db =
     (case lookup_row auConnectionID (auth_users db) connectionID of
        None \<Rightarrow> Inl ErrNotFound | Some u \<Rightarrow> Inr u)"

definition GetAuthUserByNativeAuthID :: "string \<Rightarrow> AgentDB \<Rightarrow> AuthUser result" where
  "GetAuthUserByNativeAuthID nativeID db =
     (case lookup_row auNativeAuthID (auth_users db) nativeID of
        None \<Rightarrow> Inl ErrNotFound | Some u \<Rightarrow> Inr u)"

definition GetConnectionIDByNativeAuthID :: "string \<Rightarrow> AgentDB \<Rightarrow> string result" where
  "GetConnectionIDByNativeAuthID nativeID db =
     (case lookup_row auNativeAuthID (auth_users db) nativeID of
        None \<Rightarrow> Inl ErrNotFound | Some u \<Rightarrow> Inr (auConnectionID u))"

definition ListAuthUsers :: "(AgentDB, AuthUser list) op" where
  "ListAuthUsers db = (Inr (sort_key auConnectionID (auth_users db)), db)"

definition insertAuthUser :: "AuthUser \<Rightarrow> AuthUser list \<Rightarrow> AuthUser list result" where
  "insertAuthUser u t =
     (if list_ex (\<lambda>v. auConnectionID v = auConnectionID u \<or> auNativeAuthID v = auNativeAuthID u) t
      then Inl uniqueViolation else Inr (t @ [u]))"

definition putState :: "string \<Rightarrow> string \<Rightarrow> (string \<times> string) list \<Rightarrow> (string \<times> string) list" where
  "putState key value t = put_row fst (key, value) t"

text \<open>The map \<open>keep\<close> is an association list; the order of a Go map's iteration is its order.\<close>

definition ApplyFullAuthSnapshot ::
  "(string \<times> AuthUser) list \<Rightarrow> string \<Rightarrow> int \<Rightarrow> (AgentDB, unit) op" where
  "ApplyFullAuthSnapshot keep cursorKey cursorMS db =
     (case foldR insertAuthUser (map snd keep) [] of
        Inl e \<Rightarrow> (Inl e, db)
      | Inr t \<Rightarrow>
          (Inr (), db\<lparr>auth_users := t,
                       sync_state := putState cursorKey (FormatInt cursorMS) (sync_state db)\<rparr>))"

definition GetState :: "string \<Rightarrow> (AgentDB, string) op" where
  "GetState key db =
     (case lookup_row fst (sync_state db) key of
        None \<Rightarrow> (Inl ErrNotFound, db) | Some r \<Rightarrow> (Inr (snd r), db))"

definition SetState :: "string \<Rightarrow> string \<Rightarrow> (AgentDB, unit) op" where
  "SetState key value db = (Inr (), db\<lparr>sync_state := putState key value (sync_state db)\<rparr>)"

section \<open>Traffic accounting\<close>

definition cumulativeDelta :: "int \<Rightarrow> int \<Rightarrow> int" where
  "cumulativeDelta current observed = (if current \<ge> observed then current - observed else current)"

definition addNonnegative :: "int \<Rightarrow> int \<Rightarrow> int result" where
  "addNonnegative a b =
     (if a < 0 \<or> b < 0 \<or> a > max_int64 - b then Inl (Err ''traffic counter overflow'') else Inr (a + b))"

definition freshTraffic :: "string \<Rightarrow> ConnectionTrafficState" where
  "freshTraffic c =
     \<lparr>ctConnectionID = c, ctObservedRX = 0, ctObservedTX = 0, ctAcknowledgedRX = 0,
      ctAcknowledgedTX = 0, ctUnacknowledgedRX = 0, ctUnacknowledgedTX = 0, ctSentRX = 0,
      ctSentTX = 0, ctRequestID = None\<rparr>"

text \<open>The check constraints of table \<open>connection_traffic_state\<close>.\<close>

definition trafficCheck :: "ConnectionTrafficState \<Rightarrow> bool" where
  "trafficCheck r \<longleftrightarrow>
     0 \<le> ctObservedRX r \<and> 0 \<le> ctObservedTX r \<and> 0 \<le> ctAcknowledgedRX r \<and> 0 \<le> ctAcknowledgedTX r \<and>
     0 \<le> ctUnacknowledgedRX r \<and> 0 \<le> ctUnacknowledgedTX r \<and> 0 \<le> ctSentRX r \<and> 0 \<le> ctSentTX r \<and>
     (case ctRequestID r of
        None \<Rightarrow> ctSentRX r = 0 \<and> ctSentTX r = 0
      | Some _ \<Rightarrow> ctSentRX r \<le> ctUnacknowledgedRX r \<and> ctSentTX r \<le> ctUnacknowledgedTX r)"

definition updateTraffic ::
  "(ConnectionTrafficState \<Rightarrow> bool) \<Rightarrow> (ConnectionTrafficState \<Rightarrow> ConnectionTrafficState) \<Rightarrow>
   ConnectionTrafficState list \<Rightarrow> ConnectionTrafficState list result" where
  "updateTraffic P f t =
     (if list_all (\<lambda>r. P r \<longrightarrow> trafficCheck (f r)) t then Inr (update_rows P f t)
      else Inl checkViolation)"

definition trafficOf :: "ConnectionTrafficState list \<Rightarrow> string \<Rightarrow> ConnectionTrafficState" where
  "trafficOf t c = (case lookup_row ctConnectionID t c of None \<Rightarrow> freshTraffic c | Some r \<Rightarrow> r)"

definition insertTrafficIfAbsent ::
  "string \<Rightarrow> ConnectionTrafficState list \<Rightarrow> ConnectionTrafficState list" where
  "insertTrafficIfAbsent c t =
     (if c \<in> ctConnectionID ` set t then t else t @ [freshTraffic c])"

definition observeRecord ::
  "UsageRecord \<Rightarrow> ConnectionTrafficState list \<Rightarrow> ConnectionTrafficState list result" where
  "observeRecord record t =
     (if urConnectionID record = [] \<or> urRXBytes record < 0 \<or> urTXBytes record < 0
      then Inl (Err ''traffic snapshot contains invalid values'')
      else
        let t' = insertTrafficIfAbsent (urConnectionID record) t;
            r = trafficOf t' (urConnectionID record);
            rxDelta = cumulativeDelta (urRXBytes record) (ctObservedRX r);
            txDelta = cumulativeDelta (urTXBytes record) (ctObservedTX r)
        in bindR (addNonnegative (ctUnacknowledgedRX r) rxDelta) (\<lambda>_.
           bindR (addNonnegative (ctUnacknowledgedTX r) txDelta) (\<lambda>_.
           updateTraffic (\<lambda>x. ctConnectionID x = urConnectionID record)
             (\<lambda>x. x\<lparr>ctObservedRX := urRXBytes record, ctObservedTX := urTXBytes record,
                     ctUnacknowledgedRX := ctUnacknowledgedRX x + rxDelta,
                     ctUnacknowledgedTX := ctUnacknowledgedTX x + txDelta\<rparr>) t')))"

definition ObserveTraffic :: "UsageRecord list \<Rightarrow> (AgentDB, unit) op" where
  "ObserveTraffic records db =
     (case foldR observeRecord records (traffic db) of
        Inl e \<Rightarrow> (Inl e, db)
      | Inr t \<Rightarrow> (Inr (), db\<lparr>traffic := t\<rparr>))"

definition pendingTraffic :: "ConnectionTrafficState \<Rightarrow> bool" where
  "pendingTraffic r \<longleftrightarrow>
     ctRequestID r = None \<and> (ctUnacknowledgedRX r > 0 \<or> ctUnacknowledgedTX r > 0)"

definition usageOf :: "ConnectionTrafficState \<Rightarrow> UsageRecord" where
  "usageOf r = \<lparr>urConnectionID = ctConnectionID r, urTXBytes = ctUnacknowledgedTX r,
                urRXBytes = ctUnacknowledgedRX r\<rparr>"

definition emptyBatch :: "string \<Rightarrow> string \<Rightarrow> UsageRecord list \<Rightarrow> UsageBatch" where
  "emptyBatch requestID nodeID records =
     \<lparr>ubRequestID = requestID, ubNodeID = nodeID, ubFromMS = 0, ubToMS = 0, ubRecords = records,
      ubCreatedMS = 0\<rparr>"

definition markRow :: "string \<Rightarrow> ConnectionTrafficState \<Rightarrow> ConnectionTrafficState" where
  "markRow requestID x =
     x\<lparr>ctSentRX := ctUnacknowledgedRX x, ctSentTX := ctUnacknowledgedTX x,
       ctRequestID := Some requestID\<rparr>"

definition markSent ::
  "string \<Rightarrow> UsageRecord \<Rightarrow> ConnectionTrafficState list \<Rightarrow> ConnectionTrafficState list result" where
  "markSent requestID record t =
     (let P = (\<lambda>x. ctConnectionID x = urConnectionID record \<and> ctRequestID x = None)
      in bindR (updateTraffic P (markRow requestID) t)
         (\<lambda>t'. if length (filter P t) \<noteq> 1
               then Inl (Err ''traffic state changed while preparing request'') else Inr t'))"

text \<open>The result \<open>None\<close> is the empty batch with \<open>false\<close>: nothing is pending.\<close>

definition PrepareUsageRequest ::
  "string \<Rightarrow> string \<Rightarrow> int \<Rightarrow> (AgentDB, UsageBatch option) op" where
  "PrepareUsageRequest requestID nodeID limit db =
     (if requestID = [] then (Inl (Err ''traffic request_id is required''), db)
      else
        let n = (if limit \<le> 0 then 100 else limit);
            records = map usageOf (take (nat n)
              (sort_key ctConnectionID (filter pendingTraffic (traffic db))))
        in if records = [] then (Inr None, db)
           else case foldR (markSent requestID) records (traffic db) of
             Inl e \<Rightarrow> (Inl e, db)
           | Inr t \<Rightarrow>
               (Inr (Some (emptyBatch requestID nodeID records)),
                db\<lparr>traffic := t\<rparr>))"

definition sentOf :: "ConnectionTrafficState \<Rightarrow> UsageRecord" where
  "sentOf r = \<lparr>urConnectionID = ctConnectionID r, urTXBytes = ctSentTX r, urRXBytes = ctSentRX r\<rparr>"

definition addPrepared ::
  "string \<Rightarrow> UsageBatch list \<Rightarrow> ConnectionTrafficState \<Rightarrow> UsageBatch list" where
  "addPrepared nodeID out r =
     (let rid = the (ctRequestID r)
      in if rid \<in> ubRequestID ` set out
         then map (\<lambda>b. if ubRequestID b = rid then b\<lparr>ubRecords := ubRecords b @ [sentOf r]\<rparr> else b) out
         else out @ [emptyBatch rid nodeID [sentOf r]])"

definition ListPreparedUsageRequests :: "string \<Rightarrow> AgentDB \<Rightarrow> UsageBatch list" where
  "ListPreparedUsageRequests nodeID db =
     foldl (addPrepared nodeID) []
       (sort_key (\<lambda>r. (the (ctRequestID r), ctConnectionID r))
         (filter (\<lambda>r. ctRequestID r \<noteq> None) (traffic db)))"

record AcknowledgedUsage =
  akConnectionID :: string
  akRXBytes :: int
  akTXBytes :: int

fun ackMap :: "AcknowledgedUsage list \<Rightarrow> AcknowledgedUsage list \<Rightarrow> AcknowledgedUsage list result" where
  "ackMap ack [] = Inr ack"
| "ackMap ack (record # records) =
     (if akConnectionID record = [] \<or> akRXBytes record < 0 \<or> akTXBytes record < 0
      then Inl (Err ''usage acknowledgement contains invalid values'')
      else if akConnectionID record \<in> akConnectionID ` set ack
      then Inl (Err ''usage acknowledgement contains duplicate connection'')
      else ackMap (ack @ [record]) records)"

definition ackRow :: "AcknowledgedUsage \<Rightarrow> ConnectionTrafficState \<Rightarrow> ConnectionTrafficState" where
  "ackRow accepted x =
     x\<lparr>ctAcknowledgedRX := akRXBytes accepted, ctAcknowledgedTX := akTXBytes accepted,
       ctUnacknowledgedRX := ctUnacknowledgedRX x - ctSentRX x,
       ctUnacknowledgedTX := ctUnacknowledgedTX x - ctSentTX x,
       ctSentRX := 0, ctSentTX := 0, ctRequestID := None\<rparr>"

definition acknowledgeRow ::
  "string \<Rightarrow> AcknowledgedUsage list \<Rightarrow> ConnectionTrafficState \<Rightarrow> ConnectionTrafficState list \<Rightarrow>
   ConnectionTrafficState list result" where
  "acknowledgeRow requestID ack state t =
     (case lookup_row akConnectionID ack (ctConnectionID state) of
        None \<Rightarrow> Inl (Err ''usage acknowledgement misses connection'')
      | Some accepted \<Rightarrow>
          if ctSentRX state > ctUnacknowledgedRX state \<or> ctSentTX state > ctUnacknowledgedTX state
          then Inl (Err ''invalid persisted traffic state'')
          else if akRXBytes accepted < ctSentRX state \<or> akTXBytes accepted < ctSentTX state
          then Inl (Err ''authoritative usage is lower than sent usage for connection'')
          else updateTraffic
            (\<lambda>x. ctConnectionID x = ctConnectionID state \<and> ctRequestID x = Some requestID)
            (ackRow accepted) t)"

definition AcknowledgeUsage :: "string \<Rightarrow> AcknowledgedUsage list \<Rightarrow> (AgentDB, unit) op" where
  "AcknowledgeUsage requestID records db =
     (case ackMap [] records of
        Inl e \<Rightarrow> (Inl e, db)
      | Inr ack \<Rightarrow>
          let states = sort_key ctConnectionID
                (filter (\<lambda>r. ctRequestID r = Some requestID) (traffic db))
          in if states = [] then (Inr (), db)
             else if length ack \<noteq> length states
             then (Inl (Err ''usage acknowledgement does not match prepared connections''), db)
             else case foldR (acknowledgeRow requestID ack) states (traffic db) of
               Inl e \<Rightarrow> (Inl e, db)
             | Inr t \<Rightarrow> (Inr (), db\<lparr>traffic := t\<rparr>))"

definition GetConnectionTrafficState :: "string \<Rightarrow> AgentDB \<Rightarrow> ConnectionTrafficState" where
  "GetConnectionTrafficState connectionID db = trafficOf (traffic db) connectionID"

section \<open>Invariant and behaviour of the traffic table\<close>

definition trafficOK :: "ConnectionTrafficState list \<Rightarrow> bool" where
  "trafficOK t \<longleftrightarrow>
     keyed ctConnectionID t \<and> [] \<notin> ctConnectionID ` set t \<and>
     (\<forall>r \<in> set t. trafficCheck r \<and> ctUnacknowledgedRX r \<le> max_int64 \<and> ctUnacknowledgedTX r \<le> max_int64)"

lemma row_sel [simp]:
  "ctConnectionID (freshTraffic c) = c"
  "ctConnectionID (markRow rid x) = ctConnectionID x"
  "ctConnectionID (ackRow a x) = ctConnectionID x"
  "urConnectionID (usageOf x) = ctConnectionID x"
  "urConnectionID (sentOf x) = ctConnectionID x"
  by (simp_all add: freshTraffic_def markRow_def ackRow_def usageOf_def sentOf_def)

lemma freshTraffic_check [simp]: "trafficCheck (freshTraffic c)"
  by (simp add: trafficCheck_def freshTraffic_def)

lemma markRow_check: "trafficCheck x \<Longrightarrow> trafficCheck (markRow rid x)"
  by (auto simp: trafficCheck_def markRow_def)

lemma ackRow_check:
  "\<lbrakk>trafficCheck x; ctRequestID x \<noteq> None; 0 \<le> akRXBytes a; 0 \<le> akTXBytes a\<rbrakk> \<Longrightarrow> trafficCheck (ackRow a x)"
  by (auto simp: trafficCheck_def ackRow_def)

lemma trafficOf_in:
  "trafficOK t \<Longrightarrow> r \<in> set t \<Longrightarrow> trafficOf t (ctConnectionID r) = r"
  by (simp add: trafficOK_def trafficOf_def lookup_row_keyed [THEN iffD2])

lemma trafficOf_notin: "c \<notin> ctConnectionID ` set t \<Longrightarrow> trafficOf t c = freshTraffic c"
  by (simp add: trafficOf_def lookup_row_None_iff [symmetric])

lemma trafficOf_update_rows:
  assumes "\<And>r. ctConnectionID (f r) = ctConnectionID r" "\<And>c. P (freshTraffic c) \<Longrightarrow> f (freshTraffic c) = freshTraffic c"
  shows "trafficOf (update_rows P f t) c = (if P (trafficOf t c) then f (trafficOf t c) else trafficOf t c)"
  using assms by (auto simp: trafficOf_def lookup_update_rows split: option.splits)

lemma trafficOf_insert [simp]: "trafficOf (insertTrafficIfAbsent c t) d = trafficOf t d"
proof (cases "c \<in> ctConnectionID ` set t")
  case False
  then have "lookup_row ctConnectionID t c = None" by (simp add: lookup_row_None_iff)
  with False show ?thesis
    by (auto simp: trafficOf_def insertTrafficIfAbsent_def lookup_row_append lookup_row_Cons
        split: option.split)
qed (simp add: insertTrafficIfAbsent_def)

lemma trafficOf_id [simp]: "ctConnectionID (trafficOf t c) = c"
  by (auto simp: trafficOf_def dest: lookup_row_SomeD split: option.splits)

subsection \<open>Observing\<close>

definition observedRow :: "UsageRecord \<Rightarrow> ConnectionTrafficState \<Rightarrow> ConnectionTrafficState" where
  "observedRow record x =
     x\<lparr>ctObservedRX := urRXBytes record, ctObservedTX := urTXBytes record,
       ctUnacknowledgedRX := ctUnacknowledgedRX x + cumulativeDelta (urRXBytes record) (ctObservedRX x),
       ctUnacknowledgedTX := ctUnacknowledgedTX x + cumulativeDelta (urTXBytes record) (ctObservedTX x)\<rparr>"

lemma observedRow_id [simp]: "ctConnectionID (observedRow rec x) = ctConnectionID x"
  by (simp add: observedRow_def)

lemma cumulativeDelta_nonneg: "0 \<le> current \<Longrightarrow> 0 \<le> cumulativeDelta current observed"
  by (simp add: cumulativeDelta_def)

lemma cumulativeDelta_le: "0 \<le> observed \<Longrightarrow> cumulativeDelta current observed \<le> current"
  by (simp add: cumulativeDelta_def)

lemma observedRow_check:
  "\<lbrakk>trafficCheck x; 0 \<le> urRXBytes rec; 0 \<le> urTXBytes rec\<rbrakk> \<Longrightarrow> trafficCheck (observedRow rec x)"
  using cumulativeDelta_nonneg [of "urRXBytes rec" "ctObservedRX x"]
    cumulativeDelta_nonneg [of "urTXBytes rec" "ctObservedTX x"]
  by (auto simp: trafficCheck_def observedRow_def split: option.splits)

definition observable :: "UsageRecord \<Rightarrow> ConnectionTrafficState \<Rightarrow> bool" where
  "observable rec x \<longleftrightarrow>
     urConnectionID rec \<noteq> [] \<and> 0 \<le> urRXBytes rec \<and> 0 \<le> urTXBytes rec \<and>
     ctUnacknowledgedRX (observedRow rec x) \<le> max_int64 \<and>
     ctUnacknowledgedTX (observedRow rec x) \<le> max_int64"

lemma trafficOK_insert: "trafficOK t \<Longrightarrow> c \<noteq> [] \<Longrightarrow> trafficOK (insertTrafficIfAbsent c t)"
  by (auto simp: trafficOK_def insertTrafficIfAbsent_def) (simp_all add: freshTraffic_def)

lemma trafficOf_check:
  assumes "trafficOK t"
  shows "trafficCheck (trafficOf t c)" "ctUnacknowledgedRX (trafficOf t c) \<le> max_int64"
    "ctUnacknowledgedTX (trafficOf t c) \<le> max_int64"
  using assms
  by (auto simp: trafficOf_def trafficOK_def dest: lookup_row_SomeD split: option.splits)
    (simp_all add: freshTraffic_def)

lemma observeRecord_eq:
  assumes ok: "trafficOK t"
  shows "observeRecord rec t =
    (if urConnectionID rec = [] \<or> urRXBytes rec < 0 \<or> urTXBytes rec < 0
     then Inl (Err ''traffic snapshot contains invalid values'')
     else if observable rec (trafficOf t (urConnectionID rec))
     then Inr (update_rows (\<lambda>x. ctConnectionID x = urConnectionID rec) (observedRow rec)
                 (insertTrafficIfAbsent (urConnectionID rec) t))
     else Inl (Err ''traffic counter overflow''))"
proof (cases "urConnectionID rec = [] \<or> urRXBytes rec < 0 \<or> urTXBytes rec < 0")
  case True
  then show ?thesis by (auto simp: observeRecord_def)
next
  case False
  let ?c = "urConnectionID rec" and ?t = "insertTrafficIfAbsent (urConnectionID rec) t"
  let ?r = "trafficOf t ?c"
  let ?f = "\<lambda>x. x\<lparr>ctObservedRX := urRXBytes rec, ctObservedTX := urTXBytes rec,
      ctUnacknowledgedRX := ctUnacknowledgedRX x + cumulativeDelta (urRXBytes rec) (ctObservedRX ?r),
      ctUnacknowledgedTX := ctUnacknowledgedTX x + cumulativeDelta (urTXBytes rec) (ctObservedTX ?r)\<rparr>"
  have okt: "trafficOK ?t" using ok False by (simp add: trafficOK_insert)
  have row: "x = ?r" if "x \<in> set ?t" "ctConnectionID x = ?c" for x
    using trafficOf_in [OF okt that(1)] that(2) by simp
  have f: "?f x = observedRow rec x" if "x \<in> set ?t" "ctConnectionID x = ?c" for x
    using row [OF that] by (simp add: observedRow_def)
  have "update_rows (\<lambda>x. ctConnectionID x = ?c) ?f ?t =
      update_rows (\<lambda>x. ctConnectionID x = ?c) (observedRow rec) ?t"
    using f by (auto simp: update_rows_def)
  moreover have "list_all (\<lambda>x. ctConnectionID x = ?c \<longrightarrow> trafficCheck (?f x)) ?t"
    using f okt False observedRow_check by (auto simp: list_all_iff trafficOK_def not_less)
  ultimately have upd: "updateTraffic (\<lambda>x. ctConnectionID x = ?c) ?f ?t =
      Inr (update_rows (\<lambda>x. ctConnectionID x = ?c) (observedRow rec) ?t)"
    by (simp add: updateTraffic_def)
  have nn: "0 \<le> ctUnacknowledgedRX ?r" "0 \<le> ctUnacknowledgedTX ?r"
    using trafficOf_check [OF ok, of ?c] by (auto simp: trafficCheck_def)
  show ?thesis
    using False nn upd cumulativeDelta_nonneg [of "urRXBytes rec" "ctObservedRX ?r"]
      cumulativeDelta_nonneg [of "urTXBytes rec" "ctObservedTX ?r"]
    by (auto simp: observeRecord_def Let_def addNonnegative_def observable_def observedRow_def bindR_def)
qed

lemma observeRecord_ok:
  assumes "trafficOK t" "observeRecord rec t = Inr t'"
  shows "trafficOK t'"
    and "trafficOf t' c = (if c = urConnectionID rec then observedRow rec (trafficOf t c) else trafficOf t c)"
proof -
  let ?c = "urConnectionID rec" and ?t = "insertTrafficIfAbsent (urConnectionID rec) t"
  have ne: "?c \<noteq> []" and nn: "0 \<le> urRXBytes rec" "0 \<le> urTXBytes rec"
    and obs: "observable rec (trafficOf t ?c)"
    and t': "t' = update_rows (\<lambda>x. ctConnectionID x = ?c) (observedRow rec) ?t"
    using assms by (auto simp: observeRecord_eq split: if_splits)
  have okt: "trafficOK ?t" using assms(1) ne by (rule trafficOK_insert)
  have row: "x = trafficOf t ?c" if "x \<in> set ?t" "ctConnectionID x = ?c" for x
    using trafficOf_in [OF okt that(1)] that(2) by simp
  show "trafficOK t'"
    using okt nn obs row observedRow_check unfolding t' trafficOK_def
    by (auto simp: set_update_rows observable_def image_iff)
  have present: "?c \<in> ctConnectionID ` set ?t"
    by (auto simp: insertTrafficIfAbsent_def)
  have "lookup_row ctConnectionID t' c = map_option
      (\<lambda>r. if ctConnectionID r = ?c then observedRow rec r else r) (lookup_row ctConnectionID ?t c)"
    unfolding t' by (rule lookup_update_rows) simp
  with present have "trafficOf t' c =
      (if c = ?c then observedRow rec (trafficOf ?t c) else trafficOf ?t c)"
    by (auto simp: trafficOf_def lookup_row_None_iff dest: lookup_row_SomeD split: option.splits)
  then show "trafficOf t' c = (if c = ?c then observedRow rec (trafficOf t c) else trafficOf t c)"
    by simp
qed

subsection \<open>Preparing a request\<close>

lemma update_rows_twice:
  "update_rows Q g (update_rows P f t) =
   map (\<lambda>x. if P x then (if Q (f x) then g (f x) else f x) else if Q x then g x else x) t"
  by (simp add: update_rows_def)

lemma one_row_of_key:
  "\<lbrakk>keyed key t; r \<in> set t; Q r\<rbrakk> \<Longrightarrow> length (filter (\<lambda>x. key x = key r \<and> Q x) t) = 1"
proof (induction t)
  case (Cons x t)
  show ?case
  proof (cases "x = r")
    case True
    with Cons.prems(1) have "filter (\<lambda>x. key x = key r \<and> Q x) t = []"
      by (auto simp: filter_empty_conv image_iff)
    with True Cons.prems(3) show ?thesis by simp
  next
    case False
    with Cons.prems have "r \<in> set t" "key x \<noteq> key r" by auto
    with Cons show ?thesis by simp
  qed
qed simp

lemma foldR_markSent:
  assumes "keyed ctConnectionID t" "\<forall>r \<in> set t. trafficCheck r"
    and "keyed urConnectionID recs"
    and "\<forall>rec \<in> set recs. \<exists>r \<in> set t. ctConnectionID r = urConnectionID rec \<and> ctRequestID r = None"
  shows "foldR (markSent rid) recs t =
    Inr (update_rows (\<lambda>x. ctConnectionID x \<in> urConnectionID ` set recs \<and> ctRequestID x = None) (markRow rid) t)"
  using assms
proof (induction recs arbitrary: t)
  case Nil
  then show ?case by (simp add: update_rows_def)
next
  case (Cons rec recs)
  let ?P = "\<lambda>x. ctConnectionID x = urConnectionID rec \<and> ctRequestID x = None"
  let ?t = "update_rows ?P (markRow rid) t"
  obtain r where r: "r \<in> set t" "?P r" using Cons.prems(4) by auto
  have one: "length (filter ?P t) = 1"
    using one_row_of_key [OF Cons.prems(1) r(1), of "\<lambda>x. ctRequestID x = None"] r(2) by simp
  have step: "markSent rid rec t = Inr ?t"
    using one Cons.prems(2) markRow_check
    by (auto simp: markSent_def Let_def updateTraffic_def list_all_iff)
  have "foldR (markSent rid) recs ?t =
    Inr (update_rows (\<lambda>x. ctConnectionID x \<in> urConnectionID ` set recs \<and> ctRequestID x = None) (markRow rid) ?t)"
  proof (rule Cons.IH)
    show "\<forall>rec' \<in> set recs. \<exists>r \<in> set ?t. ctConnectionID r = urConnectionID rec' \<and> ctRequestID r = None"
    proof
      fix rec' assume rec': "rec' \<in> set recs"
      then obtain r' where r': "r' \<in> set t" "ctConnectionID r' = urConnectionID rec'" "ctRequestID r' = None"
        using Cons.prems(4) by auto
      moreover have "urConnectionID rec' \<noteq> urConnectionID rec"
        using Cons.prems(3) rec' by (auto simp: image_iff)
      ultimately have "r' \<in> set ?t" by (force simp: set_update_rows)
      with r' show "\<exists>r \<in> set ?t. ctConnectionID r = urConnectionID rec' \<and> ctRequestID r = None" by blast
    qed
  qed (use Cons.prems markRow_check in \<open>auto simp: set_update_rows\<close>)
  moreover have "update_rows (\<lambda>x. ctConnectionID x \<in> urConnectionID ` set recs \<and> ctRequestID x = None) (markRow rid) ?t =
    update_rows (\<lambda>x. ctConnectionID x \<in> urConnectionID ` set (rec # recs) \<and> ctRequestID x = None) (markRow rid) t"
    unfolding update_rows_twice by (auto simp: update_rows_def markRow_def)
  ultimately show ?case using step by simp
qed

text \<open>The rows a request takes: the first \<open>limit\<close> pending ones in the order of their ids.\<close>

definition preparedRows :: "int \<Rightarrow> ConnectionTrafficState list \<Rightarrow> ConnectionTrafficState list" where
  "preparedRows limit t =
     take (nat (if limit \<le> 0 then 100 else limit)) (sort_key ctConnectionID (filter pendingTraffic t))"

lemma set_preparedRows: "r \<in> set (preparedRows limit t) \<Longrightarrow> r \<in> set t \<and> pendingTraffic r"
  by (auto simp: preparedRows_def dest!: in_set_takeD)

lemma keyed_preparedRows: "keyed ctConnectionID t \<Longrightarrow> keyed ctConnectionID (preparedRows limit t)"
  unfolding preparedRows_def take_map [symmetric]
  by (rule distinct_take, rule ssorted_distinct, rule ssorted_sort_key) (simp add: distinct_map_filter)

lemma PrepareUsageRequest_eq:
  fixes limit :: int
  assumes ok: "trafficOK (traffic db)" and rid: "rid \<noteq> []"
  defines "sel \<equiv> preparedRows limit (traffic db)"
  shows "PrepareUsageRequest rid node limit db =
    (if sel = [] then (Inr None, db)
     else (Inr (Some (emptyBatch rid node (map usageOf sel))),
           db\<lparr>traffic := update_rows (\<lambda>x. x \<in> set sel) (markRow rid) (traffic db)\<rparr>))"
proof -
  let ?t = "traffic db"
  have keyed: "keyed ctConnectionID ?t" using ok by (simp add: trafficOK_def)
  have sel: "r \<in> set sel \<Longrightarrow> r \<in> set ?t \<and> pendingTraffic r" for r
    unfolding sel_def by (rule set_preparedRows)
  have "(\<lambda>x. urConnectionID (usageOf x)) = ctConnectionID" by auto
  then have keys: "keyed urConnectionID (map usageOf sel)"
    using keyed_preparedRows [OF keyed] unfolding sel_def by (simp add: o_def)
  have "foldR (markSent rid) (map usageOf sel) ?t = Inr (update_rows
      (\<lambda>x. ctConnectionID x \<in> urConnectionID ` set (map usageOf sel) \<and> ctRequestID x = None) (markRow rid) ?t)"
    using ok keys sel
    by (intro foldR_markSent) (auto simp: trafficOK_def pendingTraffic_def)
  also have "\<dots> = Inr (update_rows (\<lambda>x. x \<in> set sel) (markRow rid) ?t)"
  proof -
    have "(ctConnectionID x \<in> urConnectionID ` set (map usageOf sel) \<and> ctRequestID x = None) \<longleftrightarrow> x \<in> set sel"
      if x: "x \<in> set ?t" for x
    proof -
      have "x = y" if "y \<in> set sel" "ctConnectionID y = ctConnectionID x" for y
        using that x sel keyed by (auto simp: distinct_map inj_on_def)
      then show ?thesis using sel by (auto simp: pendingTraffic_def image_image)
    qed
    then show ?thesis by (auto simp: update_rows_def)
  qed
  finally show ?thesis
    using rid by (simp add: PrepareUsageRequest_def Let_def sel_def preparedRows_def)
qed

lemma trafficOK_mark:
  assumes "trafficOK t"
  shows "trafficOK (update_rows P (markRow rid) t)"
  using assms markRow_check
  by (auto simp: trafficOK_def set_update_rows image_iff) (auto simp: markRow_def)

subsection \<open>Acknowledging a request\<close>

lemma ackMap_ok:
  assumes "ackMap ack records = Inr m"
  shows "m = ack @ records" "\<forall>a \<in> set records. akConnectionID a \<noteq> [] \<and> 0 \<le> akRXBytes a \<and> 0 \<le> akTXBytes a"
    "keyed akConnectionID ack \<Longrightarrow> keyed akConnectionID m"
  using assms by (induction ack records rule: ackMap.induct) (auto split: if_splits)

lemma ackMap_total:
  "\<lbrakk>keyed akConnectionID (ack @ records);
    \<forall>a \<in> set records. akConnectionID a \<noteq> [] \<and> 0 \<le> akRXBytes a \<and> 0 \<le> akTXBytes a\<rbrakk> \<Longrightarrow>
   ackMap ack records = Inr (ack @ records)"
  by (induction ack records rule: ackMap.induct) (auto simp: not_less)

definition ackedRow :: "AcknowledgedUsage list \<Rightarrow> ConnectionTrafficState \<Rightarrow> ConnectionTrafficState" where
  "ackedRow ack x = ackRow (the (lookup_row akConnectionID ack (ctConnectionID x))) x"

definition ackCovers :: "AcknowledgedUsage list \<Rightarrow> ConnectionTrafficState \<Rightarrow> bool" where
  "ackCovers ack x \<longleftrightarrow>
     (case lookup_row akConnectionID ack (ctConnectionID x) of
        None \<Rightarrow> False | Some a \<Rightarrow> ctSentRX x \<le> akRXBytes a \<and> ctSentTX x \<le> akTXBytes a)"

lemma ackedRow_id [simp]: "ctConnectionID (ackedRow ack x) = ctConnectionID x"
  by (simp add: ackedRow_def)

lemma ackedRow_check:
  assumes "trafficCheck x" "ctRequestID x \<noteq> None" "ackCovers ack x"
  shows "trafficCheck (ackedRow ack x)"
  using assms unfolding ackedRow_def ackCovers_def
  by (auto simp: ackRow_def trafficCheck_def split: option.splits)

lemma foldR_acknowledge:
  assumes "keyed ctConnectionID t" "\<forall>r \<in> set t. trafficCheck r"
    and "keyed ctConnectionID states" "set states \<subseteq> set t"
    and "\<forall>r \<in> set states. ctRequestID r = Some rid \<and> ackCovers ack r"
  shows "foldR (acknowledgeRow rid ack) states t =
    Inr (update_rows (\<lambda>x. x \<in> set states) (ackedRow ack) t)"
  using assms
proof (induction states arbitrary: t)
  case Nil
  then show ?case by (simp add: update_rows_def)
next
  case (Cons r states)
  let ?P = "\<lambda>x. ctConnectionID x = ctConnectionID r \<and> ctRequestID x = Some rid"
  let ?t = "update_rows (\<lambda>x. x = r) (ackedRow ack) t"
  have r: "r \<in> set t" "ctRequestID r = Some rid" "ackCovers ack r" "trafficCheck r"
    using Cons.prems by auto
  have P: "?P x \<longleftrightarrow> x = r" if "x \<in> set t" for x
    using that r Cons.prems(1) by (auto simp: distinct_map inj_on_def)
  obtain a where a: "lookup_row akConnectionID ack (ctConnectionID r) = Some a"
    "ctSentRX r \<le> akRXBytes a" "ctSentTX r \<le> akTXBytes a"
    using r(3) by (auto simp: ackCovers_def split: option.splits)
  have "updateTraffic ?P (ackRow a) t = Inr ?t"
    using P ackedRow_check [OF r(4) _ r(3)] r(2) a(1)
    by (auto simp: updateTraffic_def list_all_iff update_rows_def ackedRow_def)
  then have step: "acknowledgeRow rid ack r t = Inr ?t"
    using a r(2,4) by (auto simp: acknowledgeRow_def trafficCheck_def)
  have others: "x \<noteq> r" if "x \<in> set states" for x
    using that Cons.prems(3) by auto
  have "foldR (acknowledgeRow rid ack) states ?t = Inr (update_rows (\<lambda>x. x \<in> set states) (ackedRow ack) ?t)"
    using Cons.prems others ackedRow_check [OF r(4) _ r(3)] r(2)
    by (intro Cons.IH) (auto simp: set_update_rows)
  moreover have "ackedRow ack r \<notin> set states"
    using Cons.prems(5) by (auto simp: ackedRow_def ackRow_def)
  then have "update_rows (\<lambda>x. x \<in> set states) (ackedRow ack) ?t =
      update_rows (\<lambda>x. x \<in> set (r # states)) (ackedRow ack) t"
    unfolding update_rows_twice using others by (auto simp: update_rows_def)
  ultimately show ?case using step by simp
qed

definition statesOf :: "string \<Rightarrow> ConnectionTrafficState list \<Rightarrow> ConnectionTrafficState list" where
  "statesOf rid t = sort_key ctConnectionID (filter (\<lambda>r. ctRequestID r = Some rid) t)"

lemma statesOf_facts:
  "set (statesOf rid t) = {r \<in> set t. ctRequestID r = Some rid}"
  "keyed ctConnectionID t \<Longrightarrow> keyed ctConnectionID (statesOf rid t)"
proof -
  show "set (statesOf rid t) = {r \<in> set t. ctRequestID r = Some rid}"
    by (auto simp: statesOf_def)
  show "keyed ctConnectionID t \<Longrightarrow> keyed ctConnectionID (statesOf rid t)"
    unfolding statesOf_def
    by (rule ssorted_distinct, rule ssorted_sort_key) (simp add: distinct_map_filter)
qed

lemma acknowledge_needs_cover:
  "foldR (acknowledgeRow rid ack) states t = Inr t' \<Longrightarrow> \<forall>r \<in> set states. ackCovers ack r"
  by (induction states arbitrary: t)
    (auto simp: acknowledgeRow_def ackCovers_def split: sum.splits option.splits if_splits)

lemma AcknowledgeUsage_eq:
  assumes ok: "trafficOK (traffic db)"
    and m: "ackMap [] records = Inr records"
    and len: "length records = length (statesOf rid (traffic db))"
    and cover: "\<forall>r \<in> set (statesOf rid (traffic db)). ackCovers records r"
  shows "AcknowledgeUsage rid records db =
    (Inr (), db\<lparr>traffic := update_rows (\<lambda>x. ctRequestID x = Some rid) (ackedRow records) (traffic db)\<rparr>)"
proof -
  let ?t = "traffic db"
  have fold: "foldR (acknowledgeRow rid records) (statesOf rid ?t) ?t =
      Inr (update_rows (\<lambda>x. x \<in> set (statesOf rid ?t)) (ackedRow records) ?t)"
    using ok cover by (intro foldR_acknowledge) (auto simp: trafficOK_def statesOf_facts)
  have upd: "update_rows (\<lambda>x. x \<in> set (statesOf rid ?t)) (ackedRow records) ?t =
      update_rows (\<lambda>x. ctRequestID x = Some rid) (ackedRow records) ?t"
    by (auto simp: statesOf_facts update_rows_def)
  have "statesOf rid ?t = [] \<Longrightarrow> update_rows (\<lambda>x. ctRequestID x = Some rid) (ackedRow records) ?t = ?t"
    using upd by (simp add: update_rows_def)
  with m len fold upd show ?thesis
    by (auto simp: AcknowledgeUsage_def statesOf_def [symmetric] Let_def)
qed

lemma AcknowledgeUsage_cases:
  assumes "trafficOK (traffic db)" "AcknowledgeUsage rid records db = (res, db')"
  shows "(\<exists>e. res = Inl e) \<and> db' = db \<or>
    res = Inr () \<and> (statesOf rid (traffic db) = [] \<or> (\<forall>r \<in> set (statesOf rid (traffic db)). ackCovers records r)) \<and>
    db' = db\<lparr>traffic := update_rows (\<lambda>x. ctRequestID x = Some rid) (ackedRow records) (traffic db)\<rparr>"
proof (cases "ackMap [] records")
  case (Inl e)
  then show ?thesis using assms(2) by (auto simp: AcknowledgeUsage_def)
next
  case (Inr m)
  then have m: "m = records" using ackMap_ok(1) [of "[]"] by simp
  show ?thesis
  proof (cases "statesOf rid (traffic db) = []")
    case True
    then have "\<forall>x \<in> set (traffic db). ctRequestID x \<noteq> Some rid"
      using statesOf_facts(1) [of rid "traffic db"] by auto
    then have "update_rows (\<lambda>x. ctRequestID x = Some rid) (ackedRow records) (traffic db) = traffic db"
      by (auto simp: update_rows_def intro: map_idI)
    with True Inr m show ?thesis
      using assms(2) by (auto simp: AcknowledgeUsage_def statesOf_def [symmetric] Let_def)
  next
    case False
    show ?thesis
    proof (cases "length records = length (statesOf rid (traffic db)) \<and>
        (\<exists>t'. foldR (acknowledgeRow rid records) (statesOf rid (traffic db)) (traffic db) = Inr t')")
      case True
      then show ?thesis
        using AcknowledgeUsage_eq [OF assms(1), of records rid] Inr m assms(2) acknowledge_needs_cover
        by fastforce
    next
      case ff: False
      then show ?thesis
        using False Inr m assms(2)
        by (auto simp: AcknowledgeUsage_def statesOf_def [symmetric] Let_def split: if_splits sum.splits)
    qed
  qed
qed

lemma trafficOK_ack:
  assumes "trafficOK t" "\<forall>r \<in> set (statesOf rid t). ackCovers records r"
  shows "trafficOK (update_rows (\<lambda>x. ctRequestID x = Some rid) (ackedRow records) t)"
  using assms ackedRow_check unfolding trafficOK_def
  by (auto simp: set_update_rows statesOf_facts image_iff) (force simp: ackedRow_def ackRow_def trafficCheck_def)+

end
