(* ===== verification/Base64.thy ===== *)
theory Base64
  imports Prelude
begin

text \<open>
  Go's \<open>encoding/base64\<close> as the queue uses it: the standard alphabet, with padding (\<open>StdEncoding\<close>) and
  without (\<open>RawStdEncoding\<close>). A decoder skips carriage returns and newlines, ignores the unused low bits
  of the last symbol, and answers \<open>None\<close> where Go reports corrupt input.
\<close>

definition alphabet :: string where
  "alphabet = ''ABCDEFGHIJKLMNOPQRSTUVWXYZabcdefghijklmnopqrstuvwxyz0123456789+/''"

fun sextets :: "nat list \<Rightarrow> nat list" where
  "sextets (a # b # c # xs) =
     (a div 4) # ((a mod 4) * 16 + b div 16) # ((b mod 16) * 4 + c div 64) # (c mod 64) # sextets xs"
| "sextets [a, b] = [a div 4, (a mod 4) * 16 + b div 16, (b mod 16) * 4]"
| "sextets [a] = [a div 4, (a mod 4) * 16]"
| "sextets [] = []"

fun octets :: "nat list \<Rightarrow> nat list option" where
  "octets (p # q # r # s # xs) =
     map_option (\<lambda>ys. (p * 4 + q div 16) # ((q mod 16) * 16 + r div 4) # ((r mod 4) * 64 + s) # ys) (octets xs)"
| "octets [p, q, r] = Some [p * 4 + q div 16, (q mod 16) * 16 + r div 4]"
| "octets [p, q] = Some [p * 4 + q div 16]"
| "octets [p] = None"
| "octets [] = Some []"

definition symbol_value :: "char \<Rightarrow> nat option" where
  "symbol_value c =
     (let i = length (takeWhile (\<lambda>d. d \<noteq> c) alphabet) in if i < 64 then Some i else None)"

definition RawStdEncode :: "string \<Rightarrow> string" where
  "RawStdEncode raw = map (\<lambda>v. alphabet ! v) (sextets (map of_char raw))"

definition StdEncode :: "string \<Rightarrow> string" where
  "StdEncode raw =
     (let e = RawStdEncode raw in e @ replicate ((4 - length e mod 4) mod 4) (CHR ''=''))"

definition skip_newlines :: "string \<Rightarrow> string" where
  "skip_newlines s = filter (\<lambda>c. c \<noteq> CHR 0x0A \<and> c \<noteq> CHR 0x0D) s"

definition decode_symbols :: "string \<Rightarrow> string option" where
  "decode_symbols s =
     (let vs = map symbol_value s
      in if None \<in> set vs then None
         else map_option (map char_of) (octets (map the vs)))"

definition RawStdDecode :: "string \<Rightarrow> string option" where
  "RawStdDecode s = decode_symbols (skip_newlines s)"

definition StdDecode :: "string \<Rightarrow> string option" where
  "StdDecode s =
     (let t = skip_newlines s; body = takeWhile (\<lambda>c. c \<noteq> CHR ''='') t; pad = length t - length body
      in if t = body @ replicate pad (CHR ''='') \<and> length t mod 4 = 0 \<and> pad \<le> 2
         then decode_symbols body else None)"

text \<open>
  What a call that reports an error leaves in the result: the bytes of the groups of four before the one that is wrong,
  and those of the padded group when only the text after it is wrong.
\<close>

fun decodedPrefix :: "string \<Rightarrow> string" where
  "decodedPrefix (a # b # c # d # xs) =
     (case (symbol_value a, symbol_value b, symbol_value c, symbol_value d) of
        (Some p, Some q, Some r, Some s) \<Rightarrow> map char_of (the (octets [p, q, r, s])) @ decodedPrefix xs
      | (Some p, Some q, Some r, None) \<Rightarrow> if d = CHR ''='' then map char_of (the (octets [p, q, r])) else []
      | (Some p, Some q, None, None) \<Rightarrow> if c = CHR ''='' \<and> d = CHR ''='' then map char_of (the (octets [p, q])) else []
      | _ \<Rightarrow> [])"
| "decodedPrefix _ = []"

lemma bytes_lt [simp]: "(of_char c :: nat) < 256"
  by simp

lemma div_mul_add: "q < n \<Longrightarrow> (x * n + q) div n = x" "q < n \<Longrightarrow> (x * n + q) mod n = (q::nat)"
  by simp_all

lemma sextet_arith:
  fixes a b c :: nat
  assumes "a < 256" "b < 256" "c < 256"
  shows "a div 4 < 64" "(a mod 4) * 16 + b div 16 < 64" "(b mod 16) * 4 + c div 64 < 64"
    "(a mod 4) * 16 < 64" "(b mod 16) * 4 < 64"
proof -
  have "a div 4 < 64" "b div 16 < 16" "c div 64 < 4"
    using assms by (simp_all add: less_mult_imp_div_less)
  moreover have "a mod 4 < 4" "b mod 16 < 16" by simp_all
  ultimately show "a div 4 < 64" "(a mod 4) * 16 + b div 16 < 64" "(b mod 16) * 4 + c div 64 < 64"
    "(a mod 4) * 16 < 64" "(b mod 16) * 4 < 64" by linarith+
qed

lemma octet_arith:
  fixes a b c :: nat
  assumes "b < 256" "c < 256"
  shows "a div 4 * 4 + ((a mod 4) * 16 + b div 16) div 16 = a"
    "(((a mod 4) * 16 + b div 16) mod 16) * 16 + ((b mod 16) * 4 + c div 64) div 4 = b"
    "(((b mod 16) * 4 + c div 64) mod 4) * 64 + c mod 64 = c"
proof -
  have q: "b div 16 < 16" "c div 64 < 4"
    using assms by (simp_all add: less_mult_imp_div_less)
  show "a div 4 * 4 + ((a mod 4) * 16 + b div 16) div 16 = a"
    by (simp only: div_mul_add [OF q(1)] div_mult_mod_eq)
  show "(((a mod 4) * 16 + b div 16) mod 16) * 16 + ((b mod 16) * 4 + c div 64) div 4 = b"
    by (simp only: div_mul_add [OF q(1)] div_mul_add [OF q(2)] div_mult_mod_eq)
  show "(((b mod 16) * 4 + c div 64) mod 4) * 64 + c mod 64 = c"
    by (simp only: div_mul_add [OF q(2)] div_mult_mod_eq)
qed

lemma sextets_lt: "\<forall>b \<in> set bs. b < 256 \<Longrightarrow> \<forall>v \<in> set (sextets bs). v < 64"
proof (induction bs rule: sextets.induct)
  case (1 a b c xs)
  then show ?case using sextet_arith [of a b c] by simp
next
  case (2 a b)
  then show ?case using sextet_arith [of a b 0] by simp
next
  case (3 a)
  then show ?case using sextet_arith [of a 0 0] by simp
qed simp

lemma octets_sextets: "\<forall>b \<in> set bs. b < 256 \<Longrightarrow> octets (sextets bs) = Some bs"
proof (induction bs rule: sextets.induct)
  case (1 a b c xs)
  then have "octets (sextets xs) = Some xs" "b < 256" "c < 256" by simp_all
  then show ?case
    by (simp only: sextets.simps octets.simps option.map octet_arith)
next
  case (2 a b)
  then show ?case using octet_arith(1,2) [of b 0 a] by simp
next
  case (3 a)
  then show ?case using octet_arith(1) [of 0 0 a] by simp
qed simp

lemma symbol_value_alphabet: "v < 64 \<Longrightarrow> symbol_value (alphabet ! v) = Some v"
proof -
  have len: "length alphabet = 64" by (simp add: alphabet_def)
  have dist: "distinct alphabet" by (simp add: alphabet_def)
  assume v: "v < 64"
  have "takeWhile (\<lambda>d. d \<noteq> alphabet ! v) alphabet = take v alphabet"
    using v dist len by (intro takeWhile_eq_take_P_nth) (auto simp: nth_eq_iff_index_eq)
  with v len show ?thesis by (simp add: symbol_value_def)
qed

lemma alphabet_clean:
  assumes "c \<in> set alphabet"
  shows "c \<noteq> CHR ''=''" "c \<noteq> CHR 0x0A" "c \<noteq> CHR 0x0D"
  using assms unfolding alphabet_def by auto

lemma RawStdEncode_alphabet: "set (RawStdEncode raw) \<subseteq> set alphabet"
proof -
  have "length alphabet = 64" by (simp add: alphabet_def)
  moreover have "\<forall>v \<in> set (sextets (map of_char raw)). v < 64"
    by (rule sextets_lt) simp
  ultimately show ?thesis by (auto simp: RawStdEncode_def)
qed

lemma skip_newlines_encode [simp]: "skip_newlines (RawStdEncode raw) = RawStdEncode raw"
  using RawStdEncode_alphabet [of raw] alphabet_clean
  by (auto simp: skip_newlines_def intro!: filter_True)

lemma decode_symbols_encode: "decode_symbols (RawStdEncode raw) = Some raw"
proof -
  let ?vs = "sextets (map of_char raw)"
  have lt: "\<forall>v \<in> set ?vs. v < 64" by (rule sextets_lt) simp
  then have "map symbol_value (RawStdEncode raw) = map Some ?vs"
    by (auto simp: RawStdEncode_def symbol_value_alphabet)
  moreover have "octets ?vs = Some (map of_char raw)"
    by (rule octets_sextets) simp
  ultimately show ?thesis
    by (auto simp: decode_symbols_def Let_def comp_def)
qed

lemma RawStdDecode_Encode [simp]: "RawStdDecode (RawStdEncode raw) = Some raw"
  by (simp add: RawStdDecode_def decode_symbols_encode)

lemma sextets_length_mod: "length (sextets bs) mod 4 \<noteq> 1"
  by (induction bs rule: sextets.induct) auto

lemma pad_arith:
  fixes l :: nat
  assumes "l mod 4 \<noteq> 1"
  shows "(4 - l mod 4) mod 4 \<le> 2 \<and> (l + (4 - l mod 4) mod 4) mod 4 = 0"
proof -
  have "l mod 4 < 4" by simp
  with assms consider "l mod 4 = 0" | "l mod 4 = 2" | "l mod 4 = 3" by linarith
  then show ?thesis by cases (simp, (simp, presburger)+)
qed

lemma StdDecode_Encode [simp]: "StdDecode (StdEncode raw) = Some raw"
proof -
  let ?e = "RawStdEncode raw" and ?n = "(4 - length (RawStdEncode raw) mod 4) mod 4"
  have clean: "\<forall>c \<in> set ?e. c \<noteq> CHR ''=''"
    using RawStdEncode_alphabet [of raw] alphabet_clean by auto
  have skip: "skip_newlines (StdEncode raw) = ?e @ replicate ?n (CHR ''='')"
    using skip_newlines_encode [of raw] by (simp add: skip_newlines_def StdEncode_def Let_def)
  have body: "takeWhile (\<lambda>c. c \<noteq> CHR ''='') (?e @ replicate ?n (CHR ''='')) = ?e"
    using clean by (simp add: takeWhile_append2 takeWhile_replicate)
  have "length ?e mod 4 \<noteq> 1"
    using sextets_length_mod by (simp add: RawStdEncode_def)
  then have "?n \<le> 2 \<and> (length ?e + ?n) mod 4 = 0" by (rule pad_arith)
  with skip body show ?thesis
    by (simp add: StdDecode_def Let_def decode_symbols_encode)
qed

end
