(* ===== verification/Queue.thy ===== *)
theory Queue
  imports Base64 "HOL-Library.Product_Lexorder"
begin

text \<open>
  The durable message queue, \<open>internal/queue\<close>: messages and their states (\<open>transport.go\<close>), the SQL store
  with its outbox and inbox tables, leases, completion, deduplication of processed messages and cleanup
  (\<open>sqlstore.go\<close>), the encrypting wrapper (\<open>secure.go\<close>), and the time conversions of \<open>util/time.go\<close>.

  Times are nanoseconds since the epoch and durations nanoseconds; columns are milliseconds. A JSON
  column is the object it holds, an association list. The time of a statement is its argument \<open>now\<close>.
\<close>

section \<open>Times\<close>

definition UnixMilli :: "int \<Rightarrow> int" where
  "UnixMilli t = (if IsZero t then 0 else time_UnixMilli t)"

definition UnixMilliOrNil :: "int \<Rightarrow> int option" where
  "UnixMilliOrNil t = (if IsZero t then None else Some (UnixMilli t))"

definition FromUnixMilli :: "int \<Rightarrow> int" where
  "FromUnixMilli ms = (if ms \<le> 0 then zero_time else ms * 10 ^ 6)"

section \<open>Messages\<close>

datatype Direction = DirectionOutbound | DirectionInbound

datatype Status =
  StatusPending | StatusInFlight | StatusApplied | StatusAcked | StatusFailed | StatusExpired
| StatusSuperseded

record Message =
  mID :: string
  mActorID :: string
  mDirection :: Direction
  mType :: string
  mPayload :: string
  mStatus :: "Status option"
  mAvailableAt :: int
  mExpiresAt :: int
  mCreatedAt :: int
  mResultPayload :: string
  mError :: string

definition IsInbound :: "Message \<Rightarrow> bool" where
  "IsInbound m \<longleftrightarrow> mDirection m = DirectionInbound"

record ProcessedMessage =
  pmActorID :: string
  pmMessageID :: string
  pmType :: string
  pmStatus :: Status
  pmResult :: string
  pmError :: string

type_synonym json_object = "(string \<times> string) list"

record Row =
  rwActor :: string
  rwID :: string
  rwType :: string
  rwStatus :: Status
  rwAvailableMS :: int
  rwExpiresMS :: "int option"
  rwCreatedMS :: int
  rwInput :: json_object
  rwOutput :: json_object
  rwError :: string

definition rwKey :: "Row \<Rightarrow> string \<times> string" where
  "rwKey r = (rwActor r, rwID r)"

record QueueDB =
  outbox :: "Row list"
  inbox :: "Row list"

section \<open>The JSON columns\<close>

definition encodeMessageJSON :: "string \<Rightarrow> string \<Rightarrow> json_object" where
  "encodeMessageJSON payload result =
     (if payload \<noteq> [] then [(''payload_b64'', StdEncode payload)] else []) @
     (if result \<noteq> [] then [(''result_b64'', StdEncode result)] else [])"

definition jsonField :: "json_object \<Rightarrow> string \<Rightarrow> string" where
  "jsonField m key =
     (case map_of m key of
        None \<Rightarrow> []
      | Some encoded \<Rightarrow> if encoded = [] then [] else (case StdDecode encoded of None \<Rightarrow> decodedPrefix (skip_newlines encoded) | Some raw \<Rightarrow> raw))"

definition mustDecodeMessageJSON :: "json_object \<Rightarrow> string \<times> string" where
  "mustDecodeMessageJSON m = (jsonField m ''payload_b64'', jsonField m ''result_b64'')"

definition scanMessage :: "Direction \<Rightarrow> Row \<Rightarrow> Message" where
  "scanMessage direction r =
     \<lparr>mID = rwID r, mActorID = rwActor r, mDirection = direction, mType = rwType r,
      mPayload = fst (mustDecodeMessageJSON (rwInput r)), mStatus = Some (rwStatus r),
      mAvailableAt = FromUnixMilli (rwAvailableMS r),
      mExpiresAt = (case rwExpiresMS r of None \<Rightarrow> zero_time | Some ms \<Rightarrow> FromUnixMilli ms),
      mCreatedAt = FromUnixMilli (rwCreatedMS r),
      mResultPayload = snd (mustDecodeMessageJSON (rwOutput r)), mError = rwError r\<rparr>"

definition scanProcessed :: "Row \<Rightarrow> ProcessedMessage" where
  "scanProcessed r =
     \<lparr>pmActorID = rwActor r, pmMessageID = rwID r, pmType = rwType r, pmStatus = rwStatus r,
      pmResult = snd (mustDecodeMessageJSON (rwOutput r)), pmError = rwError r\<rparr>"

section \<open>Writing and leasing\<close>

definition messageRow :: "int \<Rightarrow> Message \<Rightarrow> Row" where
  "messageRow now msg =
     (let created = (if IsZero (mCreatedAt msg) then now else mCreatedAt msg);
          available = (if IsZero (mAvailableAt msg) then created else mAvailableAt msg);
          status = (case mStatus msg of None \<Rightarrow> StatusPending | Some s \<Rightarrow> s)
      in \<lparr>rwActor = mActorID msg, rwID = mID msg, rwType = mType msg, rwStatus = status,
          rwAvailableMS = UnixMilli available, rwExpiresMS = UnixMilliOrNil (mExpiresAt msg),
          rwCreatedMS = UnixMilli created, rwInput = encodeMessageJSON (mPayload msg) [],
          rwOutput = encodeMessageJSON [] (mResultPayload msg), rwError = mError msg\<rparr>)"

definition writeMessage :: "int \<Rightarrow> bool \<Rightarrow> Message \<Rightarrow> Row list \<Rightarrow> Row list" where
  "writeMessage now replace msg t =
     (let row = messageRow now msg
      in if rwKey row \<in> rwKey ` set t
         then (if replace
               then update_rows (\<lambda>r. rwKey r = rwKey row) (\<lambda>r. row\<lparr>rwCreatedMS := rwCreatedMS r\<rparr>) t
               else t)
         else t @ [row])"

definition Enqueue :: "int \<Rightarrow> Message \<Rightarrow> QueueDB \<Rightarrow> QueueDB" where
  "Enqueue now msg db =
     db\<lparr>outbox := writeMessage now True (msg\<lparr>mDirection := DirectionOutbound\<rparr>) (outbox db)\<rparr>"

definition EnqueueIfAbsent :: "int \<Rightarrow> Message \<Rightarrow> QueueDB \<Rightarrow> QueueDB" where
  "EnqueueIfAbsent now msg db =
     db\<lparr>outbox := writeMessage now False (msg\<lparr>mDirection := DirectionOutbound\<rparr>) (outbox db)\<rparr>"

definition EnqueueInbox :: "int \<Rightarrow> Message \<Rightarrow> QueueDB \<Rightarrow> QueueDB" where
  "EnqueueInbox now msg db =
     db\<lparr>inbox := writeMessage now True (msg\<lparr>mDirection := DirectionInbound\<rparr>) (inbox db)\<rparr>"

definition leasable :: "string \<Rightarrow> int \<Rightarrow> Row \<Rightarrow> bool" where
  "leasable actor nowMS r \<longleftrightarrow>
     rwActor r = actor \<and> rwStatus r = StatusPending \<and> rwAvailableMS r \<le> nowMS \<and>
     (case rwExpiresMS r of None \<Rightarrow> True | Some e \<Rightarrow> e > nowMS)"

definition leasedRows :: "int \<Rightarrow> string \<Rightarrow> int \<Rightarrow> Row list \<Rightarrow> Row list" where
  "leasedRows now actor limit t =
     take (nat (if limit \<le> 0 then 100 else limit))
       (sort_key (\<lambda>r. (rwAvailableMS r, rwID r)) (filter (leasable actor (time_UnixMilli now)) t))"

definition leaseRow :: "int \<Rightarrow> Row \<Rightarrow> Row list \<Rightarrow> Row list" where
  "leaseRow leaseUntilMS m t =
     update_rows (\<lambda>r. rwKey r = rwKey m)
       (\<lambda>r. r\<lparr>rwStatus := StatusInFlight, rwAvailableMS := leaseUntilMS\<rparr>) t"

text \<open>
  One transaction of the store. SQLite has a single writer; on a server database two transactions can read the same pending
  rows before either of them updates, since the statement takes no lock and the update does not check the status again.
\<close>

definition leasePending ::
  "int \<Rightarrow> string \<Rightarrow> int \<Rightarrow> int \<Rightarrow> Row list \<Rightarrow> Row list \<times> Row list" where
  "leasePending now actor limit leaseFor t =
     (let out = leasedRows now actor limit t
      in (out, fold (leaseRow (time_UnixMilli (now + leaseFor))) out t))"

definition LeasePending ::
  "int \<Rightarrow> string \<Rightarrow> int \<Rightarrow> int \<Rightarrow> QueueDB \<Rightarrow> Message list \<times> QueueDB" where
  "LeasePending now actor limit leaseFor db =
     (let (out, t) = leasePending now actor limit leaseFor (outbox db)
      in (map (scanMessage DirectionOutbound) out, db\<lparr>outbox := t\<rparr>))"

definition LeaseInboxPending ::
  "int \<Rightarrow> string \<Rightarrow> int \<Rightarrow> int \<Rightarrow> QueueDB \<Rightarrow> Message list \<times> QueueDB" where
  "LeaseInboxPending now actor limit leaseFor db =
     (let (out, t) = leasePending now actor limit leaseFor (inbox db)
      in (map (scanMessage DirectionInbound) out, db\<lparr>inbox := t\<rparr>))"

section \<open>Completion\<close>

definition markDone :: "string \<Rightarrow> Status \<Rightarrow> string \<Rightarrow> string \<Rightarrow> Row list \<Rightarrow> Row list" where
  "markDone mid status result errMsg t =
     update_rows (\<lambda>r. rwID r = mid)
       (\<lambda>r. r\<lparr>rwStatus := status, rwOutput := encodeMessageJSON [] result, rwError := errMsg\<rparr>) t"

definition MarkApplied :: "string \<Rightarrow> string \<Rightarrow> QueueDB \<Rightarrow> QueueDB" where
  "MarkApplied mid result db = db\<lparr>outbox := markDone mid StatusApplied result [] (outbox db)\<rparr>"

definition MarkAcked :: "string \<Rightarrow> string \<Rightarrow> QueueDB \<Rightarrow> QueueDB" where
  "MarkAcked mid result db = db\<lparr>outbox := markDone mid StatusAcked result [] (outbox db)\<rparr>"

definition MarkExpired :: "string \<Rightarrow> string \<Rightarrow> QueueDB \<Rightarrow> QueueDB" where
  "MarkExpired mid errMsg db = db\<lparr>outbox := markDone mid StatusExpired [] errMsg (outbox db)\<rparr>"

definition MarkFailed :: "int \<Rightarrow> string \<Rightarrow> string \<Rightarrow> int \<Rightarrow> QueueDB \<Rightarrow> QueueDB" where
  "MarkFailed now mid errMsg retryAt db =
     (let status = (if \<not> IsZero retryAt \<and> retryAt > now then StatusPending else StatusFailed);
          available = (if IsZero retryAt then now else retryAt)
      in db\<lparr>outbox := update_rows (\<lambda>r. rwID r = mid)
           (\<lambda>r. r\<lparr>rwStatus := status, rwAvailableMS := UnixMilli available, rwError := errMsg\<rparr>)
           (outbox db)\<rparr>)"

definition processedStatus :: "Status \<Rightarrow> bool" where
  "processedStatus s \<longleftrightarrow> s \<in> {StatusApplied, StatusAcked, StatusFailed}"

definition IsProcessed :: "string \<Rightarrow> string \<Rightarrow> QueueDB \<Rightarrow> ProcessedMessage option" where
  "IsProcessed actor messageID db =
     map_option scanProcessed
       (find (\<lambda>r. rwKey r = (actor, messageID) \<and> processedStatus (rwStatus r)) (inbox db))"

definition RecordProcessed ::
  "int \<Rightarrow> string \<Rightarrow> string \<Rightarrow> string \<Rightarrow> Status \<Rightarrow> string \<Rightarrow> string \<Rightarrow> QueueDB \<Rightarrow> QueueDB" where
  "RecordProcessed now actor messageID typ status result errMsg db =
     (let row = \<lparr>rwActor = actor, rwID = messageID, rwType = typ, rwStatus = status,
                 rwAvailableMS = time_UnixMilli now, rwExpiresMS = None,
                 rwCreatedMS = time_UnixMilli now, rwInput = encodeMessageJSON [] [],
                 rwOutput = encodeMessageJSON [] result, rwError = errMsg\<rparr>
      in db\<lparr>inbox :=
           (if rwKey row \<in> rwKey ` set (inbox db)
            then update_rows (\<lambda>r. rwKey r = rwKey row)
              (\<lambda>r. r\<lparr>rwStatus := status, rwOutput := rwOutput row, rwError := errMsg\<rparr>) (inbox db)
            else inbox db @ [row])\<rparr>)"

section \<open>Expiry and cleanup\<close>

definition requeueExpiredLeases :: "int \<Rightarrow> string \<Rightarrow> Row list \<Rightarrow> Row list" where
  "requeueExpiredLeases now actor t =
     (let nowMS = time_UnixMilli now;
          t1 = update_rows
            (\<lambda>r. rwActor r = actor \<and> rwStatus r = StatusInFlight \<and> rwAvailableMS r \<le> nowMS \<and>
                 (case rwExpiresMS r of None \<Rightarrow> True | Some e \<Rightarrow> e > nowMS))
            (\<lambda>r. r\<lparr>rwStatus := StatusPending\<rparr>) t
      in update_rows
           (\<lambda>r. rwActor r = actor \<and> rwStatus r \<in> {StatusPending, StatusInFlight} \<and>
                (case rwExpiresMS r of None \<Rightarrow> False | Some e \<Rightarrow> e \<le> nowMS))
           (\<lambda>r. r\<lparr>rwStatus := StatusExpired\<rparr>) t1)"

definition RequeueExpiredLeases :: "int \<Rightarrow> string \<Rightarrow> QueueDB \<Rightarrow> QueueDB" where
  "RequeueExpiredLeases now actor db = db\<lparr>outbox := requeueExpiredLeases now actor (outbox db)\<rparr>"

record CleanupPolicy =
  AuthAckedTTL :: int
  AuthSupersededTTL :: int
  AuthFailedTTL :: int
  RuntimeAckedTTL :: int
  RuntimeFailedTTL :: int
  ProcessedTTL :: int
  OnlineAckedTTL :: int
  OnlineFailedTTL :: int
  TrafficAckedTTL :: int
  TrafficFailedTTL :: int
  DefaultAckedTTL :: int
  DefaultFailedTTL :: int
  DefaultExpiredTTL :: int
  PayloadRedactAfter :: int

abbreviation minute :: int where
  "minute \<equiv> 60 * 10 ^ 9"

abbreviation hour :: int where
  "hour \<equiv> 60 * minute"

definition DefaultCleanupPolicy :: CleanupPolicy where
  "DefaultCleanupPolicy =
     \<lparr>AuthAckedTTL = 15 * minute, AuthSupersededTTL = 5 * minute, AuthFailedTTL = hour,
      RuntimeAckedTTL = hour, RuntimeFailedTTL = 24 * hour, ProcessedTTL = 24 * hour,
      OnlineAckedTTL = 5 * minute, OnlineFailedTTL = 15 * minute, TrafficAckedTTL = hour,
      TrafficFailedTTL = 7 * 24 * hour, DefaultAckedTTL = hour, DefaultFailedTTL = 24 * hour,
      DefaultExpiredTTL = hour, PayloadRedactAfter = 24 * hour\<rparr>"

definition cleanupRules :: "CleanupPolicy \<Rightarrow> (Status \<times> string \<times> int) list" where
  "cleanupRules p =
     [(StatusAcked, ''auth_refresh'', AuthAckedTTL p),
      (StatusApplied, ''auth_refresh'', AuthAckedTTL p),
      (StatusSuperseded, ''auth_refresh'', AuthSupersededTTL p),
      (StatusFailed, ''auth_refresh'', AuthFailedTTL p),
      (StatusExpired, ''auth_refresh'', AuthFailedTTL p),
      (StatusAcked, ''runtime_command'', RuntimeAckedTTL p),
      (StatusApplied, ''runtime_command'', RuntimeAckedTTL p),
      (StatusFailed, ''runtime_command'', RuntimeFailedTTL p),
      (StatusExpired, ''runtime_command'', RuntimeFailedTTL p),
      (StatusAcked, ''online_snapshot'', OnlineAckedTTL p),
      (StatusFailed, ''online_snapshot'', OnlineFailedTTL p),
      (StatusExpired, ''online_snapshot'', OnlineFailedTTL p),
      (StatusAcked, ''traffic_batch'', TrafficAckedTTL p),
      (StatusApplied, ''traffic_batch'', TrafficAckedTTL p),
      (StatusFailed, ''traffic_batch'', TrafficFailedTTL p),
      (StatusExpired, ''traffic_batch'', TrafficFailedTTL p),
      (StatusAcked, [], DefaultAckedTTL p),
      (StatusApplied, [], DefaultAckedTTL p),
      (StatusFailed, [], DefaultFailedTTL p),
      (StatusExpired, [], DefaultExpiredTTL p)]"

definition ruleDeletes :: "int \<Rightarrow> Status \<times> string \<times> int \<Rightarrow> Row \<Rightarrow> bool" where
  "ruleDeletes nowMS rule r =
     (case rule of (status, typ, ttl) \<Rightarrow>
        ttl > 0 \<and> rwStatus r = status \<and> (typ = [] \<or> rwType r = typ) \<and>
        rwCreatedMS r < nowMS - ttl div 10 ^ 6)"

definition cleanupTable :: "int \<Rightarrow> CleanupPolicy \<Rightarrow> Row list \<Rightarrow> Row list" where
  "cleanupTable now p t =
     (let nowMS = time_UnixMilli now;
          t1 = fold (\<lambda>rule rows. filter (\<lambda>r. \<not> ruleDeletes nowMS rule r) rows) (cleanupRules p) t
      in if PayloadRedactAfter p > 0
         then update_rows
           (\<lambda>r. rwStatus r \<in> {StatusFailed, StatusExpired, StatusAcked} \<and>
                rwCreatedMS r < nowMS - PayloadRedactAfter p div 10 ^ 6)
           (\<lambda>r. r\<lparr>rwInput := [], rwOutput := []\<rparr>) t1
         else t1)"

definition Cleanup :: "int \<Rightarrow> CleanupPolicy \<Rightarrow> QueueDB \<Rightarrow> QueueDB" where
  "Cleanup now p db = \<lparr>outbox = cleanupTable now p (outbox db), inbox = cleanupTable now p (inbox db)\<rparr>"

section \<open>Lemmas on the tables\<close>

definition queueOK :: "QueueDB \<Rightarrow> bool" where
  "queueOK db \<longleftrightarrow> keyed rwKey (outbox db) \<and> keyed rwKey (inbox db)"

lemma messageRow_sel [simp]:
  "rwKey (messageRow now msg) = (mActorID msg, mID msg)"
  "rwInput (messageRow now msg) = encodeMessageJSON (mPayload msg) []"
  by (simp_all add: messageRow_def rwKey_def Let_def)

lemma decode_encode_JSON [simp]:
  "mustDecodeMessageJSON (encodeMessageJSON payload result) = (payload, result)"
proof -
  have "StdDecode [] = Some []"
    by (simp add: StdDecode_def skip_newlines_def decode_symbols_def)
  then have ne: "StdEncode raw \<noteq> []" if "raw \<noteq> []" for raw
    using that StdDecode_Encode [of raw] by (metis option.inject)
  then show ?thesis
    by (auto simp: mustDecodeMessageJSON_def encodeMessageJSON_def jsonField_def)
qed

lemma keyed_writeMessage [intro]: "keyed rwKey t \<Longrightarrow> keyed rwKey (writeMessage now replace msg t)"
proof -
  assume k: "keyed rwKey t"
  have "map rwKey (update_rows (\<lambda>r. rwKey r = rwKey (messageRow now msg))
      (\<lambda>r. messageRow now msg\<lparr>rwCreatedMS := rwCreatedMS r\<rparr>) t) = map rwKey t"
    by (simp add: update_rows_def rwKey_def)
  with k show ?thesis by (auto simp: writeMessage_def Let_def)
qed

lemma keyed_update_rows [intro]:
  "keyed rwKey t \<Longrightarrow> (\<And>r. rwKey (f r) = rwKey r) \<Longrightarrow> keyed rwKey (update_rows P f t)"
  by simp

lemma fold_leaseRow:
  "fold (leaseRow until) out t =
     update_rows (\<lambda>r. rwKey r \<in> rwKey ` set out)
       (\<lambda>r. r\<lparr>rwStatus := StatusInFlight, rwAvailableMS := until\<rparr>) t"
proof (induction out arbitrary: t)
  case Nil
  then show ?case by (simp add: update_rows_def)
next
  case (Cons m out)
  then show ?case
    by (auto simp: leaseRow_def update_rows_def rwKey_def)
qed

lemma leasePending_table:
  "snd (leasePending now actor limit leaseFor t) =
     update_rows (\<lambda>r. rwKey r \<in> rwKey ` set (leasedRows now actor limit t))
       (\<lambda>r. r\<lparr>rwStatus := StatusInFlight, rwAvailableMS := time_UnixMilli (now + leaseFor)\<rparr>) t"
  by (simp add: leasePending_def fold_leaseRow Let_def)

lemma leasePending_fst [simp]: "fst (leasePending now actor limit leaseFor t) = leasedRows now actor limit t"
  by (simp add: leasePending_def Let_def)

lemma leasedRows_in: "r \<in> set (leasedRows now actor limit t) \<Longrightarrow> r \<in> set t \<and> leasable actor (time_UnixMilli now) r"
  by (auto simp: leasedRows_def dest!: in_set_takeD)

lemma rwKey_status_update [simp]:
  "rwKey \<lparr>rwActor = ac, rwID = i, rwType = ty, rwStatus = s, rwAvailableMS = a, rwExpiresMS = x,
     rwCreatedMS = c, rwInput = inp, rwOutput = out, rwError = e\<rparr> = (ac, i)"
  "rwKey (r\<lparr>rwStatus := s\<rparr>) = rwKey r" "rwKey (r\<lparr>rwAvailableMS := a\<rparr>) = rwKey r"
  "rwKey (r\<lparr>rwError := e\<rparr>) = rwKey r" "rwKey (r\<lparr>rwOutput := out\<rparr>) = rwKey r"
  "rwKey (r\<lparr>rwInput := inp\<rparr>) = rwKey r" "rwKey (r\<lparr>rwCreatedMS := c\<rparr>) = rwKey r"
  by (simp_all add: rwKey_def)

definition requeueRow :: "int \<Rightarrow> string \<Rightarrow> Row \<Rightarrow> Row" where
  "requeueRow nowMS actor r =
     (let dead = (case rwExpiresMS r of None \<Rightarrow> False | Some e \<Rightarrow> e \<le> nowMS)
      in if rwActor r = actor \<and> dead \<and> rwStatus r \<in> {StatusPending, StatusInFlight}
         then r\<lparr>rwStatus := StatusExpired\<rparr>
         else if rwActor r = actor \<and> rwStatus r = StatusInFlight \<and> rwAvailableMS r \<le> nowMS
         then r\<lparr>rwStatus := StatusPending\<rparr> else r)"

lemma requeue_rows: "requeueExpiredLeases now actor t = map (requeueRow (time_UnixMilli now) actor) t"
proof -
  let ?n = "time_UnixMilli now"
  have row: "(let r1 = (if rwActor r = actor \<and> rwStatus r = StatusInFlight \<and> rwAvailableMS r \<le> ?n \<and>
              (case rwExpiresMS r of None \<Rightarrow> True | Some e \<Rightarrow> e > ?n) then r\<lparr>rwStatus := StatusPending\<rparr> else r)
      in if rwActor r1 = actor \<and> rwStatus r1 \<in> {StatusPending, StatusInFlight} \<and>
            (case rwExpiresMS r1 of None \<Rightarrow> False | Some e \<Rightarrow> e \<le> ?n)
         then r1\<lparr>rwStatus := StatusExpired\<rparr> else r1) = requeueRow ?n actor r" for r
    by (cases "rwActor r = actor"; cases "rwStatus r"; cases "rwExpiresMS r")
      (simp_all add: requeueRow_def Let_def)
  show ?thesis
    unfolding requeueExpiredLeases_def update_rows_def Let_def map_map o_def
    by (rule map_cong [OF refl]) (rule row [unfolded Let_def])
qed

lemma requeueRow_facts:
  "rwKey (requeueRow nowMS actor r) = rwKey r"
  "rwAvailableMS (requeueRow nowMS actor r) = rwAvailableMS r"
  "rwStatus (requeueRow nowMS actor r) = StatusPending \<Longrightarrow>
     rwStatus r = StatusPending \<or> rwStatus r = StatusInFlight \<and> rwAvailableMS r \<le> nowMS"
  by (simp_all add: requeueRow_def Let_def split: if_splits)

lemma fold_filter:
  "fold (\<lambda>rule rows. filter (\<lambda>r. \<not> D rule r) rows) rules t = filter (\<lambda>r. \<forall>rule \<in> set rules. \<not> D rule r) t"
  by (induction rules arbitrary: t) (auto intro!: filter_cong)

lemma cleanupTable_rows:
  "cleanupTable now p t =
   map (\<lambda>r. if PayloadRedactAfter p > 0 \<and> rwStatus r \<in> {StatusFailed, StatusExpired, StatusAcked} \<and>
              rwCreatedMS r < time_UnixMilli now - PayloadRedactAfter p div 10 ^ 6
            then r\<lparr>rwInput := [], rwOutput := []\<rparr> else r)
     (filter (\<lambda>r. \<forall>rule \<in> set (cleanupRules p). \<not> ruleDeletes (time_UnixMilli now) rule r) t)"
  by (simp add: cleanupTable_def Let_def fold_filter update_rows_def)

lemma live_not_deleted:
  "rwStatus r \<in> {StatusPending, StatusInFlight} \<Longrightarrow> rule \<in> set (cleanupRules p) \<Longrightarrow> \<not> ruleDeletes nowMS rule r"
  by (auto simp: cleanupRules_def ruleDeletes_def)

section \<open>Steps of the store\<close>

text \<open>
  The operations of interface \<open>Store\<close> other than the cleanup, in any order, at any times and with any arguments.
\<close>

inductive message_step :: "QueueDB \<Rightarrow> QueueDB \<Rightarrow> bool" where
  enqueue: "message_step db (Enqueue now msg db)"
| enqueue_if_absent: "message_step db (EnqueueIfAbsent now msg db)"
| enqueue_inbox: "message_step db (EnqueueInbox now msg db)"
| lease: "message_step db (snd (LeasePending now actor limit leaseFor db))"
| lease_inbox: "message_step db (snd (LeaseInboxPending now actor limit leaseFor db))"
| applied: "message_step db (MarkApplied mid result db)"
| acked: "message_step db (MarkAcked mid result db)"
| failed: "message_step db (MarkFailed now mid errMsg retryAt db)"
| expired: "message_step db (MarkExpired mid errMsg db)"
| processed: "message_step db (RecordProcessed now actor mid typ status result errMsg db)"
| requeue: "message_step db (RequeueExpiredLeases now actor db)"

text \<open>
  What may happen to the queue while the message with a key is leased until a moment: everything but a requeue after that
  moment, a replacement of the message, a new message with its key once it is gone, and a failure report that schedules a
  retry of it.
\<close>

inductive leased_step :: "string \<times> string \<Rightarrow> int \<Rightarrow> QueueDB \<Rightarrow> QueueDB \<Rightarrow> bool" for key untilMS where
  enqueue: "(mActorID msg, mID msg) \<noteq> key \<Longrightarrow> leased_step key untilMS db (Enqueue now msg db)"
| enqueue_if_absent: "(mActorID msg, mID msg) \<noteq> key \<or> key \<in> rwKey ` set (outbox db) \<Longrightarrow>
    leased_step key untilMS db (EnqueueIfAbsent now msg db)"
| enqueue_inbox: "leased_step key untilMS db (EnqueueInbox now msg db)"
| lease: "leased_step key untilMS db (snd (LeasePending now actor limit leaseFor db))"
| lease_inbox: "leased_step key untilMS db (snd (LeaseInboxPending now actor limit leaseFor db))"
| applied: "leased_step key untilMS db (MarkApplied mid result db)"
| acked: "leased_step key untilMS db (MarkAcked mid result db)"
| failed: "mid \<noteq> snd key \<or> IsZero retryAt \<or> retryAt \<le> now \<Longrightarrow> leased_step key untilMS db (MarkFailed now mid errMsg retryAt db)"
| expired: "leased_step key untilMS db (MarkExpired mid errMsg db)"
| processed: "leased_step key untilMS db (RecordProcessed now actor mid typ status result errMsg db)"
| requeue: "time_UnixMilli now < untilMS \<Longrightarrow> leased_step key untilMS db (RequeueExpiredLeases now actor db)"
| cleanup: "leased_step key untilMS db (Cleanup now policy db)"

lemma LeasePending_table:
  "snd (LeasePending now actor limit leaseFor db) =
   db\<lparr>outbox := snd (leasePending now actor limit leaseFor (outbox db))\<rparr>"
  "snd (LeaseInboxPending now actor limit leaseFor db) =
   db\<lparr>inbox := snd (leasePending now actor limit leaseFor (inbox db))\<rparr>"
  by (auto simp: LeasePending_def LeaseInboxPending_def split: prod.splits)

lemma LeasePending_rows:
  "fst (LeasePending now actor limit leaseFor db) = map (scanMessage DirectionOutbound) (leasedRows now actor limit (outbox db))"
  by (simp add: LeasePending_def split: prod.split) (metis fst_conv leasePending_fst)

lemma scanMessage_key [simp]: "(mActorID (scanMessage d r), mID (scanMessage d r)) = rwKey r"
  by (simp add: scanMessage_def rwKey_def)

lemma scanMessage_fields:
  "mActorID (scanMessage d r) = rwActor r" "mID (scanMessage d r) = rwID r" "mType (scanMessage d r) = rwType r"
  "mPayload (scanMessage d r) = fst (mustDecodeMessageJSON (rwInput r))"
  "mExpiresAt (scanMessage d r) = (case rwExpiresMS r of None \<Rightarrow> zero_time | Some ms \<Rightarrow> FromUnixMilli ms)"
  by (simp_all add: scanMessage_def)

lemma leasedRows_all:
  assumes "r \<in> set t" "leasable actor (time_UnixMilli now) r" "int (length t) \<le> limit" "0 < limit"
  shows "r \<in> set (leasedRows now actor limit t)"
proof -
  have "length (filter Q t) \<le> nat limit" for Q using assms(3) length_filter_le [of Q t] by linarith
  then show ?thesis using assms by (simp add: leasedRows_def)
qed

lemma keyed_cleanup: "keyed rwKey t \<Longrightarrow> keyed rwKey (cleanupTable now p t)"
proof -
  assume "keyed rwKey t"
  then have "keyed rwKey (filter Q t)" for Q by (simp add: distinct_map_filter)
  then show ?thesis by (simp add: cleanupTable_rows o_def if_distrib [of rwKey] cong: if_cong)
qed

lemma message_step_OK: "message_step db db' \<Longrightarrow> queueOK db \<Longrightarrow> queueOK db'"
  by (induction rule: message_step.induct)
    (auto simp: queueOK_def Enqueue_def EnqueueIfAbsent_def EnqueueInbox_def LeasePending_table
      leasePending_table MarkApplied_def MarkAcked_def MarkExpired_def markDone_def MarkFailed_def
      RecordProcessed_def RequeueExpiredLeases_def requeueExpiredLeases_def Let_def)

lemma Cleanup_OK: "queueOK db \<Longrightarrow> queueOK (Cleanup now p db)"
  by (simp add: queueOK_def Cleanup_def keyed_cleanup)

text \<open>The rows with the key stay leased, or are done, until the lease ends.\<close>

definition stillLeased :: "string \<times> string \<Rightarrow> int \<Rightarrow> Row list \<Rightarrow> bool" where
  "stillLeased key untilMS t \<longleftrightarrow> (\<forall>r \<in> set t. rwKey r = key \<longrightarrow>
     rwStatus r \<noteq> StatusPending \<and> (rwStatus r = StatusInFlight \<longrightarrow> untilMS \<le> rwAvailableMS r))"

lemma stillLeased_write:
  "stillLeased key u t \<Longrightarrow> (mActorID msg, mID msg) \<noteq> key \<or> \<not> replace \<and> key \<in> rwKey ` set t \<Longrightarrow>
   stillLeased key u (writeMessage now replace msg t)"
  by (auto simp: stillLeased_def writeMessage_def Let_def set_update_rows)

lemma stillLeased_update:
  "stillLeased key u t \<Longrightarrow> (\<And>r. rwKey (f r) = rwKey r) \<Longrightarrow>
   (\<And>r. r \<in> set t \<Longrightarrow> rwKey r = key \<Longrightarrow> P r \<Longrightarrow> rwStatus (f r) \<notin> {StatusPending, StatusInFlight}) \<Longrightarrow> stillLeased key u (update_rows P f t)"
  by (auto simp: stillLeased_def set_update_rows)

lemma stillLeased_not_leased: "stillLeased key u t \<Longrightarrow> key \<notin> rwKey ` set (leasedRows now actor limit t)"
  by (auto simp: stillLeased_def leasable_def dest!: leasedRows_in)

lemma stillLeased_lease: "stillLeased key u t \<Longrightarrow> stillLeased key u (snd (leasePending now actor limit leaseFor t))"
  unfolding leasePending_table by (rule stillLeased_update) (auto dest: stillLeased_not_leased)

lemma stillLeased_requeue:
  "stillLeased key u t \<Longrightarrow> time_UnixMilli now < u \<Longrightarrow> stillLeased key u (requeueExpiredLeases now actor t)"
  by (auto simp: stillLeased_def requeue_rows requeueRow_facts(1) requeueRow_def Let_def split: if_splits)

lemma stillLeased_cleanup: "stillLeased key u t \<Longrightarrow> stillLeased key u (cleanupTable now p t)"
  by (auto simp: stillLeased_def cleanupTable_rows)

lemma leased_step_keeps:
  "leased_step key u db db' \<Longrightarrow> stillLeased key u (outbox db) \<Longrightarrow> stillLeased key u (outbox db')"
  by (induction rule: leased_step.induct)
    (auto simp: Enqueue_def EnqueueIfAbsent_def EnqueueInbox_def LeasePending_table MarkApplied_def MarkAcked_def MarkExpired_def
      markDone_def MarkFailed_def RecordProcessed_def RequeueExpiredLeases_def Cleanup_def Let_def rwKey_def
      intro!: stillLeased_write stillLeased_update stillLeased_lease stillLeased_requeue stillLeased_cleanup)

lemma leased_run_keeps:
  "(leased_step key u)\<^sup>*\<^sup>* db db' \<Longrightarrow> stillLeased key u (outbox db) \<Longrightarrow> stillLeased key u (outbox db')"
  by (induction rule: rtranclp_induct) (auto dest: leased_step_keeps)

text \<open>Without a cleanup no message leaves the outbox.\<close>

lemma writeMessage_keys: "rwKey ` set t \<subseteq> rwKey ` set (writeMessage now replace msg t)"
proof -
  have "map rwKey (update_rows (\<lambda>r. rwKey r = rwKey (messageRow now msg))
      (\<lambda>r. messageRow now msg\<lparr>rwCreatedMS := rwCreatedMS r\<rparr>) t) = map rwKey t"
    by (simp add: update_rows_def rwKey_def)
  note this [THEN arg_cong [of _ _ set], unfolded set_map]
  then show ?thesis unfolding writeMessage_def Let_def by auto
qed

lemma message_step_keys: "message_step db db' \<Longrightarrow> rwKey ` set (outbox db) \<subseteq> rwKey ` set (outbox db')"
  by (induction rule: message_step.induct)
    (simp_all add: Enqueue_def EnqueueIfAbsent_def EnqueueInbox_def LeasePending_table leasePending_table MarkApplied_def MarkAcked_def
      MarkExpired_def markDone_def MarkFailed_def RecordProcessed_def RequeueExpiredLeases_def requeueExpiredLeases_def
      Let_def image_update_rows writeMessage_keys)

lemma message_run_keys: "message_step\<^sup>*\<^sup>* db db' \<Longrightarrow> rwKey ` set (outbox db) \<subseteq> rwKey ` set (outbox db')"
proof (induction rule: rtranclp_induct)
  case (step y z)
  then show ?case using message_step_keys [OF step(2)] by blast
qed simp

section \<open>The log of processed messages\<close>

text \<open>
  What the consumers of the queue rely on to handle a message once: the outcome recorded for a message
  is the outcome found for it, until it is recorded again, and recording one message does not touch the
  others.
\<close>

locale processed_log =
  fixes is_processed :: "string \<Rightarrow> string \<Rightarrow> 'db \<Rightarrow> ProcessedMessage option"
    and record_processed :: "int \<Rightarrow> string \<Rightarrow> string \<Rightarrow> string \<Rightarrow> Status \<Rightarrow> string \<Rightarrow> string \<Rightarrow> 'db \<Rightarrow> 'db"
    and inv :: "'db \<Rightarrow> bool"
  assumes inv_record: "inv db \<Longrightarrow> inv (record_processed now actor mid typ status result err db)"
    and found: "inv db \<Longrightarrow> processedStatus status \<Longrightarrow>
      \<exists>m. is_processed actor mid (record_processed now actor mid typ status result err db) = Some m \<and>
          pmStatus m = status \<and> pmResult m = result \<and> pmError m = err"
    and untouched: "inv db \<Longrightarrow> (actor', mid') \<noteq> (actor, mid) \<Longrightarrow>
      is_processed actor' mid' (record_processed now actor mid typ status result err db) =
      is_processed actor' mid' db"

lemma find_keyed:
  "keyed rwKey t \<Longrightarrow> r \<in> set t \<Longrightarrow> Q r \<Longrightarrow> find (\<lambda>x. rwKey x = rwKey r \<and> Q x) t = Some r"
  by (induction t) (auto simp: image_iff)

lemma RecordProcessed_found:
  assumes "queueOK db" "processedStatus status"
  shows "\<exists>m. IsProcessed actor mid (RecordProcessed now actor mid typ status result err db) = Some m \<and>
    pmStatus m = status \<and> pmResult m = result \<and> pmError m = err"
proof -
  let ?db = "RecordProcessed now actor mid typ status result err db"
  have keyed: "keyed rwKey (inbox ?db)"
    using message_step_OK [OF message_step.processed assms(1)] by (simp add: queueOK_def)
  obtain r where r: "r \<in> set (inbox ?db)" "rwKey r = (actor, mid)" "rwStatus r = status"
    "rwOutput r = encodeMessageJSON [] result" "rwError r = err"
  proof (cases "(actor, mid) \<in> rwKey ` set (inbox db)")
    case True
    then obtain r0 where "r0 \<in> set (inbox db)" "rwKey r0 = (actor, mid)" by auto
    then show ?thesis
      using that [of "r0\<lparr>rwStatus := status, rwOutput := encodeMessageJSON [] result, rwError := err\<rparr>"]
      by (force simp: RecordProcessed_def Let_def set_update_rows rwKey_def)
  next
    case False
    then show ?thesis
      by (intro that) (auto simp: RecordProcessed_def Let_def rwKey_def)
  qed
  have "IsProcessed actor mid ?db = Some (scanProcessed r)"
    using find_keyed [OF keyed r(1), of "\<lambda>x. processedStatus (rwStatus x)"] r assms(2)
    by (simp add: IsProcessed_def)
  then show ?thesis using r by (simp add: scanProcessed_def)
qed

lemma find_update_other:
  "(\<And>r. rwKey (f r) = rwKey r) \<Longrightarrow> k \<noteq> k' \<Longrightarrow>
   find (\<lambda>x. rwKey x = k' \<and> Q x) (update_rows (\<lambda>r. rwKey r = k) f t) = find (\<lambda>x. rwKey x = k' \<and> Q x) t"
  by (induction t) (auto simp: update_rows_def)

lemma RecordProcessed_untouched:
  assumes "(actor', mid') \<noteq> (actor, mid)"
  shows "IsProcessed actor' mid' (RecordProcessed now actor mid typ status result err db) =
    IsProcessed actor' mid' db"
proof -
  let ?P = "\<lambda>r. rwKey r = (actor', mid') \<and> processedStatus (rwStatus r)"
  have "find ?P (update_rows (\<lambda>r. rwKey r = (actor, mid)) f t) = find ?P t"
    if "\<And>r. rwKey (f r) = rwKey r" for f t
    using that assms by (intro find_update_other) auto
  with assms show ?thesis
    by (auto simp: IsProcessed_def RecordProcessed_def Let_def find_append simp del: prod.inject
        split: option.split)
qed

interpretation sql_log: processed_log IsProcessed RecordProcessed queueOK
proof unfold_locales
qed (auto intro: message_step_OK message_step.processed RecordProcessed_found RecordProcessed_untouched)

section \<open>The encrypting store\<close>

text \<open>
  \<open>SecureStore\<close> wraps a store and seals the payloads it writes. The AES-GCM cipher is the record \<open>aead\<close>
  of its two operations with the size of its nonces; a fresh nonce is an argument.
\<close>

record aead =
  aeadNonceSize :: nat
  aeadSeal :: "string \<Rightarrow> string \<Rightarrow> string"
  aeadOpen :: "string \<Rightarrow> string \<Rightarrow> string option"

definition encryptedPrefix :: string where
  "encryptedPrefix = ''enc:v1:''"

definition Seal :: "aead option \<Rightarrow> string \<Rightarrow> string \<Rightarrow> string" where
  "Seal box nonce raw =
     (case box of
        None \<Rightarrow> raw
      | Some a \<Rightarrow>
          if raw = [] \<or> prefix encryptedPrefix raw then raw
          else encryptedPrefix @ RawStdEncode (nonce @ aeadSeal a nonce raw))"

definition secure_open :: "aead \<Rightarrow> string \<Rightarrow> string" where
  "secure_open a raw =
     (if \<not> prefix encryptedPrefix raw then raw
      else case RawStdDecode (drop (length encryptedPrefix) raw) of
        None \<Rightarrow> []
      | Some payload \<Rightarrow>
          if length payload < aeadNonceSize a then []
          else case aeadOpen a (take (aeadNonceSize a) payload) (drop (aeadNonceSize a) payload) of
            None \<Rightarrow> [] | Some plain \<Rightarrow> plain)"

definition protect :: "aead \<Rightarrow> string \<Rightarrow> string \<Rightarrow> Message \<Rightarrow> Message" where
  "protect a n1 n2 msg =
     msg\<lparr>mPayload := Seal (Some a) n1 (mPayload msg), mResultPayload := Seal (Some a) n2 (mResultPayload msg)\<rparr>"

definition reveal :: "aead \<Rightarrow> Message \<Rightarrow> Message" where
  "reveal a msg =
     msg\<lparr>mPayload := secure_open a (mPayload msg), mResultPayload := secure_open a (mResultPayload msg)\<rparr>"

definition SecureIsProcessed :: "aead \<Rightarrow> string \<Rightarrow> string \<Rightarrow> QueueDB \<Rightarrow> ProcessedMessage option" where
  "SecureIsProcessed a actor mid db =
     map_option (\<lambda>m. m\<lparr>pmResult := secure_open a (pmResult m)\<rparr>) (IsProcessed actor mid db)"

definition SecureRecordProcessed ::
  "aead \<Rightarrow> string \<Rightarrow> int \<Rightarrow> string \<Rightarrow> string \<Rightarrow> string \<Rightarrow> Status \<Rightarrow> string \<Rightarrow> string \<Rightarrow> QueueDB \<Rightarrow> QueueDB" where
  "SecureRecordProcessed a nonce now actor mid typ status result errMsg db =
     RecordProcessed now actor mid typ status (Seal (Some a) nonce result) errMsg db"

definition SecureEnqueue :: "aead \<Rightarrow> string \<Rightarrow> string \<Rightarrow> int \<Rightarrow> Message \<Rightarrow> QueueDB \<Rightarrow> QueueDB" where
  "SecureEnqueue a n1 n2 now msg db = Enqueue now (protect a n1 n2 msg) db"

definition SecureLeasePending ::
  "aead \<Rightarrow> int \<Rightarrow> string \<Rightarrow> int \<Rightarrow> int \<Rightarrow> QueueDB \<Rightarrow> Message list \<times> QueueDB" where
  "SecureLeasePending a now actor limit leaseFor db =
     (let (msgs, db') = LeasePending now actor limit leaseFor db in (map (reveal a) msgs, db'))"

lemma secure_open_Seal:
  assumes "length nonce = aeadNonceSize a" "aeadOpen a nonce (aeadSeal a nonce raw) = Some raw"
    and "\<not> prefix encryptedPrefix raw"
  shows "secure_open a (Seal (Some a) nonce raw) = raw"
  using assms by (auto simp: secure_open_def Seal_def)

section \<open>Properties\<close>

text \<open>
  C3. A leased message is not handed out again, to any actor, before its lease ends: whatever the store does in between
  (further leases, requeues before the deadline, completions, cleanups, other messages), no later lease contains it. Left
  out are only the calls that make the message pending again on purpose: replacing it with \<open>Enqueue\<close>, and a failure report
  that asks for a retry.
\<close>

theorem lease_exclusive:
  assumes "m \<in> set (fst (LeasePending now actor limit leaseFor db))"
    and "(leased_step (mActorID m, mID m) (time_UnixMilli (now + leaseFor)))\<^sup>*\<^sup>* (snd (LeasePending now actor limit leaseFor db)) db'"
    and "m' \<in> set (fst (LeasePending now' actor' limit' leaseFor' db'))"
  shows "(mActorID m', mID m') \<noteq> (mActorID m, mID m)"
proof -
  have "(mActorID m, mID m) \<in> rwKey ` set (leasedRows now actor limit (outbox db))"
    using assms(1) by (auto simp: LeasePending_rows)
  then have "stillLeased (mActorID m, mID m) (time_UnixMilli (now + leaseFor)) (outbox (snd (LeasePending now actor limit leaseFor db)))"
    unfolding LeasePending_table by (auto simp: leasePending_table stillLeased_def set_update_rows)
  note stillLeased_not_leased [OF leased_run_keeps [OF assms(2) this]]
  moreover have "(mActorID m', mID m') \<in> rwKey ` set (leasedRows now' actor' limit' (outbox db'))"
    using assms(3) by (auto simp: LeasePending_rows)
  ultimately show ?thesis by metis
qed

definition exampleRow :: Row where
  "exampleRow = messageRow (10 ^ 9) \<lparr>mID = ''m1'', mActorID = ''node'', mDirection = DirectionOutbound,
     mType = ''traffic_batch'', mPayload = ''x'', mStatus = None, mAvailableAt = zero_time,
     mExpiresAt = zero_time, mCreatedAt = zero_time, mResultPayload = [], mError = []\<rparr>"

definition exampleQueue :: QueueDB where
  "exampleQueue = \<lparr>outbox = [exampleRow, exampleRow\<lparr>rwID := ''m2''\<rparr>], inbox = []\<rparr>"

theorem lease_exclusive_witness:
  "\<exists>m \<in> set (fst (LeasePending (10 ^ 9) ''node'' 1 minute exampleQueue)). mID m = ''m1'' \<and>
   (\<forall>m' \<in> set (fst (LeasePending (50 * minute) ''node'' 10 minute (MarkApplied ''m2'' [] (RequeueExpiredLeases (2 * 10 ^ 9) ''node''
       (snd (LeasePending (10 ^ 9) ''node'' 1 minute exampleQueue)))))). (mActorID m', mID m') \<noteq> (''node'', ''m1''))"
proof -
  let ?db = "snd (LeasePending (10 ^ 9) ''node'' 1 minute exampleQueue)" and ?m = "scanMessage DirectionOutbound exampleRow"
  let ?db' = "MarkApplied ''m2'' [] (RequeueExpiredLeases (2 * 10 ^ 9) ''node'' ?db)"
  have m: "?m \<in> set (fst (LeasePending (10 ^ 9) ''node'' 1 minute exampleQueue))" by code_simp
  have id: "mActorID ?m = ''node''" "mID ?m = ''m1''" by code_simp+
  let ?step = "leased_step (mActorID ?m, mID ?m) (time_UnixMilli (10 ^ 9 + minute))"
  have "?step ?db (RequeueExpiredLeases (2 * 10 ^ 9) ''node'' ?db)" by (rule leased_step.requeue) simp
  moreover have "?step (RequeueExpiredLeases (2 * 10 ^ 9) ''node'' ?db) ?db'" by (rule leased_step.applied)
  ultimately have "?step\<^sup>*\<^sup>* ?db ?db'" by (rule rtranclp.rtrancl_into_rtrancl [OF r_into_rtranclp])
  note lease_exclusive [OF m this]
  then show ?thesis using m id by (intro bexI [of _ ?m]) auto
qed

text \<open>
  C4. Cleanup never loses work: whatever the policy and the time, the messages that are pending or in
  flight are exactly those before the cleanup, unchanged and in the same order.
\<close>

theorem cleanup_keeps_live:
  "filter (\<lambda>r. rwStatus r \<in> {StatusPending, StatusInFlight}) (cleanupTable now p t) =
   filter (\<lambda>r. rwStatus r \<in> {StatusPending, StatusInFlight}) t"
proof (induction t)
  case (Cons r t)
  then show ?case
    using live_not_deleted [of r _ p "time_UnixMilli now"]
    by (auto simp: cleanupTable_rows)
qed (simp add: cleanupTable_rows)

text \<open>
  C5. No leased message is stuck: once the lease of a message has ended, and while the message itself has not expired, the
  requeue of its actor makes it available again, and the next lease of that actor hands it out with the same payload,
  provided its limit is not smaller than the queue.
\<close>

theorem lease_recovers:
  assumes "m \<in> set (fst (LeasePending now actor limit leaseFor db))"
    and "time_UnixMilli (now + leaseFor) \<le> time_UnixMilli now2" "now2 \<le> now3"
    and "IsZero (mExpiresAt m) \<or> time_UnixMilli now3 < time_UnixMilli (mExpiresAt m)"
    and "int (length (outbox db)) \<le> limit2" "0 < limit2" "0 \<le> now"
  shows "\<exists>m' \<in> set (fst (LeasePending now3 actor limit2 leaseFor2
      (RequeueExpiredLeases now2 actor (snd (LeasePending now actor limit leaseFor db))))).
    mActorID m' = mActorID m \<and> mID m' = mID m \<and> mType m' = mType m \<and> mPayload m' = mPayload m"
proof -
  have later: "time_UnixMilli now2 \<le> time_UnixMilli now3" using assms(3) by (simp add: zdiv_mono1)
  obtain r where r: "r \<in> set (leasedRows now actor limit (outbox db))" "m = scanMessage DirectionOutbound r"
    using assms(1) by (auto simp: LeasePending_rows)
  have in1: "r \<in> set (outbox db)" "leasable actor (time_UnixMilli now) r" using leasedRows_in [OF r(1)] by auto
  have live: "case rwExpiresMS r of None \<Rightarrow> True | Some e \<Rightarrow> e > time_UnixMilli now3"
  proof (cases "rwExpiresMS r")
    case (Some e)
    then have "0 < e" using in1(2) assms(7) by (auto simp: leasable_def pos_imp_zdiv_nonneg_iff dest: order.strict_trans1 [rotated])
    then show ?thesis using Some assms(4) by (simp add: r(2) scanMessage_fields FromUnixMilli_def IsZero_def zero_time_def)
  qed simp
  let ?r = "requeueRow (time_UnixMilli now2) actor (r\<lparr>rwStatus := StatusInFlight, rwAvailableMS := time_UnixMilli (now + leaseFor)\<rparr>)"
  let ?t = "requeueExpiredLeases now2 actor (snd (leasePending now actor limit leaseFor (outbox db)))"
  have "?r \<in> set ?t" unfolding requeue_rows leasePending_table set_map set_update_rows
    using r(1) in1(1) by (intro image_eqI [OF refl] image_eqI [of _ _ r]) auto
  moreover have new: "leasable actor (time_UnixMilli now3) ?r" "rwKey ?r = rwKey r" "rwType ?r = rwType r" "rwInput ?r = rwInput r"
    using assms(2) later live in1(2) by (auto simp: requeueRow_def leasable_def Let_def split: option.splits)
  moreover have "length ?t = length (outbox db)" by (simp add: requeue_rows leasePending_table update_rows_def)
  ultimately have "?r \<in> set (leasedRows now3 actor limit2 ?t)" using assms(5,6) by (intro leasedRows_all) auto
  then show ?thesis using r(2) new
    by (intro bexI [of _ "scanMessage DirectionOutbound ?r"])
      (simp_all add: LeasePending_rows RequeueExpiredLeases_def LeasePending_table scanMessage_fields rwKey_def)
qed

theorem lease_recovers_witness:
  "\<exists>m' \<in> set (fst (LeasePending (4 * minute) ''node'' 10 minute
      (RequeueExpiredLeases (3 * minute) ''node'' (snd (LeasePending (10 ^ 9) ''node'' 1 minute exampleQueue))))). mID m' = ''m1''"
proof -
  let ?m = "scanMessage DirectionOutbound exampleRow"
  have "?m \<in> set (fst (LeasePending (10 ^ 9) ''node'' 1 minute exampleQueue))" "IsZero (mExpiresAt ?m)" "mID ?m = ''m1''" by code_simp+
  then show ?thesis using lease_recovers [of ?m "10 ^ 9" "''node''" 1 minute exampleQueue "3 * minute" "4 * minute" 10 minute]
    by (auto simp: exampleQueue_def)
qed

text \<open>
  C6. \<open>EnqueueIfAbsent\<close> enqueues a message once: after it, whatever the store does until a cleanup removes the message
  (handing it out, completing it, failing it, replacing it), another \<open>EnqueueIfAbsent\<close> with the same actor and id leaves the
  queue as it is, even when the other fields differ.
\<close>

theorem enqueue_if_absent_once:
  assumes "message_step\<^sup>*\<^sup>* (EnqueueIfAbsent now msg db) db'"
    and "mID msg' = mID msg" "mActorID msg' = mActorID msg"
  shows "EnqueueIfAbsent now' msg' db' = db'"
proof -
  have "(mActorID msg, mID msg) \<in> rwKey ` set (outbox (EnqueueIfAbsent now msg db))"
    by (auto simp: EnqueueIfAbsent_def writeMessage_def Let_def)
  with message_run_keys [OF assms(1)] have "(mActorID msg', mID msg') \<in> rwKey ` set (outbox db')" using assms(2,3) by auto
  then show ?thesis by (simp add: EnqueueIfAbsent_def writeMessage_def Let_def)
qed

theorem enqueue_if_absent_once_witness:
  "EnqueueIfAbsent 9 ((scanMessage DirectionOutbound exampleRow)\<lparr>mPayload := ''other''\<rparr>)
     (MarkApplied ''m1'' ''ok'' (EnqueueIfAbsent 5 (scanMessage DirectionOutbound exampleRow) \<lparr>outbox = [], inbox = []\<rparr>)) =
   MarkApplied ''m1'' ''ok'' (EnqueueIfAbsent 5 (scanMessage DirectionOutbound exampleRow) \<lparr>outbox = [], inbox = []\<rparr>)"
  by (rule enqueue_if_absent_once [OF r_into_rtranclp [of message_step, OF message_step.applied]]) simp_all

text \<open>
  C7. Round trip through the encrypting store: for a cipher that opens what it sealed and a nonce of its
  size, the outcome recorded for a message is read back in the clear, unless the plaintext itself starts
  with the marker of sealed values, in which case it is stored as it is.
\<close>

theorem secure_record_roundtrip:
  assumes "queueOK db" "processedStatus status"
    and "length nonce = aeadNonceSize a" "aeadOpen a nonce (aeadSeal a nonce result) = Some result"
    and "\<not> prefix encryptedPrefix result"
  shows "\<exists>m. SecureIsProcessed a actor mid
      (SecureRecordProcessed a nonce now actor mid typ status result err db) = Some m \<and>
    pmStatus m = status \<and> pmResult m = result \<and> pmError m = err"
  using sql_log.found [OF assms(1,2), of actor mid now "typ" "Seal (Some a) nonce result" err]
    secure_open_Seal [OF assms(3-5)]
  by (force simp: SecureIsProcessed_def SecureRecordProcessed_def)

definition exampleAead :: aead where
  "exampleAead = \<lparr>aeadNonceSize = 2, aeadSeal = (\<lambda>n p. rev p @ n),
     aeadOpen = (\<lambda>n c. Some (rev (take (length c - length n) c)))\<rparr>"

theorem secure_record_roundtrip_witness:
  "\<exists>m. SecureIsProcessed exampleAead ''node'' ''m1''
      (SecureRecordProcessed exampleAead ''ab'' 7 ''node'' ''m1'' ''traffic_batch'' StatusApplied ''totals'' []
        \<lparr>outbox = [], inbox = []\<rparr>) = Some m \<and>
    pmStatus m = StatusApplied \<and> pmResult m = ''totals'' \<and> pmError m = []"
  by (rule secure_record_roundtrip)
    (simp_all add: queueOK_def processedStatus_def exampleAead_def encryptedPrefix_def)

text \<open>A payload that starts with the marker is lost by the round trip when it is no sealed value.\<close>

lemma marked_payload_lost: "secure_open a (Seal (Some a) nonce ''enc:v1:!'') = []"
proof -
  have "RawStdDecode ''!'' = None" by code_simp
  then show ?thesis by (simp add: secure_open_def Seal_def encryptedPrefix_def)
qed

text \<open>
  The retention of failed traffic batches is the default one: the rule without a type removes them after
  24 hours, although the policy asks for seven days.
\<close>

lemma failed_traffic_removed_after_a_day:
  assumes "rwStatus r = StatusFailed" "rwType r = ''traffic_batch''"
    and "rwCreatedMS r < time_UnixMilli now - 24 * hour div 10 ^ 6"
  shows "rwKey r \<notin> rwKey ` set (cleanupTable now DefaultCleanupPolicy [r])"
  using assms
  by (simp add: cleanupTable_rows cleanupRules_def ruleDeletes_def DefaultCleanupPolicy_def)

end
