(* ===== verification/Usage.thy ===== *)
theory Usage
  imports Agent_Store Queue
begin

text \<open>
  Traffic reports on the server: the transaction that accounts a report once
  (\<open>storage/telemetry_sql.go\<close>, \<open>ApplyUsageRecords\<close>) and the handler of a report
  (\<open>agenttelemetry/telemetry.go\<close>), and the accounting of the whole system: an agent that observes
  counters, prepares and resends reports, a server that may receive a report any number of times, and
  acknowledgements that may arrive late, repeatedly or never.

  The encoding of an acknowledgement (protocol buffers) is a parameter; the clock of a call is its
  argument \<open>now\<close>. The 64-bit columns report an overflow as the database does, by an error of the
  statement.
\<close>

section \<open>The usage tables\<close>

record StoredUsage =
  suRequestID :: string
  suConnectionID :: string
  suNodeInstanceID :: string
  suFromMS :: int
  suToMS :: int
  suReceivedAtMS :: int
  suTXBytes :: int
  suRXBytes :: int

record UsageTotal =
  utConnectionID :: string
  utTXBytes :: int
  utRXBytes :: int
  utUpdatedAtMS :: int

record UsageDB =
  udNodes :: "string list"
  udInstances :: "(string \<times> string) list"
  udConnections :: "(string \<times> string) list"
  udRecords :: "StoredUsage list"
  udTotals :: "UsageTotal list"

definition nodeOfInstance :: "UsageDB \<Rightarrow> string \<Rightarrow> string option" where
  "nodeOfInstance db inst = map_of (udInstances db) inst"

definition requireConnectionOnInstance :: "UsageDB \<Rightarrow> string \<Rightarrow> string \<Rightarrow> error option" where
  "requireConnectionOnInstance db inst conn =
     (let n = length (filter (\<lambda>(c, i). fst c = conn \<and> fst i = inst \<and> snd i = snd c)
                (List.product (udConnections db) (udInstances db)))
      in if n \<noteq> 1 then Some (Err ''connection does not belong to node instance'') else None)"

definition usageTotalsForRequest :: "UsageDB \<Rightarrow> string \<Rightarrow> UsageTotal list" where
  "usageTotalsForRequest db requestID =
     sort_key utConnectionID
       (map fst (filter (\<lambda>(t, r). suConnectionID r = utConnectionID t \<and> suRequestID r = requestID)
          (List.product (udTotals db) (udRecords db))))"

definition addTotal :: "int \<Rightarrow> StoredUsage \<Rightarrow> UsageTotal list \<Rightarrow> UsageTotal list result" where
  "addTotal receivedAtMS r t =
     (case lookup_row utConnectionID t (suConnectionID r) of
        None \<Rightarrow>
          Inr (t @ [\<lparr>utConnectionID = suConnectionID r, utTXBytes = suTXBytes r, utRXBytes = suRXBytes r,
                     utUpdatedAtMS = receivedAtMS\<rparr>])
      | Some u \<Rightarrow>
          if utTXBytes u + suTXBytes r > max_int64 \<or> utRXBytes u + suRXBytes r > max_int64
          then Inl (Err ''bigint out of range'')
          else Inr (put_row utConnectionID
            \<lparr>utConnectionID = suConnectionID r, utTXBytes = utTXBytes u + suTXBytes r,
             utRXBytes = utRXBytes u + suRXBytes r, utUpdatedAtMS = receivedAtMS\<rparr> t))"

definition applyRecord ::
  "string \<Rightarrow> string \<Rightarrow> int \<Rightarrow> StoredUsage \<Rightarrow> UsageDB \<Rightarrow> UsageDB result" where
  "applyRecord requestID inst receivedAtMS r db =
     (if suConnectionID r = [] \<or> suTXBytes r < 0 \<or> suRXBytes r < 0
      then Inl (Err ''usage report contains invalid values'')
      else case requireConnectionOnInstance db inst (suConnectionID r) of
        Some e \<Rightarrow> Inl e
      | None \<Rightarrow>
          if list_ex (\<lambda>x. suRequestID x = requestID \<and> suConnectionID x = suConnectionID r) (udRecords db)
          then Inl uniqueViolation
          else
            let row = r\<lparr>suRequestID := requestID, suNodeInstanceID := inst, suReceivedAtMS := receivedAtMS\<rparr>
            in bindR (addTotal receivedAtMS r (udTotals db)) (\<lambda>t.
                 Inr (db\<lparr>udRecords := udRecords db @ [row], udTotals := t\<rparr>)))"

definition ApplyUsageRecords ::
  "string \<Rightarrow> string \<Rightarrow> StoredUsage list \<Rightarrow> int \<Rightarrow> (UsageDB, UsageTotal list \<times> bool) op" where
  "ApplyUsageRecords requestID inst records now db =
     (if requestID = [] \<or> inst = [] \<or> records = []
      then (Inl (Err ''usage request_id, node instance and records are required''), db)
      else case nodeOfInstance db inst of
        None \<Rightarrow> (Inl ErrNotFound, db)
      | Some node \<Rightarrow>
          if node \<notin> set (udNodes db) then (Inl ErrNotFound, db)
          else case find (\<lambda>x. suRequestID x = requestID) (udRecords db) of
            Some x \<Rightarrow>
              if suNodeInstanceID x \<noteq> inst
              then (Inl (Err ''usage request_id belongs to another node instance''), db)
              else (Inr (usageTotalsForRequest db requestID, True), db)
          | None \<Rightarrow>
              (case foldR (applyRecord requestID inst (time_UnixMilli now)) records db of
                 Inl e \<Rightarrow> (Inl e, db)
               | Inr db' \<Rightarrow> (Inr (usageTotalsForRequest db' requestID, False), db')))"

section \<open>The handler\<close>

record TelemetryIdentity =
  tiNodeID :: string
  tiInstallationID :: string
  tiNodeInstanceID :: string

record UsageAck =
  uaOk :: bool
  uaRecords :: "AcknowledgedUsage list"

record TelemetryState =
  tsUsage :: UsageDB
  tsTransport :: QueueDB

record ack_codec =
  marshalAck :: "UsageAck \<Rightarrow> string"
  unmarshalAck :: "string \<Rightarrow> UsageAck option"

definition rejectedAck :: UsageAck where
  "rejectedAck = \<lparr>uaOk = False, uaRecords = []\<rparr>"

fun decodeUsageRecords ::
  "string \<Rightarrow> TelemetryIdentity \<Rightarrow> UsageBatch \<Rightarrow> StoredUsage list \<Rightarrow> UsageRecord list \<Rightarrow> StoredUsage list result" where
  "decodeUsageRecords requestID ident batch records [] = Inr records"
| "decodeUsageRecords requestID ident batch records (r # rs) =
     (if urConnectionID r = [] \<or> urTXBytes r < 0 \<or> urRXBytes r < 0
      then Inl (Err ''invalid usage record'')
      else if urTXBytes r > max_int64 - urRXBytes r then Inl (Err ''usage values overflow'')
      else if urConnectionID r \<in> suConnectionID ` set records
      then Inl (Err ''duplicate connection in usage report'')
      else decodeUsageRecords requestID ident batch
        (records @ [\<lparr>suRequestID = requestID, suConnectionID = urConnectionID r,
           suNodeInstanceID = tiNodeInstanceID ident, suFromMS = ubFromMS batch, suToMS = ubToMS batch,
           suReceivedAtMS = 0, suTXBytes = urTXBytes r, suRXBytes = urRXBytes r\<rparr>]) rs)"

definition decodeUsage ::
  "string \<Rightarrow> UsageBatch option \<Rightarrow> TelemetryIdentity \<Rightarrow> StoredUsage list result" where
  "decodeUsage requestID batch ident =
     (case batch of
        None \<Rightarrow> Inl (Err ''empty usage report'')
      | Some b \<Rightarrow>
          if ubNodeID b \<noteq> tiNodeID ident then Inl (Err ''usage report node mismatch'')
          else bindR (decodeUsageRecords requestID ident b [] (ubRecords b)) (\<lambda>records.
            if records = [] then Inl (Err ''usage report has no records'') else Inr records))"

definition ackOfTotal :: "UsageTotal \<Rightarrow> AcknowledgedUsage" where
  "ackOfTotal t = \<lparr>akConnectionID = utConnectionID t, akRXBytes = utRXBytes t, akTXBytes = utTXBytes t\<rparr>"

text \<open>
  The result \<open>None\<close> is \<open>(nil, false)\<close>: the message is not answered. The calls of the queue store do not fail here; in the
  code a failing \<open>IsProcessed\<close> counts as not found, and a failing \<open>RecordProcessed\<close> turns the answer into a rejection.
\<close>

definition HandleUsage ::
  "ack_codec \<Rightarrow> bool \<Rightarrow> TelemetryIdentity \<Rightarrow> string \<Rightarrow> UsageBatch option \<Rightarrow> int \<Rightarrow> TelemetryState \<Rightarrow>
   UsageAck option \<times> TelemetryState" where
  "HandleUsage codec allowed ident requestID batch now st =
     (if requestID = [] \<or> \<not> allowed then (None, st)
      else case Option.bind (IsProcessed (tiNodeID ident) requestID (tsTransport st))
                  (\<lambda>p. unmarshalAck codec (pmResult p)) of
        Some ack \<Rightarrow> (Some ack, st)
      | None \<Rightarrow>
          (case decodeUsage requestID batch ident of
             Inl e \<Rightarrow> (Some rejectedAck, st)
           | Inr records \<Rightarrow>
               (case ApplyUsageRecords requestID (tiNodeInstanceID ident) records now (tsUsage st) of
                  (Inl e, db) \<Rightarrow> (Some rejectedAck, st\<lparr>tsUsage := db\<rparr>)
                | (Inr (totals, _), db) \<Rightarrow>
                    let ack = \<lparr>uaOk = True, uaRecords = map ackOfTotal totals\<rparr>
                    in (Some ack,
                        st\<lparr>tsUsage := db,
                           tsTransport := RecordProcessed now (tiNodeID ident) requestID ''traffic_batch''
                             StatusApplied (marshalAck codec ack) [] (tsTransport st)\<rparr>))))"

section \<open>The ledger\<close>

datatype dir = RX | TX

fun suBytes :: "dir \<Rightarrow> StoredUsage \<Rightarrow> int" where
  "suBytes RX r = suRXBytes r" | "suBytes TX r = suTXBytes r"

fun utBytes :: "dir \<Rightarrow> UsageTotal \<Rightarrow> int" where
  "utBytes RX t = utRXBytes t" | "utBytes TX t = utTXBytes t"

fun akBytes :: "dir \<Rightarrow> AcknowledgedUsage \<Rightarrow> int" where
  "akBytes RX a = akRXBytes a" | "akBytes TX a = akTXBytes a"

definition totalOf :: "dir \<Rightarrow> UsageTotal list \<Rightarrow> string \<Rightarrow> int" where
  "totalOf d t c = (case lookup_row utConnectionID t c of None \<Rightarrow> 0 | Some u \<Rightarrow> utBytes d u)"

definition recordedSum :: "dir \<Rightarrow> string \<Rightarrow> StoredUsage list \<Rightarrow> int" where
  "recordedSum d c rs = sum_list (map (suBytes d) (filter (\<lambda>r. suConnectionID r = c) rs))"

definition suKey :: "StoredUsage \<Rightarrow> string \<times> string" where
  "suKey r = (suRequestID r, suConnectionID r)"

definition ledgerOK :: "UsageDB \<Rightarrow> bool" where
  "ledgerOK db \<longleftrightarrow>
     keyed utConnectionID (udTotals db) \<and> keyed suKey (udRecords db) \<and>
     (\<forall>r \<in> set (udRecords db). suConnectionID r \<noteq> [] \<and> 0 \<le> suTXBytes r \<and> 0 \<le> suRXBytes r \<and>
        suConnectionID r \<in> utConnectionID ` set (udTotals db)) \<and>
     (\<forall>c d. totalOf d (udTotals db) c = recordedSum d c (udRecords db))"

lemma recordedSum_append [simp]:
  "recordedSum d c (rs @ [r]) = recordedSum d c rs + (if suConnectionID r = c then suBytes d r else 0)"
  by (simp add: recordedSum_def)

lemma suBytes_nonneg: "0 \<le> suTXBytes r \<Longrightarrow> 0 \<le> suRXBytes r \<Longrightarrow> 0 \<le> suBytes d r"
  by (cases d) auto

lemma recordedSum_ge:
  assumes "\<forall>r \<in> set rs. 0 \<le> suTXBytes r \<and> 0 \<le> suRXBytes r" "r \<in> set rs"
  shows "suBytes d r \<le> recordedSum d (suConnectionID r) rs"
proof -
  have "suBytes d r \<in> set (map (suBytes d) (filter (\<lambda>x. suConnectionID x = suConnectionID r) rs))"
    using assms(2) by auto
  moreover have "\<forall>x \<in> set (map (suBytes d) (filter (\<lambda>x. suConnectionID x = suConnectionID r) rs)). 0 \<le> x"
    using assms(1) suBytes_nonneg by auto
  moreover have "x \<in> set xs \<Longrightarrow> \<forall>x \<in> set xs. 0 \<le> x \<Longrightarrow> x \<le> sum_list xs" for x and xs :: "int list"
    by (rule member_le_sum_list) auto
  ultimately show ?thesis unfolding recordedSum_def by blast
qed

lemma keys_put_row: "key r \<in> key ` set t \<Longrightarrow> key ` set (put_row key r t) = key ` set t"
  by (auto simp: put_row_def image_iff)

lemma addTotal_ok:
  assumes "addTotal ms r t = Inr t'" "keyed utConnectionID t"
  shows "keyed utConnectionID t' \<and> utConnectionID ` set t' = insert (suConnectionID r) (utConnectionID ` set t) \<and>
    (\<forall>c d. totalOf d t' c = totalOf d t c + (if c = suConnectionID r then suBytes d r else 0))"
proof (cases "lookup_row utConnectionID t (suConnectionID r)")
  case None
  let ?u = "\<lparr>utConnectionID = suConnectionID r, utTXBytes = suTXBytes r, utRXBytes = suRXBytes r, utUpdatedAtMS = ms\<rparr>"
  have t': "t' = t @ [?u]" using assms(1) None by (simp add: addTotal_def)
  have "suConnectionID r \<notin> utConnectionID ` set t" using None by (simp add: lookup_row_None_iff)
  moreover have "utBytes d ?u = suBytes d r" for d by (cases d) simp_all
  then have "totalOf d t' c = totalOf d t c + (if c = suConnectionID r then suBytes d r else 0)" for c d
    using None by (simp add: totalOf_def t' lookup_row_append lookup_row_Cons split: option.split)
  ultimately show ?thesis using assms(2) by (simp add: t')
next
  case (Some u)
  let ?u = "\<lparr>utConnectionID = suConnectionID r, utTXBytes = utTXBytes u + suTXBytes r,
    utRXBytes = utRXBytes u + suRXBytes r, utUpdatedAtMS = ms\<rparr>"
  have t': "t' = put_row utConnectionID ?u t" using assms(1) Some by (simp add: addTotal_def split: if_splits)
  have in_t: "suConnectionID r \<in> utConnectionID ` set t" using lookup_row_SomeD [OF Some] by force
  then have keys: "utConnectionID ` set t' = insert (suConnectionID r) (utConnectionID ` set t)"
    unfolding t' by (subst keys_put_row) (simp_all add: insert_absorb)
  have "utBytes d ?u = utBytes d u + suBytes d r" for d by (cases d) simp_all
  then have "totalOf d t' c = totalOf d t c + (if c = suConnectionID r then suBytes d r else 0)" for c d
    using Some by (simp add: totalOf_def t' lookup_put_row)
  with keys show ?thesis using assms(2) by (simp add: t')
qed

lemma applyRecord_ok:
  assumes "ledgerOK db" "applyRecord rid inst ms r db = Inr db'"
  shows "ledgerOK db'"
    and "udRecords db' = udRecords db @ [r\<lparr>suRequestID := rid, suNodeInstanceID := inst, suReceivedAtMS := ms\<rparr>]"
proof -
  let ?row = "r\<lparr>suRequestID := rid, suNodeInstanceID := inst, suReceivedAtMS := ms\<rparr>"
  obtain t where t: "addTotal ms r (udTotals db) = Inr t"
    and db': "db' = db\<lparr>udRecords := udRecords db @ [?row], udTotals := t\<rparr>"
    and new: "\<forall>x \<in> set (udRecords db). \<not> (suRequestID x = rid \<and> suConnectionID x = suConnectionID r)"
    and valid: "suConnectionID r \<noteq> []" "0 \<le> suTXBytes r" "0 \<le> suRXBytes r"
    using assms(2) by (auto simp: applyRecord_def Let_def list_ex_iff split: if_splits option.splits)
  show "udRecords db' = udRecords db @ [?row]" by (simp add: db')
  have keyed: "keyed utConnectionID (udTotals db)" using assms(1) by (simp add: ledgerOK_def)
  note tot = addTotal_ok [OF t keyed]
  have "suBytes d ?row = suBytes d r" for d by (cases d) simp_all
  moreover have "keyed suKey (udRecords db @ [?row])"
    using assms(1) new by (auto simp: ledgerOK_def suKey_def)
  ultimately show "ledgerOK db'"
    using assms(1) tot valid unfolding ledgerOK_def db' by auto
qed

lemma applyRecords_ok:
  assumes "ledgerOK db" "foldR (applyRecord rid inst ms) rs db = Inr db'"
  shows "ledgerOK db'"
    and "udRecords db' = udRecords db @
      map (\<lambda>r. r\<lparr>suRequestID := rid, suNodeInstanceID := inst, suReceivedAtMS := ms\<rparr>) rs"
  using assms
proof (induction rs arbitrary: db)
  case (Cons r rs)
  case 1
  then obtain db1 where "applyRecord rid inst ms r db = Inr db1" "foldR (applyRecord rid inst ms) rs db1 = Inr db'"
    by (auto split: sum.splits)
  with Cons.IH [of db1] 1 applyRecord_ok show ?case by blast
next
  case (Cons r rs)
  case 2
  then obtain db1 where "applyRecord rid inst ms r db = Inr db1" "foldR (applyRecord rid inst ms) rs db1 = Inr db'"
    by (auto split: sum.splits)
  with Cons.IH [of db1] 2 applyRecord_ok [of db rid inst ms r db1] show ?case by simp
qed simp_all

lemma ApplyUsageRecords_cases:
  assumes ok: "ledgerOK db" and app: "ApplyUsageRecords rid inst rs now db = (res, db')"
  shows "(\<exists>e. res = Inl e \<and> db' = db) \<or>
    res = Inr (usageTotalsForRequest db rid, True) \<and> db' = db \<and> rid \<in> suRequestID ` set (udRecords db) \<or>
    res = Inr (usageTotalsForRequest db' rid, False) \<and> ledgerOK db' \<and> rs \<noteq> [] \<and>
      rid \<notin> suRequestID ` set (udRecords db) \<and>
      udRecords db' = udRecords db @ map (\<lambda>r. r\<lparr>suRequestID := rid, suNodeInstanceID := inst,
        suReceivedAtMS := time_UnixMilli now\<rparr>) rs"
proof -
  let ?bad = "rid = [] \<or> inst = [] \<or> rs = []"
  consider (bad) ?bad | (noinst) "\<not> ?bad" "nodeOfInstance db inst = None"
    | (nonode) node where "\<not> ?bad" "nodeOfInstance db inst = Some node" "node \<notin> set (udNodes db)"
    | (run) node where "\<not> ?bad" "nodeOfInstance db inst = Some node" "node \<in> set (udNodes db)"
    by (cases "nodeOfInstance db inst") blast+
  then show ?thesis
  proof cases
    case run
    show ?thesis
    proof (cases "find (\<lambda>x. suRequestID x = rid) (udRecords db)")
      case (Some x)
      then have "rid \<in> suRequestID ` set (udRecords db)" by (auto simp: find_Some_iff)
      with run Some app show ?thesis by (cases "suNodeInstanceID x = inst") (auto simp: ApplyUsageRecords_def)
    next
      case None
      then have new: "rid \<notin> suRequestID ` set (udRecords db)" by (auto simp: find_None_iff)
      show ?thesis
      proof (cases "foldR (applyRecord rid inst (time_UnixMilli now)) rs db")
        case (Inl e)
        with run None app show ?thesis by (auto simp: ApplyUsageRecords_def)
      next
        case (Inr db1)
        with run None app have "res = Inr (usageTotalsForRequest db' rid, False)" "db' = db1"
          by (auto simp: ApplyUsageRecords_def)
        with run new applyRecords_ok [OF ok Inr] show ?thesis by simp
      qed
    qed
  qed (use app in \<open>auto simp: ApplyUsageRecords_def\<close>)
qed

subsection \<open>Acknowledgements of a request\<close>

definition appliedIDs :: "UsageDB \<Rightarrow> string set" where
  "appliedIDs db = suRequestID ` set (udRecords db)"

lemma totalsForRequest:
  assumes "ledgerOK db"
  shows "set (usageTotalsForRequest db rid) =
      {t \<in> set (udTotals db). \<exists>r \<in> set (udRecords db). suRequestID r = rid \<and> suConnectionID r = utConnectionID t}"
    and "keyed utConnectionID (usageTotalsForRequest db rid)"
proof -
  let ?P = "\<lambda>(t, r). suConnectionID r = utConnectionID t \<and> suRequestID r = rid"
  let ?ps = "filter ?P (List.product (udTotals db) (udRecords db))"
  show "set (usageTotalsForRequest db rid) =
      {t \<in> set (udTotals db). \<exists>r \<in> set (udRecords db). suRequestID r = rid \<and> suConnectionID r = utConnectionID t}"
    by (force simp: usageTotalsForRequest_def)
  have "distinct (udTotals db)" "distinct (udRecords db)" "inj_on utConnectionID (set (udTotals db))"
    and inj: "inj_on suKey (set (udRecords db))"
    using assms by (auto simp: ledgerOK_def distinct_map)
  then have "distinct ?ps" by (simp add: distinct_product)
  moreover have "inj_on (utConnectionID \<circ> fst) (set ?ps)"
    using \<open>inj_on utConnectionID (set (udTotals db))\<close> inj
    by (auto simp: inj_on_def suKey_def)
  ultimately have "keyed utConnectionID (map fst ?ps)"
    by (simp add: distinct_map)
  then show "keyed utConnectionID (usageTotalsForRequest db rid)"
    unfolding usageTotalsForRequest_def by (rule ssorted_distinct [OF ssorted_sort_key])
qed

definition ackFor :: "UsageDB \<Rightarrow> string \<Rightarrow> UsageAck \<Rightarrow> bool" where
  "ackFor db rid ack \<longleftrightarrow>
     keyed akConnectionID (uaRecords ack) \<and>
     akConnectionID ` set (uaRecords ack) = suConnectionID ` {r \<in> set (udRecords db). suRequestID r = rid} \<and>
     (\<forall>a \<in> set (uaRecords ack). \<forall>r \<in> set (udRecords db). \<forall>d.
        suRequestID r = rid \<and> suConnectionID r = akConnectionID a \<longrightarrow> suBytes d r \<le> akBytes d a)"

lemma ackOfTotal_sel [simp]:
  "akConnectionID (ackOfTotal t) = utConnectionID t" "akBytes d (ackOfTotal t) = utBytes d t"
  by (simp_all add: ackOfTotal_def) (cases d, simp_all)

lemma ackFor_totals:
  assumes "ledgerOK db"
  shows "ackFor db rid \<lparr>uaOk = True, uaRecords = map ackOfTotal (usageTotalsForRequest db rid)\<rparr>"
proof -
  have keyed: "keyed akConnectionID (map ackOfTotal (usageTotalsForRequest db rid))"
    using totalsForRequest(2) [OF assms, of rid] by (simp add: o_def)
  have ids: "utConnectionID ` set (usageTotalsForRequest db rid) =
      suConnectionID ` {r \<in> set (udRecords db). suRequestID r = rid}"
    using assms totalsForRequest(1) [OF assms, of rid] by (force simp: ledgerOK_def image_iff)
  have ge: "suBytes d r \<le> utBytes d t"
    if "t \<in> set (usageTotalsForRequest db rid)" "r \<in> set (udRecords db)" "suConnectionID r = utConnectionID t" for t r d
  proof -
    have "lookup_row utConnectionID (udTotals db) (utConnectionID t) = Some t"
      using that(1) assms totalsForRequest(1) [OF assms, of rid]
      by (auto simp: ledgerOK_def lookup_row_keyed)
    then have "utBytes d t = recordedSum d (suConnectionID r) (udRecords db)"
      using assms that(3) by (metis ledgerOK_def option.simps(5) totalOf_def)
    with recordedSum_ge [of "udRecords db" r d] assms that(2) show ?thesis
      by (auto simp: ledgerOK_def)
  qed
  show ?thesis unfolding ackFor_def using keyed ids ge by (auto simp: image_image)
qed

lemma ackFor_append:
  assumes "ackFor db rid ack" "udRecords db' = udRecords db @ rs" "rid \<notin> suRequestID ` set rs"
  shows "ackFor db' rid ack"
proof -
  have "{r \<in> set (udRecords db'). suRequestID r = rid} = {r \<in> set (udRecords db). suRequestID r = rid}"
    using assms(2,3) by auto
  with assms show ?thesis unfolding ackFor_def by (auto simp: image_iff)
qed

subsection \<open>The handler keeps the ledger and its log\<close>

definition telemetryOK :: "ack_codec \<Rightarrow> TelemetryState \<Rightarrow> bool" where
  "telemetryOK codec st \<longleftrightarrow>
     ledgerOK (tsUsage st) \<and> queueOK (tsTransport st) \<and>
     (\<forall>r \<in> set (inbox (tsTransport st)). rwStatus r = StatusApplied) \<and>
     (\<forall>r \<in> set (inbox (tsTransport st)). \<forall>ack.
        unmarshalAck codec (pmResult (scanProcessed r)) = Some ack \<and> uaOk ack \<longrightarrow>
        rwID r \<in> appliedIDs (tsUsage st) \<and> ackFor (tsUsage st) (rwID r) ack)"

definition codecOK :: "ack_codec \<Rightarrow> bool" where
  "codecOK codec \<longleftrightarrow> (\<forall>a a'. unmarshalAck codec (marshalAck codec a) = Some a' \<longrightarrow> a' = a)"

definition storedOf :: "string \<Rightarrow> TelemetryIdentity \<Rightarrow> UsageBatch \<Rightarrow> UsageRecord \<Rightarrow> StoredUsage" where
  "storedOf rid ident batch r =
     \<lparr>suRequestID = rid, suConnectionID = urConnectionID r, suNodeInstanceID = tiNodeInstanceID ident,
      suFromMS = ubFromMS batch, suToMS = ubToMS batch, suReceivedAtMS = 0, suTXBytes = urTXBytes r,
      suRXBytes = urRXBytes r\<rparr>"

lemma decodeUsageRecords_ok:
  "decodeUsageRecords rid ident batch acc rs = Inr out \<Longrightarrow> out = acc @ map (storedOf rid ident batch) rs"
  by (induction rid ident batch acc rs rule: decodeUsageRecords.induct)
    (auto simp: storedOf_def split: if_splits)

lemma decodeUsage_ok:
  "decodeUsage rid (Some b) ident = Inr rs \<Longrightarrow> rs = map (storedOf rid ident b) (ubRecords b)"
  by (auto simp: decodeUsage_def split: if_splits dest!: decodeUsageRecords_ok)

lemma recorded_log_row:
  assumes "r \<in> set (inbox (RecordProcessed now actor mid ty st res e q))" "queueOK q"
  shows "rwKey r = (actor, mid) \<and> rwStatus r = st \<and> pmResult (scanProcessed r) = res \<or>
    r \<in> set (inbox q) \<and> rwKey r \<noteq> (actor, mid)"
  using assms
  by (auto simp: RecordProcessed_def Let_def set_update_rows scanProcessed_def image_iff split: if_splits)

lemma telemetryOK_append:
  assumes ok: "telemetryOK codec st" and led: "ledgerOK db'"
    and recs: "udRecords db' = udRecords (tsUsage st) @ rs" "rid \<notin> appliedIDs (tsUsage st)"
    and rid: "suRequestID ` set rs = {rid}"
  shows "telemetryOK codec (st\<lparr>tsUsage := db'\<rparr>)"
proof -
  have sub: "appliedIDs (tsUsage st) \<subseteq> appliedIDs db'" by (auto simp: appliedIDs_def recs(1))
  have "ackFor db' i ack" if "ackFor (tsUsage st) i ack" "i \<in> appliedIDs (tsUsage st)" for i ack
    using that recs rid by (intro ackFor_append [OF _ recs(1)]) auto
  with ok led sub show ?thesis unfolding telemetryOK_def by auto
qed

lemma telemetryOK_log:
  assumes ok: "telemetryOK codec st" and codec: "codecOK codec"
    and ack: "ackFor (tsUsage st) rid ack" "rid \<in> appliedIDs (tsUsage st)"
  shows "telemetryOK codec (st\<lparr>tsTransport :=
    RecordProcessed now actor rid ty StatusApplied (marshalAck codec ack) [] (tsTransport st)\<rparr>)"
proof -
  let ?q = "RecordProcessed now actor rid ty StatusApplied (marshalAck codec ack) [] (tsTransport st)"
  have q: "queueOK (tsTransport st)" using ok by (simp add: telemetryOK_def)
  have row: "rwStatus r = StatusApplied \<and> (\<forall>a. unmarshalAck codec (pmResult (scanProcessed r)) = Some a \<and> uaOk a \<longrightarrow>
      rwID r \<in> appliedIDs (tsUsage st) \<and> ackFor (tsUsage st) (rwID r) a)" if "r \<in> set (inbox ?q)" for r
    using recorded_log_row [OF that q]
  proof
    assume new: "rwKey r = (actor, rid) \<and> rwStatus r = StatusApplied \<and> pmResult (scanProcessed r) = marshalAck codec ack"
    then have "a = ack" if "unmarshalAck codec (pmResult (scanProcessed r)) = Some a" for a
      using that codec unfolding codecOK_def by metis
    with new ack show ?thesis by (auto simp: rwKey_def)
  next
    assume "r \<in> set (inbox (tsTransport st)) \<and> rwKey r \<noteq> (actor, rid)"
    with ok show ?thesis unfolding telemetryOK_def by blast
  qed
  have "queueOK ?q" using q by (rule sql_log.inv_record)
  with ok row show ?thesis unfolding telemetryOK_def by auto
qed

lemma find_log_row:
  "IsProcessed actor mid q = Some p \<Longrightarrow> \<exists>r \<in> set (inbox q). rwID r = mid \<and> p = scanProcessed r"
  by (auto simp: IsProcessed_def find_Some_iff rwKey_def)

lemma HandleUsage_cases:
  assumes ok: "telemetryOK codec st" and codec: "codecOK codec"
    and h: "HandleUsage codec allowed ident rid (Some b) now st = (Some ack, st')"
  shows "telemetryOK codec st' \<and>
    (uaOk ack \<longrightarrow> rid \<in> appliedIDs (tsUsage st') \<and> ackFor (tsUsage st') rid ack) \<and>
    (tsUsage st' = tsUsage st \<or>
     rid \<notin> appliedIDs (tsUsage st) \<and> uaOk ack \<and> ubRecords b \<noteq> [] \<and>
     udRecords (tsUsage st') = udRecords (tsUsage st) @ map (\<lambda>r. (storedOf rid ident b r)\<lparr>suRequestID := rid,
        suNodeInstanceID := tiNodeInstanceID ident, suReceivedAtMS := time_UnixMilli now\<rparr>) (ubRecords b))"
proof (cases "Option.bind (IsProcessed (tiNodeID ident) rid (tsTransport st)) (\<lambda>p. unmarshalAck codec (pmResult p))")
  case (Some a)
  then obtain p where p: "IsProcessed (tiNodeID ident) rid (tsTransport st) = Some p"
    "unmarshalAck codec (pmResult p) = Some a" by (auto simp: bind_eq_Some_conv)
  have "st' = st" "a = ack" using h Some by (auto simp: HandleUsage_def split: if_splits)
  moreover have "uaOk a \<longrightarrow> rid \<in> appliedIDs (tsUsage st) \<and> ackFor (tsUsage st) rid a"
    using ok p find_log_row [OF p(1)] unfolding telemetryOK_def by blast
  ultimately show ?thesis using ok by simp
next
  case None
  show ?thesis
  proof (cases "decodeUsage rid (Some b) ident")
    case (Inl e)
    with None h have "st' = st" "ack = rejectedAck" by (auto simp: HandleUsage_def split: if_splits)
    with ok show ?thesis by (simp add: rejectedAck_def)
  next
    case (Inr rs)
    let ?db = "tsUsage st"
    have led: "ledgerOK ?db" using ok by (simp add: telemetryOK_def)
    obtain res db' where app: "ApplyUsageRecords rid (tiNodeInstanceID ident) rs now ?db = (res, db')"
      by (cases "ApplyUsageRecords rid (tiNodeInstanceID ident) rs now ?db") auto
    have rs: "rs = map (storedOf rid ident b) (ubRecords b)" using decodeUsage_ok [OF Inr] .
    show ?thesis
    proof (cases res)
      case (Inl e)
      with None Inr app h have "st' = st\<lparr>tsUsage := db'\<rparr>" "ack = rejectedAck"
        by (auto simp: HandleUsage_def split: if_splits)
      moreover have "db' = ?db" using ApplyUsageRecords_cases [OF led app] Inl by auto
      ultimately show ?thesis using ok by (simp add: rejectedAck_def)
    next
      case (Inr tb)
      obtain totals dup where tb: "tb = (totals, dup)" by (cases tb)
      let ?ack = "\<lparr>uaOk = True, uaRecords = map ackOfTotal totals\<rparr>"
      have st': "ack = ?ack" "st' = st\<lparr>tsUsage := db'\<rparr>\<lparr>tsTransport := RecordProcessed now (tiNodeID ident) rid
          ''traffic_batch'' StatusApplied (marshalAck codec ?ack) [] (tsTransport (st\<lparr>tsUsage := db'\<rparr>))\<rparr>"
        using None \<open>decodeUsage rid (Some b) ident = Inr rs\<close> app h Inr tb
        by (auto simp: HandleUsage_def Let_def split: if_splits)
      have new: "totals = usageTotalsForRequest db' rid \<and> ledgerOK db' \<and> rid \<in> appliedIDs db' \<and>
          telemetryOK codec (st\<lparr>tsUsage := db'\<rparr>) \<and>
          (db' = ?db \<or> rid \<notin> appliedIDs ?db \<and> ubRecords b \<noteq> [] \<and> udRecords db' = udRecords ?db @
            map (\<lambda>r. (storedOf rid ident b r)\<lparr>suRequestID := rid,
              suNodeInstanceID := tiNodeInstanceID ident, suReceivedAtMS := time_UnixMilli now\<rparr>) (ubRecords b))"
      proof -
        consider (dup) "db' = ?db" "rid \<in> appliedIDs ?db" "totals = usageTotalsForRequest ?db rid"
          | (new) "totals = usageTotalsForRequest db' rid" "ledgerOK db'" "ubRecords b \<noteq> []" "rid \<notin> appliedIDs ?db"
            "udRecords db' = udRecords ?db @ map (\<lambda>r. (storedOf rid ident b r)\<lparr>suRequestID := rid,
               suNodeInstanceID := tiNodeInstanceID ident, suReceivedAtMS := time_UnixMilli now\<rparr>) (ubRecords b)"
          using ApplyUsageRecords_cases [OF led app] Inr tb rs by (auto simp: appliedIDs_def o_def)
        then show ?thesis
        proof cases
          case dup
          then show ?thesis using ok led by simp
        next
          case new
          have "telemetryOK codec (st\<lparr>tsUsage := db'\<rparr>)"
            using new(3) by (intro telemetryOK_append [OF ok new(2) new(5) new(4)]) (simp add: image_image image_constant_conv)
          then show ?thesis using new by (auto simp: appliedIDs_def neq_Nil_conv)
        qed
      qed
      then have ackfor: "ackFor db' rid ?ack" using ackFor_totals [of db' rid] by simp
      have "telemetryOK codec st'"
        unfolding st'(2) using new ackfor by (intro telemetryOK_log [OF _ codec]) simp_all
      then show ?thesis using st' new ackfor by simp
    qed
  qed
qed

end
