(* ===== verification/Accounting.thy ===== *)
theory Accounting
  imports Usage
begin

text \<open>
  End-to-end traffic accounting: the agent's traffic table (\<open>Agent_Store\<close>), the server's ledger
  (\<open>Usage\<close>) and the network between them as one transition system. A prepared report may be delivered
  at any time and any number of times, an acknowledgement may be processed late or repeatedly, and the
  server may clean up its log of processed messages at any moment. The ghost components \<open>acLast\<close> and
  \<open>acObserved\<close> hold, for every connection and direction, the last counter reading and the volume the
  readings amount to.
\<close>

section \<open>Directions\<close>

fun urBytes :: "dir \<Rightarrow> UsageRecord \<Rightarrow> int" where
  "urBytes RX r = urRXBytes r" | "urBytes TX r = urTXBytes r"

fun obsD :: "dir \<Rightarrow> ConnectionTrafficState \<Rightarrow> int" where
  "obsD RX r = ctObservedRX r" | "obsD TX r = ctObservedTX r"

fun unackD :: "dir \<Rightarrow> ConnectionTrafficState \<Rightarrow> int" where
  "unackD RX r = ctUnacknowledgedRX r" | "unackD TX r = ctUnacknowledgedTX r"

fun sentD :: "dir \<Rightarrow> ConnectionTrafficState \<Rightarrow> int" where
  "sentD RX r = ctSentRX r" | "sentD TX r = ctSentTX r"

lemma observedRow_sel [simp]:
  "obsD d (observedRow rec x) = urBytes d rec"
  "unackD d (observedRow rec x) = unackD d x + cumulativeDelta (urBytes d rec) (obsD d x)"
  "sentD d (observedRow rec x) = sentD d x"
  "ctRequestID (observedRow rec x) = ctRequestID x"
  "sentOf (observedRow rec x) = sentOf x"
  by (cases d; simp add: observedRow_def sentOf_def)+

lemma markRow_sel [simp]:
  "obsD d (markRow rid x) = obsD d x" "unackD d (markRow rid x) = unackD d x"
  "sentD d (markRow rid x) = unackD d x" "ctRequestID (markRow rid x) = Some rid"
  "sentOf (markRow rid x) = usageOf x"
  by (cases d; simp add: markRow_def sentOf_def usageOf_def)+

lemma ackedRow_sel [simp]:
  "obsD d (ackedRow as x) = obsD d x" "unackD d (ackedRow as x) = unackD d x - sentD d x"
  "sentD d (ackedRow as x) = 0" "ctRequestID (ackedRow as x) = None"
  by (cases d; simp add: ackedRow_def ackRow_def)+

lemma fresh_sel [simp]:
  "obsD d (freshTraffic c) = 0" "unackD d (freshTraffic c) = 0" "sentD d (freshTraffic c) = 0"
  "ctRequestID (freshTraffic c) = None"
  by (cases d; simp add: freshTraffic_def)+

lemma urBytes_sentOf [simp]: "urBytes d (sentOf x) = sentD d x"
  by (cases d) (simp_all add: sentOf_def)

section \<open>The system\<close>

record Acct =
  acAgent :: AgentDB
  acServer :: TelemetryState
  acLast :: "dir \<Rightarrow> string \<Rightarrow> int"
  acObserved :: "dir \<Rightarrow> string \<Rightarrow> int"
  acNet :: "UsageBatch list"
  acAcks :: "(string \<times> UsageAck) list"

text \<open>What one counter reading adds to the observed volume, stated on the readings alone.\<close>

fun observeGhost ::
  "UsageRecord \<Rightarrow> (dir \<Rightarrow> string \<Rightarrow> int) \<times> (dir \<Rightarrow> string \<Rightarrow> int) \<Rightarrow>
   (dir \<Rightarrow> string \<Rightarrow> int) \<times> (dir \<Rightarrow> string \<Rightarrow> int)" where
  "observeGhost rec (last_reading, volume) =
     (\<lambda>d c. if c = urConnectionID rec then urBytes d rec else last_reading d c,
      \<lambda>d c. if c = urConnectionID rec
            then volume d c + cumulativeDelta (urBytes d rec) (last_reading d c) else volume d c)"

text \<open>
  The steps: one agent with a fixed identity and one server; reports and answers may be lost, repeated and reordered. An
  answer with \<open>Ok = false\<close> has no effect on the agent (\<open>usageQueue.Ack\<close> returns an error before it reaches the store).
\<close>

inductive acct_step :: "ack_codec \<Rightarrow> TelemetryIdentity \<Rightarrow> Acct \<Rightarrow> Acct \<Rightarrow> bool" for codec ident where
  observe:
    "ObserveTraffic recs (acAgent s) = (Inr (), a') \<Longrightarrow>
     fold observeGhost recs (acLast s, acObserved s) = (l', v') \<Longrightarrow>
     acct_step codec ident s (s\<lparr>acAgent := a', acLast := l', acObserved := v'\<rparr>)"
| prepare:
    "PrepareUsageRequest rid (tiNodeID ident) limit (acAgent s) = (Inr (Some b), a') \<Longrightarrow>
     rid \<notin> ubRequestID ` set (acNet s) \<Longrightarrow> rid \<notin> appliedIDs (tsUsage (acServer s)) \<Longrightarrow>
     acct_step codec ident s (s\<lparr>acAgent := a', acNet := b # acNet s\<rparr>)"
| deliver:
    "b \<in> set (acNet s) \<Longrightarrow>
     HandleUsage codec allowed ident (ubRequestID b)
       (Some (b\<lparr>ubFromMS := f, ubToMS := t, ubCreatedMS := c\<rparr>)) now (acServer s) = (Some ack, srv) \<Longrightarrow>
     acct_step codec ident s
       (s\<lparr>acServer := srv, acAcks := (if uaOk ack then [(ubRequestID b, ack)] else []) @ acAcks s\<rparr>)"
| acknowledge:
    "(rid, ack) \<in> set (acAcks s) \<Longrightarrow>
     AcknowledgeUsage rid (uaRecords ack) (acAgent s) = (Inr (), a') \<Longrightarrow>
     acct_step codec ident s (s\<lparr>acAgent := a'\<rparr>)"
| server_cleanup:
    "acct_step codec ident s
       (s\<lparr>acServer := (acServer s)\<lparr>tsTransport := Cleanup now policy (tsTransport (acServer s))\<rparr>\<rparr>)"

abbreviation rowOf :: "Acct \<Rightarrow> string \<Rightarrow> ConnectionTrafficState" where
  "rowOf s c \<equiv> trafficOf (traffic (acAgent s)) c"

abbreviation applied :: "Acct \<Rightarrow> string set" where
  "applied s \<equiv> appliedIDs (tsUsage (acServer s))"

text \<open>The volume of a connection the server has not accounted yet.\<close>

definition outstandingOf :: "dir \<Rightarrow> string set \<Rightarrow> ConnectionTrafficState \<Rightarrow> int" where
  "outstandingOf d acc r =
     unackD d r - (case ctRequestID r of None \<Rightarrow> 0 | Some rid \<Rightarrow> if rid \<in> acc then sentD d r else 0)"

definition outstanding :: "dir \<Rightarrow> Acct \<Rightarrow> string \<Rightarrow> int" where
  "outstanding d s c = outstandingOf d (applied s) (rowOf s c)"

definition serverTotal :: "dir \<Rightarrow> Acct \<Rightarrow> string \<Rightarrow> int" where
  "serverTotal d s c = totalOf d (udTotals (tsUsage (acServer s))) c"

text \<open>What a batch in the network and the rows of its request have to do with each other.\<close>

definition netOK :: "(string \<Rightarrow> ConnectionTrafficState) \<Rightarrow> UsageDB \<Rightarrow> UsageBatch list \<Rightarrow> bool" where
  "netOK row db net \<longleftrightarrow>
     keyed ubRequestID net \<and>
     (\<forall>b \<in> set net. ubRequestID b \<notin> appliedIDs db \<or> (\<exists>c. ctRequestID (row c) = Some (ubRequestID b)) \<longrightarrow>
        (\<forall>r. r \<in> set (ubRecords b) \<longleftrightarrow> (\<exists>c. ctRequestID (row c) = Some (ubRequestID b) \<and> r = sentOf (row c)))) \<and>
     (\<forall>b \<in> set net. keyed urConnectionID (ubRecords b)) \<and>
     (\<forall>c rid. ctRequestID (row c) = Some rid \<longrightarrow>
        (\<exists>b \<in> set net. ubRequestID b = rid \<and> sentOf (row c) \<in> set (ubRecords b))) \<and>
     (\<forall>b \<in> set net. ubRequestID b \<in> appliedIDs db \<longrightarrow>
        (\<lambda>r. (suConnectionID r, suTXBytes r, suRXBytes r)) ` {r \<in> set (udRecords db). suRequestID r = ubRequestID b} =
        (\<lambda>r. (urConnectionID r, urTXBytes r, urRXBytes r)) ` set (ubRecords b))"

lemma netOK_D:
  assumes "netOK row db net"
  shows "keyed ubRequestID net"
    and "b \<in> set net \<Longrightarrow> ubRequestID b \<notin> appliedIDs db \<or> ctRequestID (row c0) = Some (ubRequestID b) \<Longrightarrow>
      r \<in> set (ubRecords b) \<longleftrightarrow> (\<exists>c. ctRequestID (row c) = Some (ubRequestID b) \<and> r = sentOf (row c))"
    and "b \<in> set net \<Longrightarrow> keyed urConnectionID (ubRecords b)"
    and "ctRequestID (row c) = Some rid \<Longrightarrow>
      \<exists>b \<in> set net. ubRequestID b = rid \<and> sentOf (row c) \<in> set (ubRecords b)"
    and "b \<in> set net \<Longrightarrow> ubRequestID b \<in> appliedIDs db \<Longrightarrow>
      (\<lambda>r. (suConnectionID r, suTXBytes r, suRXBytes r)) ` {r \<in> set (udRecords db). suRequestID r = ubRequestID b} =
      (\<lambda>r. (urConnectionID r, urTXBytes r, urRXBytes r)) ` set (ubRecords b)"
  using assms unfolding netOK_def by blast+

lemma netOK_I:
  assumes "keyed ubRequestID net"
    and "\<And>b c0 r. b \<in> set net \<Longrightarrow> ubRequestID b \<notin> appliedIDs db \<or> ctRequestID (row c0) = Some (ubRequestID b) \<Longrightarrow>
      r \<in> set (ubRecords b) \<longleftrightarrow> (\<exists>c. ctRequestID (row c) = Some (ubRequestID b) \<and> r = sentOf (row c))"
    and "\<And>b. b \<in> set net \<Longrightarrow> keyed urConnectionID (ubRecords b)"
    and "\<And>c rid. ctRequestID (row c) = Some rid \<Longrightarrow>
      \<exists>b \<in> set net. ubRequestID b = rid \<and> sentOf (row c) \<in> set (ubRecords b)"
    and "\<And>b. b \<in> set net \<Longrightarrow> ubRequestID b \<in> appliedIDs db \<Longrightarrow>
      (\<lambda>r. (suConnectionID r, suTXBytes r, suRXBytes r)) ` {r \<in> set (udRecords db). suRequestID r = ubRequestID b} =
      (\<lambda>r. (urConnectionID r, urTXBytes r, urRXBytes r)) ` set (ubRecords b)"
  shows "netOK row db net"
  unfolding netOK_def using assms by (intro conjI ballI allI impI) (blast+)

definition acctOK :: "ack_codec \<Rightarrow> Acct \<Rightarrow> bool" where
  "acctOK codec s \<longleftrightarrow>
     trafficOK (traffic (acAgent s)) \<and> telemetryOK codec (acServer s) \<and>
     (\<forall>d c. acLast s d c = obsD d (rowOf s c)) \<and>
     netOK (rowOf s) (tsUsage (acServer s)) (acNet s) \<and>
     (\<forall>(rid, ack) \<in> set (acAcks s). rid \<in> applied s \<and> ackFor (tsUsage (acServer s)) rid ack) \<and>
     (\<forall>d c. serverTotal d s c + outstanding d s c = acObserved s d c)"

section \<open>Preservation\<close>

subsection \<open>Observing\<close>

lemma observe_fold:
  assumes "foldR observeRecord recs t = Inr t'" "trafficOK t"
    and "fold observeGhost recs (l, v) = (l', v')" "\<forall>d c. l d c = obsD d (trafficOf t c)"
  shows "trafficOK t' \<and> (\<forall>d c. l' d c = obsD d (trafficOf t' c)) \<and>
    (\<forall>d c. v' d c - v d c = unackD d (trafficOf t' c) - unackD d (trafficOf t c)) \<and>
    (\<forall>d c. sentD d (trafficOf t' c) = sentD d (trafficOf t c)) \<and>
    (\<forall>c. ctRequestID (trafficOf t' c) = ctRequestID (trafficOf t c) \<and> sentOf (trafficOf t' c) = sentOf (trafficOf t c))"
  using assms
proof (induction recs arbitrary: t l v)
  case Nil
  then show ?case by auto
next
  case (Cons rec recs)
  obtain t1 where t1: "observeRecord rec t = Inr t1" "foldR observeRecord recs t1 = Inr t'"
    using Cons.prems(1) by (auto split: sum.splits)
  obtain l1 v1 where g: "observeGhost rec (l, v) = (l1, v1)" by (cases "observeGhost rec (l, v)")
  note row = observeRecord_ok [OF Cons.prems(2) t1(1)]
  have l1: "\<forall>d c. l1 d c = obsD d (trafficOf t1 c)"
    using g Cons.prems(4) row(2) by auto
  have v1: "\<forall>d c. v1 d c - v d c = unackD d (trafficOf t1 c) - unackD d (trafficOf t c)"
    using g Cons.prems(4) row(2) by auto
  have same: "\<forall>d c. sentD d (trafficOf t1 c) = sentD d (trafficOf t c)"
    "\<forall>c. ctRequestID (trafficOf t1 c) = ctRequestID (trafficOf t c) \<and> sentOf (trafficOf t1 c) = sentOf (trafficOf t c)"
    using row(2) by auto
  have "fold observeGhost recs (l1, v1) = (l', v')" using Cons.prems(3) g by simp
  note ih = Cons.IH [OF t1(2) row(1) this l1]
  have "v' d c - v d c = unackD d (trafficOf t' c) - unackD d (trafficOf t c)" for d c
  proof -
    have "v' d c - v1 d c = unackD d (trafficOf t' c) - unackD d (trafficOf t1 c)" using ih by blast
    with v1 [rule_format, of d c] show ?thesis by linarith
  qed
  with ih same show ?case by simp
qed

lemma acctOK_observe:
  assumes ok: "acctOK codec s" and o: "ObserveTraffic recs (acAgent s) = (Inr (), a')"
    and g: "fold observeGhost recs (acLast s, acObserved s) = (l', v')"
  shows "acctOK codec (s\<lparr>acAgent := a', acLast := l', acObserved := v'\<rparr>)"
proof -
  obtain t' where t': "foldR observeRecord recs (traffic (acAgent s)) = Inr t'" "a' = (acAgent s)\<lparr>traffic := t'\<rparr>"
    using o by (auto simp: ObserveTraffic_def split: sum.splits)
  have f: "trafficOK t' \<and> (\<forall>d c. l' d c = obsD d (trafficOf t' c)) \<and>
    (\<forall>d c. v' d c - acObserved s d c = unackD d (trafficOf t' c) - unackD d (rowOf s c)) \<and>
    (\<forall>d c. sentD d (trafficOf t' c) = sentD d (rowOf s c)) \<and>
    (\<forall>c. ctRequestID (trafficOf t' c) = ctRequestID (rowOf s c) \<and> sentOf (trafficOf t' c) = sentOf (rowOf s c))"
    using ok by (intro observe_fold [OF t'(1) _ g]) (auto simp: acctOK_def)
  have diff: "outstandingOf d D (trafficOf t' c) - outstandingOf d D (rowOf s c) = v' d c - acObserved s d c" for d c D
    using f by (simp add: outstandingOf_def split: option.split)
  have "serverTotal d s c + outstandingOf d (applied s) (trafficOf t' c) = v' d c" for d c
  proof -
    have "serverTotal d s c + outstandingOf d (applied s) (rowOf s c) = acObserved s d c"
      using ok by (simp add: acctOK_def outstanding_def)
    with diff [of d "applied s" c] show ?thesis by linarith
  qed
  moreover have "netOK (trafficOf t') (tsUsage (acServer s)) (acNet s)"
    using ok f unfolding acctOK_def netOK_def by simp
  ultimately show ?thesis
    using ok f unfolding acctOK_def by (simp add: t'(2) serverTotal_def outstanding_def)
qed

subsection \<open>Preparing\<close>

lemma trafficOf_mark:
  assumes "sel \<subseteq> {x. pendingTraffic x}"
  shows "trafficOf (update_rows (\<lambda>x. x \<in> sel) (markRow rid) t) c =
    (if trafficOf t c \<in> sel then markRow rid (trafficOf t c) else trafficOf t c)"
  using assms by (subst trafficOf_update_rows) (auto simp: pendingTraffic_def freshTraffic_def)

lemma acctOK_prepare:
  assumes ok: "acctOK codec s"
    and p: "PrepareUsageRequest rid node limit (acAgent s) = (Inr (Some b), a')"
    and fresh: "rid \<notin> ubRequestID ` set (acNet s)" "rid \<notin> applied s"
  shows "acctOK codec (s\<lparr>acAgent := a', acNet := b # acNet s\<rparr>)"
proof -
  let ?t = "traffic (acAgent s)" and ?db = "tsUsage (acServer s)"
  let ?sel = "preparedRows limit ?t"
  let ?t' = "update_rows (\<lambda>x. x \<in> set ?sel) (markRow rid) ?t"
  have tok: "trafficOK ?t" using ok by (simp add: acctOK_def)
  have rid: "rid \<noteq> []" using p by (auto simp: PrepareUsageRequest_def)
  have b: "b = emptyBatch rid node (map usageOf ?sel)" "a' = (acAgent s)\<lparr>traffic := ?t'\<rparr>"
    using p PrepareUsageRequest_eq [OF tok rid, of node limit] by (auto split: if_splits)
  have pend: "set ?sel \<subseteq> {x. pendingTraffic x}" and in_t: "set ?sel \<subseteq> set ?t"
    using set_preparedRows by blast+
  have row: "trafficOf ?t' c = (if rowOf s c \<in> set ?sel then markRow rid (rowOf s c) else rowOf s c)" for c
    by (rule trafficOf_mark [OF pend])
  have none: "ctRequestID (rowOf s c) \<noteq> Some rid" for c
    using ok fresh(1) netOK_D(4) [of "rowOf s" ?db "acNet s" c rid] by (auto simp: acctOK_def)
  have selc: "rowOf s c \<in> set ?sel \<Longrightarrow> ctRequestID (rowOf s c) = None" for c
    using pend by (auto simp: pendingTraffic_def)
  have recs: "r \<in> set (map usageOf ?sel) \<longleftrightarrow> (\<exists>c. ctRequestID (trafficOf ?t' c) = Some rid \<and> r = sentOf (trafficOf ?t' c))" for r
  proof
    assume "r \<in> set (map usageOf ?sel)"
    then obtain x where x: "x \<in> set ?sel" "r = usageOf x" by auto
    then have "rowOf s (ctConnectionID x) = x" using in_t trafficOf_in [OF tok] by blast
    with x show "\<exists>c. ctRequestID (trafficOf ?t' c) = Some rid \<and> r = sentOf (trafficOf ?t' c)"
      by (intro exI [of _ "ctConnectionID x"]) (simp add: row)
  next
    assume "\<exists>c. ctRequestID (trafficOf ?t' c) = Some rid \<and> r = sentOf (trafficOf ?t' c)"
    with none show "r \<in> set (map usageOf ?sel)" by (auto simp: row split: if_splits)
  qed
  have out: "outstandingOf d (applied s) (trafficOf ?t' c) = outstandingOf d (applied s) (rowOf s c)" for d c
    using selc [of c] fresh(2) by (simp add: row outstandingOf_def)
  have keys: "keyed urConnectionID (map usageOf ?sel)"
    using keyed_preparedRows [of ?t limit] tok by (simp add: trafficOK_def o_def)
  have "netOK (trafficOf ?t') ?db (b # acNet s)"
  proof -
    have net: "netOK (rowOf s) ?db (acNet s)" using ok by (simp add: acctOK_def)
    have other: "(ctRequestID (trafficOf ?t' c) = Some i \<and> r = sentOf (trafficOf ?t' c)) \<longleftrightarrow>
        (ctRequestID (rowOf s c) = Some i \<and> r = sentOf (rowOf s c))" if "i \<noteq> rid" for c i r
      using that selc [of c] by (simp add: row)
    have req: "ctRequestID (trafficOf ?t' c) = Some i \<longleftrightarrow> ctRequestID (rowOf s c) = Some i" if "i \<noteq> rid" for c i
      using that selc [of c] by (simp add: row)
    have n4: "\<exists>b' \<in> set (b # acNet s). ubRequestID b' = i \<and> sentOf (trafficOf ?t' c) \<in> set (ubRecords b')"
      if ci: "ctRequestID (trafficOf ?t' c) = Some i" for c i
    proof (cases "i = rid")
      case True
      have "sentOf (trafficOf ?t' c) \<in> set (map usageOf ?sel)" using ci True recs by blast
      with True show ?thesis by (intro bexI [of _ b]) (simp_all add: b(1) emptyBatch_def)
    next
      case False
      with ci other [of i c "sentOf (trafficOf ?t' c)"] netOK_D(4) [OF net, of c i] show ?thesis by auto
    qed
    have n2: "r \<in> set (ubRecords b') \<longleftrightarrow>
        (\<exists>c. ctRequestID (trafficOf ?t' c) = Some (ubRequestID b') \<and> r = sentOf (trafficOf ?t' c))"
      if b': "b' \<in> set (b # acNet s)"
        and c0: "ubRequestID b' \<notin> appliedIDs ?db \<or> ctRequestID (trafficOf ?t' c0) = Some (ubRequestID b')" for b' c0 r
    proof (cases "b' = b")
      case True
      then show ?thesis using recs [of r] by (simp add: b(1) emptyBatch_def)
    next
      case False
      with b' have in_net: "b' \<in> set (acNet s)" by simp
      with fresh(1) have ne: "ubRequestID b' \<noteq> rid" by auto
      have "ubRequestID b' \<notin> appliedIDs ?db \<or> ctRequestID (rowOf s c0) = Some (ubRequestID b')"
        using c0 req [OF ne, of c0] by blast
      from netOK_D(2) [OF net in_net this, of r] other [OF ne, of _ r] show ?thesis by simp
    qed
    have rb: "ubRequestID b = rid" "ubRecords b = map usageOf ?sel" by (simp_all add: b(1) emptyBatch_def)
    show ?thesis
    proof (rule netOK_I [OF _ n2 _ n4])
      show "keyed ubRequestID (b # acNet s)" using netOK_D(1) [OF net] fresh(1) by (simp add: rb)
      show "keyed urConnectionID (ubRecords b')" if "b' \<in> set (b # acNet s)" for b'
        using that keys netOK_D(3) [OF net, of b'] by (cases "b' = b") (simp_all add: rb)
      show "(\<lambda>r. (suConnectionID r, suTXBytes r, suRXBytes r)) ` {r \<in> set (udRecords ?db). suRequestID r = ubRequestID b'} =
          (\<lambda>r. (urConnectionID r, urTXBytes r, urRXBytes r)) ` set (ubRecords b')"
        if "b' \<in> set (b # acNet s)" "ubRequestID b' \<in> appliedIDs ?db" for b'
        using that fresh(2) netOK_D(5) [OF net, of b'] by (cases "b' = b") (simp_all add: rb)
    qed
  qed
  with ok out trafficOK_mark [OF tok] show ?thesis
    unfolding acctOK_def by (simp add: b(2) serverTotal_def outstanding_def row)
qed

subsection \<open>Delivering\<close>

lemma trafficOf_ack:
  "trafficOf (update_rows (\<lambda>x. ctRequestID x = Some rid) (ackedRow as) t) c =
   (if ctRequestID (trafficOf t c) = Some rid then ackedRow as (trafficOf t c) else trafficOf t c)"
  by (subst trafficOf_update_rows) auto

lemma suBytes_stored [simp]:
  "suBytes d ((storedOf rid ident b r)\<lparr>suRequestID := i, suNodeInstanceID := n, suReceivedAtMS := ms\<rparr>) = urBytes d r"
  "suConnectionID (storedOf rid ident b r) = urConnectionID r"
  "suRequestID (storedOf rid ident b r) = rid"
  "suTXBytes (storedOf rid ident b r) = urTXBytes r" "suRXBytes (storedOf rid ident b r) = urRXBytes r"
  by (cases d; simp add: storedOf_def)+

lemma recordedSum_batch:
  assumes "keyed urConnectionID rs"
  shows "recordedSum d c (old @ map (\<lambda>r. (storedOf rid ident b r)\<lparr>suRequestID := i, suNodeInstanceID := n,
      suReceivedAtMS := ms\<rparr>) rs) =
    recordedSum d c old + (case lookup_row urConnectionID rs c of None \<Rightarrow> 0 | Some r \<Rightarrow> urBytes d r)"
proof -
  let ?f = "\<lambda>r. (storedOf rid ident b r)\<lparr>suRequestID := i, suNodeInstanceID := n, suReceivedAtMS := ms\<rparr>"
  have "sum_list (map (suBytes d) (filter (\<lambda>r. suConnectionID r = c) (map ?f rs))) =
      (case lookup_row urConnectionID rs c of None \<Rightarrow> 0 | Some r \<Rightarrow> urBytes d r)"
    using assms
  proof (induction rs)
    case (Cons r rs)
    have "lookup_row urConnectionID rs c = None" if "urConnectionID r = c"
      using Cons.prems that by (auto simp: lookup_row_None_iff)
    with Cons show ?case by (simp add: lookup_row_Cons)
  qed simp
  then show ?thesis by (simp add: recordedSum_def)
qed

lemma acctOK_deliver:
  assumes ok: "acctOK codec s" and codec: "codecOK codec" and b: "b \<in> set (acNet s)"
    and h: "HandleUsage codec allowed ident (ubRequestID b)
      (Some (b\<lparr>ubFromMS := f, ubToMS := t, ubCreatedMS := c\<rparr>)) now (acServer s) = (Some ack, srv)"
  shows "acctOK codec
    (s\<lparr>acServer := srv, acAcks := (if uaOk ack then [(ubRequestID b, ack)] else []) @ acAcks s\<rparr>)"
proof -
  let ?b = "b\<lparr>ubFromMS := f, ubToMS := t, ubCreatedMS := c\<rparr>"
  let ?rid = "ubRequestID b" and ?db = "tsUsage (acServer s)" and ?db' = "tsUsage srv"
  let ?recs = "map (\<lambda>r. (storedOf ?rid ident ?b r)\<lparr>suRequestID := ?rid, suNodeInstanceID := tiNodeInstanceID ident,
    suReceivedAtMS := time_UnixMilli now\<rparr>) (ubRecords b)"
  have tel: "telemetryOK codec (acServer s)" and net: "netOK (rowOf s) ?db (acNet s)"
    and sum: "\<And>d c. serverTotal d s c + outstanding d s c = acObserved s d c"
    using ok by (auto simp: acctOK_def)
  note hc = HandleUsage_cases [OF tel codec h]
  have tel': "telemetryOK codec srv" and ack': "uaOk ack \<Longrightarrow> ?rid \<in> appliedIDs ?db' \<and> ackFor ?db' ?rid ack"
    using hc by auto
  consider (same) "?db' = ?db" | (new) "?rid \<notin> appliedIDs ?db" "ubRecords b \<noteq> []"
    "udRecords ?db' = udRecords ?db @ ?recs" using hc by auto
  then show ?thesis
  proof cases
    case same
    then show ?thesis using ok tel' ack' unfolding acctOK_def by (auto simp: serverTotal_def outstanding_def)
  next
    case new
    have app: "appliedIDs ?db' = insert ?rid (appliedIDs ?db)"
      using new(2) by (simp add: appliedIDs_def new(3) image_Un image_image image_constant_conv)
    have brecs: "r \<in> set (ubRecords b) \<longleftrightarrow> (\<exists>c. ctRequestID (rowOf s c) = Some ?rid \<and> r = sentOf (rowOf s c))" for r
      using netOK_D(2) [OF net b] new(1) by blast
    have keys: "keyed urConnectionID (ubRecords b)" using netOK_D(3) [OF net b] .
    have look: "lookup_row urConnectionID (ubRecords b) c =
        (if ctRequestID (rowOf s c) = Some ?rid then Some (sentOf (rowOf s c)) else None)" for c
    proof (cases "ctRequestID (rowOf s c) = Some ?rid")
      case True
      with brecs have "sentOf (rowOf s c) \<in> set (ubRecords b)" by blast
      with True keys show ?thesis by (simp add: lookup_row_keyed)
    next
      case False
      then have "c \<notin> urConnectionID ` set (ubRecords b)" using brecs by (auto simp: image_iff)
      with False show ?thesis by (simp add: lookup_row_None_iff)
    qed
    have led: "ledgerOK ?db" "ledgerOK ?db'" using tel tel' by (auto simp: telemetryOK_def)
    have tot: "totalOf d (udTotals ?db') c + outstandingOf d (appliedIDs ?db') (rowOf s c) = acObserved s d c" for d c
    proof -
      have t1: "totalOf d (udTotals ?db') c = recordedSum d c (udRecords ?db @ ?recs)"
        using led(2) new(3) unfolding ledgerOK_def by metis
      have t2: "totalOf d (udTotals ?db) c = recordedSum d c (udRecords ?db)"
        using led(1) unfolding ledgerOK_def by blast
      have "totalOf d (udTotals ?db') c = totalOf d (udTotals ?db) c +
          (if ctRequestID (rowOf s c) = Some ?rid then sentD d (rowOf s c) else 0)"
        using recordedSum_batch [OF keys, where d = d and c = c and old = "udRecords ?db" and rid = ?rid and
            ident = ident and b = ?b and i = ?rid and n = "tiNodeInstanceID ident" and ms = "time_UnixMilli now"]
          t1 t2 look [of c] by simp
      moreover have "outstandingOf d (appliedIDs ?db') (rowOf s c) = outstandingOf d (appliedIDs ?db) (rowOf s c) -
          (if ctRequestID (rowOf s c) = Some ?rid then sentD d (rowOf s c) else 0)"
        using new(1) by (auto simp: outstandingOf_def app split: option.split)
      ultimately show ?thesis using sum [of d c] by (simp add: serverTotal_def outstanding_def)
    qed
    have "netOK (rowOf s) ?db' (acNet s)"
    proof -
      have "(\<lambda>r. (suConnectionID r, suTXBytes r, suRXBytes r)) ` {r \<in> set (udRecords ?db'). suRequestID r = ubRequestID b'} =
          (\<lambda>r. (urConnectionID r, urTXBytes r, urRXBytes r)) ` set (ubRecords b')"
        if b': "b' \<in> set (acNet s)" "ubRequestID b' \<in> appliedIDs ?db'" for b'
      proof (cases "ubRequestID b' = ?rid")
        case True
        then have "b' = b" using netOK_D(1) [OF net] b b' by (auto simp: distinct_map inj_on_def)
        moreover have "{r \<in> set (udRecords ?db'). suRequestID r = ?rid} = set ?recs"
          using new(1) unfolding new(3) by (auto simp: appliedIDs_def image_iff)
        ultimately show ?thesis by (simp add: image_image)
      next
        case False
        then have "{r \<in> set (udRecords ?db'). suRequestID r = ubRequestID b'} =
            {r \<in> set (udRecords ?db). suRequestID r = ubRequestID b'}"
          unfolding new(3) by auto
        with False b' app netOK_D(5) [OF net b'(1)] show ?thesis by auto
      qed
      moreover have "r \<in> set (ubRecords b') \<longleftrightarrow> (\<exists>c. ctRequestID (rowOf s c) = Some (ubRequestID b') \<and> r = sentOf (rowOf s c))"
        if "b' \<in> set (acNet s)" "ubRequestID b' \<notin> appliedIDs ?db' \<or> ctRequestID (rowOf s c0) = Some (ubRequestID b')" for b' c0 r
        using netOK_D(2) [OF net that(1), of c0 r] that(2) by (auto simp: app)
      ultimately show ?thesis
        by (intro netOK_I) (simp_all add: netOK_D [OF net])
    qed
    moreover have "ackFor ?db' i a" if "ackFor ?db i a" "i \<in> appliedIDs ?db" for i a
      using that new(1) by (intro ackFor_append [OF that(1) new(3)]) auto
    ultimately show ?thesis
      using ok tel' ack' tot app unfolding acctOK_def
      by (auto simp: serverTotal_def outstanding_def)
  qed
qed

subsection \<open>Acknowledging and cleaning up\<close>

lemma acctOK_acknowledge:
  assumes ok: "acctOK codec s" and ack: "(rid, ack) \<in> set (acAcks s)"
    and a: "AcknowledgeUsage rid (uaRecords ack) (acAgent s) = (Inr (), a')"
  shows "acctOK codec (s\<lparr>acAgent := a'\<rparr>)"
proof -
  let ?t = "traffic (acAgent s)" and ?as = "uaRecords ack"
  let ?t' = "update_rows (\<lambda>x. ctRequestID x = Some rid) (ackedRow ?as) ?t"
  have tok: "trafficOK ?t" and isdone: "rid \<in> applied s" and net: "netOK (rowOf s) (tsUsage (acServer s)) (acNet s)"
    using ok ack by (auto simp: acctOK_def)
  have a': "a' = (acAgent s)\<lparr>traffic := ?t'\<rparr>"
    and cover: "\<forall>r \<in> set (statesOf rid ?t). ackCovers ?as r"
    using AcknowledgeUsage_cases [OF tok a] by auto
  have row: "trafficOf ?t' c = (if ctRequestID (rowOf s c) = Some rid then ackedRow ?as (rowOf s c) else rowOf s c)" for c
    by (rule trafficOf_ack)
  have out: "outstandingOf d (applied s) (trafficOf ?t' c) = outstandingOf d (applied s) (rowOf s c)" for d c
    using isdone by (simp add: row outstandingOf_def)
  have "netOK (trafficOf ?t') (tsUsage (acServer s)) (acNet s)"
  proof -
    have other: "(ctRequestID (trafficOf ?t' c) = Some i \<and> r = sentOf (trafficOf ?t' c)) \<longleftrightarrow>
        (ctRequestID (rowOf s c) = Some i \<and> r = sentOf (rowOf s c))"
      "ctRequestID (trafficOf ?t' c) = Some i \<longleftrightarrow> ctRequestID (rowOf s c) = Some i" if "i \<noteq> rid" for c i r
      using that by (auto simp: row)
    have none: "ctRequestID (trafficOf ?t' c) \<noteq> Some rid" for c by (simp add: row)
    show ?thesis
    proof (rule netOK_I)
      fix b c0 r
      assume b: "b \<in> set (acNet s)"
        and c: "ubRequestID b \<notin> applied s \<or> ctRequestID (trafficOf ?t' c0) = Some (ubRequestID b)"
      then have ne: "ubRequestID b \<noteq> rid" using isdone none [of c0] by auto
      have "ubRequestID b \<notin> applied s \<or> ctRequestID (rowOf s c0) = Some (ubRequestID b)"
        using c other(2) [OF ne, of c0] by blast
      from netOK_D(2) [OF net b this, of r] other(1) [OF ne, of _ r]
      show "r \<in> set (ubRecords b) \<longleftrightarrow>
          (\<exists>c. ctRequestID (trafficOf ?t' c) = Some (ubRequestID b) \<and> r = sentOf (trafficOf ?t' c))" by simp
    next
      fix c i assume "ctRequestID (trafficOf ?t' c) = Some i"
      then show "\<exists>b \<in> set (acNet s). ubRequestID b = i \<and> sentOf (trafficOf ?t' c) \<in> set (ubRecords b)"
        using netOK_D(4) [OF net, of c i] by (auto simp: row split: if_splits)
    qed (simp_all add: netOK_D [OF net])
  qed
  then show ?thesis
    using ok out trafficOK_ack [OF tok cover] unfolding acctOK_def
    by (simp add: a' serverTotal_def outstanding_def) (simp add: row)
qed

lemma cleanup_applied_rows:
  assumes "r \<in> set (cleanupTable now p t)" "\<forall>r \<in> set t. rwStatus r = StatusApplied"
  shows "r \<in> set t"
  using assms by (auto simp: cleanupTable_rows)

lemma telemetryOK_cleanup:
  assumes ok: "telemetryOK codec st"
  shows "telemetryOK codec (st\<lparr>tsTransport := Cleanup now p (tsTransport st)\<rparr>)"
proof -
  have "queueOK (Cleanup now p (tsTransport st))"
    using Cleanup_OK ok by (simp add: telemetryOK_def)
  moreover have "r \<in> set (inbox (tsTransport st))" if "r \<in> set (inbox (Cleanup now p (tsTransport st)))" for r
    using that ok cleanup_applied_rows [of r now p "inbox (tsTransport st)"]
    by (simp add: Cleanup_def telemetryOK_def)
  ultimately show ?thesis using ok unfolding telemetryOK_def by auto
qed

lemma acct_step_OK:
  assumes "acct_step codec ident s s'" "codecOK codec" "acctOK codec s"
  shows "acctOK codec s'"
  using assms
proof (induction rule: acct_step.induct)
  case (server_cleanup s now policy)
  then show ?case
    using telemetryOK_cleanup [of codec "acServer s" now policy]
    unfolding acctOK_def by (auto simp: serverTotal_def outstanding_def)
next
  case (deliver b s)
  then show ?case by (intro acctOK_deliver)
qed (auto intro: acctOK_observe acctOK_prepare acctOK_acknowledge)

definition acct_init :: "UsageDB \<Rightarrow> Acct" where
  "acct_init db =
     \<lparr>acAgent = emptyAgentDB,
      acServer = \<lparr>tsUsage = db\<lparr>udRecords := [], udTotals := []\<rparr>, tsTransport = \<lparr>outbox = [], inbox = []\<rparr>\<rparr>,
      acLast = (\<lambda>_ _. 0), acObserved = (\<lambda>_ _. 0), acNet = [], acAcks = []\<rparr>"

lemma trafficOf_Nil [simp]: "trafficOf [] c = freshTraffic c"
  by (simp add: trafficOf_def)

lemma acctOK_init: "acctOK codec (acct_init db)"
  by (auto simp: acctOK_def acct_init_def emptyAgentDB_def trafficOK_def telemetryOK_def ledgerOK_def
      queueOK_def netOK_def serverTotal_def outstanding_def outstandingOf_def totalOf_def recordedSum_def)

lemma acct_reachable_OK:
  "(acct_step codec ident)\<^sup>*\<^sup>* (acct_init db) s \<Longrightarrow> codecOK codec \<Longrightarrow> acctOK codec s"
  by (induction rule: rtranclp_induct) (auto intro: acctOK_init acct_step_OK)

lemma usage_ack_match:
  assumes tok: "trafficOK t" and net: "netOK (trafficOf t) db net" and app: "rid \<in> appliedIDs db"
    and led: "ledgerOK db" and ackfor: "ackFor db rid ack" and some: "statesOf rid t \<noteq> []"
  shows "length (uaRecords ack) = length (statesOf rid t)"
    and "\<forall>r \<in> set (statesOf rid t). ackCovers (uaRecords ack) r"
proof -
  let ?as = "uaRecords ack"
  obtain r0 where r0: "r0 \<in> set t" "ctRequestID r0 = Some rid"
    using some statesOf_facts(1) [of rid t] by (cases "statesOf rid t") auto
  then have "ctRequestID (trafficOf t (ctConnectionID r0)) = Some rid" using trafficOf_in [OF tok] by simp
  then obtain b where b: "b \<in> set net" "ubRequestID b = rid"
    and c0: "ctRequestID (trafficOf t (ctConnectionID r0)) = Some (ubRequestID b)"
    using netOK_D(4) [OF net, of "ctConnectionID r0" rid] by auto
  have iff: "r \<in> set (ubRecords b) \<longleftrightarrow> (\<exists>c. ctRequestID (trafficOf t c) = Some rid \<and> r = sentOf (trafficOf t c))" for r
    using netOK_D(2) [OF net b(1) disjI2, OF c0, of r] unfolding b(2) .
  have img: "(\<lambda>r. (suConnectionID r, suTXBytes r, suRXBytes r)) ` {r \<in> set (udRecords db). suRequestID r = rid} =
      (\<lambda>r. (urConnectionID r, urTXBytes r, urRXBytes r)) ` set (ubRecords b)"
    using netOK_D(5) [OF net b(1)] app unfolding b(2) by simp
  have rows: "set (ubRecords b) = sentOf ` set (statesOf rid t)"
  proof (intro set_eqI iffI)
    fix r assume "r \<in> set (ubRecords b)"
    then obtain c where c: "ctRequestID (trafficOf t c) = Some rid" "r = sentOf (trafficOf t c)" using iff by blast
    then have "trafficOf t c \<in> set t"
      by (auto simp: trafficOf_def dest: lookup_row_SomeD split: option.splits)
    with c show "r \<in> sentOf ` set (statesOf rid t)" by (auto simp: statesOf_facts)
  next
    fix r assume "r \<in> sentOf ` set (statesOf rid t)"
    then obtain x where x: "x \<in> set t" "ctRequestID x = Some rid" "r = sentOf x" by (auto simp: statesOf_facts)
    then have "trafficOf t (ctConnectionID x) = x" using trafficOf_in [OF tok] by simp
    with x iff [of r] show "r \<in> set (ubRecords b)" by metis
  qed
  have rec: "\<exists>u \<in> set (udRecords db). suRequestID u = rid \<and> suConnectionID u = ctConnectionID r \<and>
      suTXBytes u = ctSentTX r \<and> suRXBytes u = ctSentRX r" if "r \<in> set (statesOf rid t)" for r
  proof -
    have "(ctConnectionID r, ctSentTX r, ctSentRX r) \<in> (\<lambda>r. (urConnectionID r, urTXBytes r, urRXBytes r)) ` set (ubRecords b)"
      using that unfolding rows by (force simp: sentOf_def)
    then show ?thesis unfolding img [symmetric] by auto
  qed
  have conns: "akConnectionID ` set ?as = ctConnectionID ` set (statesOf rid t)"
  proof -
    have "akConnectionID ` set ?as = fst ` (\<lambda>r. (suConnectionID r, suTXBytes r, suRXBytes r)) `
        {r \<in> set (udRecords db). suRequestID r = rid}"
      using ackfor by (simp add: ackFor_def image_image)
    also have "\<dots> = ctConnectionID ` set (statesOf rid t)"
      unfolding img rows by (simp add: image_image sentOf_def)
    finally show ?thesis .
  qed
  have "keyed akConnectionID ?as" "keyed ctConnectionID (statesOf rid t)"
    using ackfor tok by (auto simp: ackFor_def trafficOK_def statesOf_facts)
  then show "length ?as = length (statesOf rid t)"
    using conns by (metis distinct_card length_map list.set_map)
  show "\<forall>r \<in> set (statesOf rid t). ackCovers ?as r"
  proof
    fix r assume r: "r \<in> set (statesOf rid t)"
    obtain a where a: "a \<in> set ?as" "akConnectionID a = ctConnectionID r" using conns r by (metis imageE image_eqI)
    obtain u where u: "u \<in> set (udRecords db)" "suRequestID u = rid" "suConnectionID u = ctConnectionID r"
      "suTXBytes u = ctSentTX r" "suRXBytes u = ctSentRX r" using rec [OF r] by blast
    have "suBytes d u \<le> akBytes d a" for d using ackfor a u unfolding ackFor_def by metis
    from this [of RX] this [of TX] have "ctSentRX r \<le> akRXBytes a" "ctSentTX r \<le> akTXBytes a" using u by simp_all
    moreover have "lookup_row akConnectionID ?as (ctConnectionID r) = Some a"
      using a \<open>keyed akConnectionID ?as\<close> by (simp add: lookup_row_keyed)
    ultimately show "ackCovers ?as r" by (simp add: ackCovers_def)
  qed
qed

section \<open>An example run\<close>

text \<open>The steps as functions, so that a run can be computed.\<close>

definition runObserve :: "UsageRecord list \<Rightarrow> Acct \<Rightarrow> Acct" where
  "runObserve recs s =
     s\<lparr>acAgent := snd (ObserveTraffic recs (acAgent s)),
       acLast := fst (fold observeGhost recs (acLast s, acObserved s)),
       acObserved := snd (fold observeGhost recs (acLast s, acObserved s))\<rparr>"

definition runPrepare :: "string \<Rightarrow> string \<Rightarrow> int \<Rightarrow> Acct \<Rightarrow> Acct" where
  "runPrepare rid node limit s =
     (case PrepareUsageRequest rid node limit (acAgent s) of
        (Inr (Some b), a') \<Rightarrow> s\<lparr>acAgent := a', acNet := b # acNet s\<rparr>
      | _ \<Rightarrow> s)"

definition runDeliver :: "ack_codec \<Rightarrow> TelemetryIdentity \<Rightarrow> int \<Rightarrow> Acct \<Rightarrow> Acct" where
  "runDeliver codec ident now s =
     (case acNet s of
        [] \<Rightarrow> s
      | b # _ \<Rightarrow>
          (case HandleUsage codec True ident (ubRequestID b) (Some b) now (acServer s) of
             (Some ack, srv) \<Rightarrow>
               s\<lparr>acServer := srv, acAcks := (if uaOk ack then [(ubRequestID b, ack)] else []) @ acAcks s\<rparr>
           | _ \<Rightarrow> s))"

lemma run_reach:
  "fst (ObserveTraffic recs (acAgent s)) = Inr () \<Longrightarrow> (acct_step codec ident)\<^sup>*\<^sup>* s (runObserve recs s)"
  "rid \<notin> ubRequestID ` set (acNet s) \<Longrightarrow> rid \<notin> applied s \<Longrightarrow>
     (acct_step codec ident)\<^sup>*\<^sup>* s (runPrepare rid (tiNodeID ident) limit s)"
  "(acct_step codec ident)\<^sup>*\<^sup>* s (runDeliver codec ident now s)"
proof -
  show "fst (ObserveTraffic recs (acAgent s)) = Inr () \<Longrightarrow> (acct_step codec ident)\<^sup>*\<^sup>* s (runObserve recs s)"
    unfolding runObserve_def by (intro r_into_rtranclp acct_step.observe) (simp_all add: prod_eq_iff)
  show "rid \<notin> ubRequestID ` set (acNet s) \<Longrightarrow> rid \<notin> applied s \<Longrightarrow>
      (acct_step codec ident)\<^sup>*\<^sup>* s (runPrepare rid (tiNodeID ident) limit s)"
    by (auto simp: runPrepare_def split: prod.split sum.split option.split
        intro!: r_into_rtranclp acct_step.prepare)
  show "(acct_step codec ident)\<^sup>*\<^sup>* s (runDeliver codec ident now s)"
  proof (cases "acNet s")
    case (Cons b net)
    then have b: "b \<in> set (acNet s)" and eq: "b\<lparr>ubFromMS := ubFromMS b, ubToMS := ubToMS b, ubCreatedMS := ubCreatedMS b\<rparr> = b"
      by simp_all
    show ?thesis
      using acct_step.deliver [OF b, where f = "ubFromMS b" and t = "ubToMS b" and c = "ubCreatedMS b" and codec = codec
          and ident = ident and allowed = True and now = now]
      by (auto simp: runDeliver_def Cons eq split: prod.split option.split intro!: r_into_rtranclp)
  qed (simp add: runDeliver_def)
qed

definition exampleIdentity :: TelemetryIdentity where
  "exampleIdentity = \<lparr>tiNodeID = ''n1'', tiInstallationID = ''i1'', tiNodeInstanceID = ''ni1''\<rparr>"

definition exampleUsageDB :: UsageDB where
  "exampleUsageDB =
     \<lparr>udNodes = [''n1''], udInstances = [(''ni1'', ''n1'')], udConnections = [(''c1'', ''n1'')],
      udRecords = [], udTotals = []\<rparr>"

definition exampleAck :: UsageAck where
  "exampleAck = \<lparr>uaOk = True, uaRecords = [\<lparr>akConnectionID = ''c1'', akRXBytes = 100, akTXBytes = 20\<rparr>]\<rparr>"

definition exampleCodec :: ack_codec where
  "exampleCodec =
     \<lparr>marshalAck = (\<lambda>a. if a = exampleAck then ''A'' else []),
      unmarshalAck = (\<lambda>s. if s = ''A'' then Some exampleAck else None)\<rparr>"

lemma exampleCodec_ok: "codecOK exampleCodec"
  by (simp add: codecOK_def exampleCodec_def)

definition exampleRun1 :: Acct where
  "exampleRun1 = runObserve [\<lparr>urConnectionID = ''c1'', urTXBytes = 20, urRXBytes = 100\<rparr>] (acct_init exampleUsageDB)"

definition exampleRun :: Acct where
  "exampleRun = runDeliver exampleCodec exampleIdentity 5000000 (runPrepare ''r1'' ''n1'' 10 exampleRun1)"

definition exampleBatch :: UsageBatch where
  "exampleBatch = emptyBatch ''r1'' ''n1'' [\<lparr>urConnectionID = ''c1'', urTXBytes = 20, urRXBytes = 100\<rparr>]"

abbreviation exampleServer :: TelemetryState where
  "exampleServer \<equiv> acServer (acct_init exampleUsageDB)"

lemma exampleRun1_facts:
  "fst (ObserveTraffic [\<lparr>urConnectionID = ''c1'', urTXBytes = 20, urRXBytes = 100\<rparr>]
     (acAgent (acct_init exampleUsageDB))) = Inr ()"
  "acNet exampleRun1 = []" "udRecords (tsUsage (acServer exampleRun1)) = []"
  by code_simp+

lemma exampleRun2_facts:
  "acNet (runPrepare ''r1'' ''n1'' 10 exampleRun1) = [exampleBatch]"
  "acServer (runPrepare ''r1'' ''n1'' 10 exampleRun1) = exampleServer"
  "acAcks (runPrepare ''r1'' ''n1'' 10 exampleRun1) = []"
  by code_simp+

lemma exampleHandled:
  "fst (HandleUsage exampleCodec True exampleIdentity ''r1'' (Some exampleBatch) 5000000 exampleServer) = Some exampleAck"
  "totalOf RX (udTotals (tsUsage (snd (HandleUsage exampleCodec True exampleIdentity ''r1'' (Some exampleBatch)
     5000000 exampleServer)))) ''c1'' = 100"
  by code_simp+

lemma exampleRun_facts:
  "acAcks exampleRun = [(''r1'', exampleAck)]" "serverTotal RX exampleRun ''c1'' = 100"
proof -
  let ?h = "HandleUsage exampleCodec True exampleIdentity ''r1'' (Some exampleBatch) 5000000 exampleServer"
  have b: "ubRequestID exampleBatch = ''r1''" "uaOk exampleAck"
    by (simp_all add: exampleBatch_def emptyBatch_def exampleAck_def)
  have h: "?h = (Some exampleAck, snd ?h)" using exampleHandled(1) by (simp add: prod_eq_iff)
  have run: "exampleRun = (runPrepare ''r1'' ''n1'' 10 exampleRun1)\<lparr>acServer := snd ?h, acAcks := [(''r1'', exampleAck)]\<rparr>"
    unfolding exampleRun_def runDeliver_def exampleRun2_facts list.case b(1) by (subst h) (simp add: b(2))
  show "acAcks exampleRun = [(''r1'', exampleAck)]" "serverTotal RX exampleRun ''c1'' = 100"
    using exampleHandled(2) by (simp_all add: run serverTotal_def)
qed

lemma exampleRun_reach: "(acct_step exampleCodec exampleIdentity)\<^sup>*\<^sup>* (acct_init exampleUsageDB) exampleRun"
proof -
  let ?R = "(acct_step exampleCodec exampleIdentity)\<^sup>*\<^sup>*" and ?s = "runPrepare ''r1'' ''n1'' 10 exampleRun1"
  have node: "tiNodeID exampleIdentity = ''n1''" by (simp add: exampleIdentity_def)
  have "''r1'' \<notin> ubRequestID ` set (acNet exampleRun1)" "''r1'' \<notin> applied exampleRun1"
    by (simp_all only: exampleRun1_facts appliedIDs_def list.set image_empty empty_iff not_False_eq_True)
  from run_reach(2) [OF this, of exampleCodec exampleIdentity 10]
  have "?R exampleRun1 ?s" unfolding node .
  moreover have "?R (acct_init exampleUsageDB) exampleRun1"
    unfolding exampleRun1_def by (rule run_reach(1) [OF exampleRun1_facts(1)])
  moreover have "?R ?s exampleRun"
    unfolding exampleRun_def by (rule run_reach(3))
  ultimately show ?thesis by (meson rtranclp_trans)
qed

section \<open>Properties\<close>

text \<open>
  C1. Exactly-once accounting: in every reachable state, for every connection and direction, the total of
  the server plus the volume still outstanding at the agent is the volume the agent observed. Reports are
  delivered any number of times, acknowledgements are lost, late or repeated, and the log of processed
  messages is cleaned up at will; nothing is lost and nothing is counted twice.
\<close>

theorem usage_conserved:
  assumes "(acct_step codec ident)\<^sup>*\<^sup>* (acct_init db) s" "codecOK codec"
  shows "serverTotal d s c + outstanding d s c = acObserved s d c \<and> 0 \<le> outstanding d s c"
proof -
  have ok: "acctOK codec s" using acct_reachable_OK [OF assms] .
  have "trafficCheck (rowOf s c)" using ok trafficOf_check(1) by (auto simp: acctOK_def)
  then have "0 \<le> outstanding d s c"
    by (cases d) (auto simp: trafficCheck_def outstanding_def outstandingOf_def split: option.splits)
  with ok show ?thesis by (simp add: acctOK_def)
qed

theorem usage_conserved_witness:
  "codecOK exampleCodec \<and> serverTotal RX exampleRun ''c1'' = 100 \<and>
   serverTotal RX exampleRun ''c1'' + outstanding RX exampleRun ''c1'' = acObserved exampleRun RX ''c1''"
  using usage_conserved [OF exampleRun_reach exampleCodec_ok, of RX "''c1''"]
  by (simp add: exampleCodec_ok exampleRun_facts)

text \<open>
  C2. Every positive acknowledgement the server ever gave is accepted by the agent whenever it arrives, however often and
  in whatever order, and it releases every connection frozen by its request. (A rejected report is answered without
  records; the agent ignores that answer and keeps the rows of the report frozen.)
\<close>

theorem usage_ack_accepted:
  assumes "(acct_step codec ident)\<^sup>*\<^sup>* (acct_init db) s" "codecOK codec" "(rid, ack) \<in> set (acAcks s)"
  shows "\<exists>a'. AcknowledgeUsage rid (uaRecords ack) (acAgent s) = (Inr (), a') \<and>
    (\<forall>c. ctRequestID (trafficOf (traffic a') c) \<noteq> Some rid)"
proof -
  let ?t = "traffic (acAgent s)" and ?as = "uaRecords ack" and ?db = "tsUsage (acServer s)"
  have ok: "acctOK codec s" using acct_reachable_OK [OF assms(1,2)] .
  then have tok: "trafficOK ?t" and net: "netOK (rowOf s) ?db (acNet s)" and app: "rid \<in> appliedIDs ?db"
    and ackfor: "ackFor ?db rid ack" and led: "ledgerOK ?db"
    using assms(3) unfolding acctOK_def telemetryOK_def by auto
  have conns: "akConnectionID ` set ?as = suConnectionID ` {r \<in> set (udRecords ?db). suRequestID r = rid}"
    and keyed: "keyed akConnectionID ?as"
    and ge: "\<And>a r d. a \<in> set ?as \<Longrightarrow> r \<in> set (udRecords ?db) \<Longrightarrow> suRequestID r = rid \<Longrightarrow>
      suConnectionID r = akConnectionID a \<Longrightarrow> suBytes d r \<le> akBytes d a"
    using ackfor unfolding ackFor_def by blast+
  have valid: "akConnectionID a \<noteq> [] \<and> 0 \<le> akRXBytes a \<and> 0 \<le> akTXBytes a" if a: "a \<in> set ?as" for a
  proof -
    obtain r where r: "r \<in> set (udRecords ?db)" "suRequestID r = rid" "suConnectionID r = akConnectionID a"
      using imageI [OF a, of akConnectionID] unfolding conns by auto
    with led have "suConnectionID r \<noteq> []" "0 \<le> suBytes RX r" "0 \<le> suBytes TX r" by (auto simp: ledgerOK_def)
    with r ge [OF a r, of RX] ge [OF a r, of TX] show ?thesis by simp
  qed
  have m: "ackMap [] ?as = Inr ?as" using ackMap_total [of "[]" ?as] keyed valid by simp
  show ?thesis
  proof (cases "statesOf rid ?t = []")
    case True
    then have "AcknowledgeUsage rid ?as (acAgent s) = (Inr (), acAgent s)"
      using m by (simp add: AcknowledgeUsage_def statesOf_def [symmetric] Let_def)
    moreover have "ctRequestID (rowOf s c) \<noteq> Some rid" for c
      using True statesOf_facts(1) [of rid ?t]
      by (auto simp: trafficOf_def dest: lookup_row_SomeD split: option.splits)
    ultimately show ?thesis by blast
  next
    case False
    note facts = usage_ack_match [OF tok net app led ackfor False]
    have "AcknowledgeUsage rid ?as (acAgent s) =
        (Inr (), (acAgent s)\<lparr>traffic := update_rows (\<lambda>x. ctRequestID x = Some rid) (ackedRow ?as) ?t\<rparr>)"
      using facts by (intro AcknowledgeUsage_eq [OF tok m]) auto
    then show ?thesis by (simp add: trafficOf_ack)
  qed
qed

theorem usage_ack_accepted_witness:
  "\<exists>a'. AcknowledgeUsage ''r1'' (uaRecords exampleAck) (acAgent exampleRun) = (Inr (), a') \<and>
    (\<forall>c. ctRequestID (trafficOf (traffic a') c) \<noteq> Some ''r1'')"
  by (rule usage_ack_accepted [OF exampleRun_reach exampleCodec_ok]) (simp add: exampleRun_facts)

end
