(* ===== verification/Protocol.thy ===== *)
theory Protocol
  imports Prelude
begin

text \<open>
  The shared sync protocol, \<open>internal/protocol/types.go\<close> and \<open>internal/protocol/manifest_builder.go\<close>:
  requests, changes and responses of the paged manifest exchange, the page size checks, the response
  validation every agent applies to a page, and the mapping of a response into the manifest envelope.
\<close>

section \<open>Requests, changes, responses\<close>

definition DefaultPageSize :: int where
  "DefaultPageSize = 100"

definition MaxPageSize :: int where
  "MaxPageSize = 1000"

datatype Operation = OperationUpsert | OperationDelete

record Request =
  reqFull :: bool
  reqSince :: int
  reqPageSize :: int
  reqFrom :: string

record 'p Change =
  chConnectionID :: string
  chOperation :: Operation
  chUpdatedAtMS :: int
  chPayload :: 'p

record 'p Response =
  rspStartedAtMS :: int
  rspFull :: bool
  rspChanges :: "'p Change list"

definition ErrInvalidPageSize :: error where
  "ErrInvalidPageSize = Err ''invalid sync page_size''"

definition ErrInvalidConnectionID :: error where
  "ErrInvalidConnectionID = Err ''invalid sync connection_id''"

definition ErrUnsortedChanges :: error where
  "ErrUnsortedChanges = Err ''sync changes must be sorted by connection_id''"

definition SortChanges :: "'p Change list \<Rightarrow> 'p Change list" where
  "SortChanges changes = sort_key chConnectionID changes"

definition NormalizePageSize :: "int \<Rightarrow> int" where
  "NormalizePageSize pageSize = (if pageSize = 0 then DefaultPageSize else pageSize)"

definition ValidatePageSize :: "int \<Rightarrow> error option" where
  "ValidatePageSize pageSize =
     (if pageSize < 1 \<or> pageSize > MaxPageSize then Some ErrInvalidPageSize else None)"

fun validateChanges :: "string \<Rightarrow> 'p Change list \<Rightarrow> error option" where
  "validateChanges previous [] = None"
| "validateChanges previous (change # changes) =
     (if chConnectionID change = [] then Some ErrInvalidConnectionID
      else if previous \<noteq> [] \<and> chConnectionID change \<le> previous then Some ErrUnsortedChanges
      else validateChanges (chConnectionID change) changes)"

definition ValidateResponse :: "'p Response \<Rightarrow> int \<Rightarrow> error option" where
  "ValidateResponse response pageSize =
     (case ValidatePageSize pageSize of
        Some e \<Rightarrow> Some e
      | None \<Rightarrow>
          if int (length (rspChanges response)) > pageSize then Some ErrInvalidPageSize
          else validateChanges [] (rspChanges response))"

section \<open>Manifest envelopes\<close>

record 'p ManifestResponseValues =
  mrvNodeID :: string
  mrvStartedAtMS :: int
  mrvFull :: bool
  mrvChanges :: "'p list"
  mrvError :: string

definition EmptySyncResponse :: "'p ManifestResponseValues" where
  "EmptySyncResponse =
     \<lparr>mrvNodeID = [], mrvStartedAtMS = 0, mrvFull = False, mrvChanges = [], mrvError = []\<rparr>"

fun error_text :: "error \<Rightarrow> string" where
  "error_text ErrNotFound = ''not found''"
| "error_text (Err m) = m"

definition ErrorSyncResponse :: "string \<Rightarrow> bool \<Rightarrow> error \<Rightarrow> 'p ManifestResponseValues" where
  "ErrorSyncResponse nodeID full err =
     EmptySyncResponse\<lparr>mrvNodeID := nodeID, mrvFull := full, mrvError := error_text err\<rparr>"

definition BuildSyncResponse :: "string \<Rightarrow> 'p Response \<Rightarrow> 'p ManifestResponseValues" where
  "BuildSyncResponse nodeID response =
     \<lparr>mrvNodeID = nodeID, mrvStartedAtMS = rspStartedAtMS response, mrvFull = rspFull response,
      mrvChanges = map chPayload (rspChanges response), mrvError = []\<rparr>"

section \<open>Lemmas\<close>

lemma ValidatePageSize_None_iff [simp]:
  "ValidatePageSize n = None \<longleftrightarrow> 1 \<le> n \<and> n \<le> MaxPageSize"
  by (auto simp: ValidatePageSize_def)

lemma validateChanges_None_iff:
  "validateChanges previous changes = None \<longleftrightarrow>
     [] \<notin> chConnectionID ` set changes \<and> ssorted (map chConnectionID changes) \<and>
     (previous \<noteq> [] \<and> changes \<noteq> [] \<longrightarrow> previous < chConnectionID (hd changes))"
proof (induction previous changes rule: validateChanges.induct)
  case (1 previous)
  then show ?case by simp
next
  case (2 previous change changes)
  let ?c = "chConnectionID change"
  have "ssorted (map chConnectionID (change # changes)) \<longleftrightarrow>
      ssorted (map chConnectionID changes) \<and>
      (changes \<noteq> [] \<longrightarrow> ?c < chConnectionID (hd changes))"
    by (cases changes) auto
  with 2 show ?case
    by (auto simp: not_le)
qed

lemma SortChanges_id [simp]: "ssorted (map chConnectionID cs) \<Longrightarrow> SortChanges cs = cs"
  by (simp add: SortChanges_def)

end
