(* ===== verification/Model.thy ===== *)
theory Model
  imports Prelude
begin

text \<open>
  The domain types of the server, \<open>internal/server/model/model.go\<close>: one record per struct, with the
  fields in the order of the source. The string types of the source (statuses, kinds, protocols) are
  \<^typ>\<open>string\<close>, their constants the literals below; a pointer is an option; a \<open>time.Time\<close> is the number
  of nanoseconds since the epoch.
\<close>

abbreviation (input) StatusActive :: string where "StatusActive \<equiv> ''active''"
abbreviation (input) StatusAbsent :: string where "StatusAbsent \<equiv> ''absent''"
abbreviation (input) StatusHeld :: string where "StatusHeld \<equiv> ''held''"
abbreviation (input) StatusDeleted :: string where "StatusDeleted \<equiv> ''deleted''"

abbreviation (input) NodeTypeAmneziaAPI :: string where "NodeTypeAmneziaAPI \<equiv> ''amnezia_api''"
abbreviation (input) NodeTypeNativeHy2 :: string where "NodeTypeNativeHy2 \<equiv> ''native_hysteria''"
abbreviation (input) NodeTypeNativeAmneziaWG :: string where "NodeTypeNativeAmneziaWG \<equiv> ''native_amneziawg''"

abbreviation (input) ProtocolHysteria2 :: string where "ProtocolHysteria2 \<equiv> ''hysteria2''"
abbreviation (input) ProtocolAmneziaWG :: string where "ProtocolAmneziaWG \<equiv> ''amneziawg''"

record Account =
  acID :: string
  acUsername :: string
  acDisplayName :: string
  acStatus :: string
  acCreatedAt :: int
  acUpdatedAt :: int

record Node =
  ndID :: string
  ndName :: string
  ndType :: string
  ndRegion :: string
  ndStatus :: string
  ndCreatedAt :: int
  ndUpdatedAt :: int

record NodeInstance =
  niID :: string
  niNodeID :: string
  niHost :: string
  niSSHPort :: int
  niSSHUser :: string
  niSSHKey :: string
  niStatus :: string
  niCreatedAt :: int
  niUpdatedAt :: int
  niActivatedAt :: int
  niRetiredAt :: int

record AgentInstallation =
  aiID :: string
  aiNodeInstanceID :: string
  aiAgentType :: string
  aiStatus :: string
  aiCertificateFingerprintSHA256 :: string
  aiCertificateSerial :: string
  aiCertificateNotBefore :: int
  aiCertificateNotAfter :: int
  aiCreatedAt :: int
  aiUpdatedAt :: int

record Connection =
  cnID :: string
  cnAccountID :: string
  cnNodeID :: string
  cnName :: string
  cnProtocol :: string
  cnDesiredStatus :: string
  cnAppliedStatus :: string
  cnDesiredVersionMS :: int
  cnAppliedVersionMS :: int
  cnLastErrorID :: string
  cnCreatedAt :: int
  cnUpdatedAt :: int

record IssuedConfig =
  icID :: string
  icConnectionID :: string
  icKind :: string
  icSlug :: string
  icName :: string
  icClient :: string
  icContentType :: string
  icConfig :: string
  icStatus :: string
  icCreatedAt :: int
  icUpdatedAt :: int

record Hysteria2NodeConfig =
  hcMasqueradeFileSetID :: string
  hcSettingsJSON :: string
  hcAppliedConfigVersionMS :: int
  hcConfigErrorID :: string
  hcNodeID :: string
  hcEndpointHost :: string
  hcEndpointPort :: int
  hcObfsEnabled :: bool
  hcObfsType :: string
  hcObfsPassword :: string
  hcUseIPv6 :: bool
  hcMasqueradeURL :: string
  hcConfigVersionMS :: int
  hcCreatedAt :: int
  hcUpdatedAt :: int

record AmneziaAPINodeConfig =
  anNodeID :: string
  anBaseURL :: string
  anAPIKey :: string
  anCreatedAt :: int
  anUpdatedAt :: int

record AmneziaAPIConnectionRef =
  arConnectionID :: string
  arRemoteID :: string
  arRemoteName :: string
  arCreatedAt :: int
  arUpdatedAt :: int

record AmneziaWGNodeConfig =
  awNodeID :: string
  awEndpointHost :: string
  awEndpointPort :: int
  awListenPort :: int
  awServerIPv4 :: string
  awClientIPv4CIDR :: string
  awFirstClientIPv4 :: string
  awLastClientIPv4 :: string
  awDNS :: string
  awMTU :: int
  awPersistentKeepalive :: int
  awClientRouteAllowedIPs :: string
  awClientRouteMode :: string
  awClientExcludedRoutes :: string
  awServerPrivateKey :: string
  awHeaderProtectionKey :: string
  awContentPaddingAddition :: string
  awTimingsJSON :: string
  awRandomTrailers :: bool
  awDisableCookies :: bool
  awAppliedConfigVersionMS :: int
  awConfigErrorID :: string
  awServerPublicKey :: string
  awJC :: int
  awJMin :: int
  awJMax :: int
  awS1 :: int
  awS2 :: int
  awH1 :: string
  awH2 :: string
  awH3 :: string
  awH4 :: string
  awS3 :: int
  awS4 :: int
  awI1 :: string
  awI2 :: string
  awI3 :: string
  awI4 :: string
  awI5 :: string
  awConfigVersionMS :: int
  awCreatedAt :: int
  awUpdatedAt :: int

record Hysteria2ConnectionMaterial =
  hmConnectionID :: string
  hmPassword :: string
  hmPasswordHash :: string
  hmCreatedAt :: int
  hmUpdatedAt :: int

record AmneziaWGConnectionMaterial =
  amConnectionID :: string
  amNodeID :: string
  amClientPublicKey :: string
  amClientPrivateKey :: string
  amPresharedKey :: string
  amAssignedIPv4 :: string
  amCreatedAt :: int
  amUpdatedAt :: int

record AmneziaWGSyncMaterial =
  smNodeConfig :: AmneziaWGNodeConfig
  smConnection :: Connection
  smMaterial :: AmneziaWGConnectionMaterial

record ConnectionBundle =
  cbExpectedNodeConfigVersionMS :: int
  cbConnection :: Connection
  cbHysteria2Material :: "Hysteria2ConnectionMaterial option"
  cbAmneziaWGMaterial :: "AmneziaWGConnectionMaterial option"
  cbAmneziaAPIRef :: "AmneziaAPIConnectionRef option"
  cbConfigs :: "IssuedConfig list"

record AdminInvite =
  ivID :: string
  ivTokenHash :: string
  ivCodeHash :: string
  ivRole :: string
  ivStatus :: string
  ivExpiresAt :: int
  ivInvitedByIdentityID :: string
  ivInvitedByLoginSnapshot :: string
  ivUsedByIdentityID :: string
  ivUsedByLogin :: string
  ivUsedByDisplayName :: string
  ivUsedAt :: int
  ivRevokedAt :: int
  ivNote :: string
  ivCreatedAt :: int
  ivUpdatedAt :: int

record AuthIdentity =
  idID :: string
  idKind :: string
  idLogin :: string
  idDisplayName :: string
  idAccountID :: string
  idStatus :: string
  idMustChangePassword :: bool
  idVerifiedAt :: int
  idCreatedAt :: int
  idUpdatedAt :: int

record AuthCredential =
  crID :: string
  crIdentityID :: string
  crType :: string
  crSecretHash :: string
  crFailedAttempts :: int
  crLockedUntil :: int
  crStatus :: string
  crCreatedAt :: int
  crUpdatedAt :: int

record AuthSession =
  seID :: string
  seIdentityID :: string
  seAccountID :: string
  seTokenHash :: string
  seRefreshTokenHash :: string
  seRefreshExpiresAt :: int
  seRefreshAbsoluteUntil :: int
  seStatus :: string
  seExpiresAt :: int
  seLastUsedAt :: int
  seLastSeenAt :: int
  seOnlineUntil :: int
  seCreatedAt :: int
  seUpdatedAt :: int

record AuthRefreshToken =
  rtID :: string
  rtTokenHash :: string
  rtSessionID :: string
  rtIdentityID :: string
  rtFamilyID :: string
  rtStatus :: string
  rtExpiresAt :: int
  rtAbsoluteExpiresAt :: int
  rtRotatedAt :: int
  rtLastUsedAt :: int
  rtCreatedAt :: int
  rtUpdatedAt :: int

record RefreshTokenRotation =
  roSession :: AuthSession
  roRefreshToken :: AuthRefreshToken
  roGraceRefreshToken :: AuthRefreshToken
  roGrace :: bool

record AdminProfile =
  apID :: string
  apIdentityID :: string
  apRole :: string
  apStatus :: string
  apCreatedAt :: int
  apUpdatedAt :: int

record AccountPortalToken =
  ptID :: string
  ptAccountID :: string
  ptToken :: string
  ptTokenHash :: string
  ptStatus :: string
  ptExpiresAt :: int
  ptLastUsedAt :: int
  ptCreatedAt :: int
  ptUpdatedAt :: int

record ConnectionSubscriptionToken =
  stID :: string
  stConnectionID :: string
  stToken :: string
  stTokenHash :: string
  stStatus :: string
  stExpiresAt :: int
  stLastUsedAt :: int
  stCreatedAt :: int
  stUpdatedAt :: int

record PolicyTag =
  tgID :: string
  tgSlug :: string
  tgName :: string
  tgAllowedNodeIDs :: "string list"
  tgConnectionLimit :: int
  tgStatus :: string
  tgCreatedAt :: int
  tgUpdatedAt :: int

record AccountPolicyTag =
  atID :: string
  atAccountID :: string
  atTagID :: string
  atCreatedAt :: int

record EffectiveConnectionPolicy =
  epAllowedNodeIDs :: "string list"
  epConnectionLimit :: int

record ShortLink =
  slID :: string
  slSubscriptionTokenID :: string
  slProfile :: string
  slEncryptedURL :: string
  slStatus :: string
  slCreatedAt :: int

record NodeRuntime =
  nrAgentInstallationID :: string
  nrNodeInstanceID :: string
  nrAgentStatus :: string
  nrLastHeartbeatAt :: int
  nrAgentVersion :: string
  nrProtocolVersion :: string
  nrServiceStatus :: string
  nrRecentMessage :: string
  nrUpdatedAt :: int

record NodeStatusInterval =
  siID :: string
  siAgentInstallationID :: string
  siNodeInstanceID :: string
  siStatus :: string
  siStartedAtMS :: int
  siEndedAtMS :: int

record NodeOnlineConnection =
  ocNodeInstanceID :: string
  ocConnectionID :: string
  ocNativeAuthID :: string
  ocCount :: int
  ocFirstSeenAt :: int
  ocLastSeenAt :: int

record RuntimeCommand =
  rcID :: string
  rcAgentInstallationID :: string
  rcType :: string
  rcPayload :: string
  rcStatus :: string
  rcResult :: string
  rcError :: string
  rcIssuedAt :: int
  rcExpiresAt :: int
  rcUpdatedAt :: int

record Event =
  evID :: string
  evTopic :: string
  evStatus :: string
  evType :: string
  evEntityType :: string
  evEntityID :: string
  evActor :: string
  evMessage :: string
  evPayloadJSON :: string
  evCreatedAtMS :: int
  evDeliveredAtMS :: int
  evExpiresAtMS :: int

definition Connection_Pending :: "Connection \<Rightarrow> bool" where
  "Connection_Pending c \<longleftrightarrow>
     cnDesiredStatus c \<noteq> cnAppliedStatus c \<or> cnDesiredVersionMS c > cnAppliedVersionMS c"

definition ConnectionLimitUnlimited :: int where
  "ConnectionLimitUnlimited = - 1"

end
