(* ===== verification/Projection.thy ===== *)
theory Projection
  imports Protocol Model
begin

text \<open>
  The server side of the sync protocol, \<open>internal/server/agentprotocol\<close>: the projection of the stored
  connections of a node into a page of changes (\<open>stored_projection.go\<close>), the response built from it
  (\<open>projector.go\<close>), and the manifest handlers (\<open>manifest.go\<close>), with the two credential builders of the
  protocols (\<open>hysteriaagent/protocol.go\<close>, \<open>amneziaagent/protocol.go\<close>).

  A nil interface value of the source is \<open>None\<close>. The clock of a request is the argument \<open>now\<close>, in
  nanoseconds.
\<close>

section \<open>Stored connections and queries\<close>

record 'm StoredConnection =
  scConnectionID :: string
  scActive :: bool
  scUpdatedAtMS :: int
  scMaterial :: 'm

record Query =
  qFull :: bool
  qSince :: int
  qFrom :: string
  qPageSize :: int
  qStartedAtMS :: int

type_synonym 'm source = "string \<Rightarrow> string \<Rightarrow> 'm StoredConnection list result"
type_synonym ('m, 'p) change_builder = "'m StoredConnection \<Rightarrow> 'p result"

definition ErrMissingStoredConnectionSource :: error where
  "ErrMissingStoredConnectionSource = Err ''missing stored credential source''"

definition ErrMissingStoredConnectionBuilder :: error where
  "ErrMissingStoredConnectionBuilder = Err ''missing stored credential change builder''"

text \<open>The guards of the loop of \<open>ListSyncChanges\<close>, in the order of its \<open>continue\<close> statements.\<close>

definition skipStored :: "Query \<Rightarrow> 'm StoredConnection \<Rightarrow> bool" where
  "skipStored q c =
     (if qFrom q \<noteq> [] \<and> scConnectionID c \<le> qFrom q then True
      else if qFull q then \<not> scActive c
      else scUpdatedAtMS c \<le> 0 \<or> scUpdatedAtMS c < qSince q)"

definition changeOf :: "'m StoredConnection \<Rightarrow> 'p \<Rightarrow> 'p Change" where
  "changeOf c payload =
     \<lparr>chConnectionID = scConnectionID c,
      chOperation = (if scActive c then OperationUpsert else OperationDelete),
      chUpdatedAtMS = scUpdatedAtMS c, chPayload = payload\<rparr>"

fun listLoop ::
  "('m, 'p) change_builder \<Rightarrow> Query \<Rightarrow> 'p Change list \<Rightarrow> 'm StoredConnection list \<Rightarrow>
   'p Change list result" where
  "listLoop build q changes [] = Inr changes"
| "listLoop build q changes (c # cs) =
     (if scConnectionID c = [] then Inl ErrInvalidConnectionID
      else if skipStored q c then listLoop build q changes cs
      else case build c of
        Inl e \<Rightarrow> Inl e
      | Inr payload \<Rightarrow>
          let changes' = changes @ [changeOf c payload]
          in if int (length changes') = qPageSize q then Inr changes'
             else listLoop build q changes' cs)"

definition ListSyncChanges ::
  "'m source option \<Rightarrow> ('m, 'p) change_builder option \<Rightarrow> string \<Rightarrow> Query \<Rightarrow> 'p Change list result" where
  "ListSyncChanges src build nodeID q =
     (case src of
        None \<Rightarrow> Inl ErrMissingStoredConnectionSource
      | Some list_conns \<Rightarrow>
          (case build of
             None \<Rightarrow> Inl ErrMissingStoredConnectionBuilder
           | Some b \<Rightarrow>
               (case list_conns nodeID (qFrom q) of
                  Inl e \<Rightarrow> Inl e
                | Inr credentials \<Rightarrow> listLoop b q [] (sort_key scConnectionID credentials))))"

section \<open>Responses\<close>

definition BuildResponse ::
  "(Query \<Rightarrow> 'p Change list result) \<Rightarrow> Request \<Rightarrow> int \<Rightarrow> 'p Response result" where
  "BuildResponse projector request now =
     (case ValidatePageSize (reqPageSize request) of
        Some e \<Rightarrow> Inl e
      | None \<Rightarrow>
          let started = time_UnixMilli now
          in case projector \<lparr>qFull = reqFull request, qSince = reqSince request,
                qFrom = reqFrom request, qPageSize = reqPageSize request, qStartedAtMS = started\<rparr> of
               Inl e \<Rightarrow> Inl e
             | Inr changes \<Rightarrow>
                 let sorted_changes = SortChanges changes;
                     page = (if int (length sorted_changes) > reqPageSize request
                             then take (nat (reqPageSize request)) sorted_changes
                             else sorted_changes);
                     response = \<lparr>rspStartedAtMS = started, rspFull = reqFull request,
                                 rspChanges = page\<rparr>
                 in (case ValidateResponse response (reqPageSize request) of
                       Some e \<Rightarrow> Inl e
                     | None \<Rightarrow> Inr response))"

fun pageLoop :: "string \<Rightarrow> int \<Rightarrow> 'p Change list \<Rightarrow> 'p Change list \<Rightarrow> 'p Change list result" where
  "pageLoop from pageSize page [] = Inr page"
| "pageLoop from pageSize page (c # cs) =
     (if chConnectionID c = [] then Inl ErrInvalidConnectionID
      else if from \<noteq> [] \<and> chConnectionID c \<le> from then pageLoop from pageSize page cs
      else let page' = page @ [c]
           in if int (length page') = pageSize then Inr page'
              else pageLoop from pageSize page' cs)"

definition PageChanges :: "'p Change list \<Rightarrow> string \<Rightarrow> int \<Rightarrow> 'p Change list result" where
  "PageChanges changes from pageSize =
     (let n = NormalizePageSize pageSize
      in case ValidatePageSize n of
           Some e \<Rightarrow> Inl e
         | None \<Rightarrow> pageLoop from n [] (SortChanges changes))"

section \<open>Manifest handlers\<close>

record ManifestRequest =
  mrNodeId :: string
  mrFull :: bool
  mrSince :: int
  mrPageSize :: "32 word"
  mrFrom :: string

definition ManifestHandler_Handle ::
  "(Query \<Rightarrow> 'p Change list result) \<Rightarrow> ManifestRequest option \<Rightarrow> int \<Rightarrow> 'p ManifestResponseValues" where
  "ManifestHandler_Handle projector input now =
     (case input of
        None \<Rightarrow> EmptySyncResponse
      | Some i \<Rightarrow>
          let full = mrFull i \<or> mrSince i = 0
          in case BuildResponse projector
                 \<lparr>reqFull = full, reqSince = mrSince i, reqPageSize = uint (mrPageSize i),
                  reqFrom = mrFrom i\<rparr> now of
               Inl e \<Rightarrow> ErrorSyncResponse (mrNodeId i) full e
             | Inr response \<Rightarrow> BuildSyncResponse (mrNodeId i) response)"

text \<open>
  A nil request reaches \<open>Handle\<close> as an interface value that is not nil, since its type is the pointer type; the getters of
  the nil pointer return zero values.
\<close>

definition nilManifestRequest :: ManifestRequest where
  "nilManifestRequest = \<lparr>mrNodeId = [], mrFull = False, mrSince = 0, mrPageSize = 0, mrFrom = []\<rparr>"

definition StoredManifestHandler_Build ::
  "string \<Rightarrow> 'm source option \<Rightarrow> ('m, 'p) change_builder option \<Rightarrow> ManifestRequest option \<Rightarrow> int \<Rightarrow>
   'p ManifestResponseValues" where
  "StoredManifestHandler_Build handlerNodeID src build input now =
     (let fromInput = (case input of None \<Rightarrow> [] | Some i \<Rightarrow> mrNodeId i);
          nodeID = (if handlerNodeID \<noteq> [] then handlerNodeID else fromInput)
      in ManifestHandler_Handle (ListSyncChanges src build nodeID)
           (Some (case input of None \<Rightarrow> nilManifestRequest | Some i \<Rightarrow> i)) now)"

section \<open>Credential builders of the two protocols\<close>

datatype CredentialChangeOp = OP_UNSPECIFIED | OP_UPSERT | OP_DELETE

record HysteriaCredentialChange =
  hccConnectionId :: string
  hccOp :: CredentialChangeOp
  hccPasswordHash :: "string option"

definition buildHysteriaCredentialChange ::
  "(string, HysteriaCredentialChange) change_builder" where
  "buildHysteriaCredentialChange credential =
     (let change = \<lparr>hccConnectionId = scConnectionID credential, hccOp = OP_DELETE,
                    hccPasswordHash = None\<rparr>
      in if \<not> scActive credential then Inr change
         else if scMaterial credential = [] then
           Inl (Err ''active Hysteria credential has no password hash'')
         else Inr (change\<lparr>hccOp := OP_UPSERT,
                           hccPasswordHash := Some (scMaterial credential)\<rparr>))"

record AmneziaCredential =
  acPublicKey :: string
  acPresharedKey :: string
  acAssignedIpv4 :: string
  acDesiredStatus :: string
  acPersistentKeepalive :: "32 word"

record AmneziaCredentialChange =
  accConnectionId :: string
  accOp :: CredentialChangeOp
  accPayload :: "AmneziaCredential option"

definition DefaultPersistentKeepalive :: int where
  "DefaultPersistentKeepalive = 25"

definition buildAmneziaCredentialChange ::
  "(AmneziaWGSyncMaterial, AmneziaCredentialChange) change_builder" where
  "buildAmneziaCredentialChange credential =
     (let connection = smConnection (scMaterial credential); material = smMaterial (scMaterial credential)
      in if \<not> scActive credential then
           Inr \<lparr>accConnectionId = cnID connection, accOp = OP_DELETE, accPayload = None\<rparr>
         else
           let desiredStatus = (if cnDesiredStatus connection = [] then StatusActive else cnDesiredStatus connection);
               keepalive = awPersistentKeepalive (smNodeConfig (scMaterial credential));
               keepalive = (if keepalive < 0 then DefaultPersistentKeepalive else keepalive)
           in Inr \<lparr>accConnectionId = cnID connection, accOp = OP_UPSERT,
                accPayload = Some \<lparr>acPublicKey = TrimSpace (amClientPublicKey material),
                  acPresharedKey = TrimSpace (amPresharedKey material),
                  acAssignedIpv4 = TrimSpace (amAssignedIPv4 material),
                  acDesiredStatus = desiredStatus,
                  acPersistentKeepalive = word_of_int keepalive\<rparr>\<rparr>)"

section \<open>The page a request denotes\<close>

text \<open>
  The abstract manifest: the changes of all rows a pass is about, in the order of their ids; a page is
  the first \<open>page_size\<close> of those after \<open>from\<close>.
\<close>

definition inManifest :: "bool \<Rightarrow> int \<Rightarrow> 'm StoredConnection \<Rightarrow> bool" where
  "inManifest full since c \<longleftrightarrow>
     (if full then scActive c else 0 < scUpdatedAtMS c \<and> since \<le> scUpdatedAtMS c)"

definition manifest ::
  "('m, 'p) change_builder \<Rightarrow> bool \<Rightarrow> int \<Rightarrow> 'm StoredConnection list \<Rightarrow> 'p Change list" where
  "manifest build full since rows =
     map (\<lambda>c. changeOf c (projr (build c))) (filter (inManifest full since) (sort_key scConnectionID rows))"

definition afterID :: "string \<Rightarrow> 'p Change list \<Rightarrow> 'p Change list" where
  "afterID from changes = filter (\<lambda>c. from < chConnectionID c) changes"

lemma skipStored_iff:
  "scConnectionID c \<noteq> [] \<Longrightarrow>
   skipStored q c \<longleftrightarrow> \<not> (qFrom q < scConnectionID c \<and> inManifest (qFull q) (qSince q) c)"
  by (cases "qFrom q = []") (auto simp: skipStored_def inManifest_def not_less not_le)

lemma changeOf_sel [simp]:
  "chConnectionID (changeOf c p) = scConnectionID c"
  "chOperation (changeOf c p) = OperationUpsert \<longleftrightarrow> scActive c"
  "chPayload (changeOf c p) = p"
  by (simp_all add: changeOf_def)

lemma listLoop_eq:
  assumes "[] \<notin> scConnectionID ` set cs"
    and "\<And>c. c \<in> set cs \<Longrightarrow> \<exists>p. build c = Inr p"
    and "int (length changes) < qPageSize q"
  shows "listLoop build q changes cs =
    Inr (changes @ take (nat (qPageSize q) - length changes)
      (map (\<lambda>c. changeOf c (projr (build c))) (filter (\<lambda>c. \<not> skipStored q c) cs)))"
  using assms
proof (induction cs arbitrary: changes)
  case Nil
  then show ?case by simp
next
  case (Cons c cs)
  obtain p where p: "build c = Inr p" using Cons.prems(2) by auto
  let ?ch = "changes @ [changeOf c p]"
  have ne: "scConnectionID c \<noteq> []" and cs: "[] \<notin> scConnectionID ` set cs"
    using Cons.prems(1) by auto
  have full_or_less: "int (length ?ch) = qPageSize q \<or> int (length ?ch) < qPageSize q"
    using Cons.prems(3) by auto
  have step: "nat (qPageSize q) - length changes = Suc (nat (qPageSize q) - length ?ch)"
    using Cons.prems(3) by auto
  show ?case
  proof (cases "skipStored q c")
    case True
    then show ?thesis using Cons.IH [OF cs] Cons.prems ne by simp
  next
    case False
    then show ?thesis
      using Cons.IH [OF cs, of ?ch] Cons.prems ne p step full_or_less
      by (auto simp: Let_def)
  qed
qed

lemma sorted_rows_unique:
  assumes "keyed key xs" "keyed key ys" "set xs = set ys"
  shows "sort_key key xs = sort_key key ys"
proof (rule map_sorted_distinct_set_unique [of key])
  show "inj_on key (set (sort_key key xs) \<union> set (sort_key key ys))"
    using assms by (auto simp: distinct_map)
qed (use assms ssorted_sort_key in \<open>auto simp: ssorted_iff\<close>)

lemma manifest_ids:
  "map chConnectionID (manifest build full since rows) =
   map scConnectionID (filter (inManifest full since) (sort_key scConnectionID rows))"
  by (simp add: manifest_def)

lemma manifest_ssorted:
  "keyed scConnectionID rows \<Longrightarrow> ssorted (map chConnectionID (manifest build full since rows))"
  unfolding manifest_ids by (intro ssorted_map_filter ssorted_sort_key)

lemma set_manifest:
  "set (manifest build full since rows) =
   (\<lambda>c. changeOf c (projr (build c))) ` {c \<in> set rows. inManifest full since c}"
  by (auto simp: manifest_def)

locale stored_source =
  fixes list_conns :: "'db \<Rightarrow> 'm source"
    and project :: "'db \<Rightarrow> string \<Rightarrow> 'm StoredConnection list"
    and ok :: "'db \<Rightarrow> string \<Rightarrow> bool"
    and build :: "('m, 'p) change_builder"
  assumes list_conns_ok: "ok db node \<Longrightarrow> \<exists>cs. list_conns db node from = Inr cs \<and> keyed scConnectionID cs \<and>
      set cs \<subseteq> set (project db node) \<and>
      (\<forall>c \<in> set (project db node). from < scConnectionID c \<longrightarrow> c \<in> set cs)"
    and project_keyed: "ok db node \<Longrightarrow> keyed scConnectionID (project db node)"
    and project_ids: "ok db node \<Longrightarrow> [] \<notin> scConnectionID ` set (project db node)"
    and build_ok: "ok db node \<Longrightarrow> c \<in> set (project db node) \<Longrightarrow> \<exists>p. build c = Inr p"
begin

lemma list_changes:
  assumes "ok db node" "1 \<le> qPageSize q"
  shows "ListSyncChanges (Some (list_conns db)) (Some build) node q =
    Inr (take (nat (qPageSize q)) (afterID (qFrom q) (manifest build (qFull q) (qSince q) (project db node))))"
proof -
  let ?rows = "project db node"
  let ?after = "\<lambda>c. qFrom q < scConnectionID c"
  from list_conns_ok [OF assms(1)] obtain cs where cs: "list_conns db node (qFrom q) = Inr cs"
    "keyed scConnectionID cs" "set cs \<subseteq> set ?rows" "\<forall>c \<in> set ?rows. ?after c \<longrightarrow> c \<in> set cs"
    by blast
  have ids: "scConnectionID c \<noteq> []" if "c \<in> set cs" for c
    using that cs(3) project_ids [OF assms(1)] by (metis image_eqI subsetD)
  have "sort_key scConnectionID (filter ?after cs) = sort_key scConnectionID (filter ?after ?rows)"
    using cs project_keyed [OF assms(1)]
    by (intro sorted_rows_unique) (auto simp: distinct_map_filter)
  then have same: "filter ?after (sort_key scConnectionID cs) = filter ?after (sort_key scConnectionID ?rows)"
    by (simp add: filter_sort)
  have "listLoop build q [] (sort_key scConnectionID cs) = Inr (take (nat (qPageSize q))
      (map (\<lambda>c. changeOf c (projr (build c))) (filter (\<lambda>c. \<not> skipStored q c) (sort_key scConnectionID cs))))"
    using listLoop_eq [of "sort_key scConnectionID cs" build "[]" q] ids cs(3) assms(2)
      build_ok [OF assms(1)] by (force simp: subset_iff)
  also have "filter (\<lambda>c. \<not> skipStored q c) (sort_key scConnectionID cs) =
      filter (inManifest (qFull q) (qSince q)) (filter ?after (sort_key scConnectionID cs))"
    by (auto simp: skipStored_iff ids intro!: filter_cong)
  finally show ?thesis
    by (simp add: ListSyncChanges_def cs(1) same afterID_def manifest_def filter_map o_def conj_commute)
qed

lemma page_valid:
  assumes "ok db node"
  shows "validateChanges [] (take n (afterID from (manifest build full since (project db node)))) = None"
    "ssorted (map chConnectionID (take n (afterID from (manifest build full since (project db node)))))"
proof -
  let ?m = "manifest build full since (project db node)"
  show sorted: "ssorted (map chConnectionID (take n (afterID from ?m)))"
    unfolding afterID_def
    by (intro ssorted_map_take ssorted_map_filter manifest_ssorted project_keyed assms)
  have "[] \<notin> chConnectionID ` set ?m"
    using project_ids [OF assms] by (force simp: set_manifest)
  then have "[] \<notin> chConnectionID ` set (take n (afterID from ?m))"
    by (auto simp: afterID_def dest!: in_set_takeD)
  with sorted show "validateChanges [] (take n (afterID from ?m)) = None"
    by (simp add: validateChanges_None_iff)
qed

lemma build_response:
  assumes "ok db node" "1 \<le> reqPageSize r" "reqPageSize r \<le> MaxPageSize"
  shows "BuildResponse (ListSyncChanges (Some (list_conns db)) (Some build) node) r now =
    Inr \<lparr>rspStartedAtMS = time_UnixMilli now, rspFull = reqFull r,
         rspChanges = take (nat (reqPageSize r))
           (afterID (reqFrom r) (manifest build (reqFull r) (reqSince r) (project db node)))\<rparr>"
proof -
  have v: "ValidatePageSize (reqPageSize r) = None" using assms by simp
  show ?thesis
    using assms page_valid [OF assms(1)]
    by (simp add: BuildResponse_def v list_changes ValidateResponse_def Let_def)
qed

lemma stored_manifest_response:
  assumes "ok db (mrNodeId i)" "1 \<le> uint (mrPageSize i)" "uint (mrPageSize i) \<le> MaxPageSize"
  shows "StoredManifestHandler_Build [] (Some (list_conns db)) (Some build) (Some i) now =
    \<lparr>mrvNodeID = mrNodeId i, mrvStartedAtMS = time_UnixMilli now, mrvFull = (mrFull i \<or> mrSince i = 0),
     mrvChanges = map chPayload (take (nat (uint (mrPageSize i)))
       (afterID (mrFrom i) (manifest build (mrFull i \<or> mrSince i = 0) (mrSince i)
          (project db (mrNodeId i))))),
     mrvError = []\<rparr>"
  using assms
  by (simp add: StoredManifestHandler_Build_def ManifestHandler_Handle_def build_response Let_def
      BuildSyncResponse_def)

end

end
