(* ===== verification/Sync_Engine.thy ===== *)
theory Sync_Engine
  imports Agent_Store Projection
begin

text \<open>
  The agent side of the sync protocol: the engine that pulls the pages of a manifest and applies them
  (\<open>agent/common/sync_engine.go\<close>) and the credential sync that runs it on the agent's database
  (\<open>agent/common/credential_sync.go\<close>).

  Go interfaces are records of operations on a state \<open>'s\<close>, a nil interface is \<open>None\<close>. The loop over the pages
  ends only when the source sends a short page, so it is a partial function: \<open>None\<close> is a run that never ends.
\<close>

section \<open>The engine\<close>

record 's CursorStore =
  csLoad :: "string \<Rightarrow> ('s, int \<times> bool) op"
  csSave :: "string \<Rightarrow> int \<Rightarrow> ('s, unit) op"

record PassResult =
  prFull :: bool
  prManifestStartedAtMS :: int
  prSeen :: "string list"

text \<open>The pass object \<open>'a\<close> is what \<open>BeginSyncPass\<close> allocates; applying a change mutates it.\<close>

record ('s, 'p, 'a) Applier =
  apBegin :: "bool \<Rightarrow> ('s, 'a) op"
  apApply :: "'p Change \<Rightarrow> 'a \<Rightarrow> ('s, 'a) op"
  apFinish :: "PassResult \<Rightarrow> 'a \<Rightarrow> ('s, unit) op"

type_synonym ('s, 'p) page_source = "Request \<Rightarrow> ('s, 'p Response) op"

record ('s, 'p, 'a) Engine =
  enCursorKey :: string
  enPageSize :: int
  enCursors :: "'s CursorStore option"
  enSource :: "('s, 'p) page_source option"
  enApplier :: "('s, 'p, 'a) Applier option"

text \<open>The variables of the loop; \<open>lsPass\<close> is \<open>None\<close> while \<open>firstPage\<close> holds.\<close>

record 'a LoopState =
  lsFull :: bool
  lsSeen :: "string list"
  lsFrom :: string
  lsPassCursor :: int
  lsPass :: "'a option"

fun applyChanges ::
  "('s, 'p, 'a) Applier \<Rightarrow> 'p Change list \<Rightarrow> 'a \<times> string list \<times> string \<Rightarrow> ('s, 'a \<times> string list \<times> string) op" where
  "applyChanges ap [] st s = (Inr st, s)"
| "applyChanges ap (c # cs) (pass, seen, from) s =
     (case apApply ap c pass s of
        (Inl e, s') \<Rightarrow> (Inl e, s')
      | (Inr pass', s') \<Rightarrow> applyChanges ap cs (pass', List.insert (chConnectionID c) seen, chConnectionID c) s')"

definition beginPass ::
  "('s, 'p, 'a) Applier \<Rightarrow> 'p Response \<Rightarrow> 'a LoopState \<Rightarrow> ('s, 'a \<times> 'a LoopState) op" where
  "beginPass ap response ls s =
     (case lsPass ls of
        Some pass \<Rightarrow> (Inr (pass, ls), s)
      | None \<Rightarrow>
          let full = (lsFull ls \<or> rspFull response)
          in case apBegin ap full s of
               (Inl e, s') \<Rightarrow> (Inl e, s')
             | (Inr pass, s') \<Rightarrow>
                 (Inr (pass, ls\<lparr>lsFull := full, lsPassCursor := rspStartedAtMS response, lsPass := Some pass\<rparr>), s'))"

text \<open>One iteration of the loop; the Boolean says whether the loop goes on.\<close>

definition syncPage ::
  "('s, 'p) page_source \<Rightarrow> ('s, 'p, 'a) Applier \<Rightarrow> int \<Rightarrow> int \<Rightarrow> 'a LoopState \<Rightarrow> ('s, 'a LoopState \<times> bool) op" where
  "syncPage fetch ap pageSize since ls s =
     (case fetch \<lparr>reqFull = lsFull ls, reqSince = since, reqPageSize = pageSize, reqFrom = lsFrom ls\<rparr> s of
        (Inl e, s1) \<Rightarrow> (Inl e, s1)
      | (Inr response, s1) \<Rightarrow>
          (case ValidateResponse response pageSize of
             Some e \<Rightarrow> (Inl e, s1)
           | None \<Rightarrow>
               (case beginPass ap response ls s1 of
                  (Inl e, s2) \<Rightarrow> (Inl e, s2)
                | (Inr (pass, ls1), s2) \<Rightarrow>
                    (case applyChanges ap (rspChanges response) (pass, lsSeen ls1, lsFrom ls1) s2 of
                       (Inl e, s3) \<Rightarrow> (Inl e, s3)
                     | (Inr (pass', seen, from), s3) \<Rightarrow>
                         (Inr (ls1\<lparr>lsPass := Some pass', lsSeen := seen, lsFrom := from\<rparr>,
                               \<not> int (length (rspChanges response)) < pageSize), s3)))))"

partial_function (option) syncLoop ::
  "('s, 'p) page_source \<Rightarrow> ('s, 'p, 'a) Applier \<Rightarrow> int \<Rightarrow> int \<Rightarrow> 'a LoopState \<Rightarrow> 's \<Rightarrow> ('a LoopState result \<times> 's) option" where
  "syncLoop fetch ap pageSize since ls s =
     (case syncPage fetch ap pageSize since ls s of
        (Inl e, s') \<Rightarrow> Some (Inl e, s')
      | (Inr (ls', again), s') \<Rightarrow>
          if again then syncLoop fetch ap pageSize since ls' s' else Some (Inr ls', s'))"

text \<open>The cursor a run starts from: the pair of \<open>since\<close> and \<open>full\<close> before the loop.\<close>

definition startCursor :: "'s CursorStore \<Rightarrow> string \<Rightarrow> bool \<Rightarrow> ('s, int \<times> bool) op" where
  "startCursor cursors key full s =
     (if full then (Inr (0, True), s)
      else case csLoad cursors key s of
        (Inl e, s') \<Rightarrow> (Inl e, s')
      | (Inr (cursor, ok), s') \<Rightarrow> (Inr (if ok then (cursor, False) else (0, True)), s'))"

definition finishRun ::
  "('s, 'p, 'a) Applier \<Rightarrow> 's CursorStore \<Rightarrow> string \<Rightarrow> 'a LoopState \<Rightarrow> ('s, unit) op" where
  "finishRun ap cursors key ls s =
     (case apFinish ap \<lparr>prFull = lsFull ls, prManifestStartedAtMS = lsPassCursor ls, prSeen = lsSeen ls\<rparr> (the (lsPass ls)) s of
        (Inl e, s') \<Rightarrow> (Inl e, s')
      | (Inr _, s') \<Rightarrow> csSave cursors key (lsPassCursor ls) s')"

definition initialLoop :: "bool \<Rightarrow> 'a LoopState" where
  "initialLoop full = \<lparr>lsFull = full, lsSeen = [], lsFrom = [], lsPassCursor = 0, lsPass = None\<rparr>"

definition Engine_Run :: "('s, 'p, 'a) Engine \<Rightarrow> bool \<Rightarrow> 's \<Rightarrow> (unit result \<times> 's) option" where
  "Engine_Run e full s =
     (let pageSize = NormalizePageSize (enPageSize e)
      in case ValidatePageSize pageSize of
           Some err \<Rightarrow> Some (Inl err, s)
         | None \<Rightarrow>
             (case (enCursors e, enSource e, enApplier e) of
                (None, _, _) \<Rightarrow> Some (Inl (Err ''agent sync cursor store is required''), s)
              | (Some _, None, _) \<Rightarrow> Some (Inl (Err ''agent sync source is required''), s)
              | (Some _, Some _, None) \<Rightarrow> Some (Inl (Err ''agent sync applier is required''), s)
              | (Some cursors, Some fetch, Some ap) \<Rightarrow>
                  (case startCursor cursors (enCursorKey e) full s of
                     (Inl err, s1) \<Rightarrow> Some (Inl err, s1)
                   | (Inr (since, full'), s1) \<Rightarrow>
                       (case syncLoop fetch ap pageSize since (initialLoop full') s1 of
                          None \<Rightarrow> None
                        | Some (Inl err, s2) \<Rightarrow> Some (Inl err, s2)
                        | Some (Inr ls, s2) \<Rightarrow> Some (finishRun ap cursors (enCursorKey e) ls s2)))))"

section \<open>Credential sync\<close>

record 's AuthStore =
  asGetState :: "string \<Rightarrow> ('s, string) op"
  asSetState :: "string \<Rightarrow> string \<Rightarrow> ('s, unit) op"
  asListAuthUsers :: "('s, AuthUser list) op"
  asUpsertAuthUser :: "AuthUser \<Rightarrow> ('s, unit) op"
  asDeleteAuthUser :: "string \<Rightarrow> ('s, unit) op"
  asApplyFullAuthSnapshot :: "(string \<times> AuthUser) list \<Rightarrow> string \<Rightarrow> int \<Rightarrow> ('s, unit) op"

record ('s, 't) CredentialRuntime =
  crApplyCredential :: "'t \<Rightarrow> ('s, AuthUser) op"
  crRemoveCredential :: "AuthUser \<Rightarrow> ('s, unit) op"
  crReconcileCredentials :: "(string \<times> AuthUser) list \<Rightarrow> ('s, unit) op"

definition AuthSyncCursorKey :: string where
  "AuthSyncCursorKey = ''last_applied_auth_manifest_started_at''"

definition LoadSyncCursor :: "'s AuthStore \<Rightarrow> string \<Rightarrow> ('s, int \<times> bool) op" where
  "LoadSyncCursor st key s =
     (case asGetState st key s of
        (Inl e, s') \<Rightarrow> if e = ErrNotFound then (Inr (0, False), s') else (Inl e, s')
      | (Inr raw, s') \<Rightarrow> (case ParseInt64 raw of Inl e \<Rightarrow> (Inl e, s') | Inr v \<Rightarrow> (Inr (v, True), s')))"

definition SaveSyncCursor :: "'s AuthStore \<Rightarrow> string \<Rightarrow> int \<Rightarrow> ('s, unit) op" where
  "SaveSyncCursor st key v = asSetState st key (FormatInt v)"

text \<open>The maps of a pass are association lists; a Go map's iteration visits them in the order of the list.\<close>

record CredentialSyncPass =
  cpFull :: bool
  cpCurrent :: "(string \<times> AuthUser) list"
  cpKeep :: "(string \<times> AuthUser) list"
  cpRemoved :: "(string \<times> AuthUser) list"

definition BeginSyncPass :: "'s AuthStore \<Rightarrow> bool \<Rightarrow> ('s, CredentialSyncPass) op" where
  "BeginSyncPass st full s =
     (case asListAuthUsers st s of
        (Inl e, s') \<Rightarrow> (Inl e, s')
      | (Inr users, s') \<Rightarrow>
          (Inr \<lparr>cpFull = full, cpCurrent = fold (\<lambda>u. put_row fst (auConnectionID u, u)) users [], cpKeep = [], cpRemoved = []\<rparr>, s'))"

definition ApplySyncChange ::
  "'s AuthStore \<Rightarrow> ('s, 't) CredentialRuntime \<Rightarrow> 't Change \<Rightarrow> CredentialSyncPass \<Rightarrow> ('s, CredentialSyncPass) op" where
  "ApplySyncChange st rt c p s =
     (if chOperation c = OperationUpsert then
        (case crApplyCredential rt (chPayload c) s of
           (Inl e, s') \<Rightarrow> (Inl e, s')
         | (Inr u, s') \<Rightarrow>
             let p' = p\<lparr>cpKeep := put_row fst (chConnectionID c, u) (cpKeep p)\<rparr>
             in if cpFull p then (Inr p', s')
                else case asUpsertAuthUser st u s' of (Inl e, s2) \<Rightarrow> (Inl e, s2) | (Inr _, s2) \<Rightarrow> (Inr p', s2))
      else
        let p' = (case lookup_row fst (cpCurrent p) (chConnectionID c) of
                    None \<Rightarrow> p
                  | Some (_, u) \<Rightarrow> p\<lparr>cpRemoved := put_row fst (chConnectionID c, u) (cpRemoved p)\<rparr>)
        in if cpFull p then (Inr p', s)
           else case asDeleteAuthUser st (chConnectionID c) s of (Inl e, s2) \<Rightarrow> (Inl e, s2) | (Inr _, s2) \<Rightarrow> (Inr p', s2))"

fun removeCredentials :: "('s, 't) CredentialRuntime \<Rightarrow> AuthUser list \<Rightarrow> ('s, unit) op" where
  "removeCredentials rt [] s = (Inr (), s)"
| "removeCredentials rt (u # us) s =
     (case crRemoveCredential rt u s of (Inl e, s') \<Rightarrow> (Inl e, s') | (Inr _, s') \<Rightarrow> removeCredentials rt us s')"

definition missingFrom :: "(string \<times> AuthUser) list \<Rightarrow> (string \<times> AuthUser) list \<Rightarrow> (string \<times> AuthUser) list" where
  "missingFrom keep current = filter (\<lambda>(i, u). i \<notin> fst ` set keep) current"

definition FinishSyncPass ::
  "'s AuthStore \<Rightarrow> ('s, 't) CredentialRuntime \<Rightarrow> PassResult \<Rightarrow> CredentialSyncPass \<Rightarrow> ('s, unit) op" where
  "FinishSyncPass st rt r p s =
     (let removed = (if cpFull p then fold (put_row fst) (missingFrom (cpKeep p) (cpCurrent p)) (cpRemoved p) else cpRemoved p);
          snapshot = (if cpFull p then asApplyFullAuthSnapshot st (cpKeep p) AuthSyncCursorKey (prManifestStartedAtMS r) s
                      else (Inr (), s))
      in case snapshot of
           (Inl e, s1) \<Rightarrow> (Inl e, s1)
         | (Inr _, s1) \<Rightarrow>
             (case removeCredentials rt (map snd removed) s1 of
                (Inl e, s2) \<Rightarrow> (Inl e, s2)
              | (Inr _, s2) \<Rightarrow> if cpFull p then crReconcileCredentials rt (cpKeep p) s2 else (Inr (), s2)))"

definition CredentialSync_RunOnce ::
  "'s AuthStore \<Rightarrow> ('s, 't) page_source \<Rightarrow> ('s, 't) CredentialRuntime \<Rightarrow> bool \<Rightarrow> 's \<Rightarrow> (unit result \<times> 's) option" where
  "CredentialSync_RunOnce st fetch rt full =
     Engine_Run \<lparr>enCursorKey = AuthSyncCursorKey, enPageSize = 0,
       enCursors = Some \<lparr>csLoad = LoadSyncCursor st, csSave = SaveSyncCursor st\<rparr>, enSource = Some fetch,
       enApplier = Some \<lparr>apBegin = BeginSyncPass st, apApply = ApplySyncChange st rt, apFinish = FinishSyncPass st rt\<rparr>\<rparr> full"

section \<open>Where the request goes\<close>

text \<open>
  \<open>ManifestSource.FetchSyncPage\<close>: the response of the server as a page; \<open>getID\<close> and \<open>getOp\<close> are the accessors of the
  generated message type of a change.
\<close>

definition pageChange :: "('c \<Rightarrow> string) \<Rightarrow> ('c \<Rightarrow> CredentialChangeOp) \<Rightarrow> 'c \<Rightarrow> 'c Change" where
  "pageChange getID getOp c =
     \<lparr>chConnectionID = getID c, chOperation = (if getOp c = OP_UPSERT then OperationUpsert else OperationDelete),
      chUpdatedAtMS = 0, chPayload = c\<rparr>"

definition FetchSyncPage ::
  "('c \<Rightarrow> string) \<Rightarrow> ('c \<Rightarrow> CredentialChangeOp) \<Rightarrow> (Request \<Rightarrow> ('s, 'c ManifestResponseValues) op) \<Rightarrow> ('s, 'c) page_source" where
  "FetchSyncPage getID getOp fetch req s =
     (case fetch req s of
        (Inl e, s') \<Rightarrow> (Inl e, s')
      | (Inr response, s') \<Rightarrow>
          if mrvError response \<noteq> [] then (Inl (Err (''auth manifest rejected: '' @ mrvError response)), s')
          else (Inr \<lparr>rspStartedAtMS = mrvStartedAtMS response, rspFull = mrvFull response,
                     rspChanges = SortChanges (map (pageChange getID getOp) (mrvChanges response))\<rparr>, s'))"

definition authManifestRequest :: "string \<Rightarrow> Request \<Rightarrow> ManifestRequest" where
  "authManifestRequest nodeID request =
     \<lparr>mrNodeId = nodeID, mrFull = reqFull request, mrSince = reqSince request,
      mrPageSize = word_of_int (reqPageSize request), mrFrom = reqFrom request\<rparr>"

section \<open>The pages of one manifest\<close>

lemma applyChanges_append:
  "applyChanges ap (xs @ ys) st s =
     (case applyChanges ap xs st s of (Inl e, s') \<Rightarrow> (Inl e, s') | (Inr st', s') \<Rightarrow> applyChanges ap ys st' s')"
  by (induction ap xs st s rule: applyChanges.induct) (auto split: prod.splits sum.splits)

lemma applyChanges_from:
  "applyChanges ap cs (p, seen, from) s = (Inr (p', seen', from'), s') \<Longrightarrow>
   from' = (if cs = [] then from else chConnectionID (last cs))"
  by (induction ap cs "(p, seen, from)" s arbitrary: p seen "from" rule: applyChanges.induct)
    (auto split: prod.splits sum.splits if_splits)

lemma afterID_all [simp]: "[] \<notin> chConnectionID ` set m \<Longrightarrow> afterID [] m = m"
  by (auto simp: afterID_def filter_id_conv image_iff less_le)

lemma afterID_afterID: "from < l \<Longrightarrow> afterID l (afterID from m) = afterID l m"
  by (auto simp: afterID_def intro!: filter_cong)

lemma ssorted_after_take:
  assumes xs: "ssorted (map chConnectionID xs)" and "n \<le> length xs" "0 < n"
  shows "afterID (chConnectionID (last (take n xs))) xs = drop n xs"
proof -
  let ?l = "chConnectionID (last (take n xs))"
  have ne: "take n xs \<noteq> []" using assms by auto
  have "ssorted (map chConnectionID (take n xs @ drop n xs))" using xs by simp
  then have "\<forall>x \<in> set (take n xs). \<forall>y \<in> set (drop n xs). chConnectionID x < chConnectionID y"
    unfolding map_append sorted_wrt_append by auto
  then have "\<forall>y \<in> set (drop n xs). ?l < chConnectionID y" using last_in_set [OF ne] by blast
  moreover have "\<forall>x \<in> set (take n xs). \<not> ?l < chConnectionID x"
    using ssorted_last_max [OF ssorted_map_take [OF xs] ne] by (auto simp: not_less)
  ultimately have "filter (\<lambda>c. ?l < chConnectionID c) (take n xs @ drop n xs) = drop n xs"
    unfolding filter_append by (simp add: filter_empty_conv filter_id_conv)
  then show ?thesis by (simp add: afterID_def)
qed

text \<open>
  A source that serves the pages of one manifest during a run: what the server promises the engine while its
  connections do not change. \<open>effective\<close> says which requests the server answers with a full manifest.
\<close>

locale paged_source =
  fixes fetch :: "'d \<Rightarrow> ('s, 'p) page_source"
    and m :: "'d \<Rightarrow> bool \<Rightarrow> int \<Rightarrow> 'p Change list"
    and effective :: "bool \<Rightarrow> int \<Rightarrow> bool"
    and started :: "'d \<Rightarrow> string \<Rightarrow> int"
    and ok :: "'d \<Rightarrow> bool"
  assumes m_sorted: "ok d \<Longrightarrow> ssorted (map chConnectionID (m d full since))"
    and m_ids: "ok d \<Longrightarrow> [] \<notin> chConnectionID ` set (m d full since)"
    and effective_full: "effective True since"
    and effective_m: "ok d \<Longrightarrow> effective full since \<Longrightarrow> m d full since = m d True since"
    and fetch_page: "ok d \<Longrightarrow> 1 \<le> reqPageSize r \<Longrightarrow> reqPageSize r \<le> MaxPageSize \<Longrightarrow>
      fetch d r s = (Inr \<lparr>rspStartedAtMS = started d (reqFrom r), rspFull = effective (reqFull r) (reqSince r),
        rspChanges = take (nat (reqPageSize r)) (afterID (reqFrom r) (m d (reqFull r) (reqSince r)))\<rparr>, s)"
begin

definition settle :: "'a LoopState \<Rightarrow> ('a \<times> string list \<times> string) result \<times> 's \<Rightarrow> 'a LoopState result \<times> 's" where
  "settle ls r = (case r of (Inl e, s) \<Rightarrow> (Inl e, s)
     | (Inr (p, seen, from), s) \<Rightarrow> (Inr (ls\<lparr>lsPass := Some p, lsSeen := seen, lsFrom := from\<rparr>), s))"

lemma page_valid:
  assumes "ok d" "1 \<le> n" "n \<le> MaxPageSize"
  shows "ValidateResponse \<lparr>rspStartedAtMS = t, rspFull = f,
    rspChanges = take (nat n) (afterID from (m d full since))\<rparr> n = None"
proof -
  have "[] \<notin> chConnectionID ` set (take (nat n) (afterID from (m d full since)))"
    using m_ids [OF assms(1)] by (auto simp: afterID_def dest!: in_set_takeD)
  moreover have "ssorted (map chConnectionID (take (nat n) (afterID from (m d full since))))"
    unfolding afterID_def by (intro ssorted_map_take ssorted_map_filter m_sorted assms)
  moreover have v: "ValidatePageSize n = None" using assms by simp
  ultimately show ?thesis using assms by (simp add: ValidateResponse_def validateChanges_None_iff v)
qed

lemma loop_pages:
  assumes d: "ok d" and n: "1 \<le> n" "n \<le> MaxPageSize" and p: "lsPass ls = Some p"
  shows "syncLoop (fetch d) ap n since ls s =
    Some (settle ls (applyChanges ap (afterID (lsFrom ls) (m d (lsFull ls) since)) (p, lsSeen ls, lsFrom ls) s))"
  using p
proof (induction "length (afterID (lsFrom ls) (m d (lsFull ls) since))" arbitrary: ls p s rule: less_induct)
  case less
  let ?xs = "afterID (lsFrom ls) (m d (lsFull ls) since)" and ?page = "take (nat n) (afterID (lsFrom ls) (m d (lsFull ls) since))"
  let ?r = "applyChanges ap ?page (p, lsSeen ls, lsFrom ls) s"
  have xs: "ssorted (map chConnectionID ?xs)" unfolding afterID_def by (rule ssorted_map_filter [OF m_sorted [OF d]])
  have page: "syncPage (fetch d) ap n since ls s = (case ?r of (Inl e, s') \<Rightarrow> (Inl e, s')
      | (Inr (p', seen, from), s') \<Rightarrow>
          (Inr (ls\<lparr>lsPass := Some p', lsSeen := seen, lsFrom := from\<rparr>, \<not> int (length ?page) < n), s'))"
    using d n less.prems by (simp add: syncPage_def fetch_page page_valid beginPass_def del: length_take
        split: prod.split sum.split)
  consider e s' where "?r = (Inl e, s')" | p' seen "from" s' where "?r = (Inr (p', seen, from), s')"
    by (metis prod.exhaust sum.exhaust)
  then show ?case
  proof cases
    case 1
    moreover have "applyChanges ap (?page @ drop (nat n) ?xs) (p, lsSeen ls, lsFrom ls) s = (Inl e, s')"
      unfolding applyChanges_append using 1 by simp
    ultimately show ?thesis by (subst syncLoop.simps) (simp add: page settle_def)
  next
    case 2
    let ?ls = "ls\<lparr>lsPass := Some p', lsSeen := seen, lsFrom := from\<rparr>"
    have all: "applyChanges ap ?xs (p, lsSeen ls, lsFrom ls) s =
        applyChanges ap (drop (nat n) ?xs) (p', seen, from) s'"
      using applyChanges_append [of ap ?page "drop (nat n) ?xs"] 2 by simp
    show ?thesis
    proof (cases "int (length ?page) < n")
      case True
      then have "drop (nat n) ?xs = []" using n by auto
      with True show ?thesis
        by (subst syncLoop.simps) (simp add: page 2 settle_def all del: length_take)
    next
      case False
      then have len: "nat n \<le> length ?xs" "0 < nat n" using n by auto
      then have ne: "?page \<noteq> []" by auto
      with applyChanges_from [OF 2] have from_eq: "from = chConnectionID (last ?page)" by simp
      have "lsFrom ls < from" using last_in_set [OF ne] unfolding from_eq by (auto simp: afterID_def dest!: in_set_takeD)
      then have rest: "afterID from (m d (lsFull ls) since) = drop (nat n) ?xs"
        using ssorted_after_take [OF xs len] afterID_afterID [of "lsFrom ls" "from" "m d (lsFull ls) since"]
        unfolding from_eq by (simp only:)
      have "syncLoop (fetch d) ap n since ?ls s' =
          Some (settle ?ls (applyChanges ap (drop (nat n) ?xs) (p', seen, from) s'))"
        using less.hyps [of ?ls p' s'] rest len by simp
      moreover have "settle ?ls r = settle ls r" for r by (auto simp: settle_def split: prod.splits sum.splits)
      ultimately show ?thesis using False
        by (subst syncLoop.simps) (simp add: page 2 all del: length_take)
    qed
  qed
qed

text \<open>The first page also opens the pass.\<close>

definition opened :: "'d \<Rightarrow> bool \<Rightarrow> int \<Rightarrow> 'a \<Rightarrow> 'a LoopState" where
  "opened d full since p = \<lparr>lsFull = full \<or> effective full since, lsSeen = [], lsFrom = [],
     lsPassCursor = started d [], lsPass = Some p\<rparr>"

lemma m_opened: "ok d \<Longrightarrow> m d (full \<or> effective full since) since = m d full since"
  using effective_m [of d False since] by (cases full; cases "effective full since") simp_all

lemma loop_run:
  assumes d: "ok d" and n: "1 \<le> n" "n \<le> MaxPageSize"
  shows "syncLoop (fetch d) ap n since (initialLoop full) s =
    (case apBegin ap (full \<or> effective full since) s of
       (Inl e, s') \<Rightarrow> Some (Inl e, s')
     | (Inr p, s') \<Rightarrow> Some (settle (opened d full since p) (applyChanges ap (m d full since) (p, [], []) s')))"
proof -
  have page: "syncPage (fetch d) ap n since (initialLoop full) s =
      (case apBegin ap (full \<or> effective full since) s of
         (Inl e, s') \<Rightarrow> (Inl e, s') | (Inr p, s') \<Rightarrow> syncPage (fetch d) ap n since (opened d full since p) s')"
    using d n by (simp add: syncPage_def fetch_page page_valid initialLoop_def opened_def beginPass_def m_opened
        Let_def split: prod.split sum.split)
  have "syncLoop (fetch d) ap n since (opened d full since p) s' =
      Some (settle (opened d full since p) (applyChanges ap (m d full since) (p, [], []) s'))" for p s'
    using loop_pages [OF d n, of "opened d full since p" p] m_ids [OF d] by (simp add: opened_def m_opened [OF d])
  note opened = this
  show ?thesis
  proof (cases "apBegin ap (full \<or> effective full since) s")
    case (Pair r s')
    show ?thesis
    proof (cases r)
      case (Inl e)
      with Pair show ?thesis by (subst syncLoop.simps) (simp add: page)
    next
      case (Inr p)
      with Pair show ?thesis using opened [of p s']
        by (subst syncLoop.simps, subst (asm) syncLoop.simps) (simp add: page)
    qed
  qed
qed

end

end
