(* ===== verification/Core_Text.thy ===== *)
theory Core_Text
  imports Strconv
begin

text \<open>
  Text the storage layer writes: identifiers (\<open>storage/core.go\<close>, \<open>NewID\<close>) and timestamps
  (\<open>storage/sqlite.go\<close>, \<open>ts\<close>, \<open>tsOrNil\<close>). Timestamps are kept as RFC 3339 text with the trailing zeros
  of the fraction removed; the queries compare and order that text.
\<close>

section \<open>Identifiers\<close>

definition hex_digit :: "nat \<Rightarrow> char" where
  "hex_digit d = char_of (if d < 10 then 48 + d else 87 + d)"

definition hex_byte :: "8 word \<Rightarrow> string" where
  "hex_byte b = [hex_digit (unat b div 16), hex_digit (unat b mod 16)]"

definition hex :: "8 word list \<Rightarrow> string" where
  "hex bs = concat (map hex_byte bs)"

text \<open>The argument is what \<open>rand.Read\<close> filled the array of 16 bytes with.\<close>

definition stamp_version :: "8 word list \<Rightarrow> 8 word list" where
  "stamp_version b = b[6 := or (and (b ! 6) 0x0f) 0x40, 8 := or (and (b ! 8) 0x3f) 0x80]"

definition NewID :: "8 word list \<Rightarrow> string" where
  "NewID rnd =
     (let b = stamp_version rnd
      in hex (take 4 b) @ ''-'' @ hex (take 2 (drop 4 b)) @ ''-'' @ hex (take 2 (drop 6 b)) @ ''-'' @
         hex (take 2 (drop 8 b)) @ ''-'' @ hex (take 6 (drop 10 b)))"

lemma NewID_nonempty [simp]: "NewID rnd \<noteq> []"
  by (simp add: NewID_def Let_def)

lemma NewID_length: "length rnd = 16 \<Longrightarrow> length (NewID rnd) = 36"
  by (simp add: NewID_def Let_def hex_def hex_byte_def stamp_version_def length_concat o_def sum_list_triv)

section \<open>Timestamps\<close>

text \<open>The civil date of a number of days since 1970-01-01, in the proleptic Gregorian calendar.\<close>

definition civil :: "int \<Rightarrow> int \<times> int \<times> int" where
  "civil days =
     (let z = days + 719468;
          era = z div 146097;
          doe = z mod 146097;
          yoe = (doe - doe div 1460 + doe div 36524 - doe div 146096) div 365;
          doy = doe - (365 * yoe + yoe div 4 - yoe div 100);
          mp = (5 * doy + 2) div 153;
          d = doy - (153 * mp + 2) div 5 + 1;
          m = (if mp < 10 then mp + 3 else mp - 9)
      in (yoe + era * 400 + (if m \<le> 2 then 1 else 0), m, d))"

definition pad :: "nat \<Rightarrow> int \<Rightarrow> string" where
  "pad w n = (let s = show_nat (nat n) in replicate (w - length s) (CHR ''0'') @ s)"

definition trim_zeros :: "string \<Rightarrow> string" where
  "trim_zeros s = rev (dropWhile (\<lambda>c. c = CHR ''0'') (rev s))"

definition ts :: "int \<Rightarrow> string" where
  "ts t =
     (let secs = t div 10 ^ 9; frac = trim_zeros (pad 9 (t mod 10 ^ 9));
          sod = secs mod 86400
      in case civil (secs div 86400) of (y, m, d) \<Rightarrow>
           pad 4 y @ ''-'' @ pad 2 m @ ''-'' @ pad 2 d @ ''T'' @ pad 2 (sod div 3600) @ '':'' @
           pad 2 (sod mod 3600 div 60) @ '':'' @ pad 2 (sod mod 60) @
           (if frac = [] then [] else CHR ''.'' # frac) @ ''Z'')"

definition tsOrNil :: "int \<Rightarrow> string option" where
  "tsOrNil t = (if IsZero t then None else Some (ts t))"

lemma digit_chars:
  "digit_char 0 = CHR ''0''" "digit_char 1 = CHR ''1''" "digit_char (Suc 0) = CHR ''1''"
  "digit_char 2 = CHR ''2''" "digit_char 3 = CHR ''3''" "digit_char 4 = CHR ''4''" "digit_char 5 = CHR ''5''"
  "digit_char 6 = CHR ''6''" "digit_char 7 = CHR ''7''" "digit_char 8 = CHR ''8''" "digit_char 9 = CHR ''9''"
  by code_simp+

lemmas show_nat_ground = show_nat.simps [of 0] show_nat.simps [of 1] show_nat.simps [of "Suc 0"]
  show_nat.simps [of "numeral k" for k] digit_chars

lemma ts_civil:
  assumes "civil (t div 10 ^ 9 div 86400) = (y, m, d)" "t div 10 ^ 9 mod 86400 = sod"
    "trim_zeros (pad 9 (t mod 10 ^ 9)) = frac"
  shows "ts t = pad 4 y @ ''-'' @ pad 2 m @ ''-'' @ pad 2 d @ ''T'' @ pad 2 (sod div 3600) @ '':'' @
    pad 2 (sod mod 3600 div 60) @ '':'' @ pad 2 (sod mod 60) @ (if frac = [] then [] else CHR ''.'' # frac) @ ''Z''"
  using assms by (simp add: ts_def Let_def)

lemma ts_examples:
  "ts zero_time = ''0001-01-01T00:00:00Z''"
  "ts 1700000000000000000 = ''2023-11-14T22:13:20Z''"
  "ts 1700000000500000000 = ''2023-11-14T22:13:20.5Z''"
proof -
  have c: "civil (- 719162) = (1, 1, 1)" "civil 19675 = (2023, 11, 14)" by code_simp+
  show "ts zero_time = ''0001-01-01T00:00:00Z''"
    using ts_civil [of zero_time 1 1 1 0 "[]"]
    by (simp add: c zero_time_def pad_def trim_zeros_def show_nat_ground replicate_app_Cons_same numeral_3_eq_3)
  show "ts 1700000000000000000 = ''2023-11-14T22:13:20Z''"
    using ts_civil [of 1700000000000000000 2023 11 14 80000 "[]"]
    by (simp add: c pad_def trim_zeros_def show_nat_ground)
  show "ts 1700000000500000000 = ''2023-11-14T22:13:20.5Z''"
    using ts_civil [of 1700000000500000000 2023 11 14 80000 "''5''"]
    by (simp add: c pad_def trim_zeros_def show_nat_ground)
qed

text \<open>
  The order of the text is not the order of the times: a time on the second is written without a
  fraction, and \<open>Z\<close> is greater than the decimal point.
\<close>

lemma ts_not_monotone: "\<exists>a b. a < b \<and> ts b < ts a"
proof (intro exI conjI)
  show "ts 1700000000500000000 < ts 1700000000000000000" by (simp add: ts_examples)
qed simp

end
