(* ===== verification/Domain.thy ===== *)
theory Domain
  imports Projection Core_Text
begin

text \<open>
  The domain tables of the server and the operations of the store on them,
  \<open>internal/server/storage/domain_sql.go\<close> and the account part of \<open>sqlite.go\<close>: accounts, nodes with their
  instances and agent installations, connections with the material of their protocol, issued configs.

  A table is the list of its rows in the order of insertion; a transaction that fails leaves the tables
  unchanged. The unique indexes, foreign keys and checks of the schema are part of the operations. The
  arguments \<open>now\<close> and \<open>rnd\<close> are the clock and the random bytes of a call (\<open>rnd i\<close> is what the \<open>i\<close>-th call
  of \<open>NewID\<close> draws). Columns the rows do not need (the text of a time) are kept as the value they encode.
\<close>

section \<open>The tables\<close>

record HysteriaFileSetRow =
  fsID :: string
  fsArchive :: string
  fsManifestJSON :: string
  fsCreatedAtMS :: int

text \<open>
  A row of \<open>hysteria2_node_configs\<close>: the columns of the struct and the file set applied last; the empty
  string stands for NULL in the two columns of file sets.
\<close>

record HysteriaConfigRow = Hysteria2NodeConfig +
  hcAppliedFileSetID :: string

record DomainDB =
  dbAccounts :: "Account list"
  dbNodes :: "Node list"
  dbInstances :: "NodeInstance list"
  dbInstallations :: "AgentInstallation list"
  dbConnections :: "Connection list"
  dbHysteriaMaterials :: "Hysteria2ConnectionMaterial list"
  dbAmneziaMaterials :: "AmneziaWGConnectionMaterial list"
  dbAPIRefs :: "AmneziaAPIConnectionRef list"
  dbConfigs :: "IssuedConfig list"
  dbFileSets :: "HysteriaFileSetRow list"
  dbHysteriaConfigs :: "HysteriaConfigRow list"
  dbAmneziaConfigs :: "AmneziaWGNodeConfig list"
  dbAPIConfigs :: "AmneziaAPINodeConfig list"

definition emptyDomainDB :: DomainDB where
  "emptyDomainDB =
     \<lparr>dbAccounts = [], dbNodes = [], dbInstances = [], dbInstallations = [], dbConnections = [],
      dbHysteriaMaterials = [], dbAmneziaMaterials = [], dbAPIRefs = [], dbConfigs = [],
      dbFileSets = [], dbHysteriaConfigs = [], dbAmneziaConfigs = [], dbAPIConfigs = []\<rparr>"

type_synonym random = "nat \<Rightarrow> 8 word list"

definition ErrConflict :: error where
  "ErrConflict = Err ''configuration changed concurrently''"

definition ErrDuplicateConnection :: error where
  "ErrDuplicateConnection = Err ''connection already exists for account, node and name''"

definition errNoRows :: error where
  "errNoRows = Err ''sql: no rows in result set''"

definition errScanNull :: error where
  "errScanNull = Err ''sql: Scan error: converting NULL to string is unsupported''"

definition getRow :: "('r \<Rightarrow> 'k) \<Rightarrow> 'r list \<Rightarrow> 'k \<Rightarrow> 'r result" where
  "getRow key t k = (case lookup_row key t k of None \<Rightarrow> Inl ErrNotFound | Some r \<Rightarrow> Inr r)"

text \<open>The unique indexes.\<close>

definition nodeClash :: "Node \<Rightarrow> Node \<Rightarrow> bool" where
  "nodeClash v x \<longleftrightarrow> ndID v = ndID x \<or> ndName v = ndName x"

definition installationClash :: "AgentInstallation \<Rightarrow> AgentInstallation \<Rightarrow> bool" where
  "installationClash v x \<longleftrightarrow>
     aiID v = aiID x \<or> aiCertificateFingerprintSHA256 v = aiCertificateFingerprintSHA256 x \<or>
     aiStatus v = StatusActive \<and> aiStatus x = StatusActive \<and>
     aiNodeInstanceID v = aiNodeInstanceID x \<and> aiAgentType v = aiAgentType x"

definition connectionClash :: "Connection \<Rightarrow> Connection \<Rightarrow> bool" where
  "connectionClash v x \<longleftrightarrow>
     cnID v = cnID x \<or>
     cnDesiredStatus v \<noteq> StatusDeleted \<and> cnDesiredStatus x \<noteq> StatusDeleted \<and>
     cnAccountID v = cnAccountID x \<and> cnNodeID v = cnNodeID x \<and> cnName v = cnName x"

definition amneziaMaterialClash ::
  "AmneziaWGConnectionMaterial \<Rightarrow> AmneziaWGConnectionMaterial \<Rightarrow> bool" where
  "amneziaMaterialClash v x \<longleftrightarrow>
     amConnectionID v = amConnectionID x \<or>
     amNodeID v = amNodeID x \<and> (amAssignedIPv4 v = amAssignedIPv4 x \<or> amClientPublicKey v = amClientPublicKey x)"

definition sameKey :: "('r \<Rightarrow> 'k) \<Rightarrow> 'r \<Rightarrow> 'r \<Rightarrow> bool" where
  "sameKey key v x \<longleftrightarrow> key v = key x"

section \<open>Accounts and issued configs\<close>

definition CreateAccount :: "random \<Rightarrow> int \<Rightarrow> Account \<Rightarrow> (DomainDB, Account) op" where
  "CreateAccount rnd now u db =
     (let u' = u\<lparr>acID := NewID (rnd 0), acStatus := StatusActive, acCreatedAt := now, acUpdatedAt := now\<rparr>
      in commit u' (bindR (insert_row (sameKey acID) u' (dbAccounts db)) (\<lambda>t. Inr (db\<lparr>dbAccounts := t\<rparr>))) db)"

definition GetAccount :: "DomainDB \<Rightarrow> string \<Rightarrow> Account result" where
  "GetAccount db id' = getRow acID (dbAccounts db) id'"

definition ListAccounts :: "DomainDB \<Rightarrow> Account list" where
  "ListAccounts db = sort_key acUsername (dbAccounts db)"

definition UpdateAccountStatus :: "int \<Rightarrow> string \<Rightarrow> string \<Rightarrow> (DomainDB, Account) op" where
  "UpdateAccountStatus now id' status db =
     (if status \<notin> {StatusActive, StatusHeld, StatusDeleted}
      then (Inl (Err (''unsupported account status '' @ [CHR 34] @ status @ [CHR 34])), db)
      else
        let db' = db\<lparr>dbAccounts := update_rows (\<lambda>a. acID a = id')
                       (\<lambda>a. a\<lparr>acStatus := status, acUpdatedAt := now\<rparr>) (dbAccounts db)\<rparr>
        in (GetAccount db' id', db'))"

definition CreateIssuedConfig :: "random \<Rightarrow> int \<Rightarrow> IssuedConfig \<Rightarrow> (DomainDB, IssuedConfig) op" where
  "CreateIssuedConfig rnd now c db =
     (let c' = c\<lparr>icID := NewID (rnd 0), icStatus := StatusActive, icCreatedAt := now, icUpdatedAt := now\<rparr>
      in if icConnectionID c \<notin> cnID ` set (dbConnections db) then (Inl foreignKeyViolation, db)
         else commit c' (bindR (insert_row (sameKey icID) c' (dbConfigs db)) (\<lambda>t. Inr (db\<lparr>dbConfigs := t\<rparr>))) db)"

definition ListIssuedConfigs :: "DomainDB \<Rightarrow> IssuedConfig list" where
  "ListIssuedConfigs db = sort_key (\<lambda>c. ts (icCreatedAt c)) (dbConfigs db)"

section \<open>Nodes, instances and installations\<close>

definition defaultNode :: "8 word list \<Rightarrow> int \<Rightarrow> Node \<Rightarrow> Node" where
  "defaultNode rnd now v =
     v\<lparr>ndID := (if ndID v = [] then NewID rnd else ndID v),
       ndStatus := (if ndStatus v = [] then StatusActive else ndStatus v),
       ndCreatedAt := now, ndUpdatedAt := now\<rparr>"

definition CreateNode :: "random \<Rightarrow> int \<Rightarrow> Node \<Rightarrow> (DomainDB, Node) op" where
  "CreateNode rnd now v db =
     (let v' = defaultNode (rnd 0) now v
      in commit v' (bindR (insert_row nodeClash v' (dbNodes db)) (\<lambda>t. Inr (db\<lparr>dbNodes := t\<rparr>))) db)"

definition ListNodes :: "DomainDB \<Rightarrow> Node list" where
  "ListNodes db = sort_key ndName (sort_key ndID (dbNodes db))"

definition GetNode :: "DomainDB \<Rightarrow> string \<Rightarrow> Node result" where
  "GetNode db id' = getRow ndID (dbNodes db) id'"

definition bumpVersion :: "int \<Rightarrow> int \<Rightarrow> int" where
  "bumpVersion version v = (if v \<ge> version then v + 1 else version)"

definition SoftDeleteNode :: "int \<Rightarrow> string \<Rightarrow> (DomainDB, Node) op" where
  "SoftDeleteNode now id' db =
     (let version = time_UnixMilli now;
          hit = (\<lambda>c. cnNodeID c = id' \<and> cnDesiredStatus c \<noteq> StatusDeleted);
          instances = niID ` set (filter (\<lambda>i. niNodeID i = id') (dbInstances db))
      in if list_ex (\<lambda>c. hit c \<and> cnDesiredVersionMS c = max_int64) (dbConnections db)
         then (Inl (Err ''bigint out of range''), db)
         else
           let db' = db\<lparr>
             dbConnections := update_rows hit
               (\<lambda>c. c\<lparr>cnDesiredStatus := StatusDeleted,
                      cnDesiredVersionMS := bumpVersion version (cnDesiredVersionMS c), cnUpdatedAt := now\<rparr>)
               (dbConnections db),
             dbInstallations := update_rows
               (\<lambda>a. aiNodeInstanceID a \<in> instances \<and> aiStatus a = StatusActive)
               (\<lambda>a. a\<lparr>aiStatus := StatusDeleted, aiUpdatedAt := now\<rparr>) (dbInstallations db),
             dbInstances := update_rows (\<lambda>i. niNodeID i = id' \<and> niStatus i = StatusActive)
               (\<lambda>i. i\<lparr>niStatus := StatusDeleted, niRetiredAt := now, niUpdatedAt := now\<rparr>) (dbInstances db),
             dbNodes := update_rows (\<lambda>n. ndID n = id')
               (\<lambda>n. n\<lparr>ndStatus := StatusDeleted, ndUpdatedAt := now\<rparr>) (dbNodes db)\<rparr>
           in (GetNode db' id', db'))"

definition defaultNodeInstance :: "8 word list \<Rightarrow> int \<Rightarrow> NodeInstance \<Rightarrow> NodeInstance" where
  "defaultNodeInstance rnd now v =
     (let v1 = v\<lparr>niID := (if niID v = [] then NewID rnd else niID v),
                 niSSHPort := (if niSSHPort v = 0 then 22 else niSSHPort v),
                 niStatus := (if niStatus v = [] then StatusActive else niStatus v)\<rparr>
      in v1\<lparr>niActivatedAt :=
              (if IsZero (niActivatedAt v1) \<and> niStatus v1 = StatusActive then now else niActivatedAt v1),
            niCreatedAt := now, niUpdatedAt := now\<rparr>)"

definition CreateNodeInstance :: "random \<Rightarrow> int \<Rightarrow> NodeInstance \<Rightarrow> (DomainDB, NodeInstance) op" where
  "CreateNodeInstance rnd now v db =
     (case GetNode db (niNodeID v) of
        Inl e \<Rightarrow> (Inl e, db)
      | Inr _ \<Rightarrow>
          let v' = defaultNodeInstance (rnd 0) now v
          in commit v' (bindR (insert_row (sameKey niID) v' (dbInstances db)) (\<lambda>t. Inr (db\<lparr>dbInstances := t\<rparr>))) db)"

definition GetNodeInstance :: "DomainDB \<Rightarrow> string \<Rightarrow> NodeInstance result" where
  "GetNodeInstance db id' = getRow niID (dbInstances db) id'"

text \<open>
  \<open>order by activated_at desc, created_at desc limit 1\<close>: the first row no other row comes before; a
  missing \<open>activated_at\<close> (NULL) is the least value of the column.
\<close>

definition activatedBefore :: "NodeInstance \<Rightarrow> NodeInstance \<Rightarrow> bool" where
  "activatedBefore i j =
     (case (tsOrNil (niActivatedAt i), tsOrNil (niActivatedAt j)) of
        (None, Some _) \<Rightarrow> True
      | (Some _, None) \<Rightarrow> False
      | (None, None) \<Rightarrow> ts (niCreatedAt i) < ts (niCreatedAt j)
      | (Some a, Some b) \<Rightarrow> a < b \<or> a = b \<and> ts (niCreatedAt i) < ts (niCreatedAt j))"

fun latest :: "('r \<Rightarrow> 'r \<Rightarrow> bool) \<Rightarrow> 'r list \<Rightarrow> 'r option" where
  "latest before [] = None"
| "latest before (r # rs) =
     (case latest before rs of None \<Rightarrow> Some r | Some b \<Rightarrow> if before r b then Some b else Some r)"

definition GetActiveNodeInstance :: "DomainDB \<Rightarrow> string \<Rightarrow> NodeInstance result" where
  "GetActiveNodeInstance db nodeID =
     (case latest activatedBefore
             (filter (\<lambda>i. niNodeID i = nodeID \<and> niStatus i = StatusActive) (dbInstances db)) of
        None \<Rightarrow> Inl ErrNotFound
      | Some i \<Rightarrow> Inr i)"

definition ListNodeInstances :: "DomainDB \<Rightarrow> NodeInstance list" where
  "ListNodeInstances db = sort_key (\<lambda>i. ts (niCreatedAt i)) (sort_key niID (dbInstances db))"

text \<open>\<open>strings.ToLower\<close> on the ASCII letters, which is what a certificate fingerprint consists of.\<close>

definition lower_char :: "char \<Rightarrow> char" where
  "lower_char c = (let n = of_char c :: nat in if 65 \<le> n \<and> n \<le> 90 then char_of (n + 32) else c)"

definition ToLower :: "string \<Rightarrow> string" where
  "ToLower s = map lower_char s"

definition defaultAgentInstallation ::
  "8 word list \<Rightarrow> int \<Rightarrow> AgentInstallation \<Rightarrow> string \<Rightarrow> AgentInstallation" where
  "defaultAgentInstallation rnd now v instanceID =
     v\<lparr>aiID := (if aiID v = [] then NewID rnd else aiID v),
       aiNodeInstanceID := instanceID,
       aiAgentType := TrimSpace (aiAgentType v),
       aiCertificateFingerprintSHA256 := ToLower (TrimSpace (aiCertificateFingerprintSHA256 v)),
       aiStatus := (if aiStatus v = [] then StatusActive else aiStatus v),
       aiCreatedAt := now, aiUpdatedAt := now\<rparr>"

definition validateAgentInstallation :: "AgentInstallation \<Rightarrow> error option" where
  "validateAgentInstallation v =
     (if aiNodeInstanceID v = [] \<or> aiAgentType v = [] \<or> aiCertificateFingerprintSHA256 v = []
      then Some (Err ''agent installation instance, type and certificate fingerprint are required'')
      else None)"

definition CreateAgentInstallation ::
  "random \<Rightarrow> int \<Rightarrow> AgentInstallation \<Rightarrow> (DomainDB, AgentInstallation) op" where
  "CreateAgentInstallation rnd now v db =
     (case GetNodeInstance db (aiNodeInstanceID v) of
        Inl e \<Rightarrow> (Inl e, db)
      | Inr _ \<Rightarrow>
          let v' = defaultAgentInstallation (rnd 0) now v (aiNodeInstanceID v)
          in case validateAgentInstallation v' of
               Some e \<Rightarrow> (Inl e, db)
             | None \<Rightarrow>
                 (commit v' (bindR (insert_row installationClash v' (dbInstallations db)) (\<lambda>t. Inr (db\<lparr>dbInstallations := t\<rparr>))) db))"

definition GetActiveAgentInstallationByCertificateFingerprint ::
  "DomainDB \<Rightarrow> string \<Rightarrow> AgentInstallation result" where
  "GetActiveAgentInstallationByCertificateFingerprint db fingerprint =
     (case find (\<lambda>a. aiCertificateFingerprintSHA256 a = ToLower (TrimSpace fingerprint) \<and>
                     aiStatus a = StatusActive) (dbInstallations db) of
        None \<Rightarrow> Inl ErrNotFound
      | Some a \<Rightarrow> Inr a)"

record InstallationRecord =
  irID :: string
  irNodeID :: string
  irAgentType :: string

definition LookupActiveAgentInstallation :: "DomainDB \<Rightarrow> string \<Rightarrow> InstallationRecord result" where
  "LookupActiveAgentInstallation db fingerprint =
     (case filter (\<lambda>(a, i). niID i = aiNodeInstanceID a \<and>
              aiCertificateFingerprintSHA256 a = ToLower (TrimSpace fingerprint) \<and> aiStatus a = StatusActive)
            (List.product (dbInstallations db) (dbInstances db)) of
        [] \<Rightarrow> Inl errNoRows
      | (a, i) # _ \<Rightarrow> Inr \<lparr>irID = aiID a, irNodeID = niNodeID i, irAgentType = aiAgentType a\<rparr>)"

definition GetAgentInstallation :: "DomainDB \<Rightarrow> string \<Rightarrow> AgentInstallation result" where
  "GetAgentInstallation db id' = getRow aiID (dbInstallations db) id'"

definition ListAgentInstallations :: "DomainDB \<Rightarrow> AgentInstallation list" where
  "ListAgentInstallations db = sort_key (\<lambda>a. ts (aiCreatedAt a)) (sort_key aiID (dbInstallations db))"

definition CreateNodeWithInstanceAndAgentInstallation ::
  "random \<Rightarrow> int \<Rightarrow> Node \<Rightarrow> NodeInstance \<Rightarrow> AgentInstallation \<Rightarrow>
   (DomainDB, Node \<times> NodeInstance \<times> AgentInstallation) op" where
  "CreateNodeWithInstanceAndAgentInstallation rnd now node inst installation db =
     (let node' = defaultNode (rnd 0) now node;
          inst' = defaultNodeInstance (rnd 1) now (inst\<lparr>niNodeID := ndID node'\<rparr>);
          installation' = defaultAgentInstallation (rnd 2) now installation (niID inst')
      in case validateAgentInstallation installation' of
           Some e \<Rightarrow> (Inl e, db)
         | None \<Rightarrow>
             (commit (node', inst', installation') (bindR (insert_row nodeClash node' (dbNodes db)) (\<lambda>nodes.
                   bindR (insert_row (sameKey niID) inst' (dbInstances db)) (\<lambda>instances.
                   bindR (insert_row installationClash installation' (dbInstallations db)) (\<lambda>installations.
                   Inr (db\<lparr>dbNodes := nodes, dbInstances := instances, dbInstallations := installations\<rparr>))))) db))"

section \<open>Connections\<close>

definition blank :: "string \<Rightarrow> bool" where
  "blank s \<longleftrightarrow> TrimSpace s = []"

definition validateConnectionBundle :: "Node \<Rightarrow> ConnectionBundle \<Rightarrow> error option" where
  "validateConnectionBundle node bundle =
     (let connection = cbConnection bundle
      in if cbConfigs bundle = [] then Some (Err ''connection requires at least one issued config'')
      else if list_ex (\<lambda>c. icKind c = [] \<or> blank (icName c) \<or> blank (icConfig c)) (cbConfigs bundle)
      then Some (Err ''issued config kind, name and content are required'')
      else if ndType node = NodeTypeNativeHy2 then
        (case (cnProtocol connection = ProtocolHysteria2, cbHysteria2Material bundle,
               cbAmneziaWGMaterial bundle, cbAmneziaAPIRef bundle) of
           (True, Some m, None, None) \<Rightarrow>
             if blank (hmPassword m) \<or> blank (hmPasswordHash m)
             then Some (Err ''native Hysteria2 connection password and password hash are required'')
             else None
         | _ \<Rightarrow> Some (Err ''native Hysteria2 connection requires only Hysteria2 material''))
      else if ndType node = NodeTypeNativeAmneziaWG then
        (case (cnProtocol connection = ProtocolAmneziaWG, cbAmneziaWGMaterial bundle,
               cbHysteria2Material bundle, cbAmneziaAPIRef bundle) of
           (True, Some m, None, None) \<Rightarrow>
             if amNodeID m \<noteq> [] \<and> amNodeID m \<noteq> cnNodeID connection
             then Some (Err ''native AmneziaWG connection material node mismatch'')
             else if blank (amClientPublicKey m) \<or> blank (amClientPrivateKey m) \<or> blank (amPresharedKey m) \<or>
                     blank (amAssignedIPv4 m)
             then Some (Err ''native AmneziaWG connection material is incomplete'')
             else None
         | _ \<Rightarrow> Some (Err ''native AmneziaWG connection requires only AmneziaWG material''))
      else if ndType node = NodeTypeAmneziaAPI then
        (case (cnProtocol connection = ProtocolAmneziaWG, cbAmneziaAPIRef bundle,
               cbHysteria2Material bundle, cbAmneziaWGMaterial bundle) of
           (True, Some r, None, None) \<Rightarrow>
             if blank (arRemoteID r) then Some (Err ''Amnezia API remote connection ID is required'') else None
         | _ \<Rightarrow> Some (Err ''Amnezia API connection requires only an external connection reference''))
      else Some (Err (''unsupported connection node type '' @ [CHR 34] @ ndType node @ [CHR 34])))"

definition defaultConnection :: "8 word list \<Rightarrow> int \<Rightarrow> Connection \<Rightarrow> Connection" where
  "defaultConnection rnd now v =
     v\<lparr>cnID := (if cnID v = [] then NewID rnd else cnID v),
       cnDesiredStatus := (if cnDesiredStatus v = [] then StatusActive else cnDesiredStatus v),
       cnAppliedStatus := (if cnAppliedStatus v = [] then StatusAbsent else cnAppliedStatus v),
       cnDesiredVersionMS := (if cnDesiredVersionMS v = 0 then time_UnixMilli now else cnDesiredVersionMS v),
       cnCreatedAt := now, cnUpdatedAt := now\<rparr>"

text \<open>The statement that locks the node configuration: it must still have the expected version.\<close>

definition lockNodeConfig :: "ConnectionBundle \<Rightarrow> string \<Rightarrow> DomainDB \<Rightarrow> DomainDB result" where
  "lockNodeConfig bundle nodeID db =
     (if cbAmneziaWGMaterial bundle \<noteq> None \<and> cbExpectedNodeConfigVersionMS bundle > 0 \<and>
         length (filter (\<lambda>c. awNodeID c = nodeID \<and> awConfigVersionMS c = cbExpectedNodeConfigVersionMS bundle)
           (dbAmneziaConfigs db)) \<noteq> 1
      then Inl ErrConflict else Inr db)"

definition insertConnection :: "Connection \<Rightarrow> DomainDB \<Rightarrow> DomainDB result" where
  "insertConnection v db =
     (case insert_row connectionClash v (dbConnections db) of
        Inl e \<Rightarrow> Inl ErrDuplicateConnection
      | Inr t \<Rightarrow> Inr (db\<lparr>dbConnections := t\<rparr>))"

definition insertHysteriaMaterial ::
  "Hysteria2ConnectionMaterial option \<Rightarrow> DomainDB \<Rightarrow> DomainDB result" where
  "insertHysteriaMaterial m db =
     (case m of
        None \<Rightarrow> Inr db
      | Some material \<Rightarrow> bindR (insert_row (sameKey hmConnectionID) material (dbHysteriaMaterials db)) (\<lambda>t.
          Inr (db\<lparr>dbHysteriaMaterials := t\<rparr>)))"

definition insertAmneziaMaterial ::
  "AmneziaWGConnectionMaterial option \<Rightarrow> DomainDB \<Rightarrow> DomainDB result" where
  "insertAmneziaMaterial m db =
     (case m of
        None \<Rightarrow> Inr db
      | Some material \<Rightarrow> bindR (insert_row amneziaMaterialClash material (dbAmneziaMaterials db)) (\<lambda>t.
          Inr (db\<lparr>dbAmneziaMaterials := t\<rparr>)))"

definition insertAPIRef :: "AmneziaAPIConnectionRef option \<Rightarrow> DomainDB \<Rightarrow> DomainDB result" where
  "insertAPIRef m db =
     (case m of
        None \<Rightarrow> Inr db
      | Some ref \<Rightarrow> bindR (insert_row (sameKey arConnectionID) ref (dbAPIRefs db)) (\<lambda>t.
          Inr (db\<lparr>dbAPIRefs := t\<rparr>)))"

definition insertConfig :: "IssuedConfig \<Rightarrow> DomainDB \<Rightarrow> DomainDB result" where
  "insertConfig c db = bindR (insert_row (sameKey icID) c (dbConfigs db)) (\<lambda>t. Inr (db\<lparr>dbConfigs := t\<rparr>))"

text \<open>The bundle as it is stored: every part stamped with the connection and the time of the call.\<close>

definition stampBundle :: "random \<Rightarrow> int \<Rightarrow> ConnectionBundle \<Rightarrow> ConnectionBundle" where
  "stampBundle rnd now bundle =
     (let v = defaultConnection (rnd 0) now (cbConnection bundle)
      in bundle\<lparr>cbConnection := v,
           cbHysteria2Material := map_option (\<lambda>m. m\<lparr>hmConnectionID := cnID v, hmCreatedAt := now, hmUpdatedAt := now\<rparr>)
             (cbHysteria2Material bundle),
           cbAmneziaWGMaterial := map_option (\<lambda>m. m\<lparr>amConnectionID := cnID v, amNodeID := cnNodeID v,
               amCreatedAt := now, amUpdatedAt := now\<rparr>) (cbAmneziaWGMaterial bundle),
           cbAmneziaAPIRef := map_option (\<lambda>r. r\<lparr>arConnectionID := cnID v, arCreatedAt := now, arUpdatedAt := now\<rparr>)
             (cbAmneziaAPIRef bundle),
           cbConfigs := map (\<lambda>(i, c). c\<lparr>icID := NewID (rnd (Suc i)), icConnectionID := cnID v,
               icStatus := StatusActive, icCreatedAt := now, icUpdatedAt := now\<rparr>) (enumerate 0 (cbConfigs bundle))\<rparr>)"

definition CreateConnectionBundle ::
  "random \<Rightarrow> int \<Rightarrow> ConnectionBundle \<Rightarrow> (DomainDB, ConnectionBundle) op" where
  "CreateConnectionBundle rnd now bundle db =
     (let v = cbConnection bundle
      in case GetAccount db (cnAccountID v) of
        Inl e \<Rightarrow> (Inl e, db)
      | Inr _ \<Rightarrow>
        (case GetNode db (cnNodeID v) of
           Inl e \<Rightarrow> (Inl e, db)
         | Inr node \<Rightarrow>
           (case validateConnectionBundle node bundle of
              Some e \<Rightarrow> (Inl e, db)
            | None \<Rightarrow>
              if blank (cnName v) then (Inl (Err ''connection name is required''), db)
              else
                let b = stampBundle rnd now bundle
                in commit b (bindR (lockNodeConfig bundle (cnNodeID v) db) (\<lambda>db.
                        bindR (insertConnection (cbConnection b) db) (\<lambda>db.
                        bindR (insertHysteriaMaterial (cbHysteria2Material b) db) (\<lambda>db.
                        bindR (insertAmneziaMaterial (cbAmneziaWGMaterial b) db) (\<lambda>db.
                        bindR (insertAPIRef (cbAmneziaAPIRef b) db) (\<lambda>db.
                        foldR insertConfig (cbConfigs b) db)))))) db)))"

definition GetConnection :: "DomainDB \<Rightarrow> string \<Rightarrow> Connection result" where
  "GetConnection db id' = getRow cnID (dbConnections db) id'"

definition ListConnections :: "DomainDB \<Rightarrow> Connection list" where
  "ListConnections db = sort_key (\<lambda>c. ts (cnCreatedAt c)) (sort_key cnID (dbConnections db))"

definition UpdateConnectionDesiredStatus :: "int \<Rightarrow> string \<Rightarrow> string \<Rightarrow> (DomainDB, Connection) op" where
  "UpdateConnectionDesiredStatus now id' status db =
     (if status \<noteq> StatusActive \<and> status \<noteq> StatusHeld \<and> status \<noteq> StatusDeleted
      then (Inl (Err (''unsupported connection desired status '' @ [CHR 34] @ status @ [CHR 34])), db)
      else if list_ex (\<lambda>c. cnID c = id' \<and> cnDesiredVersionMS c = max_int64) (dbConnections db)
      then (Inl (Err ''bigint out of range''), db)
      else case checked_update connectionClash (\<lambda>c. cnID c = id')
                  (\<lambda>c. c\<lparr>cnDesiredStatus := status,
                         cnDesiredVersionMS := bumpVersion (time_UnixMilli now) (cnDesiredVersionMS c),
                         cnLastErrorID := [], cnUpdatedAt := now\<rparr>) (dbConnections db) of
             Inl e \<Rightarrow> (Inl e, db)
           | Inr t \<Rightarrow> let db' = db\<lparr>dbConnections := t\<rparr> in (GetConnection db' id', db'))"

text \<open>
  The candidates are read before the transaction that finalises them begins, so other operations may come
  in between: the two halves are definitions of their own.
\<close>

definition finalizeCandidates :: "string \<Rightarrow> string \<Rightarrow> int \<Rightarrow> DomainDB \<Rightarrow> Connection list" where
  "finalizeCandidates nodeID accountID appliedVersionMS db =
     sort_key cnID (filter (\<lambda>c. cnNodeID c = nodeID \<and> cnAccountID c = accountID \<and>
         cnDesiredVersionMS c \<le> appliedVersionMS \<and>
         (cnAppliedStatus c \<noteq> cnDesiredStatus c \<or> cnAppliedVersionMS c < cnDesiredVersionMS c))
       (dbConnections db))"

definition finalizeOne :: "int \<Rightarrow> int \<Rightarrow> Connection \<Rightarrow> DomainDB \<Rightarrow> DomainDB" where
  "finalizeOne now appliedVersionMS v db =
     (let db1 = db\<lparr>dbConnections := update_rows (\<lambda>c. cnID c = cnID v \<and> cnDesiredVersionMS c \<le> appliedVersionMS)
                (\<lambda>c. c\<lparr>cnAppliedStatus := cnDesiredStatus c, cnAppliedVersionMS := cnDesiredVersionMS c,
                       cnLastErrorID := [], cnUpdatedAt := now\<rparr>) (dbConnections db)\<rparr>
      in if cnDesiredStatus v = StatusDeleted
         then db1\<lparr>dbConfigs := update_rows (\<lambda>i. icConnectionID i = cnID v \<and> icStatus i \<noteq> StatusDeleted)
                (\<lambda>i. i\<lparr>icStatus := StatusDeleted, icUpdatedAt := now\<rparr>) (dbConfigs db1)\<rparr>
         else db1)"

definition finalizeTx :: "int \<Rightarrow> int \<Rightarrow> Connection list \<Rightarrow> (DomainDB, Connection list) op" where
  "finalizeTx now appliedVersionMS candidates db =
     (Inr (map (\<lambda>v. v\<lparr>cnAppliedStatus := cnDesiredStatus v, cnAppliedVersionMS := cnDesiredVersionMS v\<rparr>) candidates),
      fold (finalizeOne now appliedVersionMS) candidates db)"

definition FinalizeConnectionsForAuthSnapshot ::
  "int \<Rightarrow> string \<Rightarrow> string \<Rightarrow> int \<Rightarrow> (DomainDB, Connection list) op" where
  "FinalizeConnectionsForAuthSnapshot now nodeID accountID appliedVersionMS db =
     finalizeTx now appliedVersionMS (finalizeCandidates nodeID accountID appliedVersionMS db) db"

definition CountActiveConnectionsForAccount :: "DomainDB \<Rightarrow> string \<Rightarrow> int" where
  "CountActiveConnectionsForAccount db accountID =
     int (length (filter (\<lambda>c. cnAccountID c = accountID \<and> cnDesiredStatus c \<noteq> StatusDeleted) (dbConnections db)))"

end
