(* ===== verification/Node_Config.thy ===== *)
theory Node_Config
  imports Domain
begin

text \<open>
  The configurations of the nodes in the store: \<open>domain_sql.go\<close> (creation and the manifests built from
  them), \<open>hysteria_settings.go\<close>, \<open>amnezia_settings.go\<close> (updates under a version check) and
  \<open>masquerade_files.go\<close> (file sets and their pruning).
\<close>

section \<open>Hysteria configurations and file sets\<close>

definition toHysteriaRow :: "string \<Rightarrow> Hysteria2NodeConfig \<Rightarrow> HysteriaConfigRow" where
  "toHysteriaRow fileset v = Hysteria2NodeConfig.extend v (HysteriaConfigRow.fields fileset)"

definition ofHysteriaRow :: "HysteriaConfigRow \<Rightarrow> Hysteria2NodeConfig" where
  "ofHysteriaRow r = Hysteria2NodeConfig.truncate r"

definition fileSetMissing :: "DomainDB \<Rightarrow> string \<Rightarrow> bool" where
  "fileSetMissing db fs \<longleftrightarrow> fs \<noteq> [] \<and> fs \<notin> fsID ` set (dbFileSets db)"

definition portOK :: "int \<Rightarrow> bool" where
  "portOK p \<longleftrightarrow> 1 \<le> p \<and> p \<le> 65535"

definition defaultHysteria2NodeConfig :: "int \<Rightarrow> Hysteria2NodeConfig \<Rightarrow> Hysteria2NodeConfig" where
  "defaultHysteria2NodeConfig now v =
     v\<lparr>hcEndpointPort := (if hcEndpointPort v = 0 then 443 else hcEndpointPort v),
       hcObfsType := (if hcObfsType v = [] \<and> hcObfsEnabled v then ''salamander'' else hcObfsType v),
       hcConfigVersionMS := (if hcConfigVersionMS v = 0 then time_UnixMilli now else hcConfigVersionMS v),
       hcCreatedAt := now, hcUpdatedAt := now\<rparr>"

definition CreateHysteria2NodeConfig ::
  "int \<Rightarrow> Hysteria2NodeConfig \<Rightarrow> (DomainDB, Hysteria2NodeConfig) op" where
  "CreateHysteria2NodeConfig now v db =
     (let v' = defaultHysteria2NodeConfig now v
      in if \<not> portOK (hcEndpointPort v') then (Inl checkViolation, db)
         else if hcNodeID v' \<notin> ndID ` set (dbNodes db) \<or> fileSetMissing db (hcMasqueradeFileSetID v')
         then (Inl foreignKeyViolation, db)
         else commit v' (bindR (insert_row (sameKey hcNodeID) (toHysteriaRow [] v') (dbHysteriaConfigs db)) (\<lambda>t. Inr (db\<lparr>dbHysteriaConfigs := t\<rparr>))) db)"

definition GetHysteria2NodeConfig :: "DomainDB \<Rightarrow> string \<Rightarrow> Hysteria2NodeConfig result" where
  "GetHysteria2NodeConfig db nodeID =
     (case lookup_row hcNodeID (dbHysteriaConfigs db) nodeID of
        None \<Rightarrow> Inl ErrNotFound | Some r \<Rightarrow> Inr (ofHysteriaRow r))"

definition GetHysteria2ConnectionMaterial :: "DomainDB \<Rightarrow> string \<Rightarrow> Hysteria2ConnectionMaterial result" where
  "GetHysteria2ConnectionMaterial db id' = getRow hmConnectionID (dbHysteriaMaterials db) id'"

text \<open>One statement of the loop over the issued configs of an update.\<close>

definition reissueConfig :: "string \<Rightarrow> int \<Rightarrow> IssuedConfig \<Rightarrow> IssuedConfig list \<Rightarrow> IssuedConfig list" where
  "reissueConfig kind updatedAt v t =
     update_rows (\<lambda>c. icConnectionID c = icConnectionID v \<and> icKind c = kind \<and> icStatus c \<noteq> StatusDeleted)
       (\<lambda>c. c\<lparr>icConfig := icConfig v, icUpdatedAt := updatedAt\<rparr>) t"

definition liveConnections :: "string \<Rightarrow> DomainDB \<Rightarrow> Connection list" where
  "liveConnections nodeID db =
     filter (\<lambda>c. cnNodeID c = nodeID \<and> cnDesiredStatus c \<noteq> StatusDeleted) (dbConnections db)"

definition hysteriaConfigUpdate :: "Hysteria2NodeConfig \<Rightarrow> HysteriaConfigRow \<Rightarrow> HysteriaConfigRow" where
  "hysteriaConfigUpdate c r =
     r\<lparr>hcEndpointHost := hcEndpointHost c, hcEndpointPort := hcEndpointPort c, hcObfsEnabled := hcObfsEnabled c,
       hcObfsType := hcObfsType c, hcObfsPassword := hcObfsPassword c, hcMasqueradeURL := hcMasqueradeURL c,
       hcSettingsJSON := hcSettingsJSON c, hcConfigVersionMS := hcConfigVersionMS c, hcConfigErrorID := [],
       hcUpdatedAt := hcUpdatedAt c, hcMasqueradeFileSetID := hcMasqueradeFileSetID c\<rparr>"

definition UpdateHysteria2NodeConfig ::
  "Hysteria2NodeConfig \<Rightarrow> int \<Rightarrow> IssuedConfig list \<Rightarrow> (DomainDB, unit) op" where
  "UpdateHysteria2NodeConfig c expected configs db =
     (let hit = (\<lambda>r. hcNodeID r = hcNodeID c \<and> hcConfigVersionMS r = expected);
          n = length (filter hit (dbHysteriaConfigs db))
      in if n \<noteq> 0 \<and> \<not> portOK (hcEndpointPort c) then (Inl checkViolation, db)
         else if n \<noteq> 0 \<and> fileSetMissing db (hcMasqueradeFileSetID c) then (Inl foreignKeyViolation, db)
         else if n \<noteq> 1 then (Inl ErrConflict, db)
         else if length (liveConnections (hcNodeID c) db) \<noteq> length configs then (Inl ErrConflict, db)
         else (Inr (), db\<lparr>dbHysteriaConfigs := update_rows hit (hysteriaConfigUpdate c) (dbHysteriaConfigs db),
                          dbConfigs := fold (reissueConfig ''hy2_uri'' (hcUpdatedAt c)) configs (dbConfigs db)\<rparr>))"

definition SetHysteria2ConfigResult :: "string \<Rightarrow> int \<Rightarrow> string \<Rightarrow> (DomainDB, unit) op" where
  "SetHysteria2ConfigResult id' version errorID db =
     (let hit = (\<lambda>r. hcNodeID r = id' \<and> hcConfigVersionMS r = version);
          change = (\<lambda>r. if errorID \<noteq> [] then r\<lparr>hcConfigErrorID := errorID\<rparr>
                     else r\<lparr>hcAppliedConfigVersionMS := version, hcConfigErrorID := [],
                            hcAppliedFileSetID := hcMasqueradeFileSetID r\<rparr>)
      in (Inr (), db\<lparr>dbHysteriaConfigs := update_rows hit change (dbHysteriaConfigs db)\<rparr>))"

definition PutHysteriaFileSet :: "int \<Rightarrow> string \<Rightarrow> string \<Rightarrow> string \<Rightarrow> (DomainDB, unit) op" where
  "PutHysteriaFileSet now id' archive manifestJSON db =
     (Inr (),
      if id' \<in> fsID ` set (dbFileSets db) then db
      else db\<lparr>dbFileSets := dbFileSets db @
        [\<lparr>fsID = id', fsArchive = archive, fsManifestJSON = manifestJSON, fsCreatedAtMS = time_UnixMilli now\<rparr>]\<rparr>)"

definition GetHysteriaFileSet :: "DomainDB \<Rightarrow> string \<Rightarrow> HysteriaFileSetRow result" where
  "GetHysteriaFileSet db id' = getRow fsID (dbFileSets db) id'"

definition GetHysteriaFileSetManifest :: "DomainDB \<Rightarrow> string \<Rightarrow> string result" where
  "GetHysteriaFileSetManifest db id' = bindR (getRow fsID (dbFileSets db) id') (\<lambda>r. Inr (fsManifestJSON r))"

definition PruneHysteriaFileSets :: "int \<Rightarrow> (DomainDB, unit) op" where
  "PruneHysteriaFileSets before db =
     (let deleted = ndID ` set (filter (\<lambda>n. ndStatus n = StatusDeleted) (dbNodes db));
          configs = update_rows (\<lambda>r. hcNodeID r \<in> deleted)
            (\<lambda>r. r\<lparr>hcMasqueradeFileSetID := [], hcAppliedFileSetID := []\<rparr>) (dbHysteriaConfigs db)
      in (Inr (), db\<lparr>dbHysteriaConfigs := configs,
            dbFileSets := filter (\<lambda>f. \<not> (fsCreatedAtMS f < time_UnixMilli before \<and>
                \<not> list_ex (\<lambda>c. hcMasqueradeFileSetID c = fsID f \<or> hcAppliedFileSetID c = fsID f) configs))
              (dbFileSets db)\<rparr>))"

definition ListHysteria2ConfigSources :: "DomainDB \<Rightarrow> string \<Rightarrow> (string \<times> string \<times> string) list" where
  "ListHysteria2ConfigSources db nodeID =
     map (\<lambda>(c, m). (cnID c, cnName c, hmPassword m))
       (filter (\<lambda>(c, m). hmConnectionID m = cnID c)
         (List.product (sort_key cnID (liveConnections nodeID db)) (dbHysteriaMaterials db)))"

section \<open>AmneziaWG configurations\<close>

definition CreateAmneziaAPINodeConfig ::
  "int \<Rightarrow> AmneziaAPINodeConfig \<Rightarrow> (DomainDB, AmneziaAPINodeConfig) op" where
  "CreateAmneziaAPINodeConfig now v db =
     (let v' = v\<lparr>anCreatedAt := now, anUpdatedAt := now\<rparr>
      in if anNodeID v \<notin> ndID ` set (dbNodes db) then (Inl foreignKeyViolation, db)
         else commit v' (bindR (insert_row (sameKey anNodeID) v' (dbAPIConfigs db)) (\<lambda>t. Inr (db\<lparr>dbAPIConfigs := t\<rparr>))) db)"

definition CreateAmneziaAPINode ::
  "random \<Rightarrow> int \<Rightarrow> Node \<Rightarrow> AmneziaAPINodeConfig \<Rightarrow> (DomainDB, Node \<times> AmneziaAPINodeConfig) op" where
  "CreateAmneziaAPINode rnd now node config db =
     (let node' = defaultNode (rnd 0) now node;
          config' = config\<lparr>anNodeID := ndID node', anCreatedAt := now, anUpdatedAt := now\<rparr>
      in commit (node', config') (bindR (insert_row nodeClash node' (dbNodes db)) (\<lambda>nodes.
              bindR (insert_row (sameKey anNodeID) config' (dbAPIConfigs db)) (\<lambda>configs.
              Inr (db\<lparr>dbNodes := nodes, dbAPIConfigs := configs\<rparr>)))) db)"

definition GetAmneziaAPINodeConfig :: "DomainDB \<Rightarrow> string \<Rightarrow> AmneziaAPINodeConfig result" where
  "GetAmneziaAPINodeConfig db nodeID = getRow anNodeID (dbAPIConfigs db) nodeID"

definition GetAmneziaAPIConnectionRef :: "DomainDB \<Rightarrow> string \<Rightarrow> AmneziaAPIConnectionRef result" where
  "GetAmneziaAPIConnectionRef db id' = getRow arConnectionID (dbAPIRefs db) id'"

definition defaultAmneziaWGNodeConfig :: "int \<Rightarrow> AmneziaWGNodeConfig \<Rightarrow> AmneziaWGNodeConfig" where
  "defaultAmneziaWGNodeConfig now v =
     (let port = (if awEndpointPort v = 0 then 443 else awEndpointPort v);
          orElse = (\<lambda>s d. if s = [] then d else s)
      in v\<lparr>awEndpointPort := port,
           awListenPort := (if awListenPort v = 0 then port else awListenPort v),
           awServerIPv4 := orElse (awServerIPv4 v) ''10.8.1.1'',
           awClientIPv4CIDR := orElse (awClientIPv4CIDR v) ''10.8.1.0/24'',
           awFirstClientIPv4 := orElse (awFirstClientIPv4 v) ''10.8.1.2'',
           awLastClientIPv4 := orElse (awLastClientIPv4 v) ''10.8.1.254'',
           awDNS := orElse (awDNS v) ''1.1.1.1, 1.0.0.1'',
           awMTU := (if awMTU v = 0 then 1376 else awMTU v),
           awPersistentKeepalive := (if awPersistentKeepalive v = 0 then 25 else awPersistentKeepalive v),
           awClientRouteAllowedIPs := orElse (awClientRouteAllowedIPs v) ''0.0.0.0/0'',
           awConfigVersionMS := (if awConfigVersionMS v = 0 then time_UnixMilli now else awConfigVersionMS v),
           awCreatedAt := now, awUpdatedAt := now\<rparr>)"

text \<open>The checks of the table.\<close>

definition amneziaConfigChecks :: "AmneziaWGNodeConfig \<Rightarrow> bool" where
  "amneziaConfigChecks v \<longleftrightarrow>
     portOK (awEndpointPort v) \<and> portOK (awListenPort v) \<and> portOK (awMTU v) \<and>
     list_all (\<lambda>n. 0 \<le> n \<and> n \<le> 65535)
       [awPersistentKeepalive v, awJC v, awJMin v, awJMax v, awS1 v, awS2 v, awS3 v, awS4 v] \<and>
     awJMin v \<le> awJMax v"

definition CreateAmneziaWGNodeConfig ::
  "int \<Rightarrow> AmneziaWGNodeConfig \<Rightarrow> (DomainDB, AmneziaWGNodeConfig) op" where
  "CreateAmneziaWGNodeConfig now v db =
     (let v' = defaultAmneziaWGNodeConfig now v
      in if \<not> amneziaConfigChecks v' then (Inl checkViolation, db)
         else if awNodeID v' \<notin> ndID ` set (dbNodes db) then (Inl foreignKeyViolation, db)
         else commit v' (bindR (insert_row (sameKey awNodeID) v' (dbAmneziaConfigs db)) (\<lambda>t. Inr (db\<lparr>dbAmneziaConfigs := t\<rparr>))) db)"

definition CreateNativeAmneziaWGNode ::
  "random \<Rightarrow> int \<Rightarrow> Node \<Rightarrow> AmneziaWGNodeConfig \<Rightarrow> (DomainDB, Node \<times> AmneziaWGNodeConfig) op" where
  "CreateNativeAmneziaWGNode rnd now node config db =
     (let node' = defaultNode (rnd 0) now node;
          config' = defaultAmneziaWGNodeConfig now (config\<lparr>awNodeID := ndID node'\<rparr>)
      in commit (node', config') (bindR (insert_row nodeClash node' (dbNodes db)) (\<lambda>nodes.
              if \<not> amneziaConfigChecks config' then Inl checkViolation
              else bindR (insert_row (sameKey awNodeID) config' (dbAmneziaConfigs db)) (\<lambda>configs.
              Inr (db\<lparr>dbNodes := nodes, dbAmneziaConfigs := configs\<rparr>)))) db)"

definition GetAmneziaWGNodeConfig :: "DomainDB \<Rightarrow> string \<Rightarrow> AmneziaWGNodeConfig result" where
  "GetAmneziaWGNodeConfig db nodeID = getRow awNodeID (dbAmneziaConfigs db) nodeID"

definition GetAmneziaWGConnectionMaterial :: "DomainDB \<Rightarrow> string \<Rightarrow> AmneziaWGConnectionMaterial result" where
  "GetAmneziaWGConnectionMaterial db id' = getRow amConnectionID (dbAmneziaMaterials db) id'"

definition ListAmneziaWGConnectionMaterials :: "DomainDB \<Rightarrow> string \<Rightarrow> AmneziaWGConnectionMaterial list" where
  "ListAmneziaWGConnectionMaterials db nodeID =
     sort_key amAssignedIPv4 (sort_key amConnectionID
       (filter (\<lambda>m. amNodeID m = nodeID) (dbAmneziaMaterials db)))"

definition UpdateAmneziaWGNodeConfig ::
  "AmneziaWGNodeConfig \<Rightarrow> int \<Rightarrow> IssuedConfig list \<Rightarrow> (DomainDB, unit) op" where
  "UpdateAmneziaWGNodeConfig v expected configs db =
     (let hit = (\<lambda>r. awNodeID r = awNodeID v \<and> awConfigVersionMS r = expected);
          n = length (filter hit (dbAmneziaConfigs db));
          live = (\<lambda>c. cnNodeID c = awNodeID v \<and> cnDesiredStatus c \<noteq> StatusDeleted)
      in if n \<noteq> 0 \<and> \<not> amneziaConfigChecks v then (Inl checkViolation, db)
         else if n \<noteq> 1 then (Inl ErrConflict, db)
         else if length (filter (\<lambda>m. amNodeID m = awNodeID v) (dbAmneziaMaterials db)) \<noteq> length configs
         then (Inl ErrConflict, db)
         else if list_ex (\<lambda>c. live c \<and> cnDesiredVersionMS c = max_int64) (dbConnections db)
         then (Inl (Err ''bigint out of range''), db)
         else (Inr (), db\<lparr>
             dbAmneziaConfigs := update_rows hit (\<lambda>r. v\<lparr>awNodeID := awNodeID r, awCreatedAt := awCreatedAt r\<rparr>)
               (dbAmneziaConfigs db),
             dbConfigs := fold (reissueConfig ''amnezia_conf'' (awUpdatedAt v)) configs (dbConfigs db),
             dbConnections := update_rows live
               (\<lambda>c. c\<lparr>cnDesiredVersionMS := bumpVersion (awConfigVersionMS v) (cnDesiredVersionMS c),
                      cnUpdatedAt := awUpdatedAt v\<rparr>) (dbConnections db)\<rparr>))"

definition SetAmneziaWGConfigResult :: "string \<Rightarrow> int \<Rightarrow> string \<Rightarrow> (DomainDB, unit) op" where
  "SetAmneziaWGConfigResult nodeID version errorID db =
     (let hit = (\<lambda>r. awNodeID r = nodeID \<and> awConfigVersionMS r = version);
          change = (\<lambda>r. if errorID \<noteq> [] then r\<lparr>awConfigErrorID := errorID\<rparr>
                     else r\<lparr>awAppliedConfigVersionMS := version, awConfigErrorID := []\<rparr>)
      in (Inr (), db\<lparr>dbAmneziaConfigs := update_rows hit change (dbAmneziaConfigs db)\<rparr>))"

section \<open>The connections of a node for its agent\<close>

text \<open>The inner join with the accounts: a connection without its account has no row.\<close>

definition joinAccounts :: "DomainDB \<Rightarrow> Connection list \<Rightarrow> (Connection \<times> Account) list" where
  "joinAccounts db cs =
     concat (map (\<lambda>c. case lookup_row acID (dbAccounts db) (cnAccountID c) of
                      None \<Rightarrow> [] | Some a \<Rightarrow> [(c, a)]) cs)"

definition syncRows :: "DomainDB \<Rightarrow> string \<Rightarrow> string \<Rightarrow> string \<Rightarrow> (Connection \<times> Account) list" where
  "syncRows db nodeID protocol fromID =
     joinAccounts db (sort_key cnID
       (filter (\<lambda>c. cnNodeID c = nodeID \<and> cnProtocol c = protocol \<and> fromID < cnID c) (dbConnections db)))"

text \<open>The left join with the material: without a material row its columns are NULL and the scan fails.\<close>

fun scanHysteriaRows ::
  "Hysteria2ConnectionMaterial list \<Rightarrow> (Connection \<times> Account) list \<Rightarrow> string StoredConnection list result" where
  "scanHysteriaRows ms [] = Inr []"
| "scanHysteriaRows ms ((c, a) # rows) =
     (case lookup_row hmConnectionID ms (cnID c) of
        None \<Rightarrow> Inl errScanNull
      | Some m \<Rightarrow> bindR (scanHysteriaRows ms rows) (\<lambda>out.
          Inr (\<lparr>scConnectionID = cnID c,
                scActive = (acStatus a = StatusActive \<and> cnDesiredStatus c = StatusActive \<and> hmPasswordHash m \<noteq> []),
                scUpdatedAtMS = cnDesiredVersionMS c, scMaterial = hmPasswordHash m\<rparr> # out)))"

definition ListHysteriaSyncConnections :: "DomainDB \<Rightarrow> string source" where
  "ListHysteriaSyncConnections db nodeID fromConnectionID =
     scanHysteriaRows (dbHysteriaMaterials db) (syncRows db nodeID ProtocolHysteria2 fromConnectionID)"

fun scanAmneziaRows ::
  "AmneziaWGNodeConfig \<Rightarrow> AmneziaWGConnectionMaterial list \<Rightarrow> (Connection \<times> Account) list \<Rightarrow>
   AmneziaWGSyncMaterial StoredConnection list result" where
  "scanAmneziaRows config ms [] = Inr []"
| "scanAmneziaRows config ms ((c, a) # rows) =
     (case lookup_row amConnectionID ms (cnID c) of
        None \<Rightarrow> Inl errScanNull
      | Some m \<Rightarrow> bindR (scanAmneziaRows config ms rows) (\<lambda>out.
          Inr (\<lparr>scConnectionID = cnID c,
                scActive = (acStatus a = StatusActive \<and> cnDesiredStatus c = StatusActive \<and> amConnectionID m \<noteq> []),
                scUpdatedAtMS = cnDesiredVersionMS c,
                scMaterial = \<lparr>smNodeConfig = config, smConnection = c, smMaterial = m\<rparr>\<rparr> # out)))"

definition ListAmneziaWGSyncConnections :: "DomainDB \<Rightarrow> AmneziaWGSyncMaterial source" where
  "ListAmneziaWGSyncConnections db nodeID fromConnectionID =
     bindR (GetAmneziaWGNodeConfig db nodeID) (\<lambda>config.
       scanAmneziaRows config (dbAmneziaMaterials db) (syncRows db nodeID ProtocolAmneziaWG fromConnectionID))"

end
