(* ===== verification/Domain_Invariant.thy ===== *)
theory Domain_Invariant
  imports Node_Config
begin

text \<open>
  The invariant of the domain tables and the facts the rest of the server relies on: constraints and
  references hold in every state the operations reach, every connection has the material of the type of
  its node, and the version of a connection grows with every change of its desired status.
\<close>

section \<open>The invariant\<close>

definition tablesOK :: "DomainDB \<Rightarrow> bool" where
  "tablesOK db \<longleftrightarrow>
     noClash (sameKey acID) (dbAccounts db) \<and> noClash nodeClash (dbNodes db) \<and>
     noClash (sameKey niID) (dbInstances db) \<and> noClash installationClash (dbInstallations db) \<and>
     noClash connectionClash (dbConnections db) \<and> noClash (sameKey hmConnectionID) (dbHysteriaMaterials db) \<and>
     noClash amneziaMaterialClash (dbAmneziaMaterials db) \<and> noClash (sameKey arConnectionID) (dbAPIRefs db) \<and>
     noClash (sameKey icID) (dbConfigs db) \<and> noClash (sameKey fsID) (dbFileSets db) \<and>
     noClash (sameKey hcNodeID) (dbHysteriaConfigs db) \<and> noClash (sameKey awNodeID) (dbAmneziaConfigs db) \<and>
     noClash (sameKey anNodeID) (dbAPIConfigs db)"

text \<open>What the other tables offer to a connection, and what a connection needs of them.\<close>

definition nodeKeys :: "DomainDB \<Rightarrow> (string \<times> string) set" where
  "nodeKeys db = (\<lambda>n. (ndID n, ndType n)) ` set (dbNodes db)"

definition connKey :: "Connection \<Rightarrow> string \<times> string \<times> string \<times> string" where
  "connKey c = (cnID c, cnAccountID c, cnNodeID c, cnProtocol c)"

definition hysteriaKeys :: "DomainDB \<Rightarrow> string set" where
  "hysteriaKeys db = hmConnectionID ` {m \<in> set (dbHysteriaMaterials db). hmPasswordHash m \<noteq> []}"

definition amneziaKeys :: "DomainDB \<Rightarrow> (string \<times> string) set" where
  "amneziaKeys db = (\<lambda>m. (amConnectionID m, amNodeID m)) ` set (dbAmneziaMaterials db)"

definition connOK :: "DomainDB \<Rightarrow> string \<times> string \<times> string \<times> string \<Rightarrow> bool" where
  "connOK db k =
     (case k of (i, account, node, protocol) \<Rightarrow>
        i \<noteq> [] \<and> account \<in> acID ` set (dbAccounts db) \<and>
        ((node, NodeTypeNativeHy2) \<in> nodeKeys db \<and> protocol = ProtocolHysteria2 \<and> i \<in> hysteriaKeys db \<or>
         (node, NodeTypeNativeAmneziaWG) \<in> nodeKeys db \<and> protocol = ProtocolAmneziaWG \<and> (i, node) \<in> amneziaKeys db \<or>
         (node, NodeTypeAmneziaAPI) \<in> nodeKeys db \<and> protocol = ProtocolAmneziaWG \<and>
           i \<in> arConnectionID ` set (dbAPIRefs db)))"

definition refsOK :: "DomainDB \<Rightarrow> bool" where
  "refsOK db \<longleftrightarrow>
     (\<forall>k \<in> connKey ` set (dbConnections db). connOK db k) \<and>
     (\<forall>r \<in> set (dbHysteriaConfigs db). \<not> fileSetMissing db (hcMasqueradeFileSetID r) \<and>
        \<not> fileSetMissing db (hcAppliedFileSetID r))"

definition domainOK :: "DomainDB \<Rightarrow> bool" where
  "domainOK db \<longleftrightarrow> tablesOK db \<and> refsOK db"

lemma connOK_mono:
  assumes ok: "connOK db k" and sub: "acID ` set (dbAccounts db) \<subseteq> acID ` set (dbAccounts db')"
    "nodeKeys db \<subseteq> nodeKeys db'" "hysteriaKeys db \<subseteq> hysteriaKeys db'" "amneziaKeys db \<subseteq> amneziaKeys db'"
    "arConnectionID ` set (dbAPIRefs db) \<subseteq> arConnectionID ` set (dbAPIRefs db')"
  shows "connOK db' k"
proof (cases k)
  case (fields i account node protocol)
  then show ?thesis using ok subsetD [OF sub(1)] subsetD [OF sub(2)] subsetD [OF sub(3)] subsetD [OF sub(4)]
      subsetD [OF sub(5)] unfolding connOK_def fields prod.case by blast
qed

lemma connOK_cong:
  assumes "map acID (dbAccounts db') = map acID (dbAccounts db)"
    "map (\<lambda>n. (ndID n, ndType n)) (dbNodes db') = map (\<lambda>n. (ndID n, ndType n)) (dbNodes db)"
    "dbHysteriaMaterials db' = dbHysteriaMaterials db" "dbAmneziaMaterials db' = dbAmneziaMaterials db"
    "dbAPIRefs db' = dbAPIRefs db"
  shows "connOK db' k = connOK db k"
proof -
  have "acID ` set (dbAccounts db') = acID ` set (dbAccounts db)"
    using arg_cong [OF assms(1), of set] by simp
  moreover have "nodeKeys db' = nodeKeys db"
    using arg_cong [OF assms(2), of set] by (simp add: nodeKeys_def)
  ultimately show ?thesis using assms(3-) by (simp add: connOK_def hysteriaKeys_def amneziaKeys_def)
qed

lemma noClash_sameKey: "noClash (sameKey key) t \<longleftrightarrow> keyed key t"
  by (induction t) (auto simp: noClash_def sameKey_def image_iff)

lemma sameKey_update [simp]:
  "(\<And>r. key (f r) = key r) \<Longrightarrow> noClash (sameKey key) (update_rows P f t) \<longleftrightarrow> noClash (sameKey key) t"
  by (simp add: noClash_sameKey)

section \<open>Preservation\<close>

lemma refsOK_I:
  assumes ok: "refsOK db" and conns: "connKey ` set (dbConnections db') \<subseteq> connKey ` set (dbConnections db)"
    and sub: "acID ` set (dbAccounts db) \<subseteq> acID ` set (dbAccounts db')" "nodeKeys db \<subseteq> nodeKeys db'"
    "hysteriaKeys db \<subseteq> hysteriaKeys db'" "amneziaKeys db \<subseteq> amneziaKeys db'"
    "arConnectionID ` set (dbAPIRefs db) \<subseteq> arConnectionID ` set (dbAPIRefs db')"
    and files: "\<And>r. r \<in> set (dbHysteriaConfigs db') \<Longrightarrow>
      \<not> fileSetMissing db' (hcMasqueradeFileSetID r) \<and> \<not> fileSetMissing db' (hcAppliedFileSetID r)"
  shows "refsOK db'"
proof -
  have "connOK db' k" if "k \<in> connKey ` set (dbConnections db')" for k
    using that conns ok connOK_mono [OF _ sub] unfolding refsOK_def by blast
  with files show ?thesis unfolding refsOK_def by blast
qed

text \<open>The part of \<open>refsOK\<close> about file sets, for the operations that leave those tables alone.\<close>

lemma refsOK_same_files:
  assumes ok: "refsOK db" and conns: "connKey ` set (dbConnections db') \<subseteq> connKey ` set (dbConnections db)"
    and sub: "acID ` set (dbAccounts db) \<subseteq> acID ` set (dbAccounts db')" "nodeKeys db \<subseteq> nodeKeys db'"
    "hysteriaKeys db \<subseteq> hysteriaKeys db'" "amneziaKeys db \<subseteq> amneziaKeys db'"
    "arConnectionID ` set (dbAPIRefs db) \<subseteq> arConnectionID ` set (dbAPIRefs db')"
    and same: "dbHysteriaConfigs db' = dbHysteriaConfigs db" "dbFileSets db' = dbFileSets db"
  shows "refsOK db'"
  using ok same by (intro refsOK_I [OF ok conns sub]) (auto simp: refsOK_def fileSetMissing_def)

lemmas keys_defs = nodeKeys_def hysteriaKeys_def amneziaKeys_def

lemma domainOK_CreateAccount:
  assumes "domainOK db" "CreateAccount rnd now u db = (r, db')"
  shows "domainOK db'"
  using assms
  by (auto simp: CreateAccount_def Let_def insert_row_eq noClash_append domainOK_def tablesOK_def keys_defs
      dest!: commit_state elim!: refsOK_same_files)

lemma domainOK_UpdateAccountStatus:
  assumes "domainOK db" "UpdateAccountStatus now i s db = (r, db')"
  shows "domainOK db'"
  using assms
  by (auto simp: UpdateAccountStatus_def Let_def domainOK_def tablesOK_def keys_defs image_update_rows
      split: if_splits elim!: refsOK_same_files)

lemma domainOK_CreateIssuedConfig:
  assumes "domainOK db" "CreateIssuedConfig rnd now c db = (r, db')"
  shows "domainOK db'"
  using assms
  by (auto simp: CreateIssuedConfig_def Let_def insert_row_eq noClash_append domainOK_def tablesOK_def keys_defs
      split: if_splits dest!: commit_state elim!: refsOK_same_files)

text \<open>Changing columns outside the keys of the nodes and connections.\<close>

lemma nodeClash_update:
  "noClash nodeClash t \<Longrightarrow> (\<And>n. ndID (f n) = ndID n \<and> ndName (f n) = ndName n) \<Longrightarrow>
   noClash nodeClash (update_rows P f t)"
  by (rule noClash_update_rows) (auto simp: nodeClash_def split: if_splits)

lemma connKey_update [simp]:
  "connKey (c\<lparr>cnDesiredStatus := s\<rparr>) = connKey c" "connKey (c\<lparr>cnDesiredVersionMS := v\<rparr>) = connKey c"
  "connKey (c\<lparr>cnAppliedStatus := s\<rparr>) = connKey c" "connKey (c\<lparr>cnAppliedVersionMS := v\<rparr>) = connKey c"
  "connKey (c\<lparr>cnLastErrorID := s\<rparr>) = connKey c" "connKey (c\<lparr>cnUpdatedAt := v\<rparr>) = connKey c"
  by (simp_all add: connKey_def)

lemma connectionClash_update:
  assumes "noClash connectionClash t" "\<And>c. connKey (f c) = connKey c \<and> cnName (f c) = cnName c"
    and "\<And>c. cnDesiredStatus (f c) = cnDesiredStatus c \<or> cnDesiredStatus (f c) = StatusDeleted"
  shows "noClash connectionClash (update_rows P f t)"
  using assms(1)
proof (rule noClash_update_rows)
  fix x y assume "connectionClash (if P x then f x else x) (if P y then f y else y)"
  then show "connectionClash x y"
    using assms(2) [of x] assms(2) [of y] assms(3) [of x] assms(3) [of y]
    by (auto simp: connectionClash_def connKey_def split: if_splits)
qed

lemma domainOK_CreateNode:
  assumes "domainOK db" "CreateNode rnd now n db = (r, db')"
  shows "domainOK db'"
  using assms
  by (auto simp: CreateNode_def Let_def insert_row_eq noClash_append domainOK_def tablesOK_def keys_defs
      dest!: commit_state elim!: refsOK_same_files)

lemma SoftDeleteNode_cases:
  assumes "SoftDeleteNode now i db = (r, db')"
  obtains "db' = db" | P Q R S where
    "db' = db\<lparr>
       dbConnections := update_rows P (\<lambda>c. c\<lparr>cnDesiredStatus := StatusDeleted,
         cnDesiredVersionMS := bumpVersion (time_UnixMilli now) (cnDesiredVersionMS c), cnUpdatedAt := now\<rparr>) (dbConnections db),
       dbInstallations := update_rows Q (\<lambda>a. a\<lparr>aiStatus := StatusDeleted, aiUpdatedAt := now\<rparr>) (dbInstallations db),
       dbInstances := update_rows R (\<lambda>i. i\<lparr>niStatus := StatusDeleted, niRetiredAt := now, niUpdatedAt := now\<rparr>) (dbInstances db),
       dbNodes := update_rows S (\<lambda>n. n\<lparr>ndStatus := StatusDeleted, ndUpdatedAt := now\<rparr>) (dbNodes db)\<rparr>"
    "P = (\<lambda>c. cnNodeID c = i \<and> cnDesiredStatus c \<noteq> StatusDeleted)"
  using assms unfolding SoftDeleteNode_def Let_def by (auto split: if_splits)

lemma tablesOK_I:
  assumes "tablesOK db" "noClash connectionClash cs" "noClash nodeClash ns" "noClash installationClash is"
    "noClash (sameKey niID) ins"
  shows "tablesOK (db\<lparr>dbConnections := cs, dbInstallations := is, dbInstances := ins, dbNodes := ns\<rparr>)"
  using assms by (simp add: tablesOK_def)

lemma installationClash_update:
  "noClash installationClash t \<Longrightarrow>
   noClash installationClash (update_rows Q (\<lambda>a. a\<lparr>aiStatus := StatusDeleted, aiUpdatedAt := now\<rparr>) t)"
  by (rule noClash_update_rows) (auto simp: installationClash_def split: if_splits)

lemma domainOK_SoftDeleteNode:
  assumes "domainOK db" "SoftDeleteNode now i db = (r, db')"
  shows "domainOK db'"
proof -
  have t: "tablesOK db" "refsOK db" using assms(1) by (simp_all add: domainOK_def)
  then have c: "noClash connectionClash (dbConnections db)" "noClash nodeClash (dbNodes db)"
    "noClash installationClash (dbInstallations db)" "noClash (sameKey niID) (dbInstances db)" by (simp_all add: tablesOK_def)
  from assms(2) show ?thesis
  proof (cases rule: SoftDeleteNode_cases)
    case (2 P Q R S)
    have "tablesOK db'" unfolding 2(1)
      using c by (intro tablesOK_I t connectionClash_update nodeClash_update installationClash_update) simp_all
    moreover have "refsOK db'" using t(2)
      by (rule refsOK_same_files) (simp_all add: 2(1) image_update_rows keys_defs)
    ultimately show ?thesis by (simp add: domainOK_def)
  qed (use assms(1) in simp)
qed

lemma domainOK_CreateNodeInstance:
  assumes "domainOK db" "CreateNodeInstance rnd now v db = (r, db')"
  shows "domainOK db'"
  using assms
  by (auto simp: CreateNodeInstance_def Let_def insert_row_eq noClash_append domainOK_def tablesOK_def keys_defs
      split: sum.splits dest!: commit_state elim!: refsOK_same_files)

lemma domainOK_CreateAgentInstallation:
  assumes "domainOK db" "CreateAgentInstallation rnd now v db = (r, db')"
  shows "domainOK db'"
  using assms
  by (auto simp: CreateAgentInstallation_def Let_def insert_row_eq noClash_append domainOK_def tablesOK_def keys_defs
      split: sum.splits option.splits dest!: commit_state elim!: refsOK_same_files)

lemma domainOK_CreateNodeWith:
  assumes "domainOK db" "CreateNodeWithInstanceAndAgentInstallation rnd now n i a db = (r, db')"
  shows "domainOK db'"
  using assms
  by (auto simp: CreateNodeWithInstanceAndAgentInstallation_def Let_def insert_row_eq noClash_append domainOK_def
      tablesOK_def keys_defs split: option.splits dest!: commit_state elim!: refsOK_same_files)

lemma domainOK_UpdateConnectionDesiredStatus:
  assumes "domainOK db" "UpdateConnectionDesiredStatus now i s db = (r, db')"
  shows "domainOK db'"
proof -
  let ?f = "\<lambda>c. c\<lparr>cnDesiredStatus := s,
    cnDesiredVersionMS := bumpVersion (time_UnixMilli now) (cnDesiredVersionMS c), cnLastErrorID := [], cnUpdatedAt := now\<rparr>"
  let ?u = "checked_update connectionClash (\<lambda>c. cnID c = i) ?f (dbConnections db)"
  have "db' = db \<or> (\<exists>t. ?u = Inr t \<and> db' = db\<lparr>dbConnections := t\<rparr>)"
    using assms(2) unfolding UpdateConnectionDesiredStatus_def Let_def
    by (cases ?u) (simp_all split: if_split_asm)
  then consider "db' = db" | t where "?u = Inr t" "db' = db\<lparr>dbConnections := t\<rparr>" by blast
  then show ?thesis
  proof cases
    case 2
    note t = noClash_checked_update [OF 2(1)]
    have "tablesOK db'" using assms(1) conjunct1 [OF t] by (simp add: domainOK_def tablesOK_def 2(2))
    moreover have "refsOK db'"
      by (rule refsOK_same_files [of db]) (use assms(1) t in \<open>simp_all add: domainOK_def 2(2) keys_defs image_update_rows\<close>)
    ultimately show ?thesis by (simp add: domainOK_def)
  qed (use assms(1) in simp)
qed

lemma domainOK_finalizeOne:
  assumes "domainOK db"
  shows "domainOK (finalizeOne now v c db)"
proof -
  let ?db = "finalizeOne now v c db"
  have "tablesOK ?db"
    using assms by (auto simp: domainOK_def tablesOK_def finalizeOne_def Let_def intro!: connectionClash_update)
  moreover have "refsOK ?db"
    by (rule refsOK_same_files [of db])
      (use assms in \<open>simp_all add: domainOK_def finalizeOne_def Let_def keys_defs image_update_rows\<close>)
  ultimately show ?thesis by (simp add: domainOK_def)
qed

lemma domainOK_finalizeTx:
  assumes "domainOK db" "finalizeTx now v cs db = (r, db')"
  shows "domainOK db'"
proof -
  have "domainOK (fold (finalizeOne now v) cs db)"
    using assms(1) by (induction cs arbitrary: db) (simp_all add: domainOK_finalizeOne)
  with assms(2) show ?thesis by (auto simp: finalizeTx_def)
qed

subsection \<open>Creating a connection\<close>

lemma getRow_Inr: "getRow key t k = Inr r \<Longrightarrow> r \<in> set t \<and> key r = k"
  by (auto simp: getRow_def dest: lookup_row_SomeD split: option.splits)

fun opt_list :: "'a option \<Rightarrow> 'a list" where
  "opt_list None = []" | "opt_list (Some x) = [x]"

lemma insert_parts:
  "insertConnection v db = Inr db' \<Longrightarrow> db' = db\<lparr>dbConnections := dbConnections db @ [v]\<rparr> \<and>
     (\<forall>x \<in> set (dbConnections db). \<not> connectionClash v x) \<and> (tablesOK db \<longrightarrow> tablesOK db')"
  "insertHysteriaMaterial hm db = Inr db' \<Longrightarrow>
     db' = db\<lparr>dbHysteriaMaterials := dbHysteriaMaterials db @ opt_list hm\<rparr> \<and> (tablesOK db \<longrightarrow> tablesOK db')"
  "insertAmneziaMaterial am db = Inr db' \<Longrightarrow>
     db' = db\<lparr>dbAmneziaMaterials := dbAmneziaMaterials db @ opt_list am\<rparr> \<and> (tablesOK db \<longrightarrow> tablesOK db')"
  "insertAPIRef ar db = Inr db' \<Longrightarrow>
     db' = db\<lparr>dbAPIRefs := dbAPIRefs db @ opt_list ar\<rparr> \<and> (tablesOK db \<longrightarrow> tablesOK db')"
  "insertConfig c db = Inr db' \<Longrightarrow>
     db' = db\<lparr>dbConfigs := dbConfigs db @ [c]\<rparr> \<and> (tablesOK db \<longrightarrow> tablesOK db')"
  by (auto simp: insertConnection_def insertHysteriaMaterial_def insertAmneziaMaterial_def insertAPIRef_def
      insertConfig_def insert_row_eq noClash_append tablesOK_def split: sum.splits option.splits)

lemma insertConfigs:
  "foldR insertConfig cs db = Inr db' \<Longrightarrow>
     db' = db\<lparr>dbConfigs := dbConfigs db @ cs\<rparr> \<and> (tablesOK db \<longrightarrow> tablesOK db')"
proof (induction cs arbitrary: db)
  case (Cons c cs)
  then obtain d where "insertConfig c db = Inr d" "foldR insertConfig cs d = Inr db'" by (auto split: sum.splits)
  with Cons.IH [of d] insert_parts(5) [of c db d] show ?case by auto
qed simp

lemma CreateConnectionBundle_cases:
  assumes "CreateConnectionBundle rnd now b db = (r, db')"
  obtains "db' = db" | s node where "s = stampBundle rnd now b"
    "cnAccountID (cbConnection b) \<in> acID ` set (dbAccounts db)" "node \<in> set (dbNodes db)"
    "ndID node = cnNodeID (cbConnection b)" "validateConnectionBundle node b = None"
    "lockNodeConfig b (cnNodeID (cbConnection b)) db = Inr db"
    "\<forall>x \<in> set (dbConnections db). \<not> connectionClash (cbConnection s) x" "r = Inr s"
    "db' = db\<lparr>dbConnections := dbConnections db @ [cbConnection s],
       dbHysteriaMaterials := dbHysteriaMaterials db @ opt_list (cbHysteria2Material s),
       dbAmneziaMaterials := dbAmneziaMaterials db @ opt_list (cbAmneziaWGMaterial s),
       dbAPIRefs := dbAPIRefs db @ opt_list (cbAmneziaAPIRef s), dbConfigs := dbConfigs db @ cbConfigs s\<rparr>"
    "tablesOK db \<Longrightarrow> tablesOK db'"
proof (cases "db' = db")
  case False
  let ?v = "cbConnection b" and ?s = "stampBundle rnd now b"
  let ?tx = "bindR (lockNodeConfig b (cnNodeID ?v) db) (\<lambda>db. bindR (insertConnection (cbConnection ?s) db) (\<lambda>db.
    bindR (insertHysteriaMaterial (cbHysteria2Material ?s) db) (\<lambda>db.
    bindR (insertAmneziaMaterial (cbAmneziaWGMaterial ?s) db) (\<lambda>db.
    bindR (insertAPIRef (cbAmneziaAPIRef ?s) db) (\<lambda>db. foldR insertConfig (cbConfigs ?s) db)))))"
  obtain a node where a: "GetAccount db (cnAccountID ?v) = Inr a" and n: "GetNode db (cnNodeID ?v) = Inr node"
    using assms False unfolding CreateConnectionBundle_def Let_def
    by (cases "GetAccount db (cnAccountID ?v)"; cases "GetNode db (cnNodeID ?v)") simp_all
  have valid: "validateConnectionBundle node b = None" and "\<not> blank (cnName ?v)" and c: "commit ?s ?tx db = (r, db')"
    using assms False unfolding CreateConnectionBundle_def Let_def a n
    by (cases "validateConnectionBundle node b"; simp split: if_split_asm)+
  with False have tx: "?tx = Inr db'" "r = Inr ?s" by (auto simp: commit_def split: sum.splits)
  then obtain d1 d2 d3 d4 where l: "lockNodeConfig b (cnNodeID ?v) db = Inr db"
    and d1: "insertConnection (cbConnection ?s) db = Inr d1"
    and d2: "insertHysteriaMaterial (cbHysteria2Material ?s) d1 = Inr d2"
    and d3: "insertAmneziaMaterial (cbAmneziaWGMaterial ?s) d2 = Inr d3"
    and d4: "insertAPIRef (cbAmneziaAPIRef ?s) d3 = Inr d4" and d5: "foldR insertConfig (cbConfigs ?s) d4 = Inr db'"
    unfolding bindR_eq_Inr by (auto simp: lockNodeConfig_def split: if_split_asm)
  note p = insert_parts(1) [OF d1] insert_parts(2) [OF d2] insert_parts(3) [OF d3] insert_parts(4) [OF d4]
    insertConfigs [OF d5]
  have "tablesOK db'" if "tablesOK db"
    using that p by blast
  moreover have "db' = db\<lparr>dbConnections := dbConnections db @ [cbConnection ?s],
       dbHysteriaMaterials := dbHysteriaMaterials db @ opt_list (cbHysteria2Material ?s),
       dbAmneziaMaterials := dbAmneziaMaterials db @ opt_list (cbAmneziaWGMaterial ?s),
       dbAPIRefs := dbAPIRefs db @ opt_list (cbAmneziaAPIRef ?s), dbConfigs := dbConfigs db @ cbConfigs ?s\<rparr>"
    using p by simp
  moreover have "cnAccountID ?v \<in> acID ` set (dbAccounts db)" "node \<in> set (dbNodes db)" "ndID node = cnNodeID ?v"
    using getRow_Inr [OF a [unfolded GetAccount_def]] getRow_Inr [OF n [unfolded GetNode_def]] by force+
  ultimately show ?thesis using that(2) [OF refl _ _ _ valid l _ tx(2)] p by blast
qed (use that in simp)

lemma stampBundle_sel [simp]:
  "cbConnection (stampBundle rnd now b) = defaultConnection (rnd 0) now (cbConnection b)"
  "cbHysteria2Material (stampBundle rnd now b) = map_option (\<lambda>m. m\<lparr>hmConnectionID := cnID (defaultConnection (rnd 0) now
     (cbConnection b)), hmCreatedAt := now, hmUpdatedAt := now\<rparr>) (cbHysteria2Material b)"
  "cbAmneziaWGMaterial (stampBundle rnd now b) = map_option (\<lambda>m. m\<lparr>amConnectionID := cnID (defaultConnection (rnd 0) now
     (cbConnection b)), amNodeID := cnNodeID (cbConnection b), amCreatedAt := now, amUpdatedAt := now\<rparr>) (cbAmneziaWGMaterial b)"
  "cbAmneziaAPIRef (stampBundle rnd now b) = map_option (\<lambda>r. r\<lparr>arConnectionID := cnID (defaultConnection (rnd 0) now
     (cbConnection b)), arCreatedAt := now, arUpdatedAt := now\<rparr>) (cbAmneziaAPIRef b)"
  by (simp_all add: stampBundle_def Let_def defaultConnection_def)

lemma validateConnectionBundle_None:
  assumes "validateConnectionBundle node b = None"
  obtains m where "ndType node = NodeTypeNativeHy2" "cnProtocol (cbConnection b) = ProtocolHysteria2"
      "cbHysteria2Material b = Some m" "\<not> blank (hmPasswordHash m)"
    | m where "ndType node = NodeTypeNativeAmneziaWG" "cnProtocol (cbConnection b) = ProtocolAmneziaWG"
      "cbAmneziaWGMaterial b = Some m"
    | r where "ndType node = NodeTypeAmneziaAPI" "cnProtocol (cbConnection b) = ProtocolAmneziaWG"
      "cbAmneziaAPIRef b = Some r"
proof -
  consider "ndType node = NodeTypeNativeHy2" | "ndType node = NodeTypeNativeAmneziaWG"
    | "ndType node = NodeTypeAmneziaAPI"
    using assms unfolding validateConnectionBundle_def Let_def by (simp split: if_split_asm)
  then show ?thesis
  proof cases
    case 1
    then show ?thesis using assms that(1) unfolding validateConnectionBundle_def Let_def
      by (simp split: if_split_asm option.split_asm bool.split_asm)
  next
    case 2
    then show ?thesis using assms that(2) unfolding validateConnectionBundle_def Let_def
      by (simp split: if_split_asm option.split_asm bool.split_asm)
  next
    case 3
    then show ?thesis using assms that(3) unfolding validateConnectionBundle_def Let_def
      by (simp split: if_split_asm option.split_asm bool.split_asm)
  qed
qed

lemma trim_left_Nil [simp]: "trim_left ws [] = []"
proof -
  have "find (\<lambda>w. False) ws = None" by (simp add: find_None_iff)
  then have "strip_one ws [] = None" by (simp add: strip_one_def)
  then show ?thesis by (simp add: trim_left.simps)
qed

lemma blank_Nil [simp]: "blank []"
  by (simp add: blank_def TrimSpace_def)

lemma domainOK_CreateConnectionBundle:
  assumes ok: "domainOK db" and c: "CreateConnectionBundle rnd now b db = (r, db')"
  shows "domainOK db'"
  using c
proof (cases rule: CreateConnectionBundle_cases)
  case (2 s node)
  let ?v = "defaultConnection (rnd 0) now (cbConnection b)"
  have s: "cbConnection s = ?v" "cbHysteria2Material s = cbHysteria2Material (stampBundle rnd now b)"
    "cbAmneziaWGMaterial s = cbAmneziaWGMaterial (stampBundle rnd now b)"
    "cbAmneziaAPIRef s = cbAmneziaAPIRef (stampBundle rnd now b)"
    unfolding 2(1) by simp_all
  have v: "cnID ?v \<noteq> []" "cnAccountID ?v = cnAccountID (cbConnection b)" "cnNodeID ?v = cnNodeID (cbConnection b)"
    "cnProtocol ?v = cnProtocol (cbConnection b)"
    by (simp_all add: defaultConnection_def)
  have acc: "cnAccountID ?v \<in> acID ` set (dbAccounts db')" using 2(2) by (simp add: 2(9) v)
  have node: "(cnNodeID ?v, ndType node) \<in> nodeKeys db'" using 2(3,4) by (force simp: nodeKeys_def 2(9) v)
  have new: "connOK db' (connKey ?v)"
    using 2(5)
  proof (cases rule: validateConnectionBundle_None)
    case (1 m)
    then have "cnID ?v \<in> hysteriaKeys db'" by (force simp: hysteriaKeys_def 2(9) s)
    with 1 acc node v show ?thesis by (simp add: connOK_def connKey_def)
  next
    case (2 m)
    then have "(cnID ?v, cnNodeID ?v) \<in> amneziaKeys db'" by (simp add: amneziaKeys_def \<open>db' = _\<close> s v)
    with 2 acc node v show ?thesis by (simp add: connOK_def connKey_def)
  next
    case (3 r)
    then have "cnID ?v \<in> arConnectionID ` set (dbAPIRefs db')" by (simp add: \<open>db' = _\<close> s)
    with 3 acc node v show ?thesis by (simp add: connOK_def connKey_def)
  qed
  have old: "connOK db' k" if "connOK db k" for k
    using that by (rule connOK_mono) (auto simp: keys_defs 2(9))
  have "refsOK db'"
    using ok new old by (auto simp: domainOK_def refsOK_def 2(9) s fileSetMissing_def)
  with 2(10) ok show ?thesis by (simp add: domainOK_def)
qed (use ok in simp)

end
