(* ===== verification/Domain_Steps.thy ===== *)
theory Domain_Steps
  imports Domain_Invariant
begin

text \<open>
  The operations of the domain store as one transition system: the rest of the preservation proofs (node
  configurations and file sets), the invariant of the reachable states, and what every step keeps of the
  versions of the connections.
\<close>

section \<open>Preservation by the operations on node configurations\<close>

lemma toHysteriaRow_sel [simp]:
  "hcNodeID (toHysteriaRow fs v) = hcNodeID v" "hcMasqueradeFileSetID (toHysteriaRow fs v) = hcMasqueradeFileSetID v"
  "hcAppliedFileSetID (toHysteriaRow fs v) = fs" "hcConfigVersionMS (toHysteriaRow fs v) = hcConfigVersionMS v"
  by (simp_all add: toHysteriaRow_def Hysteria2NodeConfig.defs HysteriaConfigRow.defs)

lemma fileSetMissing_Nil [simp]: "\<not> fileSetMissing db []"
  by (simp add: fileSetMissing_def)

lemma domainOK_CreateHysteria2NodeConfig:
  assumes ok: "domainOK db" and c: "CreateHysteria2NodeConfig now c db = (r, db')"
  shows "domainOK db'"
proof -
  let ?v = "defaultHysteria2NodeConfig now c"
  have "db' = db \<or> \<not> fileSetMissing db (hcMasqueradeFileSetID ?v) \<and>
      (\<forall>x \<in> set (dbHysteriaConfigs db). \<not> sameKey hcNodeID (toHysteriaRow [] ?v) x) \<and>
      db' = db\<lparr>dbHysteriaConfigs := dbHysteriaConfigs db @ [toHysteriaRow [] ?v]\<rparr>"
    using c unfolding CreateHysteria2NodeConfig_def Let_def
    by (auto simp: insert_row_eq split: if_split_asm dest!: commit_state)
  then show ?thesis
  proof
    assume new: "\<not> fileSetMissing db (hcMasqueradeFileSetID ?v) \<and>
      (\<forall>x \<in> set (dbHysteriaConfigs db). \<not> sameKey hcNodeID (toHysteriaRow [] ?v) x) \<and>
      db' = db\<lparr>dbHysteriaConfigs := dbHysteriaConfigs db @ [toHysteriaRow [] ?v]\<rparr>"
    then have "tablesOK db'" using ok by (simp add: domainOK_def tablesOK_def noClash_append)
    moreover have "refsOK db'"
      by (rule refsOK_I [of db]) (use ok new in \<open>auto simp: domainOK_def refsOK_def keys_defs fileSetMissing_def\<close>)
    ultimately show ?thesis by (simp add: domainOK_def)
  qed (use ok in simp)
qed

lemma reissueConfigs_ids: "map icID (fold (reissueConfig k at) cs t) = map icID t"
  by (induction cs arbitrary: t) (simp_all add: reissueConfig_def)

lemma reissueConfigs_clash [simp]:
  "noClash (sameKey icID) (fold (reissueConfig k at) cs t) \<longleftrightarrow> noClash (sameKey icID) t"
  by (simp add: noClash_sameKey reissueConfigs_ids)

lemma domainOK_UpdateHysteria2NodeConfig:
  assumes ok: "domainOK db" and c: "UpdateHysteria2NodeConfig c expected configs db = (r, db')"
  shows "domainOK db'"
proof -
  have "db' = db \<or> (\<exists>P t. \<not> fileSetMissing db (hcMasqueradeFileSetID c) \<and> db' = db\<lparr>
      dbHysteriaConfigs := update_rows P (hysteriaConfigUpdate c) (dbHysteriaConfigs db),
      dbConfigs := fold (reissueConfig ''hy2_uri'' (hcUpdatedAt c)) configs (dbConfigs db)\<rparr> \<and>
      (\<forall>r. P r \<longrightarrow> hcNodeID r = hcNodeID c))"
    using c unfolding UpdateHysteria2NodeConfig_def Let_def by (auto split: if_split_asm)
  then show ?thesis
  proof
    assume "\<exists>P t. \<not> fileSetMissing db (hcMasqueradeFileSetID c) \<and> db' = db\<lparr>
      dbHysteriaConfigs := update_rows P (hysteriaConfigUpdate c) (dbHysteriaConfigs db),
      dbConfigs := fold (reissueConfig ''hy2_uri'' (hcUpdatedAt c)) configs (dbConfigs db)\<rparr> \<and>
      (\<forall>r. P r \<longrightarrow> hcNodeID r = hcNodeID c)"
    then obtain P where fs: "\<not> fileSetMissing db (hcMasqueradeFileSetID c)" and db': "db' = db\<lparr>
      dbHysteriaConfigs := update_rows P (hysteriaConfigUpdate c) (dbHysteriaConfigs db),
      dbConfigs := fold (reissueConfig ''hy2_uri'' (hcUpdatedAt c)) configs (dbConfigs db)\<rparr>" by blast
    have "tablesOK db'" using ok by (simp add: domainOK_def tablesOK_def db' hysteriaConfigUpdate_def)
    moreover have "refsOK db'"
      by (rule refsOK_I [of db]) (use ok fs in \<open>auto simp: domainOK_def refsOK_def keys_defs fileSetMissing_def db'
          set_update_rows hysteriaConfigUpdate_def\<close>)
    ultimately show ?thesis by (simp add: domainOK_def)
  qed (use ok in simp)
qed

text \<open>Rewriting the rows of the Hysteria configurations without introducing a file set.\<close>

lemma domainOK_hysteria_rows:
  assumes ok: "domainOK db" and db': "db' = db\<lparr>dbHysteriaConfigs := update_rows P f (dbHysteriaConfigs db)\<rparr>"
    and f: "\<And>r. hcNodeID (f r) = hcNodeID r"
    "\<And>r. hcMasqueradeFileSetID (f r) \<in> {[], hcMasqueradeFileSetID r, hcAppliedFileSetID r}"
    "\<And>r. hcAppliedFileSetID (f r) \<in> {[], hcMasqueradeFileSetID r, hcAppliedFileSetID r}"
  shows "domainOK db'"
proof -
  have old: "\<not> fileSetMissing db (hcMasqueradeFileSetID r)" "\<not> fileSetMissing db (hcAppliedFileSetID r)"
    if "r \<in> set (dbHysteriaConfigs db)" for r using that ok by (auto simp: domainOK_def refsOK_def)
  have same: "fileSetMissing db' = fileSetMissing db" by (rule ext) (simp add: fileSetMissing_def db')
  have files: "\<not> fileSetMissing db' (hcMasqueradeFileSetID r) \<and> \<not> fileSetMissing db' (hcAppliedFileSetID r)"
    if "r \<in> set (dbHysteriaConfigs db')" for r
  proof -
    from that obtain x where x: "x \<in> set (dbHysteriaConfigs db)" "r = x \<or> r = f x"
      by (auto simp: db' set_update_rows)
    then show ?thesis using old [OF x(1)] f(2) [of x] f(3) [of x] by (auto simp: same)
  qed
  have "refsOK db'"
    by (rule refsOK_I [of db, OF _ _ _ _ _ _ _ files])
      (use ok in \<open>simp_all add: domainOK_def keys_defs db'\<close>)
  moreover have "tablesOK db'" using ok f(1) by (simp add: domainOK_def tablesOK_def db')
  ultimately show ?thesis by (simp add: domainOK_def)
qed

lemma domainOK_SetHysteria2ConfigResult:
  assumes ok: "domainOK db" and c: "SetHysteria2ConfigResult i v e db = (r, db')"
  shows "domainOK db'"
proof -
  let ?f = "\<lambda>r. if e \<noteq> [] then r\<lparr>hcConfigErrorID := e\<rparr>
    else r\<lparr>hcAppliedConfigVersionMS := v, hcConfigErrorID := [], hcAppliedFileSetID := hcMasqueradeFileSetID r\<rparr>"
  have "db' = db\<lparr>dbHysteriaConfigs := update_rows (\<lambda>r. hcNodeID r = i \<and> hcConfigVersionMS r = v) ?f (dbHysteriaConfigs db)\<rparr>"
    using c by (simp add: SetHysteria2ConfigResult_def Let_def)
  then show ?thesis by (rule domainOK_hysteria_rows [OF ok]) simp_all
qed

lemma domainOK_PutHysteriaFileSet:
  assumes ok: "domainOK db" and c: "PutHysteriaFileSet now i a m db = (r, db')"
  shows "domainOK db'"
proof -
  have "tablesOK db'" using ok c
    by (auto simp: domainOK_def tablesOK_def PutHysteriaFileSet_def noClash_append sameKey_def split: if_split_asm)
  moreover have "refsOK db'"
    by (rule refsOK_I [of db]) (use ok c in \<open>auto simp: domainOK_def refsOK_def keys_defs fileSetMissing_def
        PutHysteriaFileSet_def split: if_split_asm\<close>)
  ultimately show ?thesis by (simp add: domainOK_def)
qed

lemma domainOK_PruneHysteriaFileSets:
  assumes ok: "domainOK db" and c: "PruneHysteriaFileSets now db = (r, db')"
  shows "domainOK db'"
proof -
  let ?del = "ndID ` set (filter (\<lambda>n. ndStatus n = StatusDeleted) (dbNodes db))"
  let ?f = "\<lambda>r. r\<lparr>hcMasqueradeFileSetID := [], hcAppliedFileSetID := []\<rparr>"
  let ?d = "db\<lparr>dbHysteriaConfigs := update_rows (\<lambda>r. hcNodeID r \<in> ?del) ?f (dbHysteriaConfigs db)\<rparr>"
  let ?keep = "\<lambda>f. \<not> (fsCreatedAtMS f < time_UnixMilli now \<and>
    \<not> list_ex (\<lambda>c. hcMasqueradeFileSetID c = fsID f \<or> hcAppliedFileSetID c = fsID f) (dbHysteriaConfigs ?d))"
  have db': "db' = ?d\<lparr>dbFileSets := filter ?keep (dbFileSets ?d)\<rparr>"
    using c by (simp add: PruneHysteriaFileSets_def Let_def)
  have ok1: "domainOK ?d" by (rule domainOK_hysteria_rows [OF ok refl]) simp_all
  have sub: "noClash (sameKey fsID) (filter P t)" if "noClash (sameKey fsID) t" for P t
    using that by (simp add: noClash_sameKey distinct_map_filter)
  have "tablesOK db'" using ok1 unfolding db' by (simp add: domainOK_def tablesOK_def sub)
  moreover have "refsOK db'"
  proof (rule refsOK_I [of ?d])
    fix r assume "r \<in> set (dbHysteriaConfigs db')"
    then have r: "r \<in> set (dbHysteriaConfigs ?d)" by (simp add: db')
    then have "\<not> fileSetMissing ?d (hcMasqueradeFileSetID r)" "\<not> fileSetMissing ?d (hcAppliedFileSetID r)"
      using ok1 by (auto simp: domainOK_def refsOK_def)
    with r show "\<not> fileSetMissing db' (hcMasqueradeFileSetID r) \<and> \<not> fileSetMissing db' (hcAppliedFileSetID r)"
      by (force simp: fileSetMissing_def db' list_ex_iff)
  qed (use ok1 in \<open>simp_all add: domainOK_def keys_defs db'\<close>)
  ultimately show ?thesis by (simp add: domainOK_def)
qed

lemma domainOK_CreateAmneziaAPINodeConfig:
  assumes "domainOK db" "CreateAmneziaAPINodeConfig now c db = (r, db')"
  shows "domainOK db'"
  using assms
  by (auto simp: CreateAmneziaAPINodeConfig_def Let_def insert_row_eq noClash_append domainOK_def tablesOK_def
      keys_defs split: if_split_asm dest!: commit_state elim!: refsOK_same_files)

lemma domainOK_CreateAmneziaAPINode:
  assumes "domainOK db" "CreateAmneziaAPINode rnd now n c db = (r, db')"
  shows "domainOK db'"
  using assms
  by (auto simp: CreateAmneziaAPINode_def Let_def insert_row_eq noClash_append domainOK_def tablesOK_def
      keys_defs dest!: commit_state elim!: refsOK_same_files)

lemma domainOK_CreateAmneziaWGNodeConfig:
  assumes "domainOK db" "CreateAmneziaWGNodeConfig now c db = (r, db')"
  shows "domainOK db'"
  using assms
  by (auto simp: CreateAmneziaWGNodeConfig_def Let_def insert_row_eq noClash_append domainOK_def tablesOK_def
      keys_defs split: if_split_asm dest!: commit_state elim!: refsOK_same_files)

lemma domainOK_CreateNativeAmneziaWGNode:
  assumes "domainOK db" "CreateNativeAmneziaWGNode rnd now n c db = (r, db')"
  shows "domainOK db'"
  using assms
  by (auto simp: CreateNativeAmneziaWGNode_def Let_def insert_row_eq noClash_append domainOK_def tablesOK_def
      keys_defs split: if_split_asm dest!: commit_state elim!: refsOK_same_files)

lemma UpdateAmneziaWGNodeConfig_cases:
  assumes "UpdateAmneziaWGNodeConfig v expected configs db = (r, db')"
  obtains e where "r = Inl e" "db' = db" | "r = Inr ()"
    "length (filter (\<lambda>r. awNodeID r = awNodeID v \<and> awConfigVersionMS r = expected) (dbAmneziaConfigs db)) = 1"
    "length (filter (\<lambda>m. amNodeID m = awNodeID v) (dbAmneziaMaterials db)) = length configs"
    "db' = db\<lparr>
       dbAmneziaConfigs := update_rows (\<lambda>r. awNodeID r = awNodeID v \<and> awConfigVersionMS r = expected)
         (\<lambda>r. v\<lparr>awNodeID := awNodeID r, awCreatedAt := awCreatedAt r\<rparr>) (dbAmneziaConfigs db),
       dbConfigs := fold (reissueConfig ''amnezia_conf'' (awUpdatedAt v)) configs (dbConfigs db),
       dbConnections := update_rows (\<lambda>c. cnNodeID c = awNodeID v \<and> cnDesiredStatus c \<noteq> StatusDeleted)
         (\<lambda>c. c\<lparr>cnDesiredVersionMS := bumpVersion (awConfigVersionMS v) (cnDesiredVersionMS c),
                cnUpdatedAt := awUpdatedAt v\<rparr>) (dbConnections db)\<rparr>"
proof (cases r)
  case (Inl e)
  with assms have "db' = db" unfolding UpdateAmneziaWGNodeConfig_def Let_def by (simp split: if_split_asm)
  with Inl that(1) show ?thesis by blast
next
  case (Inr u)
  with assms show ?thesis
    unfolding UpdateAmneziaWGNodeConfig_def Let_def by (intro that(2)) (simp_all split: if_split_asm)
qed

lemma domainOK_UpdateAmneziaWGNodeConfig:
  assumes ok: "domainOK db" and c: "UpdateAmneziaWGNodeConfig v expected configs db = (r, db')"
  shows "domainOK db'"
  using c
proof (cases rule: UpdateAmneziaWGNodeConfig_cases)
  case 2
  have "noClash connectionClash (dbConnections db')"
    unfolding 2(4) using ok by (simp add: domainOK_def tablesOK_def) (intro connectionClash_update; simp)
  then have "tablesOK db'" using ok by (simp add: domainOK_def tablesOK_def 2(4))
  moreover have "refsOK db'"
    by (rule refsOK_same_files [of db]) (use ok in \<open>simp_all add: domainOK_def keys_defs image_update_rows 2(4)\<close>)
  ultimately show ?thesis by (simp add: domainOK_def)
qed (use ok in simp)

lemma domainOK_SetAmneziaWGConfigResult:
  assumes ok: "domainOK db" and c: "SetAmneziaWGConfigResult i v e db = (r, db')"
  shows "domainOK db'"
proof -
  let ?f = "\<lambda>r. if e \<noteq> [] then r\<lparr>awConfigErrorID := e\<rparr> else r\<lparr>awAppliedConfigVersionMS := v, awConfigErrorID := []\<rparr>"
  have db': "db' = db\<lparr>dbAmneziaConfigs := update_rows (\<lambda>r. awNodeID r = i \<and> awConfigVersionMS r = v) ?f
      (dbAmneziaConfigs db)\<rparr>"
    using c by (simp add: SetAmneziaWGConfigResult_def Let_def)
  have "tablesOK db'" using ok by (simp add: domainOK_def tablesOK_def db')
  moreover have "refsOK db'"
    by (rule refsOK_same_files [of db]) (use ok in \<open>simp_all add: domainOK_def keys_defs db'\<close>)
  ultimately show ?thesis by (simp add: domainOK_def)
qed

section \<open>The operations as steps\<close>

inductive domain_step :: "DomainDB \<Rightarrow> DomainDB \<Rightarrow> bool" where
  create_account: "CreateAccount rnd now u db = (r, db') \<Longrightarrow> domain_step db db'"
| account_status: "UpdateAccountStatus now i s db = (r, db') \<Longrightarrow> domain_step db db'"
| create_config: "CreateIssuedConfig rnd now c db = (r, db') \<Longrightarrow> domain_step db db'"
| create_node: "CreateNode rnd now n db = (r, db') \<Longrightarrow> domain_step db db'"
| delete_node: "SoftDeleteNode now i db = (r, db') \<Longrightarrow> domain_step db db'"
| create_instance: "CreateNodeInstance rnd now v db = (r, db') \<Longrightarrow> domain_step db db'"
| create_installation: "CreateAgentInstallation rnd now v db = (r, db') \<Longrightarrow> domain_step db db'"
| create_node_bundle: "CreateNodeWithInstanceAndAgentInstallation rnd now n i a db = (r, db') \<Longrightarrow> domain_step db db'"
| create_connection: "CreateConnectionBundle rnd now b db = (r, db') \<Longrightarrow> domain_step db db'"
| connection_status: "UpdateConnectionDesiredStatus now i s db = (r, db') \<Longrightarrow> domain_step db db'"
| finalise: "finalizeTx now v cs db = (r, db') \<Longrightarrow> domain_step db db'"
| create_hysteria: "CreateHysteria2NodeConfig now c db = (r, db') \<Longrightarrow> domain_step db db'"
| update_hysteria: "UpdateHysteria2NodeConfig c expected configs db = (r, db') \<Longrightarrow> domain_step db db'"
| hysteria_result: "SetHysteria2ConfigResult i v e db = (r, db') \<Longrightarrow> domain_step db db'"
| put_files: "PutHysteriaFileSet now i a m db = (r, db') \<Longrightarrow> domain_step db db'"
| prune_files: "PruneHysteriaFileSets now db = (r, db') \<Longrightarrow> domain_step db db'"
| create_api_config: "CreateAmneziaAPINodeConfig now c db = (r, db') \<Longrightarrow> domain_step db db'"
| create_api_node: "CreateAmneziaAPINode rnd now n c db = (r, db') \<Longrightarrow> domain_step db db'"
| create_awg_config: "CreateAmneziaWGNodeConfig now c db = (r, db') \<Longrightarrow> domain_step db db'"
| create_awg_node: "CreateNativeAmneziaWGNode rnd now n c db = (r, db') \<Longrightarrow> domain_step db db'"
| update_awg: "UpdateAmneziaWGNodeConfig c expected configs db = (r, db') \<Longrightarrow> domain_step db db'"
| awg_result: "SetAmneziaWGConfigResult i v e db = (r, db') \<Longrightarrow> domain_step db db'"

lemmas domainOK_intros = domainOK_CreateAccount domainOK_UpdateAccountStatus domainOK_CreateIssuedConfig
  domainOK_CreateNode domainOK_SoftDeleteNode domainOK_CreateNodeInstance domainOK_CreateAgentInstallation
  domainOK_CreateNodeWith domainOK_CreateConnectionBundle domainOK_UpdateConnectionDesiredStatus
  domainOK_finalizeTx domainOK_CreateHysteria2NodeConfig domainOK_UpdateHysteria2NodeConfig
  domainOK_SetHysteria2ConfigResult domainOK_PutHysteriaFileSet domainOK_PruneHysteriaFileSets
  domainOK_CreateAmneziaAPINodeConfig domainOK_CreateAmneziaAPINode domainOK_CreateAmneziaWGNodeConfig
  domainOK_CreateNativeAmneziaWGNode domainOK_UpdateAmneziaWGNodeConfig domainOK_SetAmneziaWGConfigResult

lemma domain_step_OK: "domain_step db db' \<Longrightarrow> domainOK db \<Longrightarrow> domainOK db'"
  by (induction rule: domain_step.induct) (erule (1) domainOK_intros [rotated])+

lemma domainOK_empty: "domainOK emptyDomainDB"
  by (simp add: domainOK_def tablesOK_def refsOK_def emptyDomainDB_def noClash_def)

lemma domain_reachable_OK: "domain_step\<^sup>*\<^sup>* db db' \<Longrightarrow> domainOK db \<Longrightarrow> domainOK db'"
  by (induction rule: rtranclp_induct) (auto intro: domain_step_OK)

end
