(* ===== verification/Sync_Source.thy ===== *)
theory Sync_Source
  imports Domain_Steps
begin

text \<open>
  The domain store as the source of the manifests of both protocols: the queries
  \<open>ListHysteriaSyncConnections\<close> and \<open>ListAmneziaWGSyncConnections\<close> satisfy the contract
  \<open>stored_source\<close> of the sync protocol in every reachable state, so a request is answered with exactly
  the page of the manifest it asks for.
\<close>

section \<open>What the queries return\<close>

lemma domainOK_D:
  assumes "domainOK db"
  shows "keyed acID (dbAccounts db)" "keyed ndID (dbNodes db)" "keyed cnID (dbConnections db)"
    "keyed hmConnectionID (dbHysteriaMaterials db)" "keyed amConnectionID (dbAmneziaMaterials db)"
    "keyed awNodeID (dbAmneziaConfigs db)"
    "c \<in> set (dbConnections db) \<Longrightarrow> connOK db (connKey c)"
proof -
  have t: "tablesOK db" "refsOK db" using assms by (simp_all add: domainOK_def)
  show "keyed acID (dbAccounts db)" "keyed hmConnectionID (dbHysteriaMaterials db)" "keyed awNodeID (dbAmneziaConfigs db)"
    using t(1) by (simp_all add: tablesOK_def noClash_sameKey)
  show "keyed ndID (dbNodes db)"
    using t(1) by (intro noClash_keyed [of nodeClash]) (simp_all add: tablesOK_def nodeClash_def)
  show "keyed cnID (dbConnections db)"
    using t(1) by (intro noClash_keyed [of connectionClash]) (simp_all add: tablesOK_def connectionClash_def)
  show "keyed amConnectionID (dbAmneziaMaterials db)"
    using t(1) by (intro noClash_keyed [of amneziaMaterialClash]) (simp_all add: tablesOK_def amneziaMaterialClash_def)
  show "c \<in> set (dbConnections db) \<Longrightarrow> connOK db (connKey c)" using t(2) by (simp add: refsOK_def)
qed

definition accountOf :: "DomainDB \<Rightarrow> Connection \<Rightarrow> Account" where
  "accountOf db c = the (lookup_row acID (dbAccounts db) (cnAccountID c))"

definition nodeConns :: "DomainDB \<Rightarrow> string \<Rightarrow> string \<Rightarrow> Connection list" where
  "nodeConns db nodeID protocol = filter (\<lambda>c. cnNodeID c = nodeID \<and> cnProtocol c = protocol) (dbConnections db)"

lemma lookup_accountOf:
  assumes "domainOK db" "c \<in> set (dbConnections db)"
  shows "lookup_row acID (dbAccounts db) (cnAccountID c) = Some (accountOf db c)"
proof -
  have "cnAccountID c \<in> acID ` set (dbAccounts db)"
    using domainOK_D(7) [OF assms] by (simp add: connOK_def connKey_def)
  then show ?thesis by (metis accountOf_def lookup_row_None_iff option.collapse)
qed

lemma syncRows_eq:
  assumes "domainOK db"
  shows "syncRows db nodeID protocol fromID =
    map (\<lambda>c. (c, accountOf db c)) (sort_key cnID (filter (\<lambda>c. fromID < cnID c) (nodeConns db nodeID protocol)))"
proof -
  have join: "joinAccounts db cs = map (\<lambda>c. (c, accountOf db c)) cs" if "set cs \<subseteq> set (dbConnections db)" for cs
    using that by (induction cs) (auto simp: joinAccounts_def lookup_accountOf [OF assms])
  have "filter (\<lambda>c. cnNodeID c = nodeID \<and> cnProtocol c = protocol \<and> fromID < cnID c) (dbConnections db) =
      filter (\<lambda>c. fromID < cnID c) (nodeConns db nodeID protocol)"
    by (auto simp: nodeConns_def intro!: filter_cong)
  moreover have "set (sort_key cnID (filter (\<lambda>c. fromID < cnID c) (nodeConns db nodeID protocol))) \<subseteq> set (dbConnections db)"
    by (auto simp: nodeConns_def)
  ultimately show ?thesis unfolding syncRows_def by (simp only: join)
qed

definition hysteriaRow :: "DomainDB \<Rightarrow> Connection \<Rightarrow> string StoredConnection" where
  "hysteriaRow db c =
     (let h = hmPasswordHash (the (lookup_row hmConnectionID (dbHysteriaMaterials db) (cnID c)))
      in \<lparr>scConnectionID = cnID c,
          scActive = (acStatus (accountOf db c) = StatusActive \<and> cnDesiredStatus c = StatusActive \<and> h \<noteq> []),
          scUpdatedAtMS = cnDesiredVersionMS c, scMaterial = h\<rparr>)"

definition hysteriaProject :: "DomainDB \<Rightarrow> string \<Rightarrow> string StoredConnection list" where
  "hysteriaProject db nodeID = map (hysteriaRow db) (nodeConns db nodeID ProtocolHysteria2)"

lemma hysteria_material:
  assumes "domainOK db" "c \<in> set (dbConnections db)" "cnProtocol c = ProtocolHysteria2"
  shows "lookup_row hmConnectionID (dbHysteriaMaterials db) (cnID c) \<noteq> None"
  using domainOK_D(7) [OF assms(1,2)] assms(3)
  by (auto simp: connOK_def connKey_def hysteriaKeys_def lookup_row_None_iff)

lemma ListHysteriaSyncConnections_eq:
  assumes "domainOK db"
  shows "ListHysteriaSyncConnections db nodeID fromID =
    Inr (map (hysteriaRow db) (sort_key cnID (filter (\<lambda>c. fromID < cnID c) (nodeConns db nodeID ProtocolHysteria2))))"
proof -
  have "scanHysteriaRows (dbHysteriaMaterials db) (map (\<lambda>c. (c, accountOf db c)) cs) = Inr (map (hysteriaRow db) cs)"
    if "set cs \<subseteq> set (nodeConns db nodeID ProtocolHysteria2)" for cs
    using that
  proof (induction cs)
    case (Cons c cs)
    then have "lookup_row hmConnectionID (dbHysteriaMaterials db) (cnID c) \<noteq> None"
      by (intro hysteria_material [OF assms]) (auto simp: nodeConns_def)
    with Cons show ?case by (auto simp: hysteriaRow_def Let_def)
  qed simp
  then show ?thesis by (simp add: ListHysteriaSyncConnections_def syncRows_eq [OF assms] subset_iff)
qed

definition amneziaRow :: "DomainDB \<Rightarrow> string \<Rightarrow> Connection \<Rightarrow> AmneziaWGSyncMaterial StoredConnection" where
  "amneziaRow db nodeID c =
     (let m = the (lookup_row amConnectionID (dbAmneziaMaterials db) (cnID c));
          config = the (lookup_row awNodeID (dbAmneziaConfigs db) nodeID)
      in \<lparr>scConnectionID = cnID c,
          scActive = (acStatus (accountOf db c) = StatusActive \<and> cnDesiredStatus c = StatusActive \<and> amConnectionID m \<noteq> []),
          scUpdatedAtMS = cnDesiredVersionMS c,
          scMaterial = \<lparr>smNodeConfig = config, smConnection = c, smMaterial = m\<rparr>\<rparr>)"

definition amneziaProject :: "DomainDB \<Rightarrow> string \<Rightarrow> AmneziaWGSyncMaterial StoredConnection list" where
  "amneziaProject db nodeID = map (amneziaRow db nodeID) (nodeConns db nodeID ProtocolAmneziaWG)"

text \<open>A configured native AmneziaWG node.\<close>

definition amneziaNodeOK :: "DomainDB \<Rightarrow> string \<Rightarrow> bool" where
  "amneziaNodeOK db nodeID \<longleftrightarrow>
     domainOK db \<and> (nodeID, NodeTypeNativeAmneziaWG) \<in> nodeKeys db \<and> nodeID \<in> awNodeID ` set (dbAmneziaConfigs db)"

lemma nodeKeys_unique: "domainOK db \<Longrightarrow> (n, t) \<in> nodeKeys db \<Longrightarrow> (n, t') \<in> nodeKeys db \<Longrightarrow> t = t'"
  using domainOK_D(2) [of db] by (auto simp: nodeKeys_def distinct_map inj_on_def)

lemma amnezia_material:
  assumes "amneziaNodeOK db nodeID" "c \<in> set (nodeConns db nodeID ProtocolAmneziaWG)"
  shows "lookup_row amConnectionID (dbAmneziaMaterials db) (cnID c) \<noteq> None"
proof -
  have ok: "domainOK db" and n: "(nodeID, NodeTypeNativeAmneziaWG) \<in> nodeKeys db"
    and c: "c \<in> set (dbConnections db)" "cnNodeID c = nodeID"
    using assms by (auto simp: amneziaNodeOK_def nodeConns_def)
  have "(nodeID, NodeTypeAmneziaAPI) \<notin> nodeKeys db" "(nodeID, NodeTypeNativeHy2) \<notin> nodeKeys db"
    using nodeKeys_unique [OF ok n] by fastforce+
  then have "(cnID c, nodeID) \<in> amneziaKeys db"
    using domainOK_D(7) [OF ok c(1)] c(2) by (auto simp: connOK_def connKey_def)
  then have "cnID c \<in> amConnectionID ` set (dbAmneziaMaterials db)" by (auto simp: amneziaKeys_def)
  then show ?thesis unfolding lookup_row_None_iff by simp
qed

lemma ListAmneziaWGSyncConnections_eq:
  assumes "amneziaNodeOK db nodeID"
  shows "ListAmneziaWGSyncConnections db nodeID fromID =
    Inr (map (amneziaRow db nodeID) (sort_key cnID (filter (\<lambda>c. fromID < cnID c) (nodeConns db nodeID ProtocolAmneziaWG))))"
proof -
  have ok: "domainOK db" using assms by (simp add: amneziaNodeOK_def)
  obtain config where config: "lookup_row awNodeID (dbAmneziaConfigs db) nodeID = Some config"
    using assms by (metis amneziaNodeOK_def lookup_row_None_iff option.exhaust)
  have "scanAmneziaRows config (dbAmneziaMaterials db) (map (\<lambda>c. (c, accountOf db c)) cs) =
      Inr (map (amneziaRow db nodeID) cs)"
    if "set cs \<subseteq> set (nodeConns db nodeID ProtocolAmneziaWG)" for cs
    using that
  proof (induction cs)
    case (Cons c cs)
    then have "lookup_row amConnectionID (dbAmneziaMaterials db) (cnID c) \<noteq> None"
      by (intro amnezia_material [OF assms]) auto
    with Cons show ?case by (auto simp: amneziaRow_def Let_def config)
  qed simp
  then show ?thesis
    by (simp add: ListAmneziaWGSyncConnections_def GetAmneziaWGNodeConfig_def getRow_def config syncRows_eq [OF ok] subset_iff)
qed

section \<open>The contract\<close>

lemma nodeConns_keyed: "domainOK db \<Longrightarrow> keyed cnID (nodeConns db nodeID protocol)"
  using domainOK_D(3) [of db] by (simp add: nodeConns_def distinct_map_filter)

lemma nodeConns_ids: "domainOK db \<Longrightarrow> [] \<notin> cnID ` set (nodeConns db nodeID protocol)"
  using domainOK_D(7) [of db] by (fastforce simp: nodeConns_def connOK_def connKey_def)

lemma row_ids [simp]: "scConnectionID (hysteriaRow db c) = cnID c" "scConnectionID (amneziaRow db n c) = cnID c"
  by (simp_all add: hysteriaRow_def amneziaRow_def Let_def)

lemma sorted_conns_keyed:
  "domainOK db \<Longrightarrow> keyed cnID (sort_key cnID (filter P (nodeConns db nodeID protocol)))"
  using ssorted_distinct [OF ssorted_sort_key, of cnID "filter P (nodeConns db nodeID protocol)"] nodeConns_keyed
  by (simp add: distinct_map_filter)

interpretation hysteria: stored_source ListHysteriaSyncConnections hysteriaProject "\<lambda>db _. domainOK db"
  buildHysteriaCredentialChange
proof (unfold_locales, goal_cases)
  case (1 db node "from")
  then show ?case
    by (auto simp: ListHysteriaSyncConnections_eq hysteriaProject_def o_def sorted_conns_keyed)
next
  case (2 db node)
  then show ?case by (simp add: hysteriaProject_def o_def nodeConns_keyed)
next
  case (3 db node)
  then show ?case using nodeConns_ids [of db node ProtocolHysteria2] by (simp add: hysteriaProject_def image_image)
next
  case (4 db node c)
  then show ?case
    by (auto simp: hysteriaProject_def hysteriaRow_def buildHysteriaCredentialChange_def Let_def)
qed

interpretation amnezia: stored_source ListAmneziaWGSyncConnections amneziaProject amneziaNodeOK
  buildAmneziaCredentialChange
proof (unfold_locales, goal_cases)
  case (1 db node "from")
  then have "domainOK db" by (simp add: amneziaNodeOK_def)
  with 1 show ?case
    by (auto simp: ListAmneziaWGSyncConnections_eq amneziaProject_def o_def sorted_conns_keyed)
next
  case (2 db node)
  then show ?case by (simp add: amneziaProject_def o_def nodeConns_keyed amneziaNodeOK_def)
next
  case (3 db node)
  then show ?case
    using nodeConns_ids [of db node ProtocolAmneziaWG] by (simp add: amneziaProject_def amneziaNodeOK_def image_image)
next
  case (4 db node c)
  then show ?case by (simp add: buildAmneziaCredentialChange_def Let_def)
qed

end
