(* ===== verification/Go_JSON.thy ===== *)
theory Go_JSON
  imports Strconv
begin

text \<open>
  The part of Go's \<open>encoding/json\<close> the sources use on their own data: the text \<open>json.Marshal\<close> writes and the values
  \<open>json.Unmarshal\<close> reads, with UTF-8 and the escapes of string literals written out. Numbers are kept as their
  literals. The decoder's limit of 10000 nested levels is left out.
\<close>

section \<open>UTF-8\<close>

abbreviation code :: "char \<Rightarrow> nat" where
  "code c \<equiv> of_char c"

abbreviation bytes :: "nat list \<Rightarrow> string" where
  "bytes ns \<equiv> map char_of ns"

definition continuation :: "nat \<Rightarrow> nat \<Rightarrow> string \<Rightarrow> bool" where
  "continuation lo hi s = (case s of [] \<Rightarrow> False | c # _ \<Rightarrow> lo \<le> code c \<and> code c \<le> hi)"

text \<open>The number of bytes of the rune a string begins with; 0 for a byte that begins no valid encoding.\<close>

definition runeLength :: "string \<Rightarrow> nat" where
  "runeLength s =
     (case s of
        [] \<Rightarrow> 0
      | c # r \<Rightarrow>
          let b = code c; cont = continuation 128 191
          in if b < 128 then 1
             else if 194 \<le> b \<and> b \<le> 223 then if cont r then 2 else 0
             else if 224 \<le> b \<and> b \<le> 239 then
               if continuation (if b = 224 then 160 else 128) (if b = 237 then 159 else 191) r \<and> cont (drop 1 r) then 3 else 0
             else if 240 \<le> b \<and> b \<le> 244 then
               if continuation (if b = 240 then 144 else 128) (if b = 244 then 143 else 191) r \<and> cont (drop 1 r) \<and>
                  cont (drop 2 r) then 4 else 0
             else 0)"

definition encodeRune :: "nat \<Rightarrow> string" where
  "encodeRune r =
     bytes (if r < 128 then [r]
      else if r < 2048 then [192 + r div 64, 128 + r mod 64]
      else if r < 65536 then [224 + r div 4096, 128 + (r div 64) mod 64, 128 + r mod 64]
      else [240 + r div 262144, 128 + (r div 4096) mod 64, 128 + (r div 64) mod 64, 128 + r mod 64])"

definition replacement :: string where
  "replacement = encodeRune 65533"

section \<open>String literals\<close>

definition hexChar :: "nat \<Rightarrow> char" where
  "hexChar d = char_of (if d < 10 then 48 + d else 87 + d)"

definition hexValue :: "char \<Rightarrow> nat option" where
  "hexValue c =
     (let b = code c
      in if 48 \<le> b \<and> b \<le> 57 then Some (b - 48) else if 97 \<le> b \<and> b \<le> 102 then Some (b - 87)
         else if 65 \<le> b \<and> b \<le> 70 then Some (b - 55) else None)"

text \<open>The escape of an ASCII character; \<open>json.Marshal\<close> also escapes the characters special in HTML.\<close>

definition escapeChar :: "char \<Rightarrow> string" where
  "escapeChar c =
     (let b = code c
      in if b = 92 \<or> b = 34 then [CHR 0x5C, c]
         else if b = 8 then [CHR 0x5C, CHR ''b''] else if b = 12 then [CHR 0x5C, CHR ''f'']
         else if b = 10 then [CHR 0x5C, CHR ''n''] else if b = 13 then [CHR 0x5C, CHR ''r'']
         else if b = 9 then [CHR 0x5C, CHR ''t'']
         else if b < 32 \<or> b = 60 \<or> b = 62 \<or> b = 38
         then [CHR 0x5C, CHR ''u'', CHR ''0'', CHR ''0'', hexChar (b div 16), hexChar (b mod 16)]
         else [c])"

definition lineSeparator :: "string \<Rightarrow> bool" where
  "lineSeparator s \<longleftrightarrow> take 3 s = bytes [226, 128, 168] \<or> take 3 s = bytes [226, 128, 169]"

function escape :: "string \<Rightarrow> string" where
  "escape [] = []"
| "escape (c # r) =
     (if code c < 128 then escapeChar c @ escape r
      else let n = runeLength (c # r)
           in if n = 0 then [CHR 0x5C] @ ''ufffd'' @ escape r
              else if lineSeparator (c # r)
              then [CHR 0x5C] @ ''u202'' @ [if take 3 (c # r) = bytes [226, 128, 168] then CHR ''8'' else CHR ''9''] @
                escape (drop n (c # r))
              else take n (c # r) @ escape (drop n (c # r)))"
  by pat_completeness auto
termination
  by (relation "measure length") auto

definition quote :: "string \<Rightarrow> string" where
  "quote s = CHR 0x22 # escape s @ [CHR 0x22]"

definition hex4 :: "string \<Rightarrow> nat option" where
  "hex4 s =
     (case s of
        a # b # c # d # _ \<Rightarrow>
          (case (hexValue a, hexValue b, hexValue c, hexValue d) of
             (Some w, Some x, Some y, Some z) \<Rightarrow> Some (((w * 16 + x) * 16 + y) * 16 + z)
           | _ \<Rightarrow> None)
      | _ \<Rightarrow> None)"

text \<open>A surrogate pair \<open>\uXXXX\uYYYY\<close> is one rune; a surrogate alone is the replacement character.\<close>

definition surrogatePair :: "nat \<Rightarrow> string \<Rightarrow> nat option" where
  "surrogatePair hi s =
     (if 55296 \<le> hi \<and> hi < 56320 \<and> take 2 s = [CHR 0x5C, CHR ''u''] then
        (case hex4 (drop 2 s) of
           Some lo \<Rightarrow> if 56320 \<le> lo \<and> lo < 57344 then Some (65536 + (hi - 55296) * 1024 + (lo - 56320)) else None
         | None \<Rightarrow> None)
      else None)"

definition unescapeChar :: "char \<Rightarrow> char option" where
  "unescapeChar c =
     (if c = CHR 0x22 \<or> c = CHR 0x5C \<or> c = CHR ''/'' then Some c
      else if c = CHR ''b'' then Some (CHR 0x08) else if c = CHR ''f'' then Some (CHR 0x0C)
      else if c = CHR ''n'' then Some (CHR 0x0A) else if c = CHR ''r'' then Some (CHR 0x0D)
      else if c = CHR ''t'' then Some (CHR 0x09) else None)"

text \<open>The literal after its opening quote: its value and what follows the closing quote.\<close>

function unquote :: "string \<Rightarrow> (string \<times> string) option" where
  "unquote [] = None"
| "unquote (c # r) =
     (if c = CHR 0x22 then Some ([], r)
      else if c = CHR 0x5C then
        (case r of
           [] \<Rightarrow> None
         | e # r' \<Rightarrow>
             if e = CHR ''u'' then
               (case hex4 r' of
                  None \<Rightarrow> None
                | Some n \<Rightarrow>
                    (case surrogatePair n (drop 4 r') of
                       Some u \<Rightarrow> map_option (map_prod ((@) (encodeRune u)) id) (unquote (drop 10 r'))
                     | None \<Rightarrow>
                         map_option (map_prod ((@) (if 55296 \<le> n \<and> n < 57344 then replacement else encodeRune n)) id)
                           (unquote (drop 4 r'))))
             else (case unescapeChar e of
                     None \<Rightarrow> None | Some d \<Rightarrow> map_option (map_prod ((#) d) id) (unquote r')))
      else if code c < 32 then None
      else if code c < 128 then map_option (map_prod ((#) c) id) (unquote r)
      else let n = runeLength (c # r)
           in if n = 0 then map_option (map_prod ((@) replacement) id) (unquote r)
              else map_option (map_prod ((@) (take n (c # r))) id) (unquote (drop n (c # r))))"
  by pat_completeness auto
termination
  by (relation "measure length") auto

section \<open>Values\<close>

datatype json = JNull | JBool bool | JNum string | JStr string | JArr "json list" | JObj "(string \<times> json) list"

fun joinWith :: "string \<Rightarrow> string list \<Rightarrow> string" where
  "joinWith sep [] = []"
| "joinWith sep [x] = x"
| "joinWith sep (x # y # xs) = x @ sep @ joinWith sep (y # xs)"

fun render :: "json \<Rightarrow> string" where
  "render JNull = ''null''"
| "render (JBool b) = (if b then ''true'' else ''false'')"
| "render (JNum n) = n"
| "render (JStr s) = quote s"
| "render (JArr xs) = ''['' @ joinWith '','' (map render xs) @ '']''"
| "render (JObj ms) = ''{'' @ joinWith '','' (map (\<lambda>(k, v). quote k @ '':'' @ render v) ms) @ ''}''"

definition skipSpace :: "string \<Rightarrow> string" where
  "skipSpace s = dropWhile (\<lambda>c. code c \<in> {9, 10, 13, 32}) s"

definition stripPrefix :: "string \<Rightarrow> string \<Rightarrow> string option" where
  "stripPrefix p s = (if take (length p) s = p then Some (drop (length p) s) else None)"

definition digitsOf :: "string \<Rightarrow> string \<times> string" where
  "digitsOf s = (takeWhile is_digit s, dropWhile is_digit s)"

definition parseNumber :: "string \<Rightarrow> (string \<times> string) option" where
  "parseNumber s =
     (let (sign, s1) = (case s of c # r \<Rightarrow> if c = CHR ''-'' then ([c], r) else ([], s) | [] \<Rightarrow> ([], s));
          (whole, s2) = digitsOf s1
      in if whole = [] \<or> (hd whole = CHR ''0'' \<and> length whole > 1) then None
         else
           let frac = (case s2 of c # r \<Rightarrow> if c = CHR ''.'' then Some (digitsOf r) else None | [] \<Rightarrow> None)
           in if frac \<noteq> None \<and> fst (the frac) = [] then None
              else
                let (fracText, s3) = (case frac of None \<Rightarrow> ([], s2) | Some (d, r) \<Rightarrow> (CHR ''.'' # d, r));
                    isExp = (case s3 of c # _ \<Rightarrow> c = CHR ''e'' \<or> c = CHR ''E'' | [] \<Rightarrow> False)
                in if \<not> isExp then Some (sign @ whole @ fracText, s3)
                   else
                     let r = tl s3;
                         (esign, r1) = (case r of c # r' \<Rightarrow> if c = CHR ''+'' \<or> c = CHR ''-'' then ([c], r') else ([], r) | [] \<Rightarrow> ([], r));
                         (ed, s4) = digitsOf r1
                     in if ed = [] then None else Some (sign @ whole @ fracText @ [hd s3] @ esign @ ed, s4))"

text \<open>
  The recursion of the parser goes down with a bound; twice the length of the text and one more is enough, since
  every second call has consumed a character.
\<close>

fun parseValue :: "nat \<Rightarrow> string \<Rightarrow> (json \<times> string) option"
  and parseElements :: "nat \<Rightarrow> string \<Rightarrow> (json list \<times> string) option"
  and parseMembers :: "nat \<Rightarrow> string \<Rightarrow> ((string \<times> json) list \<times> string) option" where
  "parseValue 0 s = None"
| "parseValue (Suc n) s =
     (case skipSpace s of
        [] \<Rightarrow> None
      | c # r \<Rightarrow>
          if c = CHR 0x22 then map_option (map_prod JStr id) (unquote r)
          else if c = CHR ''['' then
            (case skipSpace r of
               d # r' \<Rightarrow> if d = CHR '']'' then Some (JArr [], r') else map_option (map_prod JArr id) (parseElements n r)
             | [] \<Rightarrow> None)
          else if c = CHR ''{'' then
            (case skipSpace r of
               d # r' \<Rightarrow> if d = CHR ''}'' then Some (JObj [], r') else map_option (map_prod JObj id) (parseMembers n r)
             | [] \<Rightarrow> None)
          else if c = CHR ''n'' then map_option (Pair JNull) (stripPrefix ''null'' (c # r))
          else if c = CHR ''t'' then map_option (Pair (JBool True)) (stripPrefix ''true'' (c # r))
          else if c = CHR ''f'' then map_option (Pair (JBool False)) (stripPrefix ''false'' (c # r))
          else map_option (map_prod JNum id) (parseNumber (c # r)))"
| "parseElements 0 s = None"
| "parseElements (Suc n) s =
     (case parseValue n s of
        None \<Rightarrow> None
      | Some (v, r) \<Rightarrow>
          (case skipSpace r of
             [] \<Rightarrow> None
           | c # r' \<Rightarrow>
               if c = CHR '']'' then Some ([v], r')
               else if c = CHR '','' then map_option (map_prod ((#) v) id) (parseElements n r')
               else None))"
| "parseMembers 0 s = None"
| "parseMembers (Suc n) s =
     (case skipSpace s of
        [] \<Rightarrow> None
      | q # r0 \<Rightarrow>
          if q \<noteq> CHR 0x22 then None
          else
            (case unquote r0 of
               None \<Rightarrow> None
             | Some (k, r1) \<Rightarrow>
                 (case skipSpace r1 of
                    [] \<Rightarrow> None
                  | col # r2 \<Rightarrow>
                      if col \<noteq> CHR '':'' then None
                      else
                        (case parseValue n r2 of
                           None \<Rightarrow> None
                         | Some (v, r) \<Rightarrow>
                             (case skipSpace r of
                                [] \<Rightarrow> None
                              | c # r' \<Rightarrow>
                                  if c = CHR ''}'' then Some ([(k, v)], r')
                                  else if c = CHR '','' then map_option (map_prod ((#) (k, v)) id) (parseMembers n r')
                                  else None)))))"

definition json_parse :: "string \<Rightarrow> json option" where
  "json_parse s =
     (case parseValue (2 * length s + 1) s of
        Some (v, r) \<Rightarrow> if skipSpace r = [] then Some v else None
      | None \<Rightarrow> None)"

section \<open>Reading back what was written\<close>

abbreviation ascii :: "string \<Rightarrow> bool" where
  "ascii s \<equiv> list_all (\<lambda>c. code c < 128) s"

lemma hexValue_hexChar [simp]: "d < 16 \<Longrightarrow> hexValue (hexChar d) = Some d"
  by (auto simp: hexValue_def hexChar_def Let_def)

lemma hexValue_zero [simp]: "hexValue (CHR ''0'') = Some 0"
  by (simp add: hexValue_def)

lemma unquote_plain:
  "c \<noteq> CHR 0x22 \<Longrightarrow> c \<noteq> CHR 0x5C \<Longrightarrow> 32 \<le> code c \<Longrightarrow> code c < 128 \<Longrightarrow>
   unquote (c # t) = map_option (map_prod ((#) c) id) (unquote t)"
  by simp

lemma unquote_short:
  "unescapeChar e = Some d \<Longrightarrow> unquote (CHR 0x5C # e # t) = map_option (map_prod ((#) d) id) (unquote t)"
  by (auto simp: unescapeChar_def split: if_splits)

lemma unquote_hex:
  assumes "code c < 128"
  shows "unquote ([CHR 0x5C, CHR ''u'', CHR ''0'', CHR ''0'', hexChar (code c div 16), hexChar (code c mod 16)] @ t) =
    map_option (map_prod ((#) c) id) (unquote t)"
proof -
  have h: "hexValue (hexChar (code c div 16)) = Some (code c div 16)" "hexValue (hexChar (code c mod 16)) = Some (code c mod 16)"
    using assms by simp_all
  moreover have "(@) [c] = (#) c" by (rule ext) simp
  ultimately show ?thesis using assms by (simp add: hex4_def surrogatePair_def encodeRune_def)
qed

lemma code_eq: "code d = n \<Longrightarrow> (code c = n) = (c = d)"
  by auto

lemmas code_chars = code_eq [of "CHR 0x5C" 92, simplified] code_eq [of "CHR 0x22" 34, simplified]
  code_eq [of "CHR 0x08" 8, simplified] code_eq [of "CHR 0x0C" 12, simplified] code_eq [of "CHR 0x0A" 10, simplified]
  code_eq [of "CHR 0x0D" 13, simplified] code_eq [of "CHR 0x09" 9, simplified]

lemma unquote_escapeChar:
  assumes "code c < 128"
  shows "unquote (escapeChar c @ t) = map_option (map_prod ((#) c) id) (unquote t)"
proof -
  let ?b = "code c"
  consider "?b = 92" | "?b = 34" | "?b = 8" | "?b = 12" | "?b = 10" | "?b = 13" | "?b = 9"
    | "?b \<notin> {92, 34, 8, 12, 10, 13, 9}" "?b < 32 \<or> ?b = 60 \<or> ?b = 62 \<or> ?b = 38"
    | "?b \<notin> {92, 34, 8, 12, 10, 13, 9}" "\<not> (?b < 32 \<or> ?b = 60 \<or> ?b = 62 \<or> ?b = 38)" by blast
  then show ?thesis
  proof cases
    case 8
    then show ?thesis using unquote_hex [OF assms, of t] by (simp add: escapeChar_def Let_def)
  next
    case 9
    then have "c \<noteq> CHR 0x22" "c \<noteq> CHR 0x5C" by auto
    with 9 assms show ?thesis by (simp add: escapeChar_def Let_def)
  qed (simp_all add: escapeChar_def code_chars unescapeChar_def Let_def)
qed

lemma unquote_escape: "ascii s \<Longrightarrow> unquote (escape s @ CHR 0x22 # t) = Some (s, t)"
  by (induction s arbitrary: t) (simp_all add: unquote_escapeChar del: unquote.simps(2), simp)

text \<open>The values whose text is read back: strings of ASCII characters, whole numbers.\<close>

fun plain :: "json \<Rightarrow> bool" where
  "plain (JNum n) \<longleftrightarrow> (\<exists>v. n = FormatInt v)"
| "plain (JStr s) \<longleftrightarrow> ascii s"
| "plain (JArr xs) \<longleftrightarrow> list_all plain xs"
| "plain (JObj ms) \<longleftrightarrow> list_all (\<lambda>(k, v). ascii k \<and> plain v) ms"
| "plain _ \<longleftrightarrow> True"

definition delimited :: "string \<Rightarrow> bool" where
  "delimited t \<longleftrightarrow> t = [] \<or> hd t \<in> {CHR '','', CHR '']'', CHR ''}''}"

lemma skipSpace_Cons [simp]: "code c \<notin> {9, 10, 13, 32} \<Longrightarrow> skipSpace (c # t) = c # t"
  by (simp add: skipSpace_def)

lemma show_nat_hd: "10 \<le> n \<Longrightarrow> hd (show_nat n) \<noteq> CHR ''0''"
proof (induction n rule: show_nat.induct)
  case (1 n)
  have "hd (show_nat n) = hd (show_nat (n div 10))"
    using 1(2) show_nat_nonempty [of "n div 10"] by (simp add: show_nat.simps [of n])
  moreover have "hd (show_nat (n div 10)) \<noteq> CHR ''0''"
  proof (cases "n div 10 < 10")
    case True
    moreover have "1 \<le> n div 10" using 1(2) by simp
    ultimately have "hd (show_nat (n div 10)) = char_of (48 + n div 10)" "code (char_of (48 + n div 10)) \<noteq> code (CHR ''0'')"
      by (simp_all add: show_nat.simps [of "n div 10"] digit_char_def)
    then show ?thesis by metis
  qed (use 1 in simp)
  ultimately show ?case by simp
qed

lemma digits_delimited:
  "list_all is_digit d \<Longrightarrow> delimited t \<Longrightarrow> digitsOf (d @ t) = (d, t)"
  by (cases t) (auto simp: digitsOf_def list_all_iff delimited_def is_digit_def)

lemma parseNumber_nat:
  assumes "delimited t"
  shows "parseNumber (show_nat k @ t) = Some (show_nat k, t)" "parseNumber (CHR ''-'' # show_nat k @ t) = Some (CHR ''-'' # show_nat k, t)"
proof -
  have d: "digitsOf (show_nat k @ t) = (show_nat k, t)" using show_nat_digits assms by (rule digits_delimited)
  have z: "\<not> (hd (show_nat k) = CHR ''0'' \<and> length (show_nat k) > 1)"
    using show_nat_hd [of k] by (cases "10 \<le> k") (auto simp: show_nat.simps [of k])
  have t: "t = [] \<or> (\<exists>c r. t = c # r \<and> c \<in> {CHR '','', CHR '']'', CHR ''}''})"
    using assms by (cases t) (auto simp: delimited_def)
  obtain c r where k: "show_nat k = c # r" using show_nat_nonempty [of k] by (cases "show_nat k") auto
  have "c \<noteq> CHR ''-''" using hd_show_nat(1) [of k] k by simp
  then show "parseNumber (show_nat k @ t) = Some (show_nat k, t)"
    using d z t k by (auto simp: parseNumber_def Let_def)
  show "parseNumber (CHR ''-'' # show_nat k @ t) = Some (CHR ''-'' # show_nat k, t)"
    using d z t show_nat_nonempty [of k] by (auto simp: parseNumber_def Let_def)
qed

lemma parseNumber_FormatInt: "delimited t \<Longrightarrow> parseNumber (FormatInt v @ t) = Some (FormatInt v, t)"
  by (simp add: FormatInt_def parseNumber_nat)

text \<open>The first character of a value decides the branch of the parser.\<close>

definition startsValue :: "char \<Rightarrow> bool" where
  "startsValue c \<longleftrightarrow> code c \<notin> {9, 10, 13, 32} \<and> c \<notin> {CHR '']'', CHR ''}''}"

lemma number_start:
  obtains c r where "FormatInt v = c # r" "is_digit c \<or> c = CHR ''-''"
proof (cases "v < 0")
  case True
  then show ?thesis using that by (simp add: FormatInt_def)
next
  case False
  obtain c r where "show_nat (nat v) = c # r" using show_nat_nonempty [of "nat v"] by (cases "show_nat (nat v)") auto
  then show ?thesis using that [of c r] False show_nat_digits [of "nat v"] by (simp add: FormatInt_def)
qed

lemma render_start:
  assumes "plain j"
  obtains c r where "render j = c # r" "startsValue c"
proof (cases j)
  case (JNum n)
  then obtain v where v: "n = FormatInt v" using assms by auto
  obtain c r where c: "FormatInt v = c # r" "is_digit c \<or> c = CHR ''-''" by (rule number_start)
  then have "startsValue c" by (auto simp: startsValue_def is_digit_def)
  with c(1) show ?thesis using that JNum v by simp
next
  case (JBool b)
  then show ?thesis using that by (cases b) (auto simp: startsValue_def)
qed (use that in \<open>auto simp: startsValue_def quote_def\<close>)

lemma parseElements_render:
  assumes "\<And>x n t. x \<in> set xs \<Longrightarrow> delimited t \<Longrightarrow> 2 * length (render x) \<le> n \<Longrightarrow> parseValue n (render x @ t) = Some (x, t)"
    and "xs \<noteq> []" "2 * length (joinWith '','' (map render xs)) + 1 \<le> n"
  shows "parseElements n (joinWith '','' (map render xs) @ CHR '']'' # t) = Some (xs, t)"
  using assms
proof (induction xs arbitrary: n rule: induct_list012)
  case (2 x)
  then obtain k where "n = Suc k" "2 * length (render x) \<le> k" by (cases n) auto
  with 2(1) [of x "CHR '']'' # t" k] show ?case by (simp add: delimited_def)
next
  case (3 x y xs)
  then obtain k where k: "n = Suc k" "2 * length (render x) \<le> k" "2 * length (joinWith '','' (map render (y # xs))) + 1 \<le> k"
    by (cases n) auto
  let ?r = "joinWith '','' (map render (y # xs)) @ CHR '']'' # t"
  have "parseValue k (render x @ CHR '','' # ?r) = Some (x, CHR '','' # ?r)"
    by (rule 3(3)) (use k in \<open>simp_all add: delimited_def\<close>)
  moreover have "parseElements k ?r = Some (y # xs, t)" by (rule 3(2)) (use 3(3) k in simp_all)
  ultimately show ?case by (simp add: k(1))
qed simp

lemma unquote_quote: "ascii s \<Longrightarrow> \<exists>r. quote s @ t = CHR 0x22 # r \<and> unquote r = Some (s, t)"
  by (simp add: quote_def unquote_escape)

lemma parseMembers_render:
  assumes "\<And>k x n t. (k, x) \<in> set ms \<Longrightarrow> delimited t \<Longrightarrow> 2 * length (render x) \<le> n \<Longrightarrow> parseValue n (render x @ t) = Some (x, t)"
    and "\<And>k x. (k, x) \<in> set ms \<Longrightarrow> ascii k"
    and "ms \<noteq> []" "2 * length (joinWith '','' (map (\<lambda>(k, v). quote k @ '':'' @ render v) ms)) + 1 \<le> n"
  shows "parseMembers n (joinWith '','' (map (\<lambda>(k, v). quote k @ '':'' @ render v) ms) @ CHR ''}'' # t) = Some (ms, t)"
  using assms
proof (induction ms arbitrary: n rule: induct_list012)
  case (2 m)
  obtain k x where m: "m = (k, x)" by (cases m)
  with 2(4) obtain l where l: "n = Suc l" "2 * length (render x) \<le> l" by (cases n) auto
  have "parseValue l (render x @ CHR ''}'' # t) = Some (x, CHR ''}'' # t)"
    by (rule 2(1)) (use m l in \<open>simp_all add: delimited_def\<close>)
  moreover have "ascii k" using 2(2) m by auto
  ultimately show ?case by (simp add: m l(1) quote_def unquote_escape)
next
  case (3 m m' ms)
  let ?f = "\<lambda>(k, v). quote k @ '':'' @ render v"
  obtain k x where m: "m = (k, x)" by (cases m)
  with 3(6) obtain l where l: "n = Suc l" "2 * length (render x) \<le> l" "2 * length (joinWith '','' (map ?f (m' # ms))) + 1 \<le> l"
    by (cases n) (auto simp: quote_def)
  let ?r = "joinWith '','' (map ?f (m' # ms)) @ CHR ''}'' # t"
  have "parseValue l (render x @ CHR '','' # ?r) = Some (x, CHR '','' # ?r)"
    by (rule 3(3) [of k]) (use m l in \<open>simp_all add: delimited_def\<close>)
  moreover have "parseMembers l ?r = Some (m' # ms, t)"
  proof (rule 3(2))
    show "\<And>k x n t. (k, x) \<in> set (m' # ms) \<Longrightarrow> delimited t \<Longrightarrow> 2 * length (render x) \<le> n \<Longrightarrow>
        parseValue n (render x @ t) = Some (x, t)" using 3(3) by (meson list.set_intros(2))
    show "\<And>k x. (k, x) \<in> set (m' # ms) \<Longrightarrow> ascii k" using 3(4) by (meson list.set_intros(2))
  qed (use l in simp_all)
  moreover have "ascii k" using 3(4) m by auto
  ultimately show ?case by (simp add: m l(1) quote_def unquote_escape)
qed simp

lemma joined_start:
  assumes "\<And>x. x \<in> set xs \<Longrightarrow> \<exists>c r. f x = c # r \<and> startsValue c" "xs \<noteq> []"
  obtains c r where "joinWith '','' (map f xs) = c # r" "startsValue c"
proof (cases xs)
  case (Cons x ys)
  then obtain c r where "f x = c # r" "startsValue c" using assms(1) [of x] by auto
  then show ?thesis using that Cons by (cases ys) auto
qed (use assms in simp)

lemma skipSpace_start [simp]: "startsValue c \<Longrightarrow> skipSpace (c # t) = c # t"
  by (auto simp: startsValue_def)

lemma parseValue_render:
  "plain j \<Longrightarrow> delimited t \<Longrightarrow> 2 * length (render j) \<le> n \<Longrightarrow> parseValue n (render j @ t) = Some (j, t)"
proof (induction j arbitrary: n t)
  case (JNum m)
  then obtain v where v: "m = FormatInt v" by auto
  obtain c r where c: "FormatInt v = c # r" "is_digit c \<or> c = CHR ''-''" by (rule number_start)
  then have "code c \<notin> {9, 10, 13, 32}" "c \<notin> {CHR 0x22, CHR ''['', CHR ''{'', CHR ''n'', CHR ''t'', CHR ''f''}"
    by (auto simp: is_digit_def)
  moreover obtain k where "n = Suc k" using JNum.prems(3) c(1) v by (cases n) auto
  ultimately show ?case using parseNumber_FormatInt [OF JNum.prems(2), of v] c(1) v by simp
next
  case (JArr xs)
  then obtain k where k: "n = Suc k" "2 * length (joinWith '','' (map render xs)) + 1 \<le> k" by (cases n) auto
  show ?case
  proof (cases "xs = []")
    case False
    have "\<exists>c r. render x = c # r \<and> startsValue c" if "x \<in> set xs" for x
      using that JArr.prems(1) render_start [of x] by (auto simp: list_all_iff) metis
    then obtain c r where c: "joinWith '','' (map render xs) = c # r" "startsValue c" using joined_start False by blast
    have "parseElements k (joinWith '','' (map render xs) @ CHR '']'' # t) = Some (xs, t)"
      by (rule parseElements_render) (use JArr False k in \<open>simp_all add: list_all_iff\<close>)
    then show ?thesis using c by (simp add: k(1)) (simp add: startsValue_def)
  qed (simp add: k(1))
next
  case (JObj ms)
  let ?f = "\<lambda>(k, v). quote k @ '':'' @ render v"
  obtain k where k: "n = Suc k" "2 * length (joinWith '','' (map ?f ms)) + 1 \<le> k" using JObj.prems(3) by (cases n) auto
  have ms: "ascii a \<and> plain x" if "(a, x) \<in> set ms" for a x using JObj.prems(1) that by (auto simp: list_all_iff)
  show ?case
  proof (cases "ms = []")
    case False
    have "\<exists>c r. ?f m = c # r \<and> startsValue c" for m by (cases m) (simp add: quote_def startsValue_def)
    then obtain c r where c: "joinWith '','' (map ?f ms) = c # r" "startsValue c" using joined_start [of ms ?f] False by blast
    have "parseMembers k (joinWith '','' (map ?f ms) @ CHR ''}'' # t) = Some (ms, t)"
      by (rule parseMembers_render) (use JObj.IH ms False k in \<open>force+\<close>)
    then show ?thesis using c by (simp add: k(1)) (simp add: startsValue_def)
  qed (simp add: k(1))
next
  case (JStr s)
  then obtain k where "n = Suc k" by (cases n) (auto simp: quote_def)
  with JStr show ?case by (simp add: quote_def unquote_escape)
next
  case JNull
  then obtain k where "n = Suc k" by (cases n) auto
  then show ?case by (simp add: stripPrefix_def)
next
  case (JBool b)
  then obtain k where "n = Suc k" by (cases n; cases b) auto
  then show ?case by (cases b) (simp_all add: stripPrefix_def)
qed

lemma json_roundtrip: "plain j \<Longrightarrow> json_parse (render j) = Some j"
  using parseValue_render [of j "[]" "2 * length (render j) + 1"] by (simp add: json_parse_def delimited_def skipSpace_def)

section \<open>Fields of an object\<close>

text \<open>
  Decoding into a struct: a member sets the field whose name it has, exactly or up to the case of the letters (the
  Kelvin sign folds to \<open>k\<close> and the long s to \<open>s\<close>, the only non-ASCII characters that fold to a letter of a field name); of
  several members the last one counts; \<open>null\<close> leaves the field as it is; a member of another type is an error.
\<close>

definition foldByte :: "char \<Rightarrow> char" where
  "foldByte c = (if 65 \<le> code c \<and> code c \<le> 90 then char_of (code c + 32) else c)"

fun foldCase :: "string \<Rightarrow> string" where
  "foldCase (a # b # c # s) =
    (if code a = 226 \<and> code b = 132 \<and> code c = 170 then CHR ''k'' # foldCase s
     else if code a = 197 \<and> code b = 191 then CHR ''s'' # foldCase (c # s)
     else foldByte a # foldCase (b # c # s))"
| "foldCase [a, b] = (if code a = 197 \<and> code b = 191 then [CHR ''s''] else [foldByte a, foldByte b])"
| "foldCase [a] = [foldByte a]"
| "foldCase [] = []"

definition fieldValues :: "string \<Rightarrow> (string \<times> json) list \<Rightarrow> json list" where
  "fieldValues name ms = map snd (filter (\<lambda>(k, v). foldCase k = foldCase name \<and> v \<noteq> JNull) ms)"

fun jsonString :: "json \<Rightarrow> string option" where
  "jsonString (JStr s) = Some s"
| "jsonString _ = None"

fun jsonInt :: "json \<Rightarrow> int option" where
  "jsonInt (JNum n) = (case ParseInt64 n of Inr v \<Rightarrow> Some v | Inl _ \<Rightarrow> None)"
| "jsonInt _ = None"

definition decodeField :: "(json \<Rightarrow> 'a option) \<Rightarrow> 'a \<Rightarrow> string \<Rightarrow> (string \<times> json) list \<Rightarrow> 'a option" where
  "decodeField get zero name ms =
     (let vs = fieldValues name ms
      in if vs = [] then Some zero
         else if list_all (\<lambda>v. get v \<noteq> None) vs then get (last vs) else None)"

abbreviation stringField :: "string \<Rightarrow> (string \<times> json) list \<Rightarrow> string option" where
  "stringField \<equiv> decodeField jsonString []"

abbreviation intField :: "string \<Rightarrow> (string \<times> json) list \<Rightarrow> int option" where
  "intField \<equiv> decodeField jsonInt 0"

end
