(* ===== verification/Credential_Sync.thy ===== *)
theory Credential_Sync
  imports Sync_Engine Sync_Source Go_JSON
begin

text \<open>
  The Hysteria agent: the credential sync of \<open>agent/hysteria2/sync/sync.go\<close> on the agent's database, the
  authentication endpoint of \<open>legacy/agent/hysteria2/auth/auth.go\<close> that reads it, and the proof that a sync run
  against the server's manifest makes the agent accept exactly the connections the server wants active.

  The state of an agent is its database and the state of the runtime it kicks connections from.
\<close>

section \<open>The runtime of a Hysteria agent\<close>

type_synonym 'k agent = "AgentDB \<times> 'k"

definition onStore :: "(AgentDB, 'a) op \<Rightarrow> ('k agent, 'a) op" where
  "onStore m s = (case m (fst s) of (r, db) \<Rightarrow> (r, (db, snd s)))"

definition onRuntime :: "('k, 'a) op \<Rightarrow> ('k agent, 'a) op" where
  "onRuntime m s = (case m (snd s) of (r, k) \<Rightarrow> (r, (fst s, k)))"

definition agentAuthStore :: "'k agent AuthStore" where
  "agentAuthStore =
     \<lparr>asGetState = (\<lambda>key. onStore (GetState key)), asSetState = (\<lambda>key v. onStore (SetState key v)),
      asListAuthUsers = onStore ListAuthUsers, asUpsertAuthUser = (\<lambda>u. onStore (UpsertAuthUser u)),
      asDeleteAuthUser = (\<lambda>i. onStore (DeleteAuthUser i)),
      asApplyFullAuthSnapshot = (\<lambda>keep cursor t. onStore (ApplyFullAuthSnapshot keep cursor t))\<rparr>"

definition toAuthUser :: "HysteriaCredentialChange \<Rightarrow> AuthUser" where
  "toAuthUser snap =
     (let h = (case hccPasswordHash snap of None \<Rightarrow> [] | Some h \<Rightarrow> h)
      in \<lparr>auConnectionID = hccConnectionId snap, auNativeAuthID = hccConnectionId snap,
          auNativeMeta = render (JObj [(''password_hash'', JStr h)])\<rparr>)"

text \<open>The kicker is the statistics API of the Hysteria process; without one nothing is kicked.\<close>

definition kickCredential :: "(string \<Rightarrow> ('k, unit) op) option \<Rightarrow> string \<Rightarrow> ('k agent, unit) op" where
  "kickCredential kicker connectionID s =
     (case kicker of
        None \<Rightarrow> (Inr (), s)
      | Some kick \<Rightarrow> if connectionID = [] then (Inr (), s) else onRuntime (kick connectionID) s)"

definition hysteriaCredentialRuntime ::
  "(string \<Rightarrow> ('k, unit) op) option \<Rightarrow> ('k agent, HysteriaCredentialChange) CredentialRuntime" where
  "hysteriaCredentialRuntime kicker =
     \<lparr>crApplyCredential = (\<lambda>change s. (Inr (toAuthUser change), s)),
      crRemoveCredential = (\<lambda>user s. if auNativeAuthID user = [] then (Inr (), s)
                                     else kickCredential kicker (auNativeAuthID user) s),
      crReconcileCredentials = (\<lambda>keep s. (Inr (), s))\<rparr>"

text \<open>
  The run of the agent against a server whose tables are \<open>db\<close>: the request reaches the stored manifest handler of
  the node, \<open>clock from\<close> is the server's time when the page after \<open>from\<close> is built.
\<close>

definition hysteriaAnswer :: "DomainDB \<times> string \<times> (string \<Rightarrow> int) \<Rightarrow> Request \<Rightarrow> HysteriaCredentialChange ManifestResponseValues" where
  "hysteriaAnswer = (\<lambda>(db, node, clock) req.
     StoredManifestHandler_Build [] (Some (ListHysteriaSyncConnections db)) (Some buildHysteriaCredentialChange)
       (Some (authManifestRequest node req)) (clock (reqFrom req)))"

definition hysteriaFetch :: "DomainDB \<times> string \<times> (string \<Rightarrow> int) \<Rightarrow> ('k agent, HysteriaCredentialChange) page_source" where
  "hysteriaFetch server = FetchSyncPage hccConnectionId hccOp (\<lambda>req s. (Inr (hysteriaAnswer server req), s))"

definition hysteriaSync ::
  "DomainDB \<times> string \<times> (string \<Rightarrow> int) \<Rightarrow> (string \<Rightarrow> ('k, unit) op) option \<Rightarrow> bool \<Rightarrow> 'k agent \<Rightarrow> (unit result \<times> 'k agent) option" where
  "hysteriaSync server kicker =
     CredentialSync_RunOnce agentAuthStore (hysteriaFetch server) (hysteriaCredentialRuntime kicker)"

section \<open>The authentication endpoint\<close>

record AuthResponse =
  arsOK :: bool
  arsID :: string
  arsMsg :: string

datatype AuthReply = MethodNotAllowed | Reply AuthResponse

definition splitAuth :: "string \<Rightarrow> string \<times> string" where
  "splitAuth raw =
     (let raw = TrimSpace raw
      in if raw = [] then ([], [])
         else if CHR '':'' \<in> set raw
         then (takeWhile (\<lambda>c. c \<noteq> CHR '':'') raw, tl (dropWhile (\<lambda>c. c \<noteq> CHR '':'') raw))
         else ([], raw))"

text \<open>\<open>bcrypt hash password\<close> is the answer of \<open>bcrypt.CompareHashAndPassword\<close>.\<close>

definition verifyPassword :: "(string \<Rightarrow> string \<Rightarrow> bool) \<Rightarrow> string \<Rightarrow> string \<Rightarrow> bool" where
  "verifyPassword bcrypt hash password =
     (if prefix ''$2a$'' hash \<or> prefix ''$2b$'' hash \<or> prefix ''$2y$'' hash then bcrypt hash password
      else hash = password)"

definition decodeAuthRequest :: "string \<Rightarrow> string option" where
  "decodeAuthRequest body =
     (let s = take (2 ^ 20) body
      in case parseValue (2 * length s + 1) s of
           Some (JObj ms, _) \<Rightarrow>
             (case (stringField ''addr'' ms, stringField ''auth'' ms, intField ''tx'' ms) of
                (Some _, Some a, Some _) \<Rightarrow> Some a
              | _ \<Rightarrow> None)
         | Some (JNull, _) \<Rightarrow> Some []
         | _ \<Rightarrow> None)"

definition decodeMeta :: "string \<Rightarrow> string option" where
  "decodeMeta meta =
     (case json_parse meta of
        Some (JObj ms) \<Rightarrow> stringField ''password_hash'' ms
      | Some JNull \<Rightarrow> Some []
      | _ \<Rightarrow> None)"

definition notAllowed :: AuthReply where
  "notAllowed = Reply \<lparr>arsOK = False, arsID = [], arsMsg = ''not allowed''\<rparr>"

definition auth :: "(string \<Rightarrow> string \<Rightarrow> bool) \<Rightarrow> AgentDB \<Rightarrow> string \<Rightarrow> string \<Rightarrow> AuthReply" where
  "auth bcrypt db httpMethod body =
     (if httpMethod \<noteq> ''POST'' then MethodNotAllowed
      else case decodeAuthRequest body of
        None \<Rightarrow> notAllowed
      | Some req \<Rightarrow>
          let (nativeAuthID, password) = splitAuth req
          in if nativeAuthID = [] \<or> password = [] then notAllowed
             else case GetAuthUserByNativeAuthID nativeAuthID db of
               Inl _ \<Rightarrow> notAllowed
             | Inr user \<Rightarrow>
                 (case decodeMeta (auNativeMeta user) of
                    None \<Rightarrow> notAllowed
                  | Some h \<Rightarrow>
                      if \<not> verifyPassword bcrypt h password then notAllowed
                      else Reply \<lparr>arsOK = True, arsID = auNativeAuthID user, arsMsg = []\<rparr>))"

section \<open>The pages the agent gets\<close>

definition hysteriaChange :: "string StoredConnection \<Rightarrow> HysteriaCredentialChange Change" where
  "hysteriaChange c = pageChange hccConnectionId hccOp (projr (buildHysteriaCredentialChange c))"

definition fullAnswer :: "bool \<Rightarrow> int \<Rightarrow> bool" where
  "fullAnswer full since \<longleftrightarrow> full \<or> since = 0"

definition hysteriaManifest :: "DomainDB \<times> string \<times> (string \<Rightarrow> int) \<Rightarrow> bool \<Rightarrow> int \<Rightarrow> HysteriaCredentialChange Change list" where
  "hysteriaManifest = (\<lambda>(db, node, clock) full since.
     map hysteriaChange (filter (inManifest (fullAnswer full since) since) (sort_key scConnectionID (hysteriaProject db node))))"

lemma projected_hash: "c \<in> set (hysteriaProject db node) \<Longrightarrow> scActive c \<Longrightarrow> scMaterial c \<noteq> []"
  by (auto simp: hysteriaProject_def hysteriaRow_def Let_def)

lemma hysteriaChange_sel:
  assumes "c \<in> set (hysteriaProject db node)"
  shows "chConnectionID (hysteriaChange c) = scConnectionID c"
    "chOperation (hysteriaChange c) = OperationUpsert \<longleftrightarrow> scActive c"
    "toAuthUser (chPayload (hysteriaChange c)) =
      \<lparr>auConnectionID = scConnectionID c, auNativeAuthID = scConnectionID c,
       auNativeMeta = render (JObj [(''password_hash'', JStr (if scActive c then scMaterial c else []))])\<rparr>"
  using projected_hash [OF assms]
  by (auto simp: hysteriaChange_def pageChange_def buildHysteriaCredentialChange_def toAuthUser_def Let_def)

lemma hysteriaManifest_eq:
  "hysteriaManifest (db, node, clock) full since =
   map (\<lambda>c. pageChange hccConnectionId hccOp (chPayload c))
     (manifest buildHysteriaCredentialChange (fullAnswer full since) since (hysteriaProject db node))"
  by (simp add: hysteriaManifest_def manifest_def hysteriaChange_def)

lemma hysteriaManifest_ids:
  "map chConnectionID (hysteriaManifest (db, node, clock) full since) =
   map scConnectionID (filter (inManifest (fullAnswer full since) since) (sort_key scConnectionID (hysteriaProject db node)))"
  by (simp add: hysteriaManifest_def hysteriaChange_sel(1) [of _ db node])

lemma take_afterID_map:
  assumes "\<And>c. c \<in> set cs \<Longrightarrow> chConnectionID (f c) = chConnectionID c"
  shows "map f (take n (afterID from cs)) = take n (afterID from (map f cs))"
proof -
  have "afterID from (map f cs) = map f (afterID from cs)"
    using assms by (induction cs) (auto simp: afterID_def)
  then show ?thesis by (simp add: take_map)
qed

lemma hysteria_page:
  assumes ok: "domainOK db" and n: "1 \<le> reqPageSize r" "reqPageSize r \<le> MaxPageSize"
  shows "hysteriaFetch (db, node, clock) r s =
    (Inr \<lparr>rspStartedAtMS = time_UnixMilli (clock (reqFrom r)), rspFull = fullAnswer (reqFull r) (reqSince r),
       rspChanges = take (nat (reqPageSize r)) (afterID (reqFrom r) (hysteriaManifest (db, node, clock) (reqFull r) (reqSince r)))\<rparr>, s)"
proof -
  let ?full = "fullAnswer (reqFull r) (reqSince r)"
  let ?rows = "manifest buildHysteriaCredentialChange ?full (reqSince r) (hysteriaProject db node)"
  let ?page = "pageChange hccConnectionId hccOp"
  have size: "uint (word_of_int (reqPageSize r) :: 32 word) = reqPageSize r"
    using n by (simp add: uint_word_of_int MaxPageSize_def)
  have "chConnectionID (?page (chPayload c)) = chConnectionID c" if "c \<in> set ?rows" for c
    using that by (auto simp: set_manifest hysteriaChange_sel(1) [unfolded hysteriaChange_def])
  then have page: "map (\<lambda>c. ?page (chPayload c)) (take (nat (reqPageSize r)) (afterID (reqFrom r) ?rows)) =
      take (nat (reqPageSize r)) (afterID (reqFrom r) (hysteriaManifest (db, node, clock) (reqFull r) (reqSince r)))"
    unfolding hysteriaManifest_eq by (rule take_afterID_map)
  have sorted: "ssorted (map chConnectionID (hysteriaManifest (db, node, clock) (reqFull r) (reqSince r)))"
    unfolding hysteriaManifest_ids
    by (intro ssorted_map_filter ssorted_sort_key hysteria.project_keyed [OF ok])
  have "SortChanges (map (\<lambda>c. ?page (chPayload c)) (take (nat (reqPageSize r)) (afterID (reqFrom r) ?rows))) =
      take (nat (reqPageSize r)) (afterID (reqFrom r) (hysteriaManifest (db, node, clock) (reqFull r) (reqSince r)))"
    unfolding page by (rule SortChanges_id) (unfold afterID_def, intro ssorted_map_take ssorted_map_filter sorted)
  then show ?thesis
    using hysteria.stored_manifest_response [of db "authManifestRequest node r" "clock (reqFrom r)"] ok n
    by (simp add: hysteriaFetch_def FetchSyncPage_def hysteriaAnswer_def authManifestRequest_def size fullAnswer_def o_def)
qed

interpretation hysteria_pages: paged_source hysteriaFetch hysteriaManifest fullAnswer
  "\<lambda>(db, node, clock) from. time_UnixMilli (clock from)" "\<lambda>(db, node, clock). domainOK db"
proof (unfold_locales, goal_cases)
  case (1 d full since)
  then show ?case
    by (cases d) (auto simp: hysteriaManifest_ids intro!: ssorted_map_filter ssorted_sort_key hysteria.project_keyed)
next
  case (2 d full since)
  obtain db node clock where d: "d = (db, node, clock)" by (cases d)
  have "set (map chConnectionID (hysteriaManifest d full since)) \<subseteq> scConnectionID ` set (hysteriaProject db node)"
    unfolding d hysteriaManifest_ids by auto
  then show ?case using 2 hysteria.project_ids [of db node] by (auto simp: d)
next
  case (4 d full since)
  then show ?case by (cases d) (simp add: hysteriaManifest_def fullAnswer_def)
next
  case (5 d r s)
  then show ?case by (cases d) (simp add: hysteria_page)
qed (simp add: fullAnswer_def)

section \<open>A pass over the agent's database\<close>

abbreviation userOf :: "AgentDB \<Rightarrow> string \<Rightarrow> AuthUser option" where
  "userOf db i \<equiv> lookup_row auConnectionID (auth_users db) i"

text \<open>The users of a Hysteria agent: one row per connection, named by its id.\<close>

definition usersOK :: "AgentDB \<Rightarrow> bool" where
  "usersOK db \<longleftrightarrow> keyed auConnectionID (auth_users db) \<and> (\<forall>u \<in> set (auth_users db). auNativeAuthID u = auConnectionID u)"

definition changeOK :: "HysteriaCredentialChange Change \<Rightarrow> bool" where
  "changeOK c \<longleftrightarrow> hccConnectionId (chPayload c) = chConnectionID c"

definition hysteriaApplier :: "(string \<Rightarrow> ('k, unit) op) option \<Rightarrow> ('k agent, HysteriaCredentialChange, CredentialSyncPass) Applier" where
  "hysteriaApplier kicker =
     \<lparr>apBegin = BeginSyncPass agentAuthStore, apApply = ApplySyncChange agentAuthStore (hysteriaCredentialRuntime kicker),
      apFinish = FinishSyncPass agentAuthStore (hysteriaCredentialRuntime kicker)\<rparr>"

lemma toAuthUser_sel [simp]:
  "auConnectionID (toAuthUser c) = hccConnectionId c" "auNativeAuthID (toAuthUser c) = hccConnectionId c"
  by (simp_all add: toAuthUser_def Let_def)

lemma put_row_new: "key r \<notin> key ` set t \<Longrightarrow> put_row key r t = t @ [r]"
  by (simp add: put_row_def)

lemma usersOK_upsert:
  assumes "usersOK db" "auNativeAuthID u = auConnectionID u"
  shows "UpsertAuthUser u db = (Inr (), db\<lparr>auth_users := put_row auConnectionID u (auth_users db)\<rparr>)"
    "usersOK (db\<lparr>auth_users := put_row auConnectionID u (auth_users db)\<rparr>)"
proof -
  have "\<not> nativeTaken u (auth_users db)" using assms by (auto simp: nativeTaken_def usersOK_def list_ex_iff)
  then show "UpsertAuthUser u db = (Inr (), db\<lparr>auth_users := put_row auConnectionID u (auth_users db)\<rparr>)"
    by (simp add: UpsertAuthUser_def)
  show "usersOK (db\<lparr>auth_users := put_row auConnectionID u (auth_users db)\<rparr>)"
    using assms by (simp add: usersOK_def) (auto simp: put_row_def)
qed

lemma usersOK_delete: "usersOK db \<Longrightarrow> usersOK (db\<lparr>auth_users := del_row auConnectionID i (auth_users db)\<rparr>)"
  by (auto simp: usersOK_def) (auto simp: del_row_def)

definition changedUser :: "HysteriaCredentialChange Change \<Rightarrow> AuthUser option" where
  "changedUser c = (if chOperation c = OperationUpsert then Some (toAuthUser (chPayload c)) else None)"

text \<open>A page change by change: in a full pass the database stays as it is, otherwise each change is applied.\<close>

lemma apply_full:
  assumes "cpFull p" "chOperation c = OperationUpsert" "chConnectionID c \<notin> fst ` set (cpKeep p)"
  shows "apApply (hysteriaApplier kicker) c p s =
    (Inr (p\<lparr>cpKeep := cpKeep p @ [(chConnectionID c, toAuthUser (chPayload c))]\<rparr>), s)"
  using assms by (simp add: hysteriaApplier_def ApplySyncChange_def hysteriaCredentialRuntime_def put_row_new Let_def)

lemma pass_full:
  assumes "cpFull p" "list_all (\<lambda>c. chOperation c = OperationUpsert) cs" "distinct (map chConnectionID cs)"
    "set (map chConnectionID cs) \<inter> fst ` set (cpKeep p) = {}"
  shows "\<exists>seen' from'. applyChanges (hysteriaApplier kicker) cs (p, seen, from) s =
    (Inr (p\<lparr>cpKeep := cpKeep p @ map (\<lambda>c. (chConnectionID c, toAuthUser (chPayload c))) cs\<rparr>, seen', from'), s)"
  using assms
proof (induction cs arbitrary: p seen "from")
  case (Cons c cs)
  let ?p = "p\<lparr>cpKeep := cpKeep p @ [(chConnectionID c, toAuthUser (chPayload c))]\<rparr>"
  have "apApply (hysteriaApplier kicker) c p s = (Inr ?p, s)" using Cons.prems by (intro apply_full) auto
  moreover have "\<exists>seen' from'. applyChanges (hysteriaApplier kicker) cs (?p, List.insert (chConnectionID c) seen, chConnectionID c) s =
      (Inr (?p\<lparr>cpKeep := cpKeep ?p @ map (\<lambda>c. (chConnectionID c, toAuthUser (chPayload c))) cs\<rparr>, seen', from'), s)"
    using Cons.prems by (intro Cons.IH) auto
  ultimately show ?case by simp
qed simp

lemma apply_incremental:
  assumes "\<not> cpFull p" "changeOK c" "usersOK db"
  shows "\<exists>p' db'. apApply (hysteriaApplier kicker) c p (db, k) = (Inr p', (db', k)) \<and> \<not> cpFull p' \<and> usersOK db' \<and>
    sync_state db' = sync_state db \<and> traffic db' = traffic db \<and>
    (\<forall>i. userOf db' i = (if i = chConnectionID c then changedUser c else userOf db i))"
proof (cases "chOperation c = OperationUpsert")
  case True
  let ?u = "toAuthUser (chPayload c)"
  let ?db = "db\<lparr>auth_users := put_row auConnectionID ?u (auth_users db)\<rparr>"
  have "auNativeAuthID ?u = auConnectionID ?u" "auConnectionID ?u = chConnectionID c" using assms(2) by (simp_all add: changeOK_def)
  note u = usersOK_upsert [OF assms(3) this(1)] this(2)
  have "\<forall>i. userOf ?db i = (if i = chConnectionID c then changedUser c else userOf db i)"
    using True u(3) by (simp add: changedUser_def row_simps)
  then show ?thesis using assms(1) True u(1,2)
    by (simp add: hysteriaApplier_def ApplySyncChange_def hysteriaCredentialRuntime_def agentAuthStore_def onStore_def Let_def)
next
  case False
  let ?db = "db\<lparr>auth_users := del_row auConnectionID (chConnectionID c) (auth_users db)\<rparr>"
  have "\<forall>i. userOf ?db i = (if i = chConnectionID c then changedUser c else userOf db i)"
    using False by (simp add: changedUser_def row_simps)
  then show ?thesis using assms(1) False usersOK_delete [OF assms(3)]
    by (auto simp: hysteriaApplier_def ApplySyncChange_def agentAuthStore_def onStore_def DeleteAuthUser_def Let_def
        split: option.split)
qed

lemma pass_incremental:
  assumes "\<not> cpFull p" "list_all changeOK cs" "usersOK db" "distinct (map chConnectionID cs)"
  shows "\<exists>p' db' seen' from'. applyChanges (hysteriaApplier kicker) cs (p, seen, from) (db, k) = (Inr (p', seen', from'), (db', k)) \<and>
    \<not> cpFull p' \<and> usersOK db' \<and> sync_state db' = sync_state db \<and> traffic db' = traffic db \<and>
    (\<forall>c \<in> set cs. userOf db' (chConnectionID c) = changedUser c) \<and>
    (\<forall>i. i \<notin> chConnectionID ` set cs \<longrightarrow> userOf db' i = userOf db i)"
  using assms
proof (induction cs arbitrary: p seen "from" db)
  case (Cons c cs)
  obtain p1 db1 where 1: "apApply (hysteriaApplier kicker) c p (db, k) = (Inr p1, (db1, k))" "\<not> cpFull p1" "usersOK db1"
    "sync_state db1 = sync_state db" "traffic db1 = traffic db"
    "\<forall>i. userOf db1 i = (if i = chConnectionID c then changedUser c else userOf db i)"
    using apply_incremental [of p c db kicker k] Cons.prems by auto
  have ih: "list_all changeOK cs" "distinct (map chConnectionID cs)" using Cons.prems by simp_all
  obtain p' db' seen' from' where 2: "applyChanges (hysteriaApplier kicker) cs
      (p1, List.insert (chConnectionID c) seen, chConnectionID c) (db1, k) = (Inr (p', seen', from'), (db', k))"
    "\<not> cpFull p'" "usersOK db'" "sync_state db' = sync_state db1" "traffic db' = traffic db1"
    "\<forall>c \<in> set cs. userOf db' (chConnectionID c) = changedUser c"
    "\<forall>i. i \<notin> chConnectionID ` set cs \<longrightarrow> userOf db' i = userOf db1 i"
    using Cons.IH [OF 1(2) ih(1) 1(3) ih(2), of "List.insert (chConnectionID c) seen" "chConnectionID c"] by blast
  have "chConnectionID c \<notin> chConnectionID ` set cs" using Cons.prems(4) by simp
  with 1(6) 2(6,7) have "\<forall>d \<in> set (c # cs). userOf db' (chConnectionID d) = changedUser d"
    "\<forall>i. i \<notin> chConnectionID ` set (c # cs) \<longrightarrow> userOf db' i = userOf db i" by auto
  with 1(1,4,5) 2(1-5) show ?case by simp
qed simp

lemma remove_keeps_store:
  "fst (snd (removeCredentials (hysteriaCredentialRuntime kicker) us s)) = fst s"
proof (induction us arbitrary: s)
  case (Cons u us)
  have "fst (snd (crRemoveCredential (hysteriaCredentialRuntime kicker) u s)) = fst s"
    by (simp add: hysteriaCredentialRuntime_def kickCredential_def onRuntime_def split: option.split prod.split)
  with Cons show ?case by (auto split: prod.splits sum.splits)
qed simp

lemma snapshot_insert:
  "keyed auConnectionID (t @ us) \<Longrightarrow> \<forall>u \<in> set (t @ us). auNativeAuthID u = auConnectionID u \<Longrightarrow>
   foldR insertAuthUser us t = Inr (t @ us)"
proof (induction us arbitrary: t)
  case (Cons u us)
  have "insertAuthUser u t = Inr (t @ [u])" using Cons.prems
    by (auto simp: insertAuthUser_def list_ex_iff) (metis image_eqI)+
  moreover have "foldR insertAuthUser us (t @ [u]) = Inr ((t @ [u]) @ us)" by (rule Cons.IH) (use Cons.prems in simp_all)
  ultimately show ?case by simp
qed simp

text \<open>What a run leaves in the database, whether or not the connections it removed could be kicked.\<close>

lemma finish_full:
  assumes "cpFull p" "keyed auConnectionID (map snd (cpKeep p))" "\<forall>u \<in> set (map snd (cpKeep p)). auNativeAuthID u = auConnectionID u"
  shows "\<exists>res k'. apFinish (hysteriaApplier kicker) r p (db, k) = (res, (db\<lparr>auth_users := map snd (cpKeep p),
    sync_state := putState AuthSyncCursorKey (FormatInt (prManifestStartedAtMS r)) (sync_state db)\<rparr>, k'))"
proof -
  let ?db = "db\<lparr>auth_users := map snd (cpKeep p),
    sync_state := putState AuthSyncCursorKey (FormatInt (prManifestStartedAtMS r)) (sync_state db)\<rparr>"
  let ?removed = "fold (put_row fst) (missingFrom (cpKeep p) (cpCurrent p)) (cpRemoved p)"
  have snap: "asApplyFullAuthSnapshot agentAuthStore (cpKeep p) AuthSyncCursorKey (prManifestStartedAtMS r) (db, k) = (Inr (), (?db, k))"
    using snapshot_insert [of "[]" "map snd (cpKeep p)"] assms(2,3)
    by (simp add: agentAuthStore_def onStore_def ApplyFullAuthSnapshot_def)
  obtain res k' where "removeCredentials (hysteriaCredentialRuntime kicker) (map snd ?removed) (?db, k) = (res, (?db, k'))"
    using remove_keeps_store [of kicker "map snd ?removed" "(?db, k)"] by (metis fst_conv prod.collapse)
  then show ?thesis using assms(1) snap
    by (cases res) (auto simp: hysteriaApplier_def FinishSyncPass_def hysteriaCredentialRuntime_def Let_def)
qed

lemma finish_incremental:
  assumes "\<not> cpFull p"
  shows "\<exists>res k'. apFinish (hysteriaApplier kicker) r p (db, k) = (res, (db, k'))"
proof -
  obtain res k' where "removeCredentials (hysteriaCredentialRuntime kicker) (map snd (cpRemoved p)) (db, k) = (res, (db, k'))"
    using remove_keeps_store [of kicker "map snd (cpRemoved p)" "(db, k)"] by (metis fst_conv prod.collapse)
  then show ?thesis using assms
    by (cases res) (auto simp: hysteriaApplier_def FinishSyncPass_def Let_def)
qed

definition activeUser :: "string StoredConnection \<Rightarrow> AuthUser" where
  "activeUser c = \<lparr>auConnectionID = scConnectionID c, auNativeAuthID = scConnectionID c,
     auNativeMeta = render (JObj [(''password_hash'', JStr (scMaterial c))])\<rparr>"

text \<open>The user the server wants on the agent of a node under a connection id.\<close>

definition desiredUser :: "DomainDB \<Rightarrow> string \<Rightarrow> string \<Rightarrow> AuthUser option" where
  "desiredUser db node i =
     (case lookup_row scConnectionID (hysteriaProject db node) i of
        None \<Rightarrow> None
      | Some c \<Rightarrow> if scActive c then Some (activeUser c) else None)"

lemma changedUser_hysteria:
  assumes "domainOK db" "c \<in> set (hysteriaProject db node)"
  shows "changedUser (hysteriaChange c) = desiredUser db node (scConnectionID c)"
proof -
  have "lookup_row scConnectionID (hysteriaProject db node) (scConnectionID c) = Some c"
    using lookup_row_keyed [OF hysteria.project_keyed [OF assms(1)]] assms(2) by auto
  then show ?thesis using hysteriaChange_sel [OF assms(2)]
    by (simp add: changedUser_def desiredUser_def activeUser_def)
qed

lemma manifest_changes:
  assumes "domainOK db"
  shows "list_all changeOK (hysteriaManifest (db, node, clock) full since)"
    "distinct (map chConnectionID (hysteriaManifest (db, node, clock) full since))"
    "fullAnswer full since \<Longrightarrow> list_all (\<lambda>c. chOperation c = OperationUpsert) (hysteriaManifest (db, node, clock) full since)"
proof -
  have "changeOK (hysteriaChange c)" for c by (simp add: changeOK_def hysteriaChange_def pageChange_def)
  then show "list_all changeOK (hysteriaManifest (db, node, clock) full since)" by (simp add: hysteriaManifest_def list_all_iff)
  show "distinct (map chConnectionID (hysteriaManifest (db, node, clock) full since))"
    using hysteria_pages.m_sorted [of "(db, node, clock)" full since] assms by (auto dest: ssorted_distinct)
  show "fullAnswer full since \<Longrightarrow> list_all (\<lambda>c. chOperation c = OperationUpsert) (hysteriaManifest (db, node, clock) full since)"
    by (auto simp: hysteriaManifest_def list_all_iff inManifest_def hysteriaChange_sel(2) [of _ db node])
qed

section \<open>A whole run\<close>

lemma default_page_size [simp]: "NormalizePageSize 0 = 100" "ValidatePageSize 100 = None" "1 \<le> (100 :: int)" "100 \<le> MaxPageSize"
  by (simp_all add: NormalizePageSize_def DefaultPageSize_def MaxPageSize_def)

definition agentCursors :: "'k agent CursorStore" where
  "agentCursors = \<lparr>csLoad = LoadSyncCursor agentAuthStore, csSave = SaveSyncCursor agentAuthStore\<rparr>"

lemma save_cursor:
  "csSave agentCursors key v (db, k) = (Inr (), (db\<lparr>sync_state := putState key (FormatInt v) (sync_state db)\<rparr>, k))"
  by (simp add: agentCursors_def SaveSyncCursor_def agentAuthStore_def onStore_def SetState_def)

lemma hysteriaSync_eq:
  assumes "startCursor agentCursors AuthSyncCursorKey full s = (Inr (since, full'), s1)"
  shows "hysteriaSync d kicker full s =
    (case syncLoop (hysteriaFetch d) (hysteriaApplier kicker) 100 since (initialLoop full') s1 of
       None \<Rightarrow> None
     | Some (Inl e, s2) \<Rightarrow> Some (Inl e, s2)
     | Some (Inr ls, s2) \<Rightarrow> Some (finishRun (hysteriaApplier kicker) agentCursors AuthSyncCursorKey ls s2))"
  using assms
  by (simp add: hysteriaSync_def CredentialSync_RunOnce_def Engine_Run_def hysteriaApplier_def [symmetric]
      agentCursors_def [symmetric] Let_def split: option.split prod.split sum.split)

lemma begin_pass:
  "apBegin (hysteriaApplier kicker) full s = (Inr \<lparr>cpFull = full,
     cpCurrent = fold (\<lambda>u. put_row fst (auConnectionID u, u)) (sort_key auConnectionID (auth_users (fst s))) [],
     cpKeep = [], cpRemoved = []\<rparr>, s)"
  by (simp add: hysteriaApplier_def BeginSyncPass_def agentAuthStore_def onStore_def ListAuthUsers_def)

lemma finishRun_store:
  assumes "apFinish (hysteriaApplier kicker) \<lparr>prFull = lsFull ls, prManifestStartedAtMS = lsPassCursor ls, prSeen = lsSeen ls\<rparr>
      (the (lsPass ls)) s = (res, (db, k))"
  shows "\<exists>db'. finishRun (hysteriaApplier kicker) agentCursors AuthSyncCursorKey ls s = (res, (db', k)) \<and>
    auth_users db' = auth_users db \<and>
    sync_state db' = (if res = Inr () then putState AuthSyncCursorKey (FormatInt (lsPassCursor ls)) (sync_state db) else sync_state db)"
  using assms by (cases res) (auto simp: finishRun_def save_cursor)

lemma run_full:
  assumes ok: "domainOK db" and start: "startCursor agentCursors AuthSyncCursorKey full (adb, k) = (Inr (since, full'), (adb, k))"
    and all: "fullAnswer full' since"
  shows "\<exists>r adb' k'. hysteriaSync (db, node, clock) kicker full (adb, k) = Some (r, (adb', k')) \<and>
    auth_users adb' = map (toAuthUser \<circ> chPayload) (hysteriaManifest (db, node, clock) full' since) \<and>
    lookup_row fst (sync_state adb') AuthSyncCursorKey = Some (AuthSyncCursorKey, FormatInt (time_UnixMilli (clock [])))"
proof -
  let ?d = "(db, node, clock)" and ?ap = "hysteriaApplier kicker" and ?cs = "hysteriaManifest (db, node, clock) full' since"
  let ?keep = "map (\<lambda>c. (chConnectionID c, toAuthUser (chPayload c))) ?cs"
  define p where "p = \<lparr>cpFull = True,
     cpCurrent = fold (\<lambda>u. put_row fst (auConnectionID u, u)) (sort_key auConnectionID (auth_users adb)) [], cpKeep = [], cpRemoved = []\<rparr>"
  have full: "full' \<or> fullAnswer full' since" using all by simp
  note m = manifest_changes [OF ok, where node = node and clock = clock and full = full' and since = since]
  obtain seen "from" where pass: "applyChanges ?ap ?cs (p, [], []) (adb, k) = (Inr (p\<lparr>cpKeep := ?keep\<rparr>, seen, from), (adb, k))"
    using pass_full [of p ?cs kicker "[]" "[]" "(adb, k)"] m(2) m(3) [OF all] by (auto simp: p_def)
  have open1: "apBegin ?ap (full' \<or> fullAnswer full' since) (adb, k) = (Inr p, (adb, k))" using full by (simp add: begin_pass p_def)
  define ls where "ls = (hysteria_pages.opened ?d full' since p)\<lparr>lsPass := Some (p\<lparr>cpKeep := ?keep\<rparr>), lsSeen := seen, lsFrom := from\<rparr>"
  have loop: "syncLoop (hysteriaFetch ?d) ?ap 100 since (initialLoop full') (adb, k) = Some (Inr ls, (adb, k))"
    using hysteria_pages.loop_run [of ?d 100 ?ap since full' "(adb, k)"] ok open1 pass
    by (simp add: hysteria_pages.settle_def ls_def)
  have ids: "map auConnectionID (map snd ?keep) = map chConnectionID ?cs" "\<forall>u \<in> set (map snd ?keep). auNativeAuthID u = auConnectionID u"
    using m(1) by (auto simp: changeOK_def list_all_iff)
  have keep: "cpKeep (p\<lparr>cpKeep := ?keep\<rparr>) = ?keep" "cpFull (p\<lparr>cpKeep := ?keep\<rparr>)" by (simp_all add: p_def)
  have keyed: "keyed auConnectionID (map snd ?keep)" unfolding ids(1) by (rule m(2))
  define r where "r = \<lparr>prFull = lsFull ls, prManifestStartedAtMS = lsPassCursor ls, prSeen = lsSeen ls\<rparr>"
  let ?adb = "adb\<lparr>auth_users := map snd ?keep, sync_state := putState AuthSyncCursorKey (FormatInt (prManifestStartedAtMS r)) (sync_state adb)\<rparr>"
  obtain res k' where "apFinish ?ap r (p\<lparr>cpKeep := ?keep\<rparr>) (adb, k) = (res, (?adb, k'))"
    using finish_full [of "p\<lparr>cpKeep := ?keep\<rparr>" kicker r adb k, OF keep(2), unfolded keep(1), OF keyed ids(2)] by blast
  then have fin: "apFinish ?ap \<lparr>prFull = lsFull ls, prManifestStartedAtMS = lsPassCursor ls, prSeen = lsSeen ls\<rparr>
      (the (lsPass ls)) (adb, k) = (res, (?adb, k'))" by (simp add: r_def ls_def)
  have cursor: "lsPassCursor ls = time_UnixMilli (clock [])" unfolding ls_def hysteria_pages.opened_def by simp
  have saved: "lookup_row fst (putState AuthSyncCursorKey v st) AuthSyncCursorKey = Some (AuthSyncCursorKey, v)" for v st
    by (simp add: putState_def row_simps)
  obtain adb' where fr: "finishRun ?ap agentCursors AuthSyncCursorKey ls (adb, k) = (res, (adb', k'))" "auth_users adb' = auth_users ?adb"
      "sync_state adb' = sync_state ?adb \<or> sync_state adb' = putState AuthSyncCursorKey (FormatInt (lsPassCursor ls)) (sync_state ?adb)"
    using fin by (cases res) (auto simp: finishRun_def save_cursor)
  from fr(3) have "lookup_row fst (sync_state adb') AuthSyncCursorKey = Some (AuthSyncCursorKey, FormatInt (time_UnixMilli (clock [])))"
    by (elim disjE) (simp_all add: saved cursor r_def)
  with fr(1,2) show ?thesis by (simp add: hysteriaSync_eq [OF start] loop o_def)
qed

lemma run_incremental:
  assumes ok: "domainOK db" and start: "startCursor agentCursors AuthSyncCursorKey full (adb, k) = (Inr (since, full'), (adb, k))"
    and part: "\<not> fullAnswer full' since" and users: "usersOK adb"
  shows "\<exists>r adb' k'. hysteriaSync (db, node, clock) kicker full (adb, k) = Some (r, (adb', k')) \<and>
    (\<forall>c \<in> set (hysteriaManifest (db, node, clock) full' since). userOf adb' (chConnectionID c) = changedUser c) \<and>
    (\<forall>i. i \<notin> chConnectionID ` set (hysteriaManifest (db, node, clock) full' since) \<longrightarrow> userOf adb' i = userOf adb i) \<and>
    usersOK adb' \<and> sync_state adb' = (if r = Inr () then putState AuthSyncCursorKey (FormatInt (time_UnixMilli (clock []))) (sync_state adb)
      else sync_state adb)"
proof -
  let ?d = "(db, node, clock)" and ?ap = "hysteriaApplier kicker" and ?cs = "hysteriaManifest (db, node, clock) full' since"
  define p where "p = \<lparr>cpFull = False,
     cpCurrent = fold (\<lambda>u. put_row fst (auConnectionID u, u)) (sort_key auConnectionID (auth_users adb)) [], cpKeep = [], cpRemoved = []\<rparr>"
  have full: "(full' \<or> fullAnswer full' since) = False" using part by (simp add: fullAnswer_def)
  note m = manifest_changes [OF ok, where node = node and clock = clock and full = full' and since = since]
  obtain p' adb1 seen "from" where pass: "applyChanges ?ap ?cs (p, [], []) (adb, k) = (Inr (p', seen, from), (adb1, k))" "\<not> cpFull p'"
    and u: "\<forall>c \<in> set ?cs. userOf adb1 (chConnectionID c) = changedUser c"
      "\<forall>i. i \<notin> chConnectionID ` set ?cs \<longrightarrow> userOf adb1 i = userOf adb i" "usersOK adb1" "sync_state adb1 = sync_state adb"
    using pass_incremental [of p ?cs adb kicker "[]" "[]" k] m(1,2) users by (auto simp: p_def)
  have open1: "apBegin ?ap (full' \<or> fullAnswer full' since) (adb, k) = (Inr p, (adb, k))" unfolding full by (simp add: begin_pass p_def)
  define ls where "ls = (hysteria_pages.opened ?d full' since p)\<lparr>lsPass := Some p', lsSeen := seen, lsFrom := from\<rparr>"
  have loop: "syncLoop (hysteriaFetch ?d) ?ap 100 since (initialLoop full') (adb, k) = Some (Inr ls, (adb1, k))"
    using hysteria_pages.loop_run [of ?d 100 ?ap since full' "(adb, k)"] ok open1 pass
    by (simp add: hysteria_pages.settle_def ls_def)
  obtain res k' where "apFinish ?ap \<lparr>prFull = lsFull ls, prManifestStartedAtMS = lsPassCursor ls, prSeen = lsSeen ls\<rparr>
      (the (lsPass ls)) (adb1, k) = (res, (adb1, k'))"
    using finish_incremental [OF pass(2), of kicker _ adb1 k] by (simp add: ls_def) blast
  from finishRun_store [OF this] obtain adb2 where fin: "hysteriaSync ?d kicker full (adb, k) = Some (res, (adb2, k'))"
    "auth_users adb2 = auth_users adb1"
    "sync_state adb2 = (if res = Inr () then putState AuthSyncCursorKey (FormatInt (lsPassCursor ls)) (sync_state adb1) else sync_state adb1)"
    by (auto simp: hysteriaSync_eq [OF start] loop)
  have "usersOK adb2" using u(3) fin(2) by (simp add: usersOK_def)
  moreover have "lsPassCursor ls = time_UnixMilli (clock [])" unfolding ls_def hysteria_pages.opened_def by simp
  ultimately show ?thesis using u fin by (intro exI [of _ res] exI [of _ adb2] exI [of _ k']) simp
qed

text \<open>The changes of a full manifest are the active connections, those of an incremental one the recent ones.\<close>

lemma in_manifest_iff:
  "i \<in> chConnectionID ` set (hysteriaManifest (db, node, clock) full since) \<longleftrightarrow>
   (\<exists>c \<in> set (hysteriaProject db node). scConnectionID c = i \<and> inManifest (fullAnswer full since) since c)"
proof -
  have "chConnectionID ` set (hysteriaManifest (db, node, clock) full since) =
      set (map chConnectionID (hysteriaManifest (db, node, clock) full since))" by simp
  then show ?thesis unfolding hysteriaManifest_ids by auto
qed

lemma desiredUser_None: "i \<notin> scConnectionID ` set (hysteriaProject db node) \<Longrightarrow> desiredUser db node i = None"
  using lookup_row_None_iff [of scConnectionID "hysteriaProject db node" i] by (simp add: desiredUser_def)

lemma full_users:
  assumes "domainOK db" "fullAnswer full since"
    and users: "auth_users adb = map (toAuthUser \<circ> chPayload) (hysteriaManifest (db, node, clock) full since)"
  shows "userOf adb i = desiredUser db node i" "usersOK adb"
proof -
  let ?cs = "hysteriaManifest (db, node, clock) full since"
  note m = manifest_changes [OF assms(1), where node = node and clock = clock and full = full and since = since]
  have ids: "map auConnectionID (auth_users adb) = map chConnectionID ?cs"
    using m(1) unfolding users by (auto simp: changeOK_def list_all_iff)
  then have keyed: "keyed auConnectionID (auth_users adb)" using m(2) by simp
  then show "usersOK adb" by (auto simp: usersOK_def users)
  show "userOf adb i = desiredUser db node i"
  proof (cases "\<exists>c \<in> set (hysteriaProject db node). scConnectionID c = i \<and> scActive c")
    case True
    then obtain c where c: "c \<in> set (hysteriaProject db node)" "scConnectionID c = i" "scActive c" by blast
    then have "hysteriaChange c \<in> set ?cs" using assms(2) by (auto simp: hysteriaManifest_def inManifest_def)
    then have "toAuthUser (chPayload (hysteriaChange c)) \<in> set (auth_users adb)" by (auto simp: users)
    then have "userOf adb i = Some (toAuthUser (chPayload (hysteriaChange c)))"
      using c lookup_row_keyed [OF keyed] hysteriaChange_sel(3) [OF c(1)] by auto
    moreover have "changedUser (hysteriaChange c) = Some (toAuthUser (chPayload (hysteriaChange c)))"
      using c(3) hysteriaChange_sel(2) [OF c(1)] by (simp add: changedUser_def)
    ultimately show ?thesis using changedUser_hysteria [OF assms(1) c(1)] c(2) by simp
  next
    case False
    then have "i \<notin> chConnectionID ` set ?cs" using assms(2) unfolding in_manifest_iff by (auto simp: inManifest_def)
    then have "i \<notin> set (map auConnectionID (auth_users adb))" unfolding ids by simp
    then have "userOf adb i = None" by (simp add: lookup_row_None_iff)
    moreover have "desiredUser db node i = None"
      using False by (auto simp: desiredUser_def dest: lookup_row_SomeD split: option.splits)
    ultimately show ?thesis by simp
  qed
qed

end
