(* ===== verification/Domain_Properties.thy ===== *)
theory Domain_Properties
  imports Sync_Source
begin

text \<open>
  The properties of the domain store: what holds in every reachable state, how the version of a connection
  follows its desired status, what finalising after an agent's snapshot changes, that stale configurations
  are refused, and what the manifest of a node contains.
\<close>

section \<open>An example run\<close>

text \<open>
  A server with an account, a Hysteria node and an AmneziaWG node, and a connection of the account on each;
  the account and the issued configs have generated identifiers.
\<close>

definition exampleRandom :: "nat \<Rightarrow> random" where
  "exampleRandom n i = replicate 16 (of_nat (n + i))"

definition exampleAccount :: Account where
  "exampleAccount = \<lparr>acID = [], acUsername = ''ann'', acDisplayName = ''Ann'', acStatus = [],
     acCreatedAt = 0, acUpdatedAt = 0\<rparr>"

definition exampleNode :: "string \<Rightarrow> string \<Rightarrow> Node" where
  "exampleNode i t = \<lparr>ndID = i, ndName = i, ndType = t, ndRegion = [], ndStatus = [], ndCreatedAt = 0, ndUpdatedAt = 0\<rparr>"

definition exampleAmneziaConfig :: AmneziaWGNodeConfig where
  "exampleAmneziaConfig =
     \<lparr>awNodeID = [], awEndpointHost = [], awEndpointPort = 0, awListenPort = 0, awServerIPv4 = [],
      awClientIPv4CIDR = [], awFirstClientIPv4 = [], awLastClientIPv4 = [], awDNS = [], awMTU = 0,
      awPersistentKeepalive = 0, awClientRouteAllowedIPs = [], awClientRouteMode = [],
      awClientExcludedRoutes = [], awServerPrivateKey = [], awHeaderProtectionKey = [],
      awContentPaddingAddition = [], awTimingsJSON = [], awRandomTrailers = False, awDisableCookies
      = False, awAppliedConfigVersionMS = 0, awConfigErrorID = [], awServerPublicKey = [], awJC = 0,
      awJMin = 0, awJMax = 0, awS1 = 0, awS2 = 0, awH1 = [], awH2 = [], awH3 = [], awH4 = [], awS3 =
      0, awS4 = 0, awI1 = [], awI2 = [], awI3 = [], awI4 = [], awI5 = [], awConfigVersionMS = 0,
      awCreatedAt = 0, awUpdatedAt = 0\<rparr>"

definition exampleConnection :: "string \<Rightarrow> string \<Rightarrow> string \<Rightarrow> Connection" where
  "exampleConnection i node protocol = \<lparr>cnID = i, cnAccountID = ''00000000-0000-4000-8000-000000000000'',
     cnNodeID = node, cnName = ''phone'', cnProtocol = protocol, cnDesiredStatus = [], cnAppliedStatus = [],
     cnDesiredVersionMS = 0, cnAppliedVersionMS = 0, cnLastErrorID = [], cnCreatedAt = 0, cnUpdatedAt = 0\<rparr>"

definition exampleIssued :: "string \<Rightarrow> IssuedConfig" where
  "exampleIssued kind = \<lparr>icID = [], icConnectionID = [], icKind = kind, icSlug = [], icName = ''a'', icClient = [],
     icContentType = [], icConfig = ''b'', icStatus = [], icCreatedAt = 0, icUpdatedAt = 0\<rparr>"

definition exampleHysteriaBundle :: ConnectionBundle where
  "exampleHysteriaBundle = \<lparr>cbExpectedNodeConfigVersionMS = 0, cbConnection = exampleConnection ''c1'' ''hy'' ProtocolHysteria2,
     cbHysteria2Material = Some \<lparr>hmConnectionID = [], hmPassword = ''p'', hmPasswordHash = ''h'', hmCreatedAt = 0, hmUpdatedAt = 0\<rparr>,
     cbAmneziaWGMaterial = None, cbAmneziaAPIRef = None, cbConfigs = [exampleIssued ''hy2_uri'']\<rparr>"

definition exampleAmneziaBundle :: ConnectionBundle where
  "exampleAmneziaBundle = \<lparr>cbExpectedNodeConfigVersionMS = 1, cbConnection = exampleConnection ''c2'' ''aw'' ProtocolAmneziaWG,
     cbHysteria2Material = None,
     cbAmneziaWGMaterial = Some \<lparr>amConnectionID = [], amNodeID = [], amClientPublicKey = ''k'', amClientPrivateKey = ''s'',
       amPresharedKey = ''q'', amAssignedIPv4 = ''i'', amCreatedAt = 0, amUpdatedAt = 0\<rparr>,
     cbAmneziaAPIRef = None, cbConfigs = [exampleIssued ''amnezia_conf'']\<rparr>"

definition exampleNodes :: DomainDB where
  "exampleNodes =
     snd (CreateNativeAmneziaWGNode (exampleRandom 0) 1000000 (exampleNode ''aw'' NodeTypeNativeAmneziaWG) exampleAmneziaConfig
       (snd (CreateNode (exampleRandom 0) 1000000 (exampleNode ''hy'' NodeTypeNativeHy2)
         (snd (CreateAccount (exampleRandom 0) 1000000 exampleAccount emptyDomainDB)))))"

definition exampleDomain :: DomainDB where
  "exampleDomain =
     snd (CreateConnectionBundle (exampleRandom 2) 1000000 exampleAmneziaBundle
       (snd (CreateConnectionBundle (exampleRandom 1) 1000000 exampleHysteriaBundle exampleNodes)))"

lemma step_snd:
  "domain_step db (snd (CreateAccount rnd now u db))" "domain_step db (snd (CreateNode rnd now n db))"
  "domain_step db (snd (CreateNativeAmneziaWGNode rnd now n c db))" "domain_step db (snd (CreateConnectionBundle rnd now b db))"
  "domain_step db (snd (UpdateConnectionDesiredStatus now i s db))" "domain_step db (snd (finalizeTx now v cs db))"
  by (rule domain_step.intros, rule prod.collapse [symmetric])+

lemma run_step: "domain_step\<^sup>*\<^sup>* a b \<Longrightarrow> domain_step b c \<Longrightarrow> domain_step\<^sup>*\<^sup>* a c"
  by (rule rtranclp.rtrancl_into_rtrancl)

lemma exampleNodes_reachable: "domain_step\<^sup>*\<^sup>* emptyDomainDB exampleNodes"
  unfolding exampleNodes_def by (intro run_step [OF _ step_snd(1)] run_step [OF _ step_snd(2)]
      run_step [OF _ step_snd(3)] rtranclp.rtrancl_refl)

lemma exampleDomain_reachable: "domain_step\<^sup>*\<^sup>* emptyDomainDB exampleDomain"
  unfolding exampleDomain_def
  by (intro run_step [OF _ step_snd(4)] exampleNodes_reachable)

lemma example_ids [simp]:
  "NewID (replicate 16 0) = ''00000000-0000-4000-8000-000000000000''"
  "NewID (replicate 16 2) = ''02020202-0202-4202-8202-020202020202''"
  "NewID (replicate 16 3) = ''03030303-0303-4303-8303-030303030303''"
  by code_simp+

lemma blank_examples [simp]:
  "\<not> blank ''a''" "\<not> blank ''b''" "\<not> blank ''h''" "\<not> blank ''p''" "\<not> blank ''k''" "\<not> blank ''s''" "\<not> blank ''q''"
  "\<not> blank ''i''" "\<not> blank ''phone''"
  by (simp_all add: blank_def TrimSpace_ascii)

lemmas example_defs = exampleRandom_def exampleAccount_def exampleNode_def exampleAmneziaConfig_def exampleConnection_def
  exampleIssued_def exampleHysteriaBundle_def exampleAmneziaBundle_def

text \<open>The tables after the run.\<close>

lemma exampleNodes_eq:
  "exampleNodes = emptyDomainDB\<lparr>
     dbAccounts := [exampleAccount\<lparr>acID := ''00000000-0000-4000-8000-000000000000'', acStatus := StatusActive,
       acCreatedAt := 1000000, acUpdatedAt := 1000000\<rparr>],
     dbNodes := [(exampleNode ''hy'' NodeTypeNativeHy2)\<lparr>ndStatus := StatusActive, ndCreatedAt := 1000000, ndUpdatedAt := 1000000\<rparr>,
       (exampleNode ''aw'' NodeTypeNativeAmneziaWG)\<lparr>ndStatus := StatusActive, ndCreatedAt := 1000000, ndUpdatedAt := 1000000\<rparr>],
     dbAmneziaConfigs := [defaultAmneziaWGNodeConfig 1000000 (exampleAmneziaConfig\<lparr>awNodeID := ''aw''\<rparr>)]\<rparr>"
  by (simp add: exampleNodes_def CreateNativeAmneziaWGNode_def CreateNode_def CreateAccount_def emptyDomainDB_def Let_def
      insert_row_def commit_def example_defs defaultNode_def nodeClash_def defaultAmneziaWGNodeConfig_def
      amneziaConfigChecks_def portOK_def)

lemma exampleDomain_eq:
  "exampleDomain = exampleNodes\<lparr>
     dbConnections := map (\<lambda>c. c\<lparr>cnDesiredStatus := StatusActive, cnAppliedStatus := StatusAbsent, cnDesiredVersionMS := 1,
         cnCreatedAt := 1000000, cnUpdatedAt := 1000000\<rparr>)
       [exampleConnection ''c1'' ''hy'' ProtocolHysteria2, exampleConnection ''c2'' ''aw'' ProtocolAmneziaWG],
     dbHysteriaMaterials := [\<lparr>hmConnectionID = ''c1'', hmPassword = ''p'', hmPasswordHash = ''h'', hmCreatedAt = 1000000, hmUpdatedAt = 1000000\<rparr>],
     dbAmneziaMaterials := [\<lparr>amConnectionID = ''c2'', amNodeID = ''aw'', amClientPublicKey = ''k'', amClientPrivateKey = ''s'',
       amPresharedKey = ''q'', amAssignedIPv4 = ''i'', amCreatedAt = 1000000, amUpdatedAt = 1000000\<rparr>],
     dbConfigs := [(exampleIssued ''hy2_uri'')\<lparr>icID := ''02020202-0202-4202-8202-020202020202'', icConnectionID := ''c1'',
         icStatus := StatusActive, icCreatedAt := 1000000, icUpdatedAt := 1000000\<rparr>,
       (exampleIssued ''amnezia_conf'')\<lparr>icID := ''03030303-0303-4303-8303-030303030303'', icConnectionID := ''c2'',
         icStatus := StatusActive, icCreatedAt := 1000000, icUpdatedAt := 1000000\<rparr>]\<rparr>"
  by (simp add: exampleDomain_def CreateConnectionBundle_def exampleNodes_eq emptyDomainDB_def Let_def GetAccount_def
      GetNode_def getRow_def lookup_row_Cons validateConnectionBundle_def stampBundle_def lockNodeConfig_def
      defaultAmneziaWGNodeConfig_def insertConnection_def insertHysteriaMaterial_def insertAmneziaMaterial_def
      insertAPIRef_def insertConfig_def insert_row_def commit_def example_defs defaultConnection_def connectionClash_def
      amneziaMaterialClash_def sameKey_def)

section \<open>The tables in every reachable state\<close>

lemma noClash_filter: "noClash clash t \<Longrightarrow> noClash clash (filter P t)"
  unfolding noClash_def by (induction t) auto

lemma getRow_ex: "k \<in> key ` set t \<Longrightarrow> \<exists>r. getRow key t k = Inr r \<and> r \<in> set t \<and> key r = k"
  by (cases "lookup_row key t k") (auto simp: getRow_def lookup_row_None_iff dest: lookup_row_SomeD)

lemma getRow_keyed: "keyed key t \<Longrightarrow> r \<in> set t \<Longrightarrow> getRow key t (key r) = Inr r"
  using lookup_row_keyed [of key t "key r" r] by (simp add: getRow_def)

text \<open>What a connection of the store has: its account, its node, and the material of the type of the node.\<close>

definition connectionComplete :: "DomainDB \<Rightarrow> Connection \<Rightarrow> bool" where
  "connectionComplete db c \<longleftrightarrow>
     (\<exists>a. GetAccount db (cnAccountID c) = Inr a) \<and>
     (\<exists>n. GetNode db (cnNodeID c) = Inr n \<and>
        (ndType n = NodeTypeNativeHy2 \<and> cnProtocol c = ProtocolHysteria2 \<and>
           (\<exists>m. GetHysteria2ConnectionMaterial db (cnID c) = Inr m \<and> hmPasswordHash m \<noteq> []) \<or>
         ndType n = NodeTypeNativeAmneziaWG \<and> cnProtocol c = ProtocolAmneziaWG \<and>
           (\<exists>m. GetAmneziaWGConnectionMaterial db (cnID c) = Inr m \<and> amNodeID m = cnNodeID c) \<or>
         ndType n = NodeTypeAmneziaAPI \<and> cnProtocol c = ProtocolAmneziaWG \<and>
           (\<exists>r. GetAmneziaAPIConnectionRef db (cnID c) = Inr r)))"

lemma connectionComplete:
  assumes ok: "domainOK db" and c: "c \<in> set (dbConnections db)"
  shows "connectionComplete db c"
proof -
  note k = domainOK_D(7) [OF ok c, unfolded connOK_def connKey_def prod.case]
  have acc: "\<exists>a. GetAccount db (cnAccountID c) = Inr a"
    using getRow_ex [OF conjunct1 [OF conjunct2 [OF k]]] unfolding GetAccount_def by blast
  have node: "GetNode db (cnNodeID c) = Inr n" if "n \<in> set (dbNodes db)" "ndID n = cnNodeID c" for n
    using getRow_keyed [OF domainOK_D(2) [OF ok] that(1)] that(2) by (simp add: GetNode_def)
  from k consider
    "(cnNodeID c, NodeTypeNativeHy2) \<in> nodeKeys db" "cnProtocol c = ProtocolHysteria2" "cnID c \<in> hysteriaKeys db"
  | "(cnNodeID c, NodeTypeNativeAmneziaWG) \<in> nodeKeys db" "cnProtocol c = ProtocolAmneziaWG" "(cnID c, cnNodeID c) \<in> amneziaKeys db"
  | "(cnNodeID c, NodeTypeAmneziaAPI) \<in> nodeKeys db" "cnProtocol c = ProtocolAmneziaWG" "cnID c \<in> arConnectionID ` set (dbAPIRefs db)"
    by blast
  then show ?thesis
  proof cases
    case 1
    then obtain n m where n: "n \<in> set (dbNodes db)" "ndID n = cnNodeID c" "ndType n = NodeTypeNativeHy2"
      and m: "m \<in> set (dbHysteriaMaterials db)" "hmConnectionID m = cnID c" "hmPasswordHash m \<noteq> []"
      by (auto simp: nodeKeys_def hysteriaKeys_def)
    have "GetHysteria2ConnectionMaterial db (cnID c) = Inr m"
      using getRow_keyed [OF domainOK_D(4) [OF ok] m(1)] m(2) by (simp add: GetHysteria2ConnectionMaterial_def)
    with acc node [OF n(1,2)] n(3) m(3) 1(2) show ?thesis unfolding connectionComplete_def by blast
  next
    case 2
    then obtain n m where n: "n \<in> set (dbNodes db)" "ndID n = cnNodeID c" "ndType n = NodeTypeNativeAmneziaWG"
      and m: "m \<in> set (dbAmneziaMaterials db)" "amConnectionID m = cnID c" "amNodeID m = cnNodeID c"
      by (auto simp: nodeKeys_def amneziaKeys_def)
    have "GetAmneziaWGConnectionMaterial db (cnID c) = Inr m"
      using getRow_keyed [OF domainOK_D(5) [OF ok] m(1)] m(2) by (simp add: GetAmneziaWGConnectionMaterial_def)
    with acc node [OF n(1,2)] n(3) m(3) 2(2) show ?thesis unfolding connectionComplete_def by blast
  next
    case 3
    then obtain n where n: "n \<in> set (dbNodes db)" "ndID n = cnNodeID c" "ndType n = NodeTypeAmneziaAPI"
      by (auto simp: nodeKeys_def)
    have "\<exists>r. GetAmneziaAPIConnectionRef db (cnID c) = Inr r"
      using getRow_ex [OF 3(3)] unfolding GetAmneziaAPIConnectionRef_def by blast
    with acc node [OF n(1,2)] n(3) 3(2) show ?thesis unfolding connectionComplete_def by blast
  qed
qed

text \<open>
  C13. In every state the operations of the store reach from the empty tables, connection ids are unique, an
  account has at most one connection of a name on a node that is not deleted, the AmneziaWG addresses and
  public keys of a node are unique, and every connection has its account, its node and the material that
  belongs to the type of the node.
\<close>

theorem domain_invariant:
  assumes "domain_step\<^sup>*\<^sup>* emptyDomainDB db"
  shows "keyed cnID (dbConnections db) \<and>
    keyed (\<lambda>c. (cnAccountID c, cnNodeID c, cnName c)) (filter (\<lambda>c. cnDesiredStatus c \<noteq> StatusDeleted) (dbConnections db)) \<and>
    keyed (\<lambda>m. (amNodeID m, amAssignedIPv4 m)) (dbAmneziaMaterials db) \<and>
    keyed (\<lambda>m. (amNodeID m, amClientPublicKey m)) (dbAmneziaMaterials db) \<and>
    list_all (connectionComplete db) (dbConnections db)"
proof -
  have ok: "domainOK db" using domain_reachable_OK [OF assms domainOK_empty] .
  then have n: "noClash connectionClash (dbConnections db)" "noClash amneziaMaterialClash (dbAmneziaMaterials db)"
    by (simp_all add: domainOK_def tablesOK_def)
  let ?live = "filter (\<lambda>c. cnDesiredStatus c \<noteq> StatusDeleted) (dbConnections db)"
  let ?clash = "\<lambda>x y. (cnAccountID x, cnNodeID x, cnName x) = (cnAccountID y, cnNodeID y, cnName y)"
  have "noClash ?clash ?live"
    using noClash_filter [OF n(1), of "\<lambda>c. cnDesiredStatus c \<noteq> StatusDeleted"]
    unfolding noClash_def by (rule sorted_wrt_mono_rel [rotated]) (auto simp: connectionClash_def)
  then have "keyed (\<lambda>c. (cnAccountID c, cnNodeID c, cnName c)) ?live" by (rule noClash_keyed) simp
  moreover have "keyed (\<lambda>m. (amNodeID m, amAssignedIPv4 m)) (dbAmneziaMaterials db)"
    "keyed (\<lambda>m. (amNodeID m, amClientPublicKey m)) (dbAmneziaMaterials db)"
    by (rule noClash_keyed [OF n(2)], simp add: amneziaMaterialClash_def)+
  ultimately show ?thesis using domainOK_D(3) [OF ok] connectionComplete [OF ok] by (simp add: list_all_iff)
qed

theorem domain_invariant_witness:
  "length (dbConnections exampleDomain) = 2 \<and> list_all (connectionComplete exampleDomain) (dbConnections exampleDomain)"
  using domain_invariant [OF exampleDomain_reachable] by (simp add: exampleDomain_eq)

section \<open>Versions and desired status\<close>

text \<open>
  How a connection may change: its identity stays, its version never decreases, and a change of the desired
  status comes with a larger version.
\<close>

definition conn_le :: "Connection \<Rightarrow> Connection \<Rightarrow> bool" where
  "conn_le c d \<longleftrightarrow> connKey d = connKey c \<and> cnName d = cnName c \<and> cnDesiredVersionMS c \<le> cnDesiredVersionMS d \<and>
     (cnDesiredStatus c \<noteq> cnDesiredStatus d \<longrightarrow> cnDesiredVersionMS c < cnDesiredVersionMS d)"

definition evolves :: "Connection list \<Rightarrow> Connection list \<Rightarrow> bool" where
  "evolves cs ds \<longleftrightarrow> (\<forall>c \<in> set cs. \<exists>d \<in> set ds. conn_le c d)"

lemma conn_le_refl [simp]: "conn_le c c"
  by (simp add: conn_le_def)

lemma conn_le_trans: "conn_le c d \<Longrightarrow> conn_le d e \<Longrightarrow> conn_le c e"
  by (simp add: conn_le_def) (metis order_le_less_trans order_less_le_trans order_trans)

lemma evolves_refl [simp]: "evolves cs cs"
  by (auto simp: evolves_def intro: conn_le_refl)

lemma evolves_trans: "evolves cs ds \<Longrightarrow> evolves ds es \<Longrightarrow> evolves cs es"
  unfolding evolves_def by (meson conn_le_trans)

lemma evolves_append [simp]: "evolves cs (cs @ ds)"
  by (auto simp: evolves_def intro: conn_le_refl)

lemma evolves_update: "(\<And>c. P c \<Longrightarrow> conn_le c (f c)) \<Longrightarrow> evolves cs (update_rows P f cs)"
  by (induction cs) (auto simp: evolves_def update_rows_def)

lemma bumpVersion_gt: "v < bumpVersion n v"
  by (simp add: bumpVersion_def)

lemma evolves_finalize: "evolves (dbConnections db) (dbConnections (fold (finalizeOne now v) cs db))"
proof (induction cs arbitrary: db)
  case (Cons c cs)
  have "evolves (dbConnections db) (dbConnections (finalizeOne now v c db))"
    by (auto simp: finalizeOne_def Let_def conn_le_def intro!: evolves_update)
  with Cons [of "finalizeOne now v c db"] show ?case by (auto intro: evolves_trans)
qed simp

lemma UpdateConnectionDesiredStatus_connections:
  assumes "UpdateConnectionDesiredStatus now i s db = (r, db')"
  shows "dbConnections db' = dbConnections db \<or> dbConnections db' = update_rows (\<lambda>c. cnID c = i)
    (\<lambda>c. c\<lparr>cnDesiredStatus := s, cnDesiredVersionMS := bumpVersion (time_UnixMilli now) (cnDesiredVersionMS c),
      cnLastErrorID := [], cnUpdatedAt := now\<rparr>) (dbConnections db)"
  using assms unfolding UpdateConnectionDesiredStatus_def Let_def
  by (auto split: if_split_asm sum.splits dest: noClash_checked_update)

lemma step_evolves: "domain_step db db' \<Longrightarrow> evolves (dbConnections db) (dbConnections db')"
proof (induction rule: domain_step.induct)
  case (delete_node now i db r db')
  then show ?case
  proof (cases rule: SoftDeleteNode_cases)
    case (2 P Q R S)
    then show ?thesis using bumpVersion_gt by (auto simp: conn_le_def intro!: evolves_update less_imp_le)
  qed simp
next
  case (create_connection rnd now b db r db')
  then show ?case by (cases rule: CreateConnectionBundle_cases) simp_all
next
  case (connection_status now i s db r db')
  from UpdateConnectionDesiredStatus_connections [OF this] show ?case
    using bumpVersion_gt by (auto simp: conn_le_def intro!: evolves_update less_imp_le)
next
  case (update_awg c expected configs db r db')
  then show ?case
  proof (cases rule: UpdateAmneziaWGNodeConfig_cases)
    case 2
    then show ?thesis using bumpVersion_gt by (auto simp: conn_le_def intro!: evolves_update less_imp_le)
  qed simp
next
  case (finalise now v cs db r db')
  then have "db' = fold (finalizeOne now v) cs db" by (simp add: finalizeTx_def)
  then show ?case by (simp add: evolves_finalize)
qed (auto simp: CreateAccount_def UpdateAccountStatus_def CreateIssuedConfig_def CreateNode_def CreateNodeInstance_def
    CreateAgentInstallation_def CreateNodeWithInstanceAndAgentInstallation_def CreateHysteria2NodeConfig_def
    UpdateHysteria2NodeConfig_def SetHysteria2ConfigResult_def PutHysteriaFileSet_def PruneHysteriaFileSets_def
    CreateAmneziaAPINodeConfig_def CreateAmneziaAPINode_def CreateAmneziaWGNodeConfig_def CreateNativeAmneziaWGNode_def
    SetAmneziaWGConfigResult_def Let_def split: if_split_asm sum.split_asm option.split_asm dest!: commit_state)

lemma run_evolves: "domain_step\<^sup>*\<^sup>* db db' \<Longrightarrow> evolves (dbConnections db) (dbConnections db')"
  by (induction rule: rtranclp_induct) (auto intro: evolves_trans step_evolves)

text \<open>
  C14. The version of a connection tracks its desired status: whatever the store does after a reachable state, a
  connection stays under its id with its account, node, protocol and name, its version never decreases, and
  whenever its desired status has become another one its version is strictly larger. An agent that asks for
  the changes after a version it has seen misses no change of status.
\<close>

theorem version_tracks_status:
  assumes "domain_step\<^sup>*\<^sup>* emptyDomainDB db" "domain_step\<^sup>*\<^sup>* db db'" "GetConnection db i = Inr c"
  shows "\<exists>d. GetConnection db' i = Inr d \<and> cnAccountID d = cnAccountID c \<and> cnNodeID d = cnNodeID c \<and>
    cnProtocol d = cnProtocol c \<and> cnName d = cnName c \<and> cnDesiredVersionMS c \<le> cnDesiredVersionMS d \<and>
    (cnDesiredStatus c \<noteq> cnDesiredStatus d \<longrightarrow> cnDesiredVersionMS c < cnDesiredVersionMS d)"
proof -
  have ok: "domainOK db'" using domain_reachable_OK [OF rtranclp_trans [OF assms(1,2)] domainOK_empty] .
  have c: "c \<in> set (dbConnections db)" "cnID c = i" using getRow_Inr [OF assms(3) [unfolded GetConnection_def]] by auto
  then obtain d where d: "d \<in> set (dbConnections db')" "conn_le c d"
    using run_evolves [OF assms(2)] by (auto simp: evolves_def)
  then have "cnID d = i" using c(2) by (simp add: conn_le_def connKey_def)
  with getRow_keyed [OF domainOK_D(3) [OF ok] d(1)] have "GetConnection db' i = Inr d" by (simp add: GetConnection_def)
  with d(2) show ?thesis by (simp add: conn_le_def connKey_def)
qed

lemmas example_eval = exampleDomain_eq exampleNodes_eq emptyDomainDB_def example_defs Let_def

theorem version_tracks_status_witness:
  "\<exists>d. GetConnection (snd (UpdateConnectionDesiredStatus 500000 ''c1'' StatusHeld exampleDomain)) ''c1'' = Inr d \<and>
     cnDesiredStatus d = StatusHeld \<and> 1 < cnDesiredVersionMS d"
proof -
  let ?db = "snd (UpdateConnectionDesiredStatus 500000 ''c1'' StatusHeld exampleDomain)"
  obtain c where c: "GetConnection exampleDomain ''c1'' = Inr c" "cnDesiredStatus c = StatusActive" "cnDesiredVersionMS c = 1"
    by (simp add: GetConnection_def getRow_def lookup_row_Cons example_eval)
  have status: "GetConnection ?db ''c1'' = Inr d \<Longrightarrow> cnDesiredStatus d = StatusHeld" for d
    by (auto simp: UpdateConnectionDesiredStatus_def checked_update_def update_rows_def noClash_def connectionClash_def
        GetConnection_def getRow_def lookup_row_Cons example_eval)
  have "domain_step\<^sup>*\<^sup>* exampleDomain ?db" by (rule r_into_rtranclp) (rule step_snd(5))
  from version_tracks_status [OF exampleDomain_reachable this c(1)] c(2,3) status show ?thesis by fastforce
qed

section \<open>Finalising after a snapshot\<close>

definition finalised :: "int \<Rightarrow> Connection \<Rightarrow> Connection" where
  "finalised now c = c\<lparr>cnAppliedStatus := cnDesiredStatus c, cnAppliedVersionMS := cnDesiredVersionMS c,
     cnLastErrorID := [], cnUpdatedAt := now\<rparr>"

lemma finalised_sel [simp]:
  "cnID (finalised now c) = cnID c" "cnDesiredVersionMS (finalised now c) = cnDesiredVersionMS c"
  "finalised now (finalised now c) = finalised now c" "\<not> Connection_Pending (finalised now c)"
  by (simp_all add: finalised_def Connection_Pending_def)

definition droppedConfig :: "int \<Rightarrow> IssuedConfig \<Rightarrow> IssuedConfig" where
  "droppedConfig now i = (if icStatus i = StatusDeleted then i else i\<lparr>icStatus := StatusDeleted, icUpdatedAt := now\<rparr>)"

lemma droppedConfig_sel [simp]:
  "icConnectionID (droppedConfig now i) = icConnectionID i" "icStatus (droppedConfig now i) = StatusDeleted"
  "droppedConfig now (droppedConfig now i) = droppedConfig now i"
  by (simp_all add: droppedConfig_def)

lemma finalizeOne_eq:
  "finalizeOne now v x db = db\<lparr>
     dbConnections := map (\<lambda>c. if cnID c = cnID x \<and> cnDesiredVersionMS c \<le> v then finalised now c else c) (dbConnections db),
     dbConfigs := map (\<lambda>i. if icConnectionID i = cnID x \<and> cnDesiredStatus x = StatusDeleted then droppedConfig now i else i)
       (dbConfigs db)\<rparr>"
  by (simp add: finalizeOne_def update_rows_def finalised_def droppedConfig_def Let_def)

lemma finalize_fold:
  "fold (finalizeOne now v) cs db = db\<lparr>
     dbConnections := map (\<lambda>c. if cnID c \<in> cnID ` set cs \<and> cnDesiredVersionMS c \<le> v then finalised now c else c) (dbConnections db),
     dbConfigs := map (\<lambda>i. if icConnectionID i \<in> cnID ` {x \<in> set cs. cnDesiredStatus x = StatusDeleted}
       then droppedConfig now i else i) (dbConfigs db)\<rparr>"
proof (induction cs arbitrary: db)
  case (Cons x cs)
  show ?case
    unfolding fold_simps o_apply Cons finalizeOne_eq [of now v x] by (auto simp: image_iff intro!: DomainDB.fold_congs)
qed simp

text \<open>The connections an acknowledged snapshot of a node and account with a version settles.\<close>

definition settles :: "string \<Rightarrow> string \<Rightarrow> int \<Rightarrow> Connection \<Rightarrow> bool" where
  "settles node account v c \<longleftrightarrow>
     cnNodeID c = node \<and> cnAccountID c = account \<and> cnDesiredVersionMS c \<le> v \<and> Connection_Pending c"

lemma finalizeCandidates_iff: "c \<in> set (finalizeCandidates node account v db) \<longleftrightarrow>
    c \<in> set (dbConnections db) \<and> settles node account v c"
  by (auto simp: finalizeCandidates_def settles_def Connection_Pending_def)

lemma candidate_ids:
  assumes "keyed cnID (dbConnections db)" "c \<in> set (dbConnections db)"
  shows "cnID c \<in> cnID ` set (finalizeCandidates node account v db) \<longleftrightarrow> settles node account v c"
proof
  assume "cnID c \<in> cnID ` set (finalizeCandidates node account v db)"
  then obtain d where d: "d \<in> set (dbConnections db)" "settles node account v d" "cnID d = cnID c"
    by (auto simp: finalizeCandidates_iff)
  with assms show "settles node account v c" by (metis eq_key_imp_eq_value inj_on_def distinct_map)
qed (use assms(2) in \<open>auto simp: finalizeCandidates_iff\<close>)

text \<open>
  C15. When an agent acknowledged the snapshot of a node and account at a version, exactly the pending connections
  of that node and account up to that version become applied, nothing else in the connections changes, the
  issued configs of exactly the deleted ones among them are dropped, and afterwards none of those connections is
  pending.
\<close>

theorem finalize_exact:
  assumes "domain_step\<^sup>*\<^sup>* emptyDomainDB db" "FinalizeConnectionsForAuthSnapshot now node account v db = (r, db')"
  shows "dbConnections db' = map (\<lambda>c. if settles node account v c then finalised now c else c) (dbConnections db) \<and>
    dbConfigs db' = map (\<lambda>i. if \<exists>c \<in> set (dbConnections db). settles node account v c \<and> cnDesiredStatus c = StatusDeleted \<and>
      cnID c = icConnectionID i then droppedConfig now i else i) (dbConfigs db) \<and>
    list_all (\<lambda>c. \<not> settles node account v c) (dbConnections db')"
proof -
  let ?cs = "finalizeCandidates node account v db"
  have ok: "domainOK db" using domain_reachable_OK [OF assms(1) domainOK_empty] .
  have db': "db' = fold (finalizeOne now v) ?cs db"
    using assms(2) by (simp add: FinalizeConnectionsForAuthSnapshot_def finalizeTx_def)
  have "dbConnections db' = map (\<lambda>c. if settles node account v c then finalised now c else c) (dbConnections db)"
    unfolding db' finalize_fold
    by (simp add: candidate_ids [OF domainOK_D(3) [OF ok]] cong: if_cong) (auto simp: settles_def)
  moreover have "dbConfigs db' = map (\<lambda>i. if \<exists>c \<in> set (dbConnections db). settles node account v c \<and>
      cnDesiredStatus c = StatusDeleted \<and> cnID c = icConnectionID i then droppedConfig now i else i) (dbConfigs db)"
    unfolding db' finalize_fold by (auto simp: finalizeCandidates_iff image_iff)
  moreover have "\<not> settles node account v (finalised now c)" for c by (simp add: settles_def)
  ultimately show ?thesis by (auto simp: list_all_iff)
qed

theorem finalize_exact_witness:
  "map (\<lambda>c. (cnID c, cnAppliedStatus c, Connection_Pending c)) (dbConnections (snd (FinalizeConnectionsForAuthSnapshot
     2000000 ''hy'' ''00000000-0000-4000-8000-000000000000'' 1 exampleDomain))) =
   [(''c1'', StatusActive, False), (''c2'', StatusAbsent, True)]"
proof -
  note f = conjunct1 [OF finalize_exact [OF exampleDomain_reachable prod.collapse [symmetric]]]
  show ?thesis unfolding f by (simp add: settles_def Connection_Pending_def finalised_def example_eval)
qed

text \<open>
  C16. The candidates are read before the transaction that settles them; whatever the store does in between, a
  connection whose desired state is newer than the acknowledged version is left exactly as it is, and no
  connection changes its desired state.
\<close>

theorem finalize_keeps_newer:
  assumes "finalizeTx now v (finalizeCandidates node account v db0) db = (r, db')"
  shows "list_all2 (\<lambda>c d. (v < cnDesiredVersionMS c \<longrightarrow> d = c) \<and> cnDesiredStatus d = cnDesiredStatus c \<and>
      cnDesiredVersionMS d = cnDesiredVersionMS c) (dbConnections db) (dbConnections db')"
proof -
  have "db' = fold (finalizeOne now v) (finalizeCandidates node account v db0) db"
    using assms by (simp add: finalizeTx_def)
  then show ?thesis
    by (auto simp: finalize_fold list_all2_conv_all_nth finalised_def)
qed

theorem finalize_keeps_newer_witness:
  "\<exists>c d. GetConnection (snd (UpdateConnectionDesiredStatus 5000000 ''c1'' StatusHeld exampleDomain)) ''c1'' = Inr c \<and>
     dbConnections (snd (finalizeTx 6000000 1 (finalizeCandidates ''hy'' ''00000000-0000-4000-8000-000000000000'' 1 exampleDomain)
       (snd (UpdateConnectionDesiredStatus 5000000 ''c1'' StatusHeld exampleDomain)))) = [c, d]"
proof -
  let ?db = "snd (UpdateConnectionDesiredStatus 5000000 ''c1'' StatusHeld exampleDomain)"
  note f = finalize_keeps_newer [of 6000000 1 "''hy''" "''00000000-0000-4000-8000-000000000000''" exampleDomain ?db,
      OF prod.collapse [symmetric]]
  obtain c d where c: "dbConnections ?db = [c, d]" "cnID c = ''c1''" "cnDesiredVersionMS c = 5"
    by (simp add: UpdateConnectionDesiredStatus_def checked_update_def update_rows_def noClash_def connectionClash_def
        bumpVersion_def example_eval)
  with f show ?thesis by (auto simp: list_all2_Cons1 GetConnection_def getRow_def lookup_row_Cons)
qed

section \<open>Stale configurations\<close>

text \<open>
  C17. Optimistic concurrency on the configuration of an AmneziaWG node: whenever the stored configuration of the node is
  not of the version \<open>expected\<close>, neither an update nor a new connection with material that was prepared against the version
  \<open>expected\<close> is accepted, and neither changes anything. A successful update makes its own version the stored one, so every
  earlier version is refused from then on. (A connection created without an expected version, 0, is not checked.)
\<close>

theorem stale_config_refused:
  assumes "domain_step\<^sup>*\<^sup>* emptyDomainDB db" "GetAmneziaWGNodeConfig db node = Inr current" "awConfigVersionMS current \<noteq> expected"
  shows "(awNodeID v = node \<longrightarrow> UpdateAmneziaWGNodeConfig v expected configs db = (Inl ErrConflict, db)) \<and>
    (cnNodeID (cbConnection b) = node \<and> cbAmneziaWGMaterial b \<noteq> None \<and> cbExpectedNodeConfigVersionMS b = expected \<and> 0 < expected \<longrightarrow>
      (\<exists>e. CreateConnectionBundle rnd now b db = (Inl e, db))) \<and>
    (\<forall>w newer cs db'. awNodeID w = node \<and> UpdateAmneziaWGNodeConfig w newer cs db = (Inr (), db') \<longrightarrow>
      (\<exists>c. GetAmneziaWGNodeConfig db' node = Inr c \<and> awConfigVersionMS c = awConfigVersionMS w))"
proof -
  have ok: "domainOK db" by (rule domain_reachable_OK [OF assms(1) domainOK_empty])
  have cur: "current \<in> set (dbAmneziaConfigs db)" "awNodeID current = node"
    using getRow_Inr [OF assms(2) [unfolded GetAmneziaWGNodeConfig_def]] by auto
  have only: "r = current" if "r \<in> set (dbAmneziaConfigs db)" "awNodeID r = node" for r
    using that cur domainOK_D(6) [OF ok] by (metis distinct_map inj_onD)
  have stale: "filter (\<lambda>r. awNodeID r = node \<and> awConfigVersionMS r = expected) (dbAmneziaConfigs db) = []"
    using only assms(3) by (auto simp: filter_empty_conv)
  then have "UpdateAmneziaWGNodeConfig v expected configs db = (Inl ErrConflict, db)" if "awNodeID v = node"
    using that by (simp add: UpdateAmneziaWGNodeConfig_def Let_def)
  moreover have "\<exists>e. CreateConnectionBundle rnd now b db = (Inl e, db)"
    if "cnNodeID (cbConnection b) = node" "cbAmneziaWGMaterial b \<noteq> None" "cbExpectedNodeConfigVersionMS b = expected" "0 < expected"
  proof -
    have "lockNodeConfig b (cnNodeID (cbConnection b)) db = Inl ErrConflict" using that stale by (simp add: lockNodeConfig_def)
    then show ?thesis by (auto simp: CreateConnectionBundle_def Let_def commit_def split: sum.splits option.splits)
  qed
  moreover have "\<exists>c. GetAmneziaWGNodeConfig db' node = Inr c \<and> awConfigVersionMS c = awConfigVersionMS w"
    if w: "awNodeID w = node" "UpdateAmneziaWGNodeConfig w newer cs db = (Inr (), db')" for w newer cs db'
    using w(2)
  proof (cases rule: UpdateAmneziaWGNodeConfig_cases)
    case 2
    then obtain r where "r \<in> set (dbAmneziaConfigs db)" "awNodeID r = node" "awConfigVersionMS r = newer"
      using w(1) by (force simp: length_Suc_conv filter_eq_Cons_iff)
    then have "awConfigVersionMS current = newer" using only by blast
    moreover have "lookup_row awNodeID (dbAmneziaConfigs db) node = Some current"
      using assms(2) by (auto simp: GetAmneziaWGNodeConfig_def getRow_def split: option.splits)
    ultimately show ?thesis using w(1) cur(2) by (simp add: 2(4) GetAmneziaWGNodeConfig_def getRow_def row_simps)
  qed simp
  ultimately show ?thesis by blast
qed

definition exampleUpdate :: AmneziaWGNodeConfig where
  "exampleUpdate = (defaultAmneziaWGNodeConfig 1000000 (exampleAmneziaConfig\<lparr>awNodeID := ''aw''\<rparr>))\<lparr>awMTU := 1280, awConfigVersionMS := 2\<rparr>"

theorem stale_config_refused_witness:
  "\<exists>db e. UpdateAmneziaWGNodeConfig exampleUpdate 1 [exampleIssued ''amnezia_conf''] exampleDomain = (Inr (), db) \<and>
     UpdateAmneziaWGNodeConfig exampleUpdate 1 [exampleIssued ''amnezia_conf''] db = (Inl ErrConflict, db) \<and>
     CreateConnectionBundle (exampleRandom 5) 2000000 (exampleAmneziaBundle\<lparr>cbConnection := exampleConnection ''c3'' ''aw'' ProtocolAmneziaWG\<rparr>) db =
       (Inl e, db)"
proof -
  obtain db where db: "UpdateAmneziaWGNodeConfig exampleUpdate 1 [exampleIssued ''amnezia_conf''] exampleDomain = (Inr (), db)"
    by (simp add: UpdateAmneziaWGNodeConfig_def exampleUpdate_def defaultAmneziaWGNodeConfig_def amneziaConfigChecks_def
        portOK_def example_eval)
  let ?b = "exampleAmneziaBundle\<lparr>cbConnection := exampleConnection ''c3'' ''aw'' ProtocolAmneziaWG\<rparr>"
  let ?cs = "[exampleIssued ''amnezia_conf'']"
  obtain c where c: "GetAmneziaWGNodeConfig exampleDomain ''aw'' = Inr c" "awConfigVersionMS c = 1"
    by (simp add: GetAmneziaWGNodeConfig_def getRow_def lookup_row_Cons example_eval defaultAmneziaWGNodeConfig_def)
  have u: "awNodeID exampleUpdate = ''aw''" "awConfigVersionMS exampleUpdate = 2"
    by (simp_all add: exampleUpdate_def defaultAmneziaWGNodeConfig_def exampleAmneziaConfig_def)
  have "domain_step\<^sup>*\<^sup>* emptyDomainDB db" by (rule run_step [OF exampleDomain_reachable domain_step.update_awg [OF db]])
  moreover obtain d where "GetAmneziaWGNodeConfig db ''aw'' = Inr d" "awConfigVersionMS d = 2"
    using stale_config_refused [OF exampleDomain_reachable c(1), of 9] c(2) u db by fastforce
  ultimately have "UpdateAmneziaWGNodeConfig exampleUpdate 1 ?cs db = (Inl ErrConflict, db)"
    "\<exists>e. CreateConnectionBundle (exampleRandom 5) 2000000 ?b db = (Inl e, db)"
    using stale_config_refused [of db "''aw''" d 1 exampleUpdate ?cs ?b "exampleRandom 5" 2000000] u
    by (simp_all add: exampleAmneziaBundle_def exampleConnection_def)
  then show ?thesis using db by blast
qed

end
