(* ===== verification/Sync_Properties.thy ===== *)
theory Sync_Properties
  imports Credential_Sync Domain_Properties
begin

text \<open>
  What a sync of a Hysteria agent achieves, from the tables of the server to the answers of the agent's
  authentication endpoint.
\<close>

section \<open>Full and incremental runs\<close>

lemma start_full: "startCursor agentCursors AuthSyncCursorKey True s = (Inr (0, True), s)"
  by (simp add: startCursor_def)

lemma start_cursor:
  assumes "lookup_row fst (sync_state adb) AuthSyncCursorKey = Some (AuthSyncCursorKey, FormatInt t)" "in_int64 t"
  shows "startCursor agentCursors AuthSyncCursorKey False (adb, k) = (Inr (t, False), (adb, k))"
  using assms ParseInt_FormatInt [OF assms(2)]
  by (simp add: startCursor_def agentCursors_def LoadSyncCursor_def agentAuthStore_def onStore_def GetState_def)

lemma reachable_OK: "domain_step\<^sup>*\<^sup>* emptyDomainDB db \<Longrightarrow> domainOK db"
  by (rule domain_reachable_OK [OF _ domainOK_empty])

lemma full_run:
  assumes "domainOK db"
  shows "\<exists>r adb' k'. hysteriaSync (db, node, clock) kicker True (adb, k) = Some (r, (adb', k')) \<and> usersOK adb' \<and>
    (\<forall>i. userOf adb' i = desiredUser db node i) \<and>
    lookup_row fst (sync_state adb') AuthSyncCursorKey = Some (AuthSyncCursorKey, FormatInt (time_UnixMilli (clock [])))"
proof -
  have all: "fullAnswer True 0" by (simp add: fullAnswer_def)
  obtain r adb' k' where run: "hysteriaSync (db, node, clock) kicker True (adb, k) = Some (r, (adb', k'))"
      "auth_users adb' = map (toAuthUser \<circ> chPayload) (hysteriaManifest (db, node, clock) True 0)"
      "lookup_row fst (sync_state adb') AuthSyncCursorKey = Some (AuthSyncCursorKey, FormatInt (time_UnixMilli (clock [])))"
    using run_full [OF assms start_full all, of node clock kicker adb k] by blast
  with full_users [OF assms all run(2)] show ?thesis by blast
qed

text \<open>
  C9. A full sync reaches the desired state whatever the agent held before: the run ends, and afterwards the agent
  authorises under every connection id exactly the user the server wants there, with the password hash of the
  server, and no other; this holds even when a removed connection could not be kicked.
\<close>

theorem full_sync_exact:
  assumes "domain_step\<^sup>*\<^sup>* emptyDomainDB db"
  shows "\<exists>r adb' k'. hysteriaSync (db, node, clock) kicker True (adb, k) = Some (r, (adb', k')) \<and>
    (\<forall>i. GetAuthUserByConnectionID i adb' =
       (case desiredUser db node i of None \<Rightarrow> Inl ErrNotFound | Some u \<Rightarrow> Inr u))"
proof -
  obtain r adb' k' where "hysteriaSync (db, node, clock) kicker True (adb, k) = Some (r, (adb', k'))"
    "\<forall>i. userOf adb' i = desiredUser db node i"
    using full_run [OF reachable_OK [OF assms], of node clock kicker adb k] by blast
  then show ?thesis by (intro exI [of _ r] exI [of _ adb'] exI [of _ k']) (simp add: GetAuthUserByConnectionID_def)
qed

theorem full_sync_exact_witness:
  "\<exists>r adb k u. hysteriaSync (exampleDomain, ''hy'', \<lambda>_. 2000000) None True (emptyAgentDB, ()) = Some (r, (adb, k)) \<and>
     GetAuthUserByConnectionID ''c1'' adb = Inr u \<and> GetAuthUserByConnectionID ''c2'' adb = Inl ErrNotFound"
proof -
  have "\<exists>u. desiredUser exampleDomain ''hy'' ''c1'' = Some u" "desiredUser exampleDomain ''hy'' ''c2'' = None"
    by (simp_all add: desiredUser_def hysteriaProject_def nodeConns_def hysteriaRow_def accountOf_def lookup_row_Cons example_eval)
  then show ?thesis
    using full_sync_exact [OF exampleDomain_reachable, of "''hy''" "\<lambda>_. 2000000" None emptyAgentDB "()"] by fastforce
qed

text \<open>
  The agent is up to date with a version: it knows no connection the server does not have, and the connections
  the server changed last before that version are as the server wants them.
\<close>

definition upToDate :: "AgentDB \<Rightarrow> DomainDB \<Rightarrow> string \<Rightarrow> int \<Rightarrow> bool" where
  "upToDate adb db node t \<longleftrightarrow> usersOK adb \<and>
     auConnectionID ` set (auth_users adb) \<subseteq> scConnectionID ` set (hysteriaProject db node) \<and>
     (\<forall>c \<in> set (hysteriaProject db node). scUpdatedAtMS c < t \<longrightarrow> userOf adb (scConnectionID c) = desiredUser db node (scConnectionID c))"

lemma incremental_run:
  assumes ok: "domainOK db" and t: "in_int64 t" "t \<noteq> 0" and up: "upToDate adb db node t"
    and cursor: "lookup_row fst (sync_state adb) AuthSyncCursorKey = Some (AuthSyncCursorKey, FormatInt t)"
    and pos: "\<forall>c \<in> set (hysteriaProject db node). 0 < scUpdatedAtMS c"
  shows "\<exists>r adb' k'. hysteriaSync (db, node, clock) kicker False (adb, k) = Some (r, (adb', k')) \<and>
    (\<forall>i. userOf adb' i = desiredUser db node i) \<and> usersOK adb' \<and>
    sync_state adb' = (if r = Inr () then putState AuthSyncCursorKey (FormatInt (time_UnixMilli (clock []))) (sync_state adb)
      else sync_state adb)"
proof -
  let ?m = "hysteriaManifest (db, node, clock) False t"
  have users: "usersOK adb" using up by (simp add: upToDate_def)
  have part: "\<not> fullAnswer False t" using t(2) by (simp add: fullAnswer_def)
  obtain r adb' k' where run: "hysteriaSync (db, node, clock) kicker False (adb, k) = Some (r, (adb', k'))"
      "\<forall>c \<in> set ?m. userOf adb' (chConnectionID c) = changedUser c"
      "\<forall>i. i \<notin> chConnectionID ` set ?m \<longrightarrow> userOf adb' i = userOf adb i" "usersOK adb'"
      "sync_state adb' = (if r = Inr () then putState AuthSyncCursorKey (FormatInt (time_UnixMilli (clock []))) (sync_state adb)
         else sync_state adb)"
    using run_incremental [OF ok start_cursor [OF cursor t(1)] part users, where node = node and clock = clock and kicker = kicker] by blast
  have "userOf adb' i = desiredUser db node i" for i
  proof (cases "i \<in> scConnectionID ` set (hysteriaProject db node)")
    case True
    then obtain c where c: "c \<in> set (hysteriaProject db node)" "scConnectionID c = i" by auto
    show ?thesis
    proof (cases "scUpdatedAtMS c < t")
      case True
      then have "i \<notin> chConnectionID ` set ?m"
        using c part hysteria.project_keyed [OF ok, of node] unfolding in_manifest_iff inManifest_def
        by (auto simp: distinct_map inj_on_def)
      with run(3) up c True show ?thesis by (auto simp: upToDate_def)
    next
      case False
      then have "hysteriaChange c \<in> set ?m" using c(1) pos part by (auto simp: hysteriaManifest_def inManifest_def)
      with run(2) have "userOf adb' (chConnectionID (hysteriaChange c)) = changedUser (hysteriaChange c)" by blast
      then show ?thesis using changedUser_hysteria [OF ok c(1)] hysteriaChange_sel(1) [OF c(1)] c(2) by simp
    qed
  next
    case False
    then have "i \<notin> chConnectionID ` set ?m" unfolding in_manifest_iff by auto
    moreover have "userOf adb i = None" using False up by (auto simp: upToDate_def lookup_row_None_iff)
    ultimately show ?thesis using run(3) desiredUser_None [OF False] by simp
  qed
  with run(1,4,5) show ?thesis by blast
qed

text \<open>
  C10. An incremental sync catches up: an agent that is up to date with its cursor is, after the run, exactly in the
  desired state, although the server sent only the connections changed since the cursor.
\<close>

theorem incremental_sync_exact:
  assumes "domain_step\<^sup>*\<^sup>* emptyDomainDB db" "in_int64 t" "t \<noteq> 0" "upToDate adb db node t"
    "GetState AuthSyncCursorKey adb = (Inr (FormatInt t), adb)"
    "\<forall>c \<in> set (hysteriaProject db node). 0 < scUpdatedAtMS c"
  shows "\<exists>r adb' k'. hysteriaSync (db, node, clock) kicker False (adb, k) = Some (r, (adb', k')) \<and>
    (\<forall>i. GetAuthUserByConnectionID i adb' =
       (case desiredUser db node i of None \<Rightarrow> Inl ErrNotFound | Some u \<Rightarrow> Inr u))"
proof -
  have "lookup_row fst (sync_state adb) AuthSyncCursorKey = Some (AuthSyncCursorKey, FormatInt t)"
    using assms(5) lookup_row_SomeD [of fst "sync_state adb" AuthSyncCursorKey]
    by (cases "lookup_row fst (sync_state adb) AuthSyncCursorKey") (auto simp: GetState_def)
  then obtain r adb' k' where "hysteriaSync (db, node, clock) kicker False (adb, k) = Some (r, (adb', k'))"
    "\<forall>i. userOf adb' i = desiredUser db node i"
    using incremental_run [OF reachable_OK [OF assms(1)] assms(2-4) _ assms(6), of clock kicker k] by blast
  then show ?thesis by (intro exI [of _ r] exI [of _ adb'] exI [of _ k']) (simp add: GetAuthUserByConnectionID_def)
qed

text \<open>The example: the agent has both users of a node with two connections at version 1; then one is held.\<close>

definition heldDomain :: DomainDB where
  "heldDomain = snd (UpdateConnectionDesiredStatus 5000000 ''c1'' StatusHeld exampleDomain)"

lemma heldDomain_reachable: "domain_step\<^sup>*\<^sup>* emptyDomainDB heldDomain"
  unfolding heldDomain_def by (rule run_step [OF exampleDomain_reachable step_snd(5)])

lemma heldDomain_project: "hysteriaProject heldDomain ''hy'' =
    [\<lparr>scConnectionID = ''c1'', scActive = False, scUpdatedAtMS = 5, scMaterial = ''h''\<rparr>]"
  by (simp add: heldDomain_def UpdateConnectionDesiredStatus_def checked_update_def update_rows_def noClash_def connectionClash_def
      bumpVersion_def hysteriaProject_def nodeConns_def hysteriaRow_def accountOf_def lookup_row_Cons example_eval)

definition exampleAgent :: AgentDB where
  "exampleAgent = \<lparr>auth_users = [\<lparr>auConnectionID = ''c1'', auNativeAuthID = ''c1'', auNativeMeta = ''{}''\<rparr>],
     sync_state = [(AuthSyncCursorKey, FormatInt 2)], traffic = []\<rparr>"

theorem incremental_sync_exact_witness:
  "\<exists>r adb k. hysteriaSync (heldDomain, ''hy'', \<lambda>_. 6000000) None False (exampleAgent, ()) = Some (r, (adb, k)) \<and>
     GetAuthUserByConnectionID ''c1'' exampleAgent \<noteq> Inl ErrNotFound \<and> GetAuthUserByConnectionID ''c1'' adb = Inl ErrNotFound"
proof -
  have "upToDate exampleAgent heldDomain ''hy'' 2" "\<forall>c \<in> set (hysteriaProject heldDomain ''hy''). 0 < scUpdatedAtMS c"
    "GetState AuthSyncCursorKey exampleAgent = (Inr (FormatInt 2), exampleAgent)" "in_int64 2" "(2::int) \<noteq> 0"
    by (simp_all add: upToDate_def usersOK_def heldDomain_project exampleAgent_def GetState_def lookup_row_Cons in_int64_def)
  note run = incremental_sync_exact [OF heldDomain_reachable this(4,5,1,3,2), of "\<lambda>_. 6000000" None "()"]
  have "desiredUser heldDomain ''hy'' ''c1'' = None" "GetAuthUserByConnectionID ''c1'' exampleAgent \<noteq> Inl ErrNotFound"
    by (simp_all add: desiredUser_def heldDomain_project lookup_row_Cons GetAuthUserByConnectionID_def exampleAgent_def)
  with run show ?thesis by fastforce
qed

section \<open>The projection over time\<close>

lemma project_ids_grow:
  assumes "domain_step\<^sup>*\<^sup>* db db'"
  shows "scConnectionID ` set (hysteriaProject db node) \<subseteq> scConnectionID ` set (hysteriaProject db' node)"
proof -
  have "cnID ` set (nodeConns db node ProtocolHysteria2) \<subseteq> cnID ` set (nodeConns db' node ProtocolHysteria2)"
  proof
    fix i assume "i \<in> cnID ` set (nodeConns db node ProtocolHysteria2)"
    then obtain c where c: "c \<in> set (dbConnections db)" "cnNodeID c = node" "cnProtocol c = ProtocolHysteria2" "cnID c = i"
      by (auto simp: nodeConns_def)
    then obtain d where "d \<in> set (dbConnections db')" "connKey d = connKey c"
      using run_evolves [OF assms] by (auto simp: evolves_def conn_le_def)
    with c show "i \<in> cnID ` set (nodeConns db' node ProtocolHysteria2)" by (intro image_eqI [of _ _ d]) (simp_all add: nodeConns_def connKey_def)
  qed
  then show ?thesis by (simp add: hysteriaProject_def image_image)
qed

lemma desiredUser_row:
  assumes "domainOK db" "c \<in> set (hysteriaProject db node)"
  shows "desiredUser db node (scConnectionID c) = (if scActive c then Some (activeUser c) else None)"
proof -
  have "lookup_row scConnectionID (hysteriaProject db node) (scConnectionID c) = Some c"
    using lookup_row_keyed [OF hysteria.project_keyed [OF assms(1)]] assms(2) by auto
  then show ?thesis by (simp add: desiredUser_def)
qed

section \<open>Who is let in\<close>

text \<open>The server wants a connection on a node: it and its account are active, and this is its password hash.\<close>

definition wanted :: "DomainDB \<Rightarrow> string \<Rightarrow> string \<Rightarrow> string \<Rightarrow> bool" where
  "wanted db node i h \<longleftrightarrow>
     (\<exists>c a m. GetConnection db i = Inr c \<and> cnNodeID c = node \<and> cnProtocol c = ProtocolHysteria2 \<and> cnDesiredStatus c = StatusActive \<and>
        GetAccount db (cnAccountID c) = Inr a \<and> acStatus a = StatusActive \<and>
        GetHysteria2ConnectionMaterial db i = Inr m \<and> hmPasswordHash m = h \<and> h \<noteq> [])"

lemma getRow_lookup: "getRow key t k = Inr r \<longleftrightarrow> lookup_row key t k = Some r"
  by (auto simp: getRow_def split: option.splits)

lemma desiredUser_wanted:
  assumes ok: "domainOK db"
  shows "desiredUser db node i = Some u \<longleftrightarrow> (\<exists>h. wanted db node i h \<and> u = \<lparr>auConnectionID = i, auNativeAuthID = i,
    auNativeMeta = render (JObj [(''password_hash'', JStr h)])\<rparr>)" (is "?l \<longleftrightarrow> ?r")
proof
  assume ?l
  then obtain row where row: "row \<in> set (hysteriaProject db node)" "scConnectionID row = i" "scActive row" "u = activeUser row"
    by (auto simp: desiredUser_def dest: lookup_row_SomeD split: option.splits if_splits)
  then obtain c where c: "c \<in> set (dbConnections db)" "cnNodeID c = node" "cnProtocol c = ProtocolHysteria2" "row = hysteriaRow db c"
    by (auto simp: hysteriaProject_def nodeConns_def)
  have "cnID c = i" using row(2) c(4) by simp
  moreover obtain m where m: "lookup_row hmConnectionID (dbHysteriaMaterials db) (cnID c) = Some m"
    using hysteria_material [OF ok c(1,3)] by auto
  moreover have "GetConnection db i = Inr c"
    using getRow_keyed [OF domainOK_D(3) [OF ok] c(1)] \<open>cnID c = i\<close> by (simp add: GetConnection_def)
  ultimately have "wanted db node i (hmPasswordHash m)"
    using row(3) c lookup_accountOf [OF ok c(1)]
    by (auto simp: wanted_def hysteriaRow_def GetAccount_def GetHysteria2ConnectionMaterial_def getRow_lookup Let_def)
  moreover have "u = \<lparr>auConnectionID = i, auNativeAuthID = i,
      auNativeMeta = render (JObj [(''password_hash'', JStr (hmPasswordHash m))])\<rparr>"
    using row(2,4) c(4) m by (simp add: activeUser_def hysteriaRow_def Let_def)
  ultimately show ?r by blast
next
  assume ?r
  then obtain c a m where w: "GetConnection db i = Inr c" "cnNodeID c = node" "cnProtocol c = ProtocolHysteria2"
      "cnDesiredStatus c = StatusActive" "GetAccount db (cnAccountID c) = Inr a" "acStatus a = StatusActive"
      "GetHysteria2ConnectionMaterial db i = Inr m" "hmPasswordHash m \<noteq> []"
    and u: "u = \<lparr>auConnectionID = i, auNativeAuthID = i, auNativeMeta = render (JObj [(''password_hash'', JStr (hmPasswordHash m))])\<rparr>"
    by (auto simp: wanted_def)
  have c: "c \<in> set (dbConnections db)" "cnID c = i" using getRow_Inr [OF w(1) [unfolded GetConnection_def]] by auto
  then have "hysteriaRow db c \<in> set (hysteriaProject db node)" using w(2,3) by (simp add: hysteriaProject_def nodeConns_def)
  note desiredUser_row [OF ok this]
  moreover have "accountOf db c = a" using w(5) lookup_accountOf [OF ok c(1)] by (simp add: GetAccount_def getRow_lookup)
  ultimately show ?l using w c(2) u
    by (simp add: GetHysteria2ConnectionMaterial_def getRow_lookup hysteriaRow_def activeUser_def Let_def)
qed

lemma decodeMeta_hash: "ascii h \<Longrightarrow> decodeMeta (render (JObj [(''password_hash'', JStr h)])) = Some h"
  using json_roundtrip [of "JObj [(''password_hash'', JStr h)]"]
  by (simp add: decodeMeta_def decodeField_def fieldValues_def Let_def)

lemma native_lookup: "usersOK adb \<Longrightarrow> lookup_row auNativeAuthID (auth_users adb) i = userOf adb i"
  unfolding usersOK_def lookup_row_def by (induction "auth_users adb" arbitrary: adb) (auto intro!: find_cong)

text \<open>An agent in the desired state lets in exactly the clients the server wants. Hashes are ASCII, as bcrypt writes them.\<close>

lemma auth_desired:
  assumes ok: "domainOK db" and hashes: "list_all (\<lambda>m. ascii (hmPasswordHash m)) (dbHysteriaMaterials db)"
    and a: "usersOK adb'" "userOf adb' i = desiredUser db node i"
    and req: "decodeAuthRequest body = Some cred" "splitAuth cred = (i, pw)" "i \<noteq> []" "pw \<noteq> []"
  shows "auth bcrypt adb' ''POST'' body =
    (if \<exists>h. wanted db node i h \<and> verifyPassword bcrypt h pw
     then Reply \<lparr>arsOK = True, arsID = i, arsMsg = []\<rparr> else notAllowed)"
proof -
  have unique: "wanted db node i h \<Longrightarrow> wanted db node i h' \<Longrightarrow> h = h'" for h h' by (auto simp: wanted_def)
  have ascii: "ascii h" if "wanted db node i h" for h
  proof -
    from that obtain m where "GetHysteria2ConnectionMaterial db i = Inr m" "hmPasswordHash m = h" by (auto simp: wanted_def)
    then have "m \<in> set (dbHysteriaMaterials db)"
      using getRow_Inr [of hmConnectionID "dbHysteriaMaterials db" i m] by (simp add: GetHysteria2ConnectionMaterial_def)
    with hashes \<open>hmPasswordHash m = h\<close> show ?thesis by (auto simp: list_all_iff)
  qed
  show ?thesis
  proof (cases "desiredUser db node i")
    case None
    then have "\<nexists>h. wanted db node i h" using desiredUser_wanted [OF ok, of node i] by auto
    with None a req show ?thesis by (auto simp: auth_def GetAuthUserByNativeAuthID_def native_lookup)
  next
    case (Some u)
    then obtain h where h: "wanted db node i h" "u = \<lparr>auConnectionID = i, auNativeAuthID = i,
        auNativeMeta = render (JObj [(''password_hash'', JStr h)])\<rparr>" using desiredUser_wanted [OF ok] by auto
    then have "(\<exists>h. wanted db node i h \<and> verifyPassword bcrypt h pw) \<longleftrightarrow> verifyPassword bcrypt h pw" using unique by blast
    moreover have "decodeMeta (auNativeMeta u) = Some h"
      using decodeMeta_hash [OF ascii [OF h(1)]] h(2) by (simp del: render.simps)
    ultimately show ?thesis using Some a req h(2) by (simp add: auth_def GetAuthUserByNativeAuthID_def native_lookup del: render.simps)
  qed
qed

definition exampleBody :: string where
  "exampleBody = render (JObj [(''addr'', JStr ''x''), (''auth'', JStr ''c1:h''), (''tx'', JNum (FormatInt 0))])"

lemma decode_example: "decodeAuthRequest exampleBody = Some ''c1:h''"
proof -
  let ?j = "JObj [(''addr'', JStr ''x''), (''auth'', JStr ''c1:h''), (''tx'', JNum (FormatInt 0))]"
  have zero: "FormatInt 0 = ''0''" by (simp add: FormatInt_def show_nat.simps [of 0] digit_chars)
  have "length exampleBody \<le> 2 ^ 20" by (simp add: exampleBody_def zero quote_def escapeChar_def Let_def)
  moreover have "parseValue (2 * length exampleBody + 1) (exampleBody @ []) = Some (?j, [])"
    unfolding exampleBody_def by (rule parseValue_render) (auto simp: delimited_def simp del: render.simps)
  moreover have "ParseInt64 (FormatInt 0) = Inr 0" by (rule ParseInt_FormatInt) (simp add: in_int64_def)
  ultimately show ?thesis by (simp add: decodeAuthRequest_def decodeField_def fieldValues_def foldByte_def Let_def)
qed

end
