(* ===== verification/Sync_Runs.thy ===== *)
theory Sync_Runs
  imports Sync_Properties
begin

text \<open>
  A server and the agent of one node over time: operations of the store, in the order of the server's clock, interleaved
  with the runs the agent makes. The agent only ever asks for incremental runs (\<open>SyncCredentials\<close> of
  \<open>agent/common/delegate.go\<close> calls \<open>RunOnce(ctx, false)\<close>); the first one, without a cursor, becomes a full one.
\<close>

section \<open>The server between two runs\<close>

text \<open>
  The operations that change what a Hysteria node has to authorise carry a version taken at the time of the call; any other
  operation may happen too, as long as it leaves the projection alone. Only \<open>UpdateAccountStatus\<close> changes the projection
  without a new version, see \<open>account_hold_missed\<close> below.
\<close>

inductive server_step :: "int \<Rightarrow> DomainDB \<Rightarrow> DomainDB \<Rightarrow> bool" for now where
  status: "UpdateConnectionDesiredStatus now i s db = (r, db') \<Longrightarrow> server_step now db db'"
| create: "CreateConnectionBundle rnd now b db = (r, db') \<Longrightarrow>
    (cnProtocol (cbConnection b) = ProtocolHysteria2 \<longrightarrow> cnDesiredVersionMS (cbConnection b) = 0) \<Longrightarrow> server_step now db db'"
| delete_node: "SoftDeleteNode now i db = (r, db') \<Longrightarrow> server_step now db db'"
| other: "domain_step db db' \<Longrightarrow> (\<And>n. hysteriaProject db' n = hysteriaProject db n) \<Longrightarrow> server_step now db db'"

lemma server_step_domain: "server_step now db db' \<Longrightarrow> domain_step db db'"
  by (induction rule: server_step.induct) (auto intro: domain_step.intros)

lemma bumpVersion_ge: "n \<le> bumpVersion n v"
  by (simp add: bumpVersion_def)

text \<open>A row of the projection is as it was, or has a version of the time of the call or later.\<close>

definition freshRows :: "int \<Rightarrow> DomainDB \<Rightarrow> DomainDB \<Rightarrow> string \<Rightarrow> bool" where
  "freshRows v db db' node \<longleftrightarrow> (\<forall>c \<in> set (hysteriaProject db' node). v \<le> scUpdatedAtMS c \<or> c \<in> set (hysteriaProject db node))"

lemma freshRows_update:
  assumes "dbConnections db' = update_rows P f (dbConnections db)" "dbAccounts db' = dbAccounts db"
    "dbHysteriaMaterials db' = dbHysteriaMaterials db" "\<And>c. v \<le> cnDesiredVersionMS (f c)"
  shows "freshRows v db db' node"
  unfolding freshRows_def
proof
  fix x assume "x \<in> set (hysteriaProject db' node)"
  then obtain d where d: "d \<in> set (dbConnections db')" "cnNodeID d = node" "cnProtocol d = ProtocolHysteria2" "x = hysteriaRow db' d"
    by (auto simp: hysteriaProject_def nodeConns_def)
  have row: "hysteriaRow db' d = hysteriaRow db d" by (simp add: hysteriaRow_def accountOf_def assms(2,3))
  from d(1) obtain c where c: "c \<in> set (dbConnections db)" "d = (if P c then f c else c)" by (auto simp: assms(1) set_update_rows)
  show "v \<le> scUpdatedAtMS x \<or> x \<in> set (hysteriaProject db node)"
  proof (cases "P c")
    case True
    then show ?thesis using assms(4) [of c] c(2) d(4) by (simp add: hysteriaRow_def Let_def)
  next
    case False
    then show ?thesis using c d row by (auto simp: hysteriaProject_def nodeConns_def)
  qed
qed

lemma freshRows_create:
  assumes ok: "domainOK db" and call: "CreateConnectionBundle rnd now b db = (r, db')" 
    and v: "cnProtocol (cbConnection b) = ProtocolHysteria2 \<longrightarrow> cnDesiredVersionMS (cbConnection b) = 0"
  shows "freshRows (time_UnixMilli now) db db' node"
  using call
proof (cases rule: CreateConnectionBundle_cases)
  case (2 s nd)
  have new: "cnProtocol (cbConnection s) = ProtocolHysteria2 \<longrightarrow> cnDesiredVersionMS (cbConnection s) = time_UnixMilli now"
    using v by (simp add: 2(1) stampBundle_def defaultConnection_def Let_def)
  show ?thesis unfolding freshRows_def
  proof
    fix x assume "x \<in> set (hysteriaProject db' node)"
    then obtain d where d: "d \<in> set (dbConnections db')" "cnNodeID d = node" "cnProtocol d = ProtocolHysteria2" "x = hysteriaRow db' d"
      by (auto simp: hysteriaProject_def nodeConns_def)
    show "time_UnixMilli now \<le> scUpdatedAtMS x \<or> x \<in> set (hysteriaProject db node)"
    proof (cases "d \<in> set (dbConnections db)")
      case True
      then have "lookup_row hmConnectionID (dbHysteriaMaterials db) (cnID d) \<noteq> None" by (rule hysteria_material [OF ok _ d(3)])
      then have "hysteriaRow db' d = hysteriaRow db d" by (auto simp: hysteriaRow_def accountOf_def 2(9) lookup_row_append)
      then show ?thesis using True d by (auto simp: hysteriaProject_def nodeConns_def)
    next
      case False
      then show ?thesis using d new by (auto simp: 2(9) hysteriaRow_def Let_def)
    qed
  qed
qed (simp add: freshRows_def)

lemma server_step_fresh: "server_step now db db' \<Longrightarrow> domainOK db \<Longrightarrow> freshRows (time_UnixMilli now) db db' node"
proof (induction rule: server_step.induct)
  case (status i s db r db')
  have "dbAccounts db' = dbAccounts db" "dbHysteriaMaterials db' = dbHysteriaMaterials db"
    using status(1) unfolding UpdateConnectionDesiredStatus_def Let_def by (auto split: if_split_asm sum.splits)
  then show ?case using UpdateConnectionDesiredStatus_connections [OF status(1)]
      freshRows_update [of db' "\<lambda>_. False" id db] freshRows_update [of db' _ _ db "time_UnixMilli now" node] bumpVersion_ge
    by (elim disjE) (auto simp: freshRows_def hysteriaProject_def nodeConns_def hysteriaRow_def accountOf_def)
next
  case (create rnd b db r db')
  then show ?case by (intro freshRows_create)
next
  case (delete_node i db r db')
  from delete_node(1) show ?case
  proof (cases rule: SoftDeleteNode_cases)
    case (2 P Q R S)
    then show ?thesis using bumpVersion_ge by (intro freshRows_update) auto
  qed (simp add: freshRows_def)
qed (simp add: freshRows_def)

section \<open>The agent of one node\<close>

text \<open>The state: the server's tables, the agent's database, the runtime that is kicked, and the time of the last event.\<close>

type_synonym 'k world = "DomainDB \<times> AgentDB \<times> 'k \<times> int"

inductive node_step :: "string \<Rightarrow> (string \<Rightarrow> ('k, unit) op) option \<Rightarrow> 'k world \<Rightarrow> 'k world \<Rightarrow> bool" for node kicker where
  server: "server_step now db db' \<Longrightarrow> t \<le> now \<Longrightarrow> in_int64 (time_UnixMilli now) \<Longrightarrow> node_step node kicker (db, adb, k, t) (db', adb, k, now)"
| sync: "hysteriaSync (db, node, clock) kicker False (adb, k) = Some (r, (adb', k')) \<Longrightarrow> t \<le> clock [] \<Longrightarrow>
    in_int64 (time_UnixMilli (clock [])) \<Longrightarrow> node_step node kicker (db, adb, k, t) (db, adb', k', clock [])"

fun worldOK :: "string \<Rightarrow> 'k world \<Rightarrow> bool" where
  "worldOK node (db, adb, k, t) \<longleftrightarrow> domainOK db \<and> usersOK adb \<and> 0 < time_UnixMilli t \<and>
     (\<forall>c \<in> set (hysteriaProject db node). 0 < scUpdatedAtMS c) \<and>
     (case lookup_row fst (sync_state adb) AuthSyncCursorKey of
        None \<Rightarrow> True
      | Some (key, text) \<Rightarrow> \<exists>tc. text = FormatInt tc \<and> 0 < tc \<and> in_int64 tc \<and> tc \<le> time_UnixMilli t \<and> upToDate adb db node tc)"

lemma UnixMilli_mono: "s \<le> t \<Longrightarrow> time_UnixMilli s \<le> time_UnixMilli t"
  by (simp add: zdiv_mono1)

lemma upToDate_server:
  assumes ok: "domainOK db" "domainOK db'" and step: "domain_step db db'" and fresh: "freshRows v db db' node"
    and up: "upToDate adb db node tc" "tc \<le> v"
  shows "upToDate adb db' node tc"
proof -
  have "auConnectionID ` set (auth_users adb) \<subseteq> scConnectionID ` set (hysteriaProject db node)" using up(1) by (simp add: upToDate_def)
  also have "\<dots> \<subseteq> scConnectionID ` set (hysteriaProject db' node)"
    by (rule project_ids_grow) (rule r_into_rtranclp [of domain_step, OF step])
  finally have ids: "auConnectionID ` set (auth_users adb) \<subseteq> scConnectionID ` set (hysteriaProject db' node)" .
  have "userOf adb (scConnectionID c) = desiredUser db' node (scConnectionID c)"
    if c: "c \<in> set (hysteriaProject db' node)" "scUpdatedAtMS c < tc" for c
  proof -
    have "c \<in> set (hysteriaProject db node)" using fresh c up(2) by (auto simp: freshRows_def)
    then show ?thesis using up(1) c(2) desiredUser_row [OF ok(1)] desiredUser_row [OF ok(2) c(1)] by (simp add: upToDate_def)
  qed
  then show ?thesis using up(1) ids by (simp add: upToDate_def)
qed

lemma upToDate_exact:
  assumes "usersOK adb" "\<forall>i. userOf adb i = desiredUser db node i"
  shows "upToDate adb db node tc"
proof -
  have "auConnectionID u \<in> scConnectionID ` set (hysteriaProject db node)" if "u \<in> set (auth_users adb)" for u
  proof (rule ccontr)
    assume "auConnectionID u \<notin> scConnectionID ` set (hysteriaProject db node)"
    with assms(2) have "userOf adb (auConnectionID u) = None" by (simp add: desiredUser_None)
    with that show False by (auto simp: lookup_row_None_iff)
  qed
  then show ?thesis using assms by (auto simp: upToDate_def)
qed

lemma GetState_lookup:
  "GetState key adb = (Inr v, adb) \<Longrightarrow> lookup_row fst (sync_state adb) key = Some (key, v)"
  using lookup_row_SomeD [of fst "sync_state adb" key]
  by (cases "lookup_row fst (sync_state adb) key") (auto simp: GetState_def)

text \<open>What one run of the agent achieves in a state the invariant holds in.\<close>

lemma world_sync:
  assumes w: "worldOK node (db, adb, k, t)" and now: "t \<le> clock []" "in_int64 (time_UnixMilli (clock []))"
  shows "\<exists>r adb' k'. hysteriaSync (db, node, clock) kicker False (adb, k) = Some (r, (adb', k')) \<and>
    (\<forall>i. userOf adb' i = desiredUser db node i) \<and> worldOK node (db, adb', k', clock []) \<and>
    (r = Inr () \<or> lookup_row fst (sync_state adb) AuthSyncCursorKey = None \<longrightarrow>
      lookup_row fst (sync_state adb') AuthSyncCursorKey = Some (AuthSyncCursorKey, FormatInt (time_UnixMilli (clock []))))"
proof (cases "lookup_row fst (sync_state adb) AuthSyncCursorKey")
  case None
  then have start: "startCursor agentCursors AuthSyncCursorKey False (adb, k) = (Inr (0, True), (adb, k))"
    by (simp add: startCursor_def agentCursors_def LoadSyncCursor_def agentAuthStore_def onStore_def GetState_def)
  have all: "fullAnswer True 0" by (simp add: fullAnswer_def)
  have ok: "domainOK db" using w by simp
  obtain r adb' k' where run: "hysteriaSync (db, node, clock) kicker False (adb, k) = Some (r, (adb', k'))"
      "auth_users adb' = map (toAuthUser \<circ> chPayload) (hysteriaManifest (db, node, clock) True 0)"
      "lookup_row fst (sync_state adb') AuthSyncCursorKey = Some (AuthSyncCursorKey, FormatInt (time_UnixMilli (clock [])))"
    using run_full [OF ok start all, of node clock kicker] by blast
  note u = full_users [OF ok all run(2)]
  have "worldOK node (db, adb', k', clock [])" using w run(3) u upToDate_exact [OF u(2)] now UnixMilli_mono [OF now(1)] by auto
  with run u(1) show ?thesis by blast
next
  case (Some entry)
  then obtain tc where c: "lookup_row fst (sync_state adb) AuthSyncCursorKey = Some (AuthSyncCursorKey, FormatInt tc)"
    "0 < tc" "in_int64 tc" "tc \<le> time_UnixMilli t" "upToDate adb db node tc"
    using w lookup_row_SomeD [OF Some] by (cases entry) auto
  have pos: "\<forall>c \<in> set (hysteriaProject db node). 0 < scUpdatedAtMS c" and ok: "domainOK db" using w by simp_all
  obtain r adb' k' where run: "hysteriaSync (db, node, clock) kicker False (adb, k) = Some (r, (adb', k'))"
      "\<forall>i. userOf adb' i = desiredUser db node i" "usersOK adb'"
      "sync_state adb' = (if r = Inr () then putState AuthSyncCursorKey (FormatInt (time_UnixMilli (clock []))) (sync_state adb) else sync_state adb)"
    using incremental_run [OF ok c(3) _ c(5,1) pos, of clock kicker k] c(2) by blast
  have cur: "lookup_row fst (sync_state adb') AuthSyncCursorKey = (if r = Inr () then Some (AuthSyncCursorKey, FormatInt (time_UnixMilli (clock [])))
      else Some (AuthSyncCursorKey, FormatInt tc))" using run(4) c(1) by (simp add: putState_def row_simps)
  have "worldOK node (db, adb', k', clock [])"
    using w run(3) c upToDate_exact [OF run(3,2)] now UnixMilli_mono [OF now(1)] by (auto simp: cur split: if_split_asm)
  with run cur show ?thesis by auto
qed

lemma node_step_OK: "node_step node kicker w w' \<Longrightarrow> worldOK node w \<Longrightarrow> worldOK node w'"
proof (induction rule: node_step.induct)
  case (server now db db' t adb k)
  note d = server_step_domain [OF server(1)]
  have ok: "domainOK db" "domainOK db'" using server(4) domain_step_OK [OF d] by auto
  have m: "time_UnixMilli t \<le> time_UnixMilli now" by (rule UnixMilli_mono [OF server(2)])
  have f: "freshRows (time_UnixMilli now) db db' node" by (rule server_step_fresh [OF server(1) ok(1)])
  have "\<forall>c \<in> set (hysteriaProject db' node). 0 < scUpdatedAtMS c" using f m server(4) by (fastforce simp: freshRows_def)
  then show ?case using server(4) ok m upToDate_server [OF ok d f] by (auto split: option.splits)
next
  case (sync db clock adb k r adb' k' t)
  from world_sync [of node db adb k t clock, OF sync(4,2,3), where kicker = kicker] sync(1) show ?case by auto
qed

lemma node_run_OK:
  assumes "(node_step node kicker)\<^sup>*\<^sup>* (emptyDomainDB, emptyAgentDB, k0, t0) w" "0 < time_UnixMilli t0"
  shows "worldOK node w"
  using assms(1)
proof (induction rule: rtranclp_induct)
  case base
  then show ?case using assms(2) domainOK_empty
    by (simp add: hysteriaProject_def nodeConns_def emptyDomainDB_def emptyAgentDB_def usersOK_def)
qed (rule node_step_OK)

section \<open>An example\<close>

text \<open>Two nodes with one connection each, an agent that has not synced yet, and the same agent after its first run.\<close>

lemma project_empty: "dbConnections db = [] \<Longrightarrow> hysteriaProject db n = []"
  by (simp add: hysteriaProject_def nodeConns_def)

lemma example_run: "(node_step node kicker)\<^sup>*\<^sup>* (emptyDomainDB, emptyAgentDB, k0, 1000000) (exampleDomain, emptyAgentDB, k0, 1000000)"
proof -
  let ?d1 = "snd (CreateAccount (exampleRandom 0) 1000000 exampleAccount emptyDomainDB)"
  let ?d2 = "snd (CreateNode (exampleRandom 0) 1000000 (exampleNode ''hy'' NodeTypeNativeHy2) ?d1)"
  let ?d4 = "snd (CreateConnectionBundle (exampleRandom 1) 1000000 exampleHysteriaBundle exampleNodes)"
  let ?w = "\<lambda>d. (d, emptyAgentDB, k0, 1000000 :: int)"
  have empty: "dbConnections ?d1 = []" "dbConnections ?d2 = []" "dbConnections exampleNodes = []" "dbConnections emptyDomainDB = []"
    by (simp_all add: CreateAccount_def CreateNode_def commit_def insert_row_def emptyDomainDB_def example_eval example_defs defaultNode_def nodeClash_def Let_def)
  have "domain_step ?d2 exampleNodes" unfolding exampleNodes_def by (rule step_snd)
  then have 1: "server_step 1000000 emptyDomainDB ?d1" "server_step 1000000 ?d1 ?d2" "server_step 1000000 ?d2 exampleNodes"
    using empty by (auto intro!: server_step.other step_snd simp: project_empty)
  have 2: "server_step 1000000 exampleNodes ?d4" "server_step 1000000 ?d4 exampleDomain"
    unfolding exampleDomain_def
    by (rule server_step.create, rule prod.collapse [symmetric], simp add: exampleHysteriaBundle_def exampleAmneziaBundle_def exampleConnection_def)+
  have "node_step node kicker (?w a) (?w b)" if "server_step 1000000 a b" for a b
    by (rule node_step.server [OF that]) (simp_all add: in_int64_def)
  note step = converse_rtranclp_into_rtranclp [of "node_step node kicker", OF this]
  show ?thesis by (intro step [OF 1(1)] step [OF 1(2)] step [OF 1(3)] step [OF 2(1)] step [OF 2(2)]) simp
qed

lemma example_desired: "\<exists>u. desiredUser exampleDomain ''hy'' ''c1'' = Some u"
  by (simp add: desiredUser_def hysteriaProject_def nodeConns_def hysteriaRow_def accountOf_def lookup_row_Cons example_eval)

lemma example_wanted: "wanted exampleDomain ''hy'' ''c1'' ''h''"
  by (simp add: wanted_def GetConnection_def GetAccount_def GetHysteria2ConnectionMaterial_def getRow_def lookup_row_Cons example_eval)

section \<open>Properties\<close>

text \<open>
  C11. The agent follows the server in production: whatever the store did and whenever the agent synced before, each time
  starting from an empty agent and asking for an incremental sync only, the next run ends and leaves under every connection
  id exactly the user the server wants there at that moment, and no other; failed kicks do not change that.
\<close>

theorem sync_follows_server:
  assumes "(node_step node kicker)\<^sup>*\<^sup>* (emptyDomainDB, emptyAgentDB, k0, t0) (db, adb, k, t)" "0 < time_UnixMilli t0"
    and "t \<le> clock []" "in_int64 (time_UnixMilli (clock []))"
  shows "\<exists>r adb' k'. hysteriaSync (db, node, clock) kicker False (adb, k) = Some (r, (adb', k')) \<and>
    (\<forall>i. GetAuthUserByConnectionID i adb' = (case desiredUser db node i of None \<Rightarrow> Inl ErrNotFound | Some u \<Rightarrow> Inr u))"
proof -
  obtain r adb' k' where "hysteriaSync (db, node, clock) kicker False (adb, k) = Some (r, (adb', k'))"
    "\<forall>i. userOf adb' i = desiredUser db node i"
    using world_sync [of node db adb k t clock, OF node_run_OK [OF assms(1,2)] assms(3,4), where kicker = kicker] by blast
  then show ?thesis by (intro exI [of _ r] exI [of _ adb'] exI [of _ k']) (simp add: GetAuthUserByConnectionID_def)
qed

theorem sync_follows_server_witness:
  "\<exists>r adb1 k1 r' adb2 k2 u. hysteriaSync (exampleDomain, ''hy'', \<lambda>_. 2000000) None False (emptyAgentDB, ()) = Some (r, (adb1, k1)) \<and>
     GetAuthUserByConnectionID ''c1'' adb1 = Inr u \<and>
     hysteriaSync (heldDomain, ''hy'', \<lambda>_. 6000000) None False (adb1, k1) = Some (r', (adb2, k2)) \<and>
     GetAuthUserByConnectionID ''c1'' adb2 = Inl ErrNotFound"
proof -
  let ?run = "(node_step ''hy'' None)\<^sup>*\<^sup>* (emptyDomainDB, emptyAgentDB, (), 1000000)"
  obtain r adb1 k1 where 1: "hysteriaSync (exampleDomain, ''hy'', \<lambda>_. 2000000) None False (emptyAgentDB, ()) = Some (r, (adb1, k1))"
    "\<forall>i. GetAuthUserByConnectionID i adb1 = (case desiredUser exampleDomain ''hy'' i of None \<Rightarrow> Inl ErrNotFound | Some u \<Rightarrow> Inr u)"
    using sync_follows_server [OF example_run, of "\<lambda>_. 2000000" "''hy''" None "()"] by (auto simp: in_int64_def)
  obtain u where u: "desiredUser exampleDomain ''hy'' ''c1'' = Some u" using example_desired by blast
  have "node_step ''hy'' None (exampleDomain, emptyAgentDB, (), 1000000) (exampleDomain, adb1, k1, 2000000)"
    using node_step.sync [OF 1(1), of 1000000] by (simp add: in_int64_def)
  moreover have "node_step ''hy'' None (exampleDomain, adb1, k1, 2000000) (heldDomain, adb1, k1, 5000000)"
    unfolding heldDomain_def
    by (rule node_step.server [OF server_step.status], rule prod.collapse [symmetric]) (simp_all add: in_int64_def)
  ultimately have run: "?run (heldDomain, adb1, k1, 5000000)"
    by (rule rtranclp.rtrancl_into_rtrancl [OF rtranclp.rtrancl_into_rtrancl [OF example_run]])
  obtain r' adb2 k2 where "hysteriaSync (heldDomain, ''hy'', \<lambda>_. 6000000) None False (adb1, k1) = Some (r', (adb2, k2))"
    "\<forall>i. GetAuthUserByConnectionID i adb2 = (case desiredUser heldDomain ''hy'' i of None \<Rightarrow> Inl ErrNotFound | Some u \<Rightarrow> Inr u)"
    using sync_follows_server [OF run, of "\<lambda>_. 6000000"] by (auto simp: in_int64_def)
  moreover have "desiredUser heldDomain ''hy'' ''c1'' = None" by (simp add: desiredUser_def heldDomain_project lookup_row_Cons)
  ultimately show ?thesis using 1 u by fastforce
qed

text \<open>
  C8. End to end: after any run of the agent, the authentication endpoint lets a client in with an id and a password
  exactly when, on the server, this is a Hysteria connection of that node which is active and belongs to an active
  account, and the password matches its stored hash. (Password hashes are ASCII, as bcrypt writes them.)
\<close>

theorem access_follows_server:
  assumes "(node_step node kicker)\<^sup>*\<^sup>* (emptyDomainDB, emptyAgentDB, k0, t0) (db, adb, k, t)" "0 < time_UnixMilli t0"
    and "t \<le> clock []" "in_int64 (time_UnixMilli (clock []))"
    and run: "hysteriaSync (db, node, clock) kicker False (adb, k) = Some (r, (adb', k'))"
    and "list_all (\<lambda>m. ascii (hmPasswordHash m)) (dbHysteriaMaterials db)"
    and req: "decodeAuthRequest body = Some cred" "splitAuth cred = (i, pw)" "i \<noteq> []" "pw \<noteq> []"
  shows "auth bcrypt adb' ''POST'' body =
    (if \<exists>h. wanted db node i h \<and> verifyPassword bcrypt h pw
     then Reply \<lparr>arsOK = True, arsID = i, arsMsg = []\<rparr> else notAllowed)"
proof -
  have w: "worldOK node (db, adb, k, t)" by (rule node_run_OK [OF assms(1,2)])
  have a: "usersOK adb'" "userOf adb' i = desiredUser db node i" "domainOK db"
    using world_sync [of node db adb k t clock, OF w assms(3,4), where kicker = kicker] run w by auto
  show ?thesis by (rule auth_desired [OF a(3) assms(6) a(1,2) req])
qed

theorem access_follows_server_witness:
  "\<exists>r adb k. hysteriaSync (exampleDomain, ''hy'', \<lambda>_. 2000000) None False (emptyAgentDB, ()) = Some (r, (adb, k)) \<and>
     auth (\<lambda>_ _. False) adb ''POST'' exampleBody = Reply \<lparr>arsOK = True, arsID = ''c1'', arsMsg = []\<rparr>"
proof -
  have w: "worldOK ''hy'' (exampleDomain, emptyAgentDB, (), 1000000)" by (rule node_run_OK [OF example_run [of _ None]]) simp
  obtain r adb k where run: "hysteriaSync (exampleDomain, ''hy'', \<lambda>_. 2000000) None False (emptyAgentDB, ()) = Some (r, (adb, k))"
    using world_sync [OF w, of "\<lambda>_. 2000000" None] by (auto simp: in_int64_def)
  have hashes: "list_all (\<lambda>m. ascii (hmPasswordHash m)) (dbHysteriaMaterials exampleDomain)" by (simp add: example_eval)
  have split: "splitAuth ''c1:h'' = (''c1'', ''h'')" by (simp add: splitAuth_def TrimSpace_ascii)
  have "verifyPassword (\<lambda>_ _. False) ''h'' ''h''" by (simp add: verifyPassword_def)
  then show ?thesis using example_wanted run
    access_follows_server [OF example_run _ _ _ run hashes decode_example split, of "\<lambda>_ _. False"] by (auto simp: in_int64_def)
qed

text \<open>
  C12. The one operation without a version: when only the status of an account is set to held after a run that stored its cursor, a
  connection of it whose version is older than that run stays authorised on the agent through the next incremental run,
  although the server does not want it any more. The handler that holds an account has to update every connection too.
\<close>

theorem account_hold_missed:
  assumes "(node_step node kicker)\<^sup>*\<^sup>* (emptyDomainDB, emptyAgentDB, k0, t0) (db, adb, k, t)" "0 < time_UnixMilli t0"
    and now: "t \<le> clock []" "in_int64 (time_UnixMilli (clock []))"
    and run: "hysteriaSync (db, node, clock) kicker False (adb, k) = Some (r1, (adb1, k1))"
      "GetState AuthSyncCursorKey adb1 = (Inr (FormatInt (time_UnixMilli (clock []))), adb1)"
    and c: "GetConnection db i = Inr c" "wanted db node i h" "cnDesiredVersionMS c < time_UnixMilli (clock [])"
    and hold: "UpdateAccountStatus now (cnAccountID c) StatusHeld db = (r, db')"
  shows "\<exists>r' adb2 k2 u. hysteriaSync (db', node, clock') kicker False (adb1, k1) = Some (r', (adb2, k2)) \<and>
    GetAuthUserByConnectionID i adb2 = Inr u \<and> (\<nexists>h. wanted db' node i h)"
proof -
  have w: "worldOK node (db, adb, k, t)" by (rule node_run_OK [OF assms(1,2)])
  let ?tc = "time_UnixMilli (clock [])"
  have cursor: "lookup_row fst (sync_state adb1) AuthSyncCursorKey = Some (AuthSyncCursorKey, FormatInt ?tc)"
    using run(2) by (rule GetState_lookup)
  have 1: "userOf adb1 i = desiredUser db node i" "usersOK adb1" "domainOK db" "0 < ?tc"
    "lookup_row fst (sync_state adb1) AuthSyncCursorKey = Some (AuthSyncCursorKey, FormatInt ?tc)"
    using world_sync [of node db adb k t clock, OF w now, where kicker = kicker] run(1) w cursor by auto
  have db': "dbConnections db' = dbConnections db" "dbHysteriaMaterials db' = dbHysteriaMaterials db"
    "dbAccounts db' = update_rows (\<lambda>a. acID a = cnAccountID c) (\<lambda>a. a\<lparr>acStatus := StatusHeld, acUpdatedAt := now\<rparr>) (dbAccounts db)"
    using hold by (auto simp: UpdateAccountStatus_def Let_def)
  have ok: "domainOK db'" by (rule domainOK_UpdateAccountStatus [OF 1(3) hold])
  have part: "\<not> fullAnswer False ?tc" using 1(4) by (simp add: fullAnswer_def)
  have "i \<notin> chConnectionID ` set (hysteriaManifest (db', node, clock') False ?tc)"
    using c(1,3) part getRow_keyed [OF domainOK_D(3) [OF ok]]
    unfolding in_manifest_iff inManifest_def by (auto simp: hysteriaProject_def nodeConns_def GetConnection_def db' hysteriaRow_def Let_def)
  then obtain r' adb2 k2 where 2: "hysteriaSync (db', node, clock') kicker False (adb1, k1) = Some (r', (adb2, k2))"
    "userOf adb2 i = userOf adb1 i"
    using run_incremental [OF ok start_cursor [OF 1(5) now(2)] part 1(2), where node = node and clock = clock' and kicker = kicker] by blast
  obtain u where "desiredUser db node i = Some u" using desiredUser_wanted [OF 1(3)] c(2) by blast
  moreover have "\<nexists>h. wanted db' node i h"
    using c(1) by (auto simp: wanted_def GetConnection_def GetAccount_def getRow_lookup db' set_update_rows split: if_splits dest!: lookup_row_SomeD)
  ultimately show ?thesis using 1(1) 2 by (auto simp: GetAuthUserByConnectionID_def)
qed

theorem account_hold_missed_witness:
  "\<exists>r adb k r' adb' k' u. hysteriaSync (exampleDomain, ''hy'', \<lambda>_. 2000000) None False (emptyAgentDB, ()) = Some (r, (adb, k)) \<and>
     hysteriaSync (snd (UpdateAccountStatus 3000000 ''00000000-0000-4000-8000-000000000000'' StatusHeld exampleDomain), ''hy'', \<lambda>_. 6000000)
       None False (adb, k) = Some (r', (adb', k')) \<and> GetAuthUserByConnectionID ''c1'' adb' = Inr u"
proof -
  have w: "worldOK ''hy'' (exampleDomain, emptyAgentDB, (), 1000000)" by (rule node_run_OK [OF example_run [of _ None]]) simp
  obtain r adb k where run: "hysteriaSync (exampleDomain, ''hy'', \<lambda>_. 2000000) None False (emptyAgentDB, ()) = Some (r, (adb, k))"
    "lookup_row fst (sync_state adb) AuthSyncCursorKey = Some (AuthSyncCursorKey, FormatInt 2)"
    using world_sync [OF w, of "\<lambda>_. 2000000" None] by (auto simp: in_int64_def emptyAgentDB_def)
  obtain c where c: "GetConnection exampleDomain ''c1'' = Inr c" "cnDesiredVersionMS c = 1" "cnAccountID c = ''00000000-0000-4000-8000-000000000000''"
    by (simp add: GetConnection_def getRow_def lookup_row_Cons example_eval)
  have "GetState AuthSyncCursorKey adb = (Inr (FormatInt 2), adb)" using run(2) by (simp add: GetState_def)
  then show ?thesis
    using account_hold_missed [OF example_run _ _ _ run(1) _ c(1) example_wanted _ prod.collapse [symmetric], of 3000000 "\<lambda>_. 6000000"] run(1) c
    by (auto simp: in_int64_def)
qed

end
