(* ===== verification/Auth_Store.thy ===== *)
theory Auth_Store
  imports Domain
begin

text \<open>
  The authentication tables of the server, \<open>internal/server/storage/sqlite.go\<close>: identities, invites, credentials,
  sessions with their refresh tokens, recovery codes and admin profiles, with the unique indexes of the schema.
  \<open>now\<close> is the clock of a call, \<open>rnd\<close> the random bytes of its calls of \<open>NewID\<close>. A zero time is NULL in the columns
  that may be NULL; comparisons the queries make on the text of a time are made on that text.
\<close>

section \<open>Tables\<close>

record AuthRecoveryCode =
  rcoID :: string
  rcoIdentityID :: string
  rcoCodeHash :: string
  rcoStatus :: string
  rcoUsedAt :: int
  rcoCreatedAt :: int
  rcoUpdatedAt :: int

record AuthDB =
  adIdentities :: "AuthIdentity list"
  adProfiles :: "AdminProfile list"
  adCredentials :: "AuthCredential list"
  adInvites :: "AdminInvite list"
  adSessions :: "AuthSession list"
  adRefreshTokens :: "AuthRefreshToken list"
  adRecoveryCodes :: "AuthRecoveryCode list"

definition emptyAuthDB :: AuthDB where
  "emptyAuthDB = \<lparr>adIdentities = [], adProfiles = [], adCredentials = [], adInvites = [], adSessions = [],
     adRefreshTokens = [], adRecoveryCodes = []\<rparr>"

abbreviation (input) AuthIdentityKindAdmin :: string where "AuthIdentityKindAdmin \<equiv> ''admin''"
abbreviation (input) AuthIdentityKindUser :: string where "AuthIdentityKindUser \<equiv> ''user''"
abbreviation (input) AuthCredentialTypePassword :: string where "AuthCredentialTypePassword \<equiv> ''password''"
abbreviation (input) AdminInviteStatusActive :: string where "AdminInviteStatusActive \<equiv> ''active''"
abbreviation (input) AdminInviteStatusUsed :: string where "AdminInviteStatusUsed \<equiv> ''used''"
abbreviation (input) AdminInviteStatusRevoked :: string where "AdminInviteStatusRevoked \<equiv> ''revoked''"
abbreviation (input) AuthRefreshTokenStatusActive :: string where "AuthRefreshTokenStatusActive \<equiv> ''active''"
abbreviation (input) AuthRefreshTokenStatusRotated :: string where "AuthRefreshTokenStatusRotated \<equiv> ''rotated''"
abbreviation (input) AuthRefreshTokenStatusRevoked :: string where "AuthRefreshTokenStatusRevoked \<equiv> ''revoked''"
abbreviation (input) AuthRefreshTokenStatusReused :: string where "AuthRefreshTokenStatusReused \<equiv> ''reused''"

definition identityClash :: "AuthIdentity \<Rightarrow> AuthIdentity \<Rightarrow> bool" where
  "identityClash v x \<longleftrightarrow> idID v = idID x \<or>
     idKind v = AuthIdentityKindAdmin \<and> idStatus v = StatusActive \<and> idKind x = AuthIdentityKindAdmin \<and>
     idStatus x = StatusActive \<and> idLogin v = idLogin x"

definition profileClash :: "AdminProfile \<Rightarrow> AdminProfile \<Rightarrow> bool" where
  "profileClash v x \<longleftrightarrow> apID v = apID x \<or> apIdentityID v = apIdentityID x"

definition credentialClash :: "AuthCredential \<Rightarrow> AuthCredential \<Rightarrow> bool" where
  "credentialClash v x \<longleftrightarrow> crID v = crID x \<or>
     crStatus v \<noteq> StatusDeleted \<and> crStatus x \<noteq> StatusDeleted \<and> crIdentityID v = crIdentityID x \<and> crType v = crType x"

definition inviteClash :: "AdminInvite \<Rightarrow> AdminInvite \<Rightarrow> bool" where
  "inviteClash v x \<longleftrightarrow> ivID v = ivID x \<or> ivTokenHash v = ivTokenHash x"

definition sessionClash :: "AuthSession \<Rightarrow> AuthSession \<Rightarrow> bool" where
  "sessionClash v x \<longleftrightarrow> seID v = seID x \<or> seTokenHash v = seTokenHash x"

definition refreshClash :: "AuthRefreshToken \<Rightarrow> AuthRefreshToken \<Rightarrow> bool" where
  "refreshClash v x \<longleftrightarrow> rtID v = rtID x \<or> rtTokenHash v = rtTokenHash x"

definition firstRow :: "('r \<Rightarrow> bool) \<Rightarrow> 'r list \<Rightarrow> 'r result" where
  "firstRow P t = (case find P t of None \<Rightarrow> Inl ErrNotFound | Some r \<Rightarrow> Inr r)"

definition orNew :: "string \<Rightarrow> 8 word list \<Rightarrow> string" where
  "orNew i rnd = (if i = [] then NewID rnd else i)"

definition orElse :: "string \<Rightarrow> string \<Rightarrow> string" where
  "orElse s d = (if s = [] then d else s)"

section \<open>Identities, profiles and credentials\<close>

definition CreateAuthIdentity :: "random \<Rightarrow> int \<Rightarrow> AuthIdentity \<Rightarrow> (AuthDB, AuthIdentity) op" where
  "CreateAuthIdentity rnd now v db =
     (let v' = v\<lparr>idID := orNew (idID v) (rnd 0), idStatus := orElse (idStatus v) StatusActive, idCreatedAt := now, idUpdatedAt := now\<rparr>
      in commit v' (bindR (insert_row identityClash v' (adIdentities db)) (\<lambda>t. Inr (db\<lparr>adIdentities := t\<rparr>))) db)"

definition GetAuthIdentity :: "AuthDB \<Rightarrow> string \<Rightarrow> AuthIdentity result" where
  "GetAuthIdentity db i = getRow idID (adIdentities db) i"

definition UpdateAuthIdentity :: "int \<Rightarrow> AuthIdentity \<Rightarrow> (AuthDB, AuthIdentity) op" where
  "UpdateAuthIdentity now v db =
     (case checked_update identityClash (\<lambda>r. idID r = idID v)
             (\<lambda>r. r\<lparr>idLogin := idLogin v, idDisplayName := idDisplayName v, idAccountID := idAccountID v, idStatus := idStatus v,
                    idMustChangePassword := idMustChangePassword v, idVerifiedAt := idVerifiedAt v, idUpdatedAt := now\<rparr>)
             (adIdentities db) of
        Inl e \<Rightarrow> (Inl e, db)
      | Inr t \<Rightarrow> let db' = db\<lparr>adIdentities := t\<rparr> in (GetAuthIdentity db' (idID v), db'))"

definition FindActiveAdminIdentityByLogin :: "AuthDB \<Rightarrow> string \<Rightarrow> AuthIdentity result" where
  "FindActiveAdminIdentityByLogin db login =
     firstRow (\<lambda>r. idKind r = AuthIdentityKindAdmin \<and> idLogin r = login \<and> idStatus r = StatusActive) (adIdentities db)"

definition FindActiveUserIdentityByAccountID :: "AuthDB \<Rightarrow> string \<Rightarrow> AuthIdentity result" where
  "FindActiveUserIdentityByAccountID db accountID =
     firstRow (\<lambda>r. idKind r = AuthIdentityKindUser \<and> idAccountID r = accountID \<and> idStatus r = StatusActive) (adIdentities db)"

definition CreateAdminProfile :: "random \<Rightarrow> int \<Rightarrow> AdminProfile \<Rightarrow> (AuthDB, AdminProfile) op" where
  "CreateAdminProfile rnd now v db =
     (let v' = v\<lparr>apID := orNew (apID v) (rnd 0), apStatus := orElse (apStatus v) StatusActive, apCreatedAt := now, apUpdatedAt := now\<rparr>
      in commit v' (bindR (insert_row profileClash v' (adProfiles db)) (\<lambda>t. Inr (db\<lparr>adProfiles := t\<rparr>))) db)"

definition GetAdminProfile :: "AuthDB \<Rightarrow> string \<Rightarrow> AdminProfile result" where
  "GetAdminProfile db identityID = getRow apIdentityID (adProfiles db) identityID"

definition UpdateAdminProfile :: "int \<Rightarrow> AdminProfile \<Rightarrow> (AuthDB, AdminProfile) op" where
  "UpdateAdminProfile now v db =
     (let db' = db\<lparr>adProfiles := update_rows (\<lambda>r. apID r = apID v)
                   (\<lambda>r. r\<lparr>apRole := apRole v, apStatus := apStatus v, apUpdatedAt := now\<rparr>) (adProfiles db)\<rparr>
      in (GetAdminProfile db' (apIdentityID v), db'))"

definition CreateAuthCredential :: "random \<Rightarrow> int \<Rightarrow> AuthCredential \<Rightarrow> (AuthDB, AuthCredential) op" where
  "CreateAuthCredential rnd now v db =
     (let v' = v\<lparr>crID := orNew (crID v) (rnd 0), crStatus := orElse (crStatus v) StatusActive, crCreatedAt := now, crUpdatedAt := now\<rparr>
      in commit v' (bindR (insert_row credentialClash v' (adCredentials db)) (\<lambda>t. Inr (db\<lparr>adCredentials := t\<rparr>))) db)"

definition GetAuthCredential :: "AuthDB \<Rightarrow> string \<Rightarrow> string \<Rightarrow> AuthCredential result" where
  "GetAuthCredential db identityID credentialType =
     firstRow (\<lambda>r. crIdentityID r = identityID \<and> crType r = credentialType \<and> crStatus r \<noteq> StatusDeleted) (adCredentials db)"

definition UpdateAuthCredential :: "int \<Rightarrow> AuthCredential \<Rightarrow> (AuthDB, AuthCredential) op" where
  "UpdateAuthCredential now v db =
     (case checked_update credentialClash (\<lambda>r. crID r = crID v)
             (\<lambda>r. r\<lparr>crSecretHash := crSecretHash v, crFailedAttempts := crFailedAttempts v, crLockedUntil := crLockedUntil v,
                    crStatus := crStatus v, crUpdatedAt := now\<rparr>) (adCredentials db) of
        Inl e \<Rightarrow> (Inl e, db)
      | Inr t \<Rightarrow> let db' = db\<lparr>adCredentials := t\<rparr> in (GetAuthCredential db' (crIdentityID v) (crType v), db'))"

section \<open>Invites and recovery codes\<close>

definition CreateAdminInvite :: "random \<Rightarrow> int \<Rightarrow> AdminInvite \<Rightarrow> (AuthDB, AdminInvite) op" where
  "CreateAdminInvite rnd now v db =
     (let v' = v\<lparr>ivID := orNew (ivID v) (rnd 0), ivStatus := orElse (ivStatus v) AdminInviteStatusActive, ivCreatedAt := now, ivUpdatedAt := now\<rparr>
      in commit v' (bindR (insert_row inviteClash v' (adInvites db)) (\<lambda>t. Inr (db\<lparr>adInvites := t\<rparr>))) db)"

definition GetAdminInvite :: "AuthDB \<Rightarrow> string \<Rightarrow> AdminInvite result" where
  "GetAdminInvite db i = firstRow (\<lambda>r. ivID r = i) (adInvites db)"

definition GetAdminInviteByTokenHash :: "AuthDB \<Rightarrow> string \<Rightarrow> AdminInvite result" where
  "GetAdminInviteByTokenHash db h = firstRow (\<lambda>r. ivTokenHash r = h) (adInvites db)"

definition FindActiveSystemOwnerInvite :: "int \<Rightarrow> AuthDB \<Rightarrow> AdminInvite result" where
  "FindActiveSystemOwnerInvite at db =
     (case latest (\<lambda>a b. ts (ivCreatedAt a) < ts (ivCreatedAt b))
             (filter (\<lambda>r. ivStatus r = AdminInviteStatusActive \<and> ivRole r = ''owner'' \<and> ivInvitedByIdentityID r = [] \<and>
                 ivInvitedByLoginSnapshot r = ''system'' \<and> ts at < ts (ivExpiresAt r)) (adInvites db)) of
        None \<Rightarrow> Inl ErrNotFound | Some r \<Rightarrow> Inr r)"

definition MarkAdminInviteUsed :: "int \<Rightarrow> string \<Rightarrow> string \<Rightarrow> (AuthDB, AdminInvite) op" where
  "MarkAdminInviteUsed now inviteID identityID db =
     (let hit = (\<lambda>r. ivID r = inviteID \<and> ivStatus r = AdminInviteStatusActive)
      in if \<not> list_ex hit (adInvites db) then (Inl ErrNotFound, db)
         else
           let db' = db\<lparr>adInvites := update_rows hit (\<lambda>r. r\<lparr>ivStatus := AdminInviteStatusUsed, ivUsedByIdentityID := identityID,
                 ivUsedAt := now, ivUpdatedAt := now\<rparr>) (adInvites db)\<rparr>
           in (GetAdminInvite db' inviteID, db'))"

definition RevokeAdminInvite :: "int \<Rightarrow> string \<Rightarrow> (AuthDB, AdminInvite) op" where
  "RevokeAdminInvite now inviteID db =
     (let hit = (\<lambda>r. ivID r = inviteID \<and> ivStatus r = AdminInviteStatusActive)
      in if \<not> list_ex hit (adInvites db) then (Inl ErrNotFound, db)
         else
           let db' = db\<lparr>adInvites := update_rows hit (\<lambda>r. r\<lparr>ivStatus := AdminInviteStatusRevoked, ivRevokedAt := now,
                 ivUpdatedAt := now\<rparr>) (adInvites db)\<rparr>
           in (GetAdminInvite db' inviteID, db'))"

definition CreateAuthRecoveryCode :: "random \<Rightarrow> int \<Rightarrow> AuthRecoveryCode \<Rightarrow> (AuthDB, AuthRecoveryCode) op" where
  "CreateAuthRecoveryCode rnd now v db =
     (let v' = v\<lparr>rcoID := orNew (rcoID v) (rnd 0), rcoStatus := orElse (rcoStatus v) StatusActive, rcoCreatedAt := now, rcoUpdatedAt := now\<rparr>
      in commit v' (bindR (insert_row (sameKey rcoID) v' (adRecoveryCodes db)) (\<lambda>t. Inr (db\<lparr>adRecoveryCodes := t\<rparr>))) db)"

definition ListAuthRecoveryCodes :: "AuthDB \<Rightarrow> string \<Rightarrow> AuthRecoveryCode list" where
  "ListAuthRecoveryCodes db identityID =
     sort_key (\<lambda>r. ts (rcoCreatedAt r)) (filter (\<lambda>r. rcoIdentityID r = identityID) (adRecoveryCodes db))"

definition MarkAuthRecoveryCodeUsed :: "int \<Rightarrow> string \<Rightarrow> (AuthDB, AuthRecoveryCode) op" where
  "MarkAuthRecoveryCodeUsed now i db =
     (let db' = db\<lparr>adRecoveryCodes := update_rows (\<lambda>r. rcoID r = i)
                   (\<lambda>r. r\<lparr>rcoStatus := StatusDeleted, rcoUsedAt := now, rcoUpdatedAt := now\<rparr>) (adRecoveryCodes db)\<rparr>
      in (getRow rcoID (adRecoveryCodes db') i, db'))"

section \<open>Sessions and refresh tokens\<close>

definition refreshTokenFor :: "8 word list \<Rightarrow> 8 word list \<Rightarrow> int \<Rightarrow> AuthSession \<Rightarrow> AuthRefreshToken" where
  "refreshTokenFor rndID rndFamily now s =
     \<lparr>rtID = NewID rndID, rtTokenHash = seRefreshTokenHash s, rtSessionID = seID s, rtIdentityID = seIdentityID s,
      rtFamilyID = NewID rndFamily, rtStatus = AuthRefreshTokenStatusActive, rtExpiresAt = seRefreshExpiresAt s,
      rtAbsoluteExpiresAt = seRefreshAbsoluteUntil s, rtRotatedAt = zero_time, rtLastUsedAt = zero_time,
      rtCreatedAt = now, rtUpdatedAt = now\<rparr>"

definition CreateAuthSession :: "random \<Rightarrow> int \<Rightarrow> AuthSession \<Rightarrow> (AuthDB, AuthSession) op" where
  "CreateAuthSession rnd now v db =
     (let v' = v\<lparr>seID := orNew (seID v) (rnd 0), seStatus := orElse (seStatus v) StatusActive, seCreatedAt := now, seUpdatedAt := now\<rparr>
      in commit v' (bindR (insert_row sessionClash v' (adSessions db)) (\<lambda>ss.
           bindR (if seRefreshTokenHash v' = [] then Inr (adRefreshTokens db)
                  else insert_row refreshClash (refreshTokenFor (rnd 1) (rnd 2) now v') (adRefreshTokens db)) (\<lambda>rts.
           Inr (db\<lparr>adSessions := ss, adRefreshTokens := rts\<rparr>)))) db)"

definition GetAuthSessionByTokenHash :: "AuthDB \<Rightarrow> string \<Rightarrow> AuthSession result" where
  "GetAuthSessionByTokenHash db h = firstRow (\<lambda>s. seTokenHash s = h) (adSessions db)"

definition GetActiveAuthSessionByTokenHash :: "AuthDB \<Rightarrow> string \<Rightarrow> AuthSession result" where
  "GetActiveAuthSessionByTokenHash db h = firstRow (\<lambda>s. seTokenHash s = h \<and> seStatus s = StatusActive) (adSessions db)"

text \<open>The join of the sessions with their refresh tokens.\<close>

definition sessionJoin :: "AuthDB \<Rightarrow> (AuthSession \<times> AuthRefreshToken) list" where
  "sessionJoin db = filter (\<lambda>(s, r). rtSessionID r = seID s) (List.product (adSessions db) (adRefreshTokens db))"

definition GetActiveAuthSessionByRefreshHash :: "AuthDB \<Rightarrow> string \<Rightarrow> AuthSession result" where
  "GetActiveAuthSessionByRefreshHash db h =
     bindR (firstRow (\<lambda>(s, r). rtTokenHash r = h \<and> rtStatus r = AuthRefreshTokenStatusActive \<and> seStatus s = StatusActive)
       (sessionJoin db)) (\<lambda>(s, r). Inr s)"

definition GetAuthSessionByRefreshHashForRotation :: "int \<Rightarrow> AuthDB \<Rightarrow> string \<Rightarrow> int \<Rightarrow> AuthSession result" where
  "GetAuthSessionByRefreshHashForRotation now db h graceWindow =
     bindR (firstRow (\<lambda>(s, r). rtTokenHash r = h \<and> seStatus s = StatusActive \<and>
         (rtStatus r = AuthRefreshTokenStatusActive \<or>
          rtStatus r = AuthRefreshTokenStatusRotated \<and> \<not> IsZero (rtRotatedAt r) \<and> ts (now - graceWindow) \<le> ts (rtRotatedAt r)))
       (sessionJoin db)) (\<lambda>(s, r). Inr s)"

definition zeroRefreshToken :: AuthRefreshToken where
  "zeroRefreshToken = \<lparr>rtID = [], rtTokenHash = [], rtSessionID = [], rtIdentityID = [], rtFamilyID = [], rtStatus = [],
     rtExpiresAt = zero_time, rtAbsoluteExpiresAt = zero_time, rtRotatedAt = zero_time, rtLastUsedAt = zero_time,
     rtCreatedAt = zero_time, rtUpdatedAt = zero_time\<rparr>"

text \<open>The three branches of the rotation: an active token, a token rotated a moment ago, and any other.\<close>

definition rotateActive ::
  "8 word list \<Rightarrow> int \<Rightarrow> AuthRefreshToken \<Rightarrow> AuthSession \<Rightarrow> string \<Rightarrow> int \<Rightarrow> string \<Rightarrow> int \<Rightarrow> (AuthDB, RefreshTokenRotation) op" where
  "rotateActive rnd now old session tokenHash expiresAt refreshHash refreshExpiresAt db =
     (let session' = session\<lparr>seTokenHash := tokenHash, seExpiresAt := expiresAt, seRefreshTokenHash := refreshHash,
            seRefreshExpiresAt := refreshExpiresAt, seLastUsedAt := now, seUpdatedAt := now\<rparr>;
          new = \<lparr>rtID = NewID rnd, rtTokenHash = refreshHash, rtSessionID = seID session, rtIdentityID = seIdentityID session,
            rtFamilyID = rtFamilyID old, rtStatus = AuthRefreshTokenStatusActive, rtExpiresAt = refreshExpiresAt,
            rtAbsoluteExpiresAt = rtAbsoluteExpiresAt old, rtRotatedAt = zero_time, rtLastUsedAt = zero_time,
            rtCreatedAt = now, rtUpdatedAt = now\<rparr>;
          t1 = update_rows (\<lambda>r. rtID r = rtID old)
            (\<lambda>r. r\<lparr>rtStatus := AuthRefreshTokenStatusRotated, rtRotatedAt := now, rtLastUsedAt := now, rtUpdatedAt := now\<rparr>)
            (adRefreshTokens db);
          t2 = update_rows (\<lambda>r. rtSessionID r = seID session \<and> rtStatus r = AuthRefreshTokenStatusActive \<and> rtID r \<noteq> rtID old)
            (\<lambda>r. r\<lparr>rtStatus := AuthRefreshTokenStatusRevoked, rtUpdatedAt := now\<rparr>) t1
      in commit \<lparr>roSession = session', roRefreshToken = new, roGraceRefreshToken = zeroRefreshToken, roGrace = False\<rparr>
           (bindR (checked_update sessionClash (\<lambda>s. seID s = seID session)
              (\<lambda>s. s\<lparr>seTokenHash := tokenHash, seExpiresAt := expiresAt, seRefreshTokenHash := refreshHash,
                     seRefreshExpiresAt := refreshExpiresAt, seLastUsedAt := now, seUpdatedAt := now\<rparr>) (adSessions db)) (\<lambda>ss.
            bindR (insert_row refreshClash new t2) (\<lambda>rts.
            Inr (db\<lparr>adSessions := ss, adRefreshTokens := rts\<rparr>)))) db)"

definition rotateGrace :: "int \<Rightarrow> AuthRefreshToken \<Rightarrow> AuthSession \<Rightarrow> (AuthDB, RefreshTokenRotation) op" where
  "rotateGrace now old session db =
     (let rts = update_rows (\<lambda>r. rtID r = rtID old) (\<lambda>r. r\<lparr>rtLastUsedAt := now, rtUpdatedAt := now\<rparr>) (adRefreshTokens db)
      in case latest (\<lambda>a b. ts (rtCreatedAt a) < ts (rtCreatedAt b))
                (filter (\<lambda>r. rtSessionID r = seID session \<and> rtStatus r = AuthRefreshTokenStatusActive) rts) of
           None \<Rightarrow> (Inl ErrNotFound, db)
         | Some current \<Rightarrow>
             (Inr \<lparr>roSession = session\<lparr>seRefreshTokenHash := rtTokenHash current, seRefreshExpiresAt := rtExpiresAt current\<rparr>,
                   roRefreshToken = old, roGraceRefreshToken = current, roGrace = True\<rparr>,
              db\<lparr>adRefreshTokens := rts\<rparr>))"

definition revokeFamily :: "int \<Rightarrow> AuthRefreshToken \<Rightarrow> AuthSession \<Rightarrow> AuthDB \<Rightarrow> AuthDB" where
  "revokeFamily now old session db =
     db\<lparr>adRefreshTokens := update_rows (\<lambda>r. rtFamilyID r = rtFamilyID old)
          (\<lambda>r. r\<lparr>rtStatus := (if rtID r = rtID old then AuthRefreshTokenStatusReused else AuthRefreshTokenStatusRevoked),
                 rtLastUsedAt := (if rtID r = rtID old then now else rtLastUsedAt r), rtUpdatedAt := now\<rparr>) (adRefreshTokens db),
        adSessions := update_rows (\<lambda>s. seID s = seID session) (\<lambda>s. s\<lparr>seStatus := StatusDeleted, seUpdatedAt := now\<rparr>) (adSessions db)\<rparr>"

definition RotateAuthRefreshToken ::
  "8 word list \<Rightarrow> int \<Rightarrow> string \<Rightarrow> string \<Rightarrow> int \<Rightarrow> string \<Rightarrow> int \<Rightarrow> int \<Rightarrow> (AuthDB, RefreshTokenRotation) op" where
  "RotateAuthRefreshToken rnd now oldRefreshHash tokenHash expiresAt refreshHash refreshExpiresAt graceWindow db =
     (case firstRow (\<lambda>r. rtTokenHash r = oldRefreshHash) (adRefreshTokens db) of
        Inl e \<Rightarrow> (Inl e, db)
      | Inr old \<Rightarrow>
          (case firstRow (\<lambda>s. seID s = rtSessionID old) (adSessions db) of
             Inl e \<Rightarrow> (Inl e, db)
           | Inr session \<Rightarrow>
               if seStatus session \<noteq> StatusActive then (Inl ErrNotFound, db)
               else if rtStatus old = AuthRefreshTokenStatusActive
               then rotateActive rnd now old session tokenHash expiresAt refreshHash refreshExpiresAt db
               else if rtStatus old = AuthRefreshTokenStatusRotated \<and> \<not> IsZero (rtRotatedAt old) \<and> now \<le> rtRotatedAt old + graceWindow
               then rotateGrace now old session db
               else (Inl ErrNotFound, revokeFamily now old session db)))"

definition UpdateAuthSessionPresence :: "int \<Rightarrow> string \<Rightarrow> int \<Rightarrow> int \<Rightarrow> (AuthDB, AuthSession) op" where
  "UpdateAuthSessionPresence now sessionID lastSeenAt onlineUntil db =
     (let db' = db\<lparr>adSessions := update_rows (\<lambda>s. seID s = sessionID \<and> seStatus s = StatusActive)
                   (\<lambda>s. s\<lparr>seLastSeenAt := lastSeenAt, seOnlineUntil := onlineUntil, seUpdatedAt := now\<rparr>) (adSessions db)\<rparr>
      in (firstRow (\<lambda>s. seID s = sessionID) (adSessions db'), db'))"

definition revokeTokens :: "int \<Rightarrow> (AuthRefreshToken \<Rightarrow> bool) \<Rightarrow> AuthRefreshToken list \<Rightarrow> AuthRefreshToken list" where
  "revokeTokens now P t =
     update_rows (\<lambda>r. P r \<and> rtStatus r \<in> {AuthRefreshTokenStatusActive, AuthRefreshTokenStatusRotated})
       (\<lambda>r. r\<lparr>rtStatus := AuthRefreshTokenStatusRevoked, rtUpdatedAt := now\<rparr>) t"

definition deleteSessions :: "int \<Rightarrow> (AuthSession \<Rightarrow> bool) \<Rightarrow> AuthSession list \<Rightarrow> AuthSession list" where
  "deleteSessions now P t =
     update_rows (\<lambda>s. P s \<and> seStatus s \<noteq> StatusDeleted) (\<lambda>s. s\<lparr>seStatus := StatusDeleted, seUpdatedAt := now\<rparr>) t"

definition RevokeAuthSessionsByIdentityID :: "int \<Rightarrow> string \<Rightarrow> (AuthDB, unit) op" where
  "RevokeAuthSessionsByIdentityID now identityID db =
     (Inr (), db\<lparr>adSessions := deleteSessions now (\<lambda>s. seIdentityID s = identityID) (adSessions db),
                 adRefreshTokens := revokeTokens now (\<lambda>r. rtIdentityID r = identityID) (adRefreshTokens db)\<rparr>)"

definition RevokeOtherAuthSessionsByIdentityID :: "int \<Rightarrow> string \<Rightarrow> string \<Rightarrow> (AuthDB, unit) op" where
  "RevokeOtherAuthSessionsByIdentityID now identityID keep db =
     (Inr (), db\<lparr>adSessions := deleteSessions now (\<lambda>s. seIdentityID s = identityID \<and> seID s \<noteq> keep) (adSessions db),
                 adRefreshTokens := revokeTokens now (\<lambda>r. rtIdentityID r = identityID \<and> rtSessionID r \<noteq> keep) (adRefreshTokens db)\<rparr>)"

definition UpdateAuthSessionTokens :: "int \<Rightarrow> string \<Rightarrow> string \<Rightarrow> int \<Rightarrow> string \<Rightarrow> int \<Rightarrow> (AuthDB, AuthSession) op" where
  "UpdateAuthSessionTokens now sessionID tokenHash expiresAt refreshHash refreshExpiresAt db =
     (case checked_update sessionClash (\<lambda>s. seID s = sessionID)
             (\<lambda>s. s\<lparr>seTokenHash := tokenHash, seExpiresAt := expiresAt, seRefreshTokenHash := refreshHash,
                    seRefreshExpiresAt := refreshExpiresAt, seLastUsedAt := now, seUpdatedAt := now\<rparr>) (adSessions db) of
        Inl e \<Rightarrow> (Inl e, db)
      | Inr t \<Rightarrow> let db' = db\<lparr>adSessions := t\<rparr> in (firstRow (\<lambda>s. seID s = sessionID) (adSessions db'), db'))"

section \<open>Listings\<close>

record AdminIdentityProfile =
  aipIdentity :: AuthIdentity
  aipProfile :: AdminProfile
  aipLastSeenAt :: int
  aipOnlineUntil :: int
  aipOnline :: bool

text \<open>The largest text of a column, NULL left out; the zero time when there is none.\<close>

definition maxTime :: "int list \<Rightarrow> int" where
  "maxTime column = (case latest (\<lambda>a b. ts a < ts b) (filter (\<lambda>t. \<not> IsZero t) column) of None \<Rightarrow> zero_time | Some t \<Rightarrow> t)"

definition ListAdminIdentityProfiles :: "int \<Rightarrow> AuthDB \<Rightarrow> AdminIdentityProfile list" where
  "ListAdminIdentityProfiles now db =
     map (\<lambda>(i, p).
         let live = filter (\<lambda>s. seIdentityID s = idID i \<and> seStatus s = StatusActive) (adSessions db);
             onlineUntil = maxTime (map seOnlineUntil live)
         in \<lparr>aipIdentity = i, aipProfile = p, aipLastSeenAt = maxTime (map seLastSeenAt live), aipOnlineUntil = onlineUntil,
             aipOnline = (\<not> IsZero onlineUntil \<and> now < onlineUntil)\<rparr>)
       (filter (\<lambda>(i, p). apIdentityID p = idID i)
         (List.product (sort_key (\<lambda>i. ts (idCreatedAt i)) (filter (\<lambda>i. idKind i = AuthIdentityKindAdmin) (adIdentities db)))
           (adProfiles db)))"

section \<open>The sessions and their refresh tokens\<close>

definition liveToken :: "AuthRefreshToken \<Rightarrow> bool" where
  "liveToken r \<longleftrightarrow> rtStatus r = AuthRefreshTokenStatusActive"

text \<open>
  What the operations keep: unique keys, every token belongs to a session of its identity, the families are the
  sessions, a session has at most one active token, and the session of an active token is not deleted.
\<close>

definition tokensOK :: "AuthSession list \<Rightarrow> AuthRefreshToken list \<Rightarrow> bool" where
  "tokensOK ss rts \<longleftrightarrow>
     noClash sessionClash ss \<and> noClash refreshClash rts \<and>
     (\<forall>r \<in> set rts. (rtSessionID r, rtIdentityID r) \<in> (\<lambda>s. (seID s, seIdentityID s)) ` set ss) \<and>
     (\<forall>r \<in> set rts. \<forall>q \<in> set rts. rtFamilyID r = rtFamilyID q \<longleftrightarrow> rtSessionID r = rtSessionID q) \<and>
     keyed rtSessionID (filter liveToken rts) \<and>
     (\<forall>r \<in> set rts. liveToken r \<longrightarrow> (\<forall>s \<in> set ss. seID s = rtSessionID r \<longrightarrow> seStatus s \<noteq> StatusDeleted))"

lemma tokensOK_D:
  assumes "tokensOK ss rts"
  shows "noClash sessionClash ss" "noClash refreshClash rts" "keyed seID ss" "keyed rtID rts" "keyed rtTokenHash rts" "keyed seTokenHash ss"
    "keyed rtSessionID (filter liveToken rts)"
  using assms unfolding tokensOK_def
  by (auto intro!: noClash_keyed [of sessionClash ss] noClash_keyed [of refreshClash rts] simp: sessionClash_def refreshClash_def)

text \<open>Retiring tokens and sessions: statuses leave \<open>active\<close>, the other columns that matter stay.\<close>

lemma tokensOK_retire:
  assumes ok: "tokensOK ss rts"
    and f: "\<And>r. rtID (f r) = rtID r \<and> rtTokenHash (f r) = rtTokenHash r \<and> rtSessionID (f r) = rtSessionID r \<and>
      rtIdentityID (f r) = rtIdentityID r \<and> rtFamilyID (f r) = rtFamilyID r \<and> (liveToken (f r) \<longrightarrow> liveToken r)"
    and g: "\<And>s. seID (g s) = seID s \<and> seIdentityID (g s) = seIdentityID s \<and> seTokenHash (g s) = seTokenHash s"
    and live: "\<And>r s. r \<in> set rts \<Longrightarrow> liveToken (f r) \<Longrightarrow> s \<in> set ss \<Longrightarrow> seID s = rtSessionID r \<Longrightarrow>
      seStatus (g s) = StatusDeleted \<Longrightarrow> seStatus s = StatusDeleted"
  shows "tokensOK (map g ss) (map f rts)"
proof -
  have c: "noClash sessionClash (map g ss)" "noClash refreshClash (map f rts)"
    using tokensOK_D(1,2) [OF ok] f g
    by (simp_all add: noClash_def sorted_wrt_map sessionClash_def refreshClash_def)
  have "keyed rtSessionID (filter liveToken (map f rts))"
  proof -
    have "map rtSessionID (filter liveToken (map f rts)) = map rtSessionID (filter (\<lambda>r. liveToken (f r)) rts)"
      using f by (simp add: filter_map o_def)
    moreover have "filter (\<lambda>r. liveToken (f r)) rts = filter (\<lambda>r. liveToken (f r)) (filter liveToken rts)"
      using f by (auto intro!: filter_cong)
    ultimately show ?thesis
      using distinct_map_filter [OF tokensOK_D(7) [OF ok], of "\<lambda>r. liveToken (f r)"] by (simp only:)
  qed
  moreover have "\<forall>r \<in> set (map f rts). (rtSessionID r, rtIdentityID r) \<in> (\<lambda>s. (seID s, seIdentityID s)) ` set (map g ss)"
    using ok f g unfolding tokensOK_def by (simp add: image_image)
  moreover have "\<forall>r \<in> set (map f rts). \<forall>q \<in> set (map f rts). rtFamilyID r = rtFamilyID q \<longleftrightarrow> rtSessionID r = rtSessionID q"
    using ok f unfolding tokensOK_def by simp
  moreover have "seStatus (g s) \<noteq> StatusDeleted" if "r \<in> set rts" "liveToken (f r)" "s \<in> set ss" "seID s = rtSessionID r" for r s
    using that live [OF that] ok f unfolding tokensOK_def by blast
  ultimately show ?thesis using c f g unfolding tokensOK_def by simp
qed

lemma tokensOK_new_session:
  assumes ok: "tokensOK ss rts" and s: "\<forall>x \<in> set ss. \<not> sessionClash s x"
  shows "tokensOK (ss @ [s]) rts"
proof -
  have "seID s \<notin> seID ` set ss" using s by (auto simp: sessionClash_def)
  moreover have "rtSessionID r \<in> seID ` set ss" if "r \<in> set rts" for r using ok that unfolding tokensOK_def by force
  ultimately have "rtSessionID r \<noteq> seID s" if "r \<in> set rts" for r using that by metis
  then show ?thesis using ok s unfolding tokensOK_def by (auto simp: noClash_append)
qed

lemma tokensOK_new_token:
  assumes ok: "tokensOK ss rts" and r: "\<forall>x \<in> set rts. \<not> refreshClash r x"
    and s: "s \<in> set ss" "seID s = rtSessionID r" "seIdentityID s = rtIdentityID r" "seStatus s \<noteq> StatusDeleted"
    and family: "\<forall>q \<in> set rts. rtFamilyID r = rtFamilyID q \<longleftrightarrow> rtSessionID r = rtSessionID q"
    and none: "\<forall>q \<in> set rts. liveToken q \<longrightarrow> rtSessionID q \<noteq> rtSessionID r"
  shows "tokensOK ss (rts @ [r])"
proof -
  have "seStatus x \<noteq> StatusDeleted" if "x \<in> set ss" "seID x = rtSessionID r" for x
    using that s tokensOK_D(3) [OF ok] by (metis distinct_map inj_onD)
  moreover have "keyed rtSessionID (filter liveToken (rts @ [r]))" using tokensOK_D(7) [OF ok] none by auto
  moreover have "noClash refreshClash (rts @ [r])" using r tokensOK_D(2) [OF ok] by (simp add: noClash_append)
  moreover have "(rtSessionID r, rtIdentityID r) \<in> (\<lambda>s. (seID s, seIdentityID s)) ` set ss"
    using s(1-3) by (intro image_eqI [of _ _ s]) simp_all
  moreover have "\<forall>q \<in> set rts. rtFamilyID q = rtFamilyID r \<longleftrightarrow> rtSessionID q = rtSessionID r" using family by (simp add: eq_commute)
  ultimately show ?thesis using ok family unfolding tokensOK_def by simp
qed

end
