(* ===== verification/Auth_Sessions.thy ===== *)
theory Auth_Sessions
  imports Auth_Store
begin

text \<open>
  The authentication store as a transition system: the invariant of sessions and refresh tokens, what a rotation
  replaces, and that replaying a used refresh token ends the session.
\<close>

section \<open>Steps\<close>

text \<open>
  Sessions are created active or held; the family of a new session is a fresh random identifier.
\<close>

inductive auth_step :: "AuthDB \<Rightarrow> AuthDB \<Rightarrow> bool" where
  create_identity: "CreateAuthIdentity rnd now v db = (r, db') \<Longrightarrow> auth_step db db'"
| update_identity: "UpdateAuthIdentity now v db = (r, db') \<Longrightarrow> auth_step db db'"
| create_profile: "CreateAdminProfile rnd now p db = (r, db') \<Longrightarrow> auth_step db db'"
| update_profile: "UpdateAdminProfile now p db = (r, db') \<Longrightarrow> auth_step db db'"
| create_credential: "CreateAuthCredential rnd now c db = (r, db') \<Longrightarrow> auth_step db db'"
| update_credential: "UpdateAuthCredential now c db = (r, db') \<Longrightarrow> auth_step db db'"
| create_invite: "CreateAdminInvite rnd now i db = (r, db') \<Longrightarrow> auth_step db db'"
| use_invite: "MarkAdminInviteUsed now i j db = (r, db') \<Longrightarrow> auth_step db db'"
| revoke_invite: "RevokeAdminInvite now i db = (r, db') \<Longrightarrow> auth_step db db'"
| create_code: "CreateAuthRecoveryCode rnd now k db = (r, db') \<Longrightarrow> auth_step db db'"
| use_code: "MarkAuthRecoveryCodeUsed now i db = (r, db') \<Longrightarrow> auth_step db db'"
| create_session: "CreateAuthSession rnd now s db = (r, db') \<Longrightarrow> seStatus s \<noteq> StatusDeleted \<Longrightarrow>
    NewID (rnd 2) \<notin> rtFamilyID ` set (adRefreshTokens db) \<Longrightarrow> auth_step db db'"
| rotate: "RotateAuthRefreshToken rnd8 now old th e rh re g db = (r, db') \<Longrightarrow> auth_step db db'"
| session_tokens: "UpdateAuthSessionTokens now i th e rh re db = (r, db') \<Longrightarrow> auth_step db db'"
| presence: "UpdateAuthSessionPresence now i seen until db = (r, db') \<Longrightarrow> auth_step db db'"
| revoke: "RevokeAuthSessionsByIdentityID now i db = (r, db') \<Longrightarrow> auth_step db db'"
| revoke_others: "RevokeOtherAuthSessionsByIdentityID now i keep db = (r, db') \<Longrightarrow> auth_step db db'"

definition sessionsOK :: "AuthDB \<Rightarrow> bool" where
  "sessionsOK db \<longleftrightarrow> tokensOK (adSessions db) (adRefreshTokens db)"

lemma tokensOK_sessions:
  assumes "tokensOK ss rts" "noClash sessionClash (map g ss)"
    "\<And>s. seID (g s) = seID s \<and> seIdentityID (g s) = seIdentityID s \<and> seStatus (g s) = seStatus s"
  shows "tokensOK (map g ss) rts"
  using assms unfolding tokensOK_def by (simp add: image_image)

lemma firstRow_Inr: "firstRow P t = Inr r \<Longrightarrow> r \<in> set t \<and> P r"
  by (auto simp: firstRow_def find_Some_iff split: option.splits)

lemma firstRow_Inl: "firstRow P t = Inl e \<longleftrightarrow> e = ErrNotFound \<and> (\<forall>r \<in> set t. \<not> P r)"
  by (auto simp: firstRow_def find_None_iff find_Some_iff split: option.splits)

lemma firstRow_eq: "keyed key t \<Longrightarrow> r \<in> set t \<Longrightarrow> P r \<Longrightarrow> (\<And>x. x \<in> set t \<Longrightarrow> P x \<Longrightarrow> key x = key r) \<Longrightarrow> firstRow P t = Inr r"
  by (cases "firstRow P t") (auto simp: firstRow_Inl dest!: firstRow_Inr dest: inj_onD simp: distinct_map)

text \<open>The tokens after the two updates of a rotation.\<close>

definition rotatedRow :: "int \<Rightarrow> AuthRefreshToken \<Rightarrow> string \<Rightarrow> AuthRefreshToken \<Rightarrow> AuthRefreshToken" where
  "rotatedRow now old sid r =
     (if rtID r = rtID old
      then r\<lparr>rtStatus := AuthRefreshTokenStatusRotated, rtRotatedAt := now, rtLastUsedAt := now, rtUpdatedAt := now\<rparr>
      else if rtSessionID r = sid \<and> rtStatus r = AuthRefreshTokenStatusActive
      then r\<lparr>rtStatus := AuthRefreshTokenStatusRevoked, rtUpdatedAt := now\<rparr> else r)"

lemma rotatedRow_sel [simp]:
  "rtID (rotatedRow now old sid r) = rtID r" "rtTokenHash (rotatedRow now old sid r) = rtTokenHash r"
  "rtSessionID (rotatedRow now old sid r) = rtSessionID r" "rtIdentityID (rotatedRow now old sid r) = rtIdentityID r"
  "rtFamilyID (rotatedRow now old sid r) = rtFamilyID r"
  "liveToken (rotatedRow now old sid r) \<longleftrightarrow> liveToken r \<and> rtID r \<noteq> rtID old \<and> rtSessionID r \<noteq> sid"
  by (auto simp: rotatedRow_def liveToken_def)

definition rotatedSession :: "int \<Rightarrow> string \<Rightarrow> string \<Rightarrow> int \<Rightarrow> string \<Rightarrow> int \<Rightarrow> AuthSession \<Rightarrow> AuthSession" where
  "rotatedSession now sid th e rh re s =
     (if seID s = sid then s\<lparr>seTokenHash := th, seExpiresAt := e, seRefreshTokenHash := rh, seRefreshExpiresAt := re,
        seLastUsedAt := now, seUpdatedAt := now\<rparr> else s)"

lemma rotatedSession_sel [simp]:
  "seID (rotatedSession now sid th e rh re s) = seID s" "seIdentityID (rotatedSession now sid th e rh re s) = seIdentityID s"
  "seStatus (rotatedSession now sid th e rh re s) = seStatus s"
  by (simp_all add: rotatedSession_def)

definition successor :: "8 word list \<Rightarrow> int \<Rightarrow> AuthRefreshToken \<Rightarrow> AuthSession \<Rightarrow> string \<Rightarrow> int \<Rightarrow> AuthRefreshToken" where
  "successor rnd now old session rh re =
     \<lparr>rtID = NewID rnd, rtTokenHash = rh, rtSessionID = seID session, rtIdentityID = seIdentityID session,
      rtFamilyID = rtFamilyID old, rtStatus = AuthRefreshTokenStatusActive, rtExpiresAt = re,
      rtAbsoluteExpiresAt = rtAbsoluteExpiresAt old, rtRotatedAt = zero_time, rtLastUsedAt = zero_time,
      rtCreatedAt = now, rtUpdatedAt = now\<rparr>"

lemma rotated_rows:
  "update_rows (\<lambda>r. rtSessionID r = sid \<and> rtStatus r = AuthRefreshTokenStatusActive \<and> rtID r \<noteq> rtID old)
      (\<lambda>r. r\<lparr>rtStatus := AuthRefreshTokenStatusRevoked, rtUpdatedAt := now\<rparr>)
     (update_rows (\<lambda>r. rtID r = rtID old)
        (\<lambda>r. r\<lparr>rtStatus := AuthRefreshTokenStatusRotated, rtRotatedAt := now, rtLastUsedAt := now, rtUpdatedAt := now\<rparr>) t) =
   map (rotatedRow now old sid) t"
  by (auto simp: update_rows_def rotatedRow_def)

lemma rotated_sessions:
  "update_rows (\<lambda>s. seID s = sid)
     (\<lambda>s. s\<lparr>seTokenHash := th, seExpiresAt := e, seRefreshTokenHash := rh, seRefreshExpiresAt := re, seLastUsedAt := now, seUpdatedAt := now\<rparr>) ss =
   map (rotatedSession now sid th e rh re) ss"
  by (auto simp: update_rows_def rotatedSession_def)

lemma rotateActive_cases:
  assumes "rotateActive rnd now old session th e rh re db = (r, db')"
  obtains err where "r = Inl err" "db' = db"
    | "noClash sessionClash (map (rotatedSession now (seID session) th e rh re) (adSessions db))"
      "\<forall>x \<in> set (adRefreshTokens db). \<not> refreshClash (successor rnd now old session rh re) x"
      "db' = db\<lparr>adSessions := map (rotatedSession now (seID session) th e rh re) (adSessions db),
         adRefreshTokens := map (rotatedRow now old (seID session)) (adRefreshTokens db) @ [successor rnd now old session rh re]\<rparr>"
      "r = Inr \<lparr>roSession = rotatedSession now (seID session) th e rh re session, roRefreshToken = successor rnd now old session rh re,
         roGraceRefreshToken = zeroRefreshToken, roGrace = False\<rparr>"
proof (cases r)
  case (Inl err)
  then show ?thesis using assms that(1) unfolding rotateActive_def Let_def by (auto simp: commit_def split: sum.splits)
next
  case (Inr rot)
  then obtain ss rts where c: "checked_update sessionClash (\<lambda>s. seID s = seID session)
      (\<lambda>s. s\<lparr>seTokenHash := th, seExpiresAt := e, seRefreshTokenHash := rh, seRefreshExpiresAt := re, seLastUsedAt := now, seUpdatedAt := now\<rparr>)
      (adSessions db) = Inr ss"
    "insert_row refreshClash (successor rnd now old session rh re) (map (rotatedRow now old (seID session)) (adRefreshTokens db)) = Inr rts"
    "db' = db\<lparr>adSessions := ss, adRefreshTokens := rts\<rparr>"
    using assms unfolding rotateActive_def Let_def rotated_rows successor_def by auto
  note ss = conjunct2 [OF noClash_checked_update [OF c(1), unfolded rotated_sessions]]
    conjunct1 [OF noClash_checked_update [OF c(1), unfolded rotated_sessions]]
  have "\<forall>x \<in> set (adRefreshTokens db). \<not> refreshClash (successor rnd now old session rh re) x"
    "rts = map (rotatedRow now old (seID session)) (adRefreshTokens db) @ [successor rnd now old session rh re]"
    using c(2) by (auto simp: insert_row_eq refreshClash_def)
  moreover have "rot = \<lparr>roSession = rotatedSession now (seID session) th e rh re session, roRefreshToken = successor rnd now old session rh re,
         roGraceRefreshToken = zeroRefreshToken, roGrace = False\<rparr>"
    using assms Inr unfolding rotateActive_def Let_def by (auto simp: rotatedSession_def successor_def)
  ultimately show ?thesis using ss c(3) Inr by (intro that(2)) simp_all
qed

section \<open>The invariant\<close>

lemma sessionsOK_rotateActive:
  assumes ok: "sessionsOK db" and c: "rotateActive rnd now old session th e rh re db = (r, db')"
    and old: "old \<in> set (adRefreshTokens db)" and s: "session \<in> set (adSessions db)" "seID session = rtSessionID old"
      "seStatus session = StatusActive"
  shows "sessionsOK db'"
  using c
proof (cases rule: rotateActive_cases)
  case 2
  let ?f = "rotatedRow now old (seID session)" and ?g = "rotatedSession now (seID session) th e rh re"
  let ?ss = "adSessions db" and ?rts = "adRefreshTokens db" and ?new = "successor rnd now old session rh re"
  have t: "tokensOK ?ss ?rts" using ok by (simp add: sessionsOK_def)
  have "tokensOK (map id ?ss) (map ?f ?rts)" by (rule tokensOK_retire [OF t]) simp_all
  then have t1: "tokensOK (map ?g ?ss) (map ?f ?rts)" using 2(1) by (intro tokensOK_sessions) simp_all
  have "tokensOK (map ?g ?ss) (map ?f ?rts @ [?new])"
  proof (rule tokensOK_new_token [OF t1])
    show "\<forall>x \<in> set (map ?f ?rts). \<not> refreshClash ?new x" using 2(2) by (auto simp: refreshClash_def)
    show "?g session \<in> set (map ?g ?ss)" using s(1) by simp
    show "\<forall>q \<in> set (map ?f ?rts). rtFamilyID ?new = rtFamilyID q \<longleftrightarrow> rtSessionID ?new = rtSessionID q"
      using t old s(2) unfolding tokensOK_def by (simp add: successor_def)
  qed (use s in \<open>simp_all add: successor_def\<close>)
  then show ?thesis by (simp add: sessionsOK_def 2(3))
qed (use ok in simp)

lemma sessionsOK_retire:
  assumes "sessionsOK db" "adSessions db' = update_rows P g (adSessions db)" "adRefreshTokens db' = update_rows Q f (adRefreshTokens db)"
    and "\<And>r. rtID (f r) = rtID r \<and> rtTokenHash (f r) = rtTokenHash r \<and> rtSessionID (f r) = rtSessionID r \<and>
      rtIdentityID (f r) = rtIdentityID r \<and> rtFamilyID (f r) = rtFamilyID r \<and> (liveToken (f r) \<longrightarrow> liveToken r)"
    and "\<And>s. seID (g s) = seID s \<and> seIdentityID (g s) = seIdentityID s \<and> seTokenHash (g s) = seTokenHash s"
    and "\<And>r s. r \<in> set (adRefreshTokens db) \<Longrightarrow> liveToken (if Q r then f r else r) \<Longrightarrow> s \<in> set (adSessions db) \<Longrightarrow>
      seID s = rtSessionID r \<Longrightarrow> P s \<Longrightarrow> seStatus (g s) = StatusDeleted \<Longrightarrow> seStatus s = StatusDeleted"
  shows "sessionsOK db'"
  unfolding sessionsOK_def assms(2,3) update_rows_def
proof (rule tokensOK_retire [OF assms(1) [unfolded sessionsOK_def]], goal_cases)
  case (1 r)
  then show ?case using assms(4) [of r] by simp
next
  case (2 s)
  then show ?case using assms(5) [of s] by simp
next
  case (3 r s)
  then show ?case using assms(6) [of r s] by (cases "P s") simp_all
qed

lemma sessionsOK_same: "sessionsOK db \<Longrightarrow> adSessions db' = adSessions db \<Longrightarrow> adRefreshTokens db' = adRefreshTokens db \<Longrightarrow> sessionsOK db'"
  by (simp add: sessionsOK_def)

lemma sessionsOK_create:
  assumes ok: "sessionsOK db" and c: "CreateAuthSession rnd now v db = (r, db')" "seStatus v \<noteq> StatusDeleted"
    and fresh: "NewID (rnd 2) \<notin> rtFamilyID ` set (adRefreshTokens db)"
  shows "sessionsOK db'"
proof -
  let ?v = "v\<lparr>seID := orNew (seID v) (rnd 0), seStatus := orElse (seStatus v) StatusActive, seCreatedAt := now, seUpdatedAt := now\<rparr>"
  let ?t = "refreshTokenFor (rnd 1) (rnd 2) now ?v"
  consider "db' = db" | "\<forall>x \<in> set (adSessions db). \<not> sessionClash ?v x"
      "db' = db\<lparr>adSessions := adSessions db @ [?v]\<rparr>"
    | "\<forall>x \<in> set (adSessions db). \<not> sessionClash ?v x" "\<forall>x \<in> set (adRefreshTokens db). \<not> refreshClash ?t x"
      "db' = db\<lparr>adSessions := adSessions db @ [?v], adRefreshTokens := adRefreshTokens db @ [?t]\<rparr>"
    using c(1) unfolding CreateAuthSession_def Let_def
    by (auto simp: insert_row_eq dest!: commit_state split: if_split_asm)
  then show ?thesis
  proof cases
    case 2
    then show ?thesis using tokensOK_new_session ok by (simp add: sessionsOK_def)
  next
    case 3
    have t: "tokensOK (adSessions db @ [?v]) (adRefreshTokens db)"
      using tokensOK_new_session 3(1) ok by (simp add: sessionsOK_def)
    have new: "\<forall>q \<in> set (adRefreshTokens db). rtSessionID q \<noteq> seID ?v"
    proof
      fix q assume that: "q \<in> set (adRefreshTokens db)"
      have "rtSessionID q \<in> seID ` set (adSessions db)" using ok that unfolding sessionsOK_def tokensOK_def by force
      then show "rtSessionID q \<noteq> seID ?v" using 3(1) by (auto simp: sessionClash_def)
    qed
    have "tokensOK (adSessions db @ [?v]) (adRefreshTokens db @ [?t])"
      by (rule tokensOK_new_token [OF t 3(2), of ?v])
        (use c(2) new fresh in \<open>auto simp: refreshTokenFor_def orElse_def\<close>)
    then show ?thesis by (simp add: sessionsOK_def 3(3))
  qed (use ok in simp)
qed

lemma sessionsOK_rotate:
  assumes ok: "sessionsOK db" and c: "RotateAuthRefreshToken rnd now oh th e rh re g db = (r, db')"
  shows "sessionsOK db'"
proof -
  consider "db' = db" | old session where "old \<in> set (adRefreshTokens db)" "session \<in> set (adSessions db)" "seID session = rtSessionID old"
      "seStatus session = StatusActive" "rotateActive rnd now old session th e rh re db = (r, db') \<or> rotateGrace now old session db = (r, db') \<or>
        db' = revokeFamily now old session db"
    using c unfolding RotateAuthRefreshToken_def by (auto split: sum.splits if_split_asm dest!: firstRow_Inr)
  then show ?thesis
  proof cases
    case (2 old session)
    from 2(5) consider "rotateActive rnd now old session th e rh re db = (r, db')" | "rotateGrace now old session db = (r, db')"
      | "db' = revokeFamily now old session db" by blast
    then show ?thesis
    proof cases
      case 1
      then show ?thesis using sessionsOK_rotateActive [OF ok _ 2(1-4)] by blast
    next
      case 2
      then have "db' = db \<or> db' = db\<lparr>adRefreshTokens := update_rows (\<lambda>r. rtID r = rtID old) (\<lambda>r. r\<lparr>rtLastUsedAt := now, rtUpdatedAt := now\<rparr>)
          (adRefreshTokens db)\<rparr>" unfolding rotateGrace_def Let_def by (auto split: option.splits)
      then show ?thesis
      proof
        assume db': "db' = db\<lparr>adRefreshTokens := update_rows (\<lambda>r. rtID r = rtID old) (\<lambda>r. r\<lparr>rtLastUsedAt := now, rtUpdatedAt := now\<rparr>)
          (adRefreshTokens db)\<rparr>"
        show ?thesis by (rule sessionsOK_retire [OF ok, where P = "\<lambda>_. False" and g = id and Q = "\<lambda>r. rtID r = rtID old" and
            f = "\<lambda>r. r\<lparr>rtLastUsedAt := now, rtUpdatedAt := now\<rparr>"]) (simp_all add: db' liveToken_def update_rows_def)
      qed (use ok in simp)
    next
      case 3
      have fam: "rtFamilyID r = rtFamilyID old" if "r \<in> set (adRefreshTokens db)" "rtSessionID r = seID session" for r
        using ok that 2(1,3) unfolding sessionsOK_def tokensOK_def by metis
      show ?thesis
        by (rule sessionsOK_retire [OF ok, where P = "\<lambda>s. seID s = seID session" and Q = "\<lambda>r. rtFamilyID r = rtFamilyID old" and
            g = "\<lambda>s. s\<lparr>seStatus := StatusDeleted, seUpdatedAt := now\<rparr>" and
            f = "\<lambda>r. r\<lparr>rtStatus := (if rtID r = rtID old then AuthRefreshTokenStatusReused else AuthRefreshTokenStatusRevoked),
                 rtLastUsedAt := (if rtID r = rtID old then now else rtLastUsedAt r), rtUpdatedAt := now\<rparr>"]) (use fam in \<open>auto simp: 3 revokeFamily_def liveToken_def split: if_splits\<close>)
    qed
  qed (use ok in simp)
qed

lemma token_identity:
  assumes "tokensOK ss rts" "r \<in> set rts" "s \<in> set ss" "seID s = rtSessionID r"
  shows "seIdentityID s = rtIdentityID r"
proof -
  obtain s' where "s' \<in> set ss" "seID s' = rtSessionID r" "seIdentityID s' = rtIdentityID r"
    using assms(1,2) unfolding tokensOK_def by force
  moreover from this assms(3,4) have "s' = s" using tokensOK_D(3) [OF assms(1)] by (metis distinct_map inj_onD)
  ultimately show ?thesis by simp
qed

lemma sessionsOK_revoke:
  assumes ok: "sessionsOK db" and s: "adSessions db' = deleteSessions now P (adSessions db)"
    and t: "adRefreshTokens db' = revokeTokens now Q (adRefreshTokens db)"
    and PQ: "\<And>r s. r \<in> set (adRefreshTokens db) \<Longrightarrow> s \<in> set (adSessions db) \<Longrightarrow> seID s = rtSessionID r \<Longrightarrow>
      seIdentityID s = rtIdentityID r \<Longrightarrow> P s \<Longrightarrow> Q r"
  shows "sessionsOK db'"
proof (rule sessionsOK_retire [OF ok s [unfolded deleteSessions_def] t [unfolded revokeTokens_def]], goal_cases)
  case (3 r s)
  have "seIdentityID s = rtIdentityID r" using token_identity [OF ok [unfolded sessionsOK_def] 3(1,3,4)] .
  then have "Q r" using PQ 3 by blast
  with 3(2) show ?case by (auto simp: liveToken_def split: if_splits)
qed (auto simp: liveToken_def)

lemma sessionsOK_tokens:
  assumes ok: "sessionsOK db" and c: "UpdateAuthSessionTokens now i th e rh re db = (r, db')"
  shows "sessionsOK db'"
proof -
  consider "db' = db" | ss where "checked_update sessionClash (\<lambda>s. seID s = i) (\<lambda>s. s\<lparr>seTokenHash := th, seExpiresAt := e,
      seRefreshTokenHash := rh, seRefreshExpiresAt := re, seLastUsedAt := now, seUpdatedAt := now\<rparr>) (adSessions db) = Inr ss"
    "db' = db\<lparr>adSessions := ss\<rparr>"
    using c unfolding UpdateAuthSessionTokens_def Let_def by (auto split: sum.splits)
  then show ?thesis
  proof cases
    case (2 ss)
    note u = noClash_checked_update [OF 2(1), unfolded rotated_sessions]
    have "noClash sessionClash (map (rotatedSession now i th e rh re) (adSessions db))"
      using conjunct1 [OF u] unfolding conjunct2 [OF u] .
    then show ?thesis using tokensOK_sessions [of "adSessions db" "adRefreshTokens db" "rotatedSession now i th e rh re"] ok
      by (simp add: sessionsOK_def 2(2) conjunct2 [OF u])
  qed (use ok in simp)
qed

lemma sessionsOK_presence:
  assumes "sessionsOK db" "UpdateAuthSessionPresence now i seen until db = (r, db')"
  shows "sessionsOK db'"
  by (rule sessionsOK_retire [OF assms(1), where P = "\<lambda>s. seID s = i \<and> seStatus s = StatusActive" and Q = "\<lambda>_. False" and f = id and
        g = "\<lambda>s. s\<lparr>seLastSeenAt := seen, seOnlineUntil := until, seUpdatedAt := now\<rparr>"])
    (use assms(2) in \<open>auto simp: UpdateAuthSessionPresence_def Let_def update_rows_def\<close>)

lemma auth_step_OK: "auth_step db db' \<Longrightarrow> sessionsOK db \<Longrightarrow> sessionsOK db'"
proof (induction rule: auth_step.induct)
  case (create_session rnd now s db r db')
  then show ?case using sessionsOK_create by blast
next
  case (rotate rnd8 now old th e rh re g db r db')
  then show ?case using sessionsOK_rotate by blast
next
  case (session_tokens now i th e rh re db r db')
  then show ?case using sessionsOK_tokens by blast
next
  case (presence now i seen until db r db')
  then show ?case using sessionsOK_presence by blast
next
  case (revoke now i db r db')
  then show ?case
    by (intro sessionsOK_revoke [of db db' now "\<lambda>s. seIdentityID s = i" "\<lambda>r. rtIdentityID r = i"])
      (auto simp: RevokeAuthSessionsByIdentityID_def)
next
  case (revoke_others now i keep db r db')
  then show ?case
    by (intro sessionsOK_revoke [of db db' now "\<lambda>s. seIdentityID s = i \<and> seID s \<noteq> keep" "\<lambda>r. rtIdentityID r = i \<and> rtSessionID r \<noteq> keep"])
      (auto simp: RevokeOtherAuthSessionsByIdentityID_def)
qed (erule sessionsOK_same; auto simp: CreateAuthIdentity_def UpdateAuthIdentity_def CreateAdminProfile_def UpdateAdminProfile_def
    CreateAuthCredential_def UpdateAuthCredential_def CreateAdminInvite_def MarkAdminInviteUsed_def RevokeAdminInvite_def
    CreateAuthRecoveryCode_def MarkAuthRecoveryCodeUsed_def Let_def split: sum.splits if_split_asm dest!: commit_state)+

lemma auth_reachable_OK: "auth_step\<^sup>*\<^sup>* emptyAuthDB db \<Longrightarrow> sessionsOK db"
proof (induction rule: rtranclp_induct)
  case base
  then show ?case by (simp add: sessionsOK_def tokensOK_def emptyAuthDB_def noClash_def)
qed (rule auth_step_OK)

section \<open>Looking a session up\<close>

lemma sessionJoin_iff: "(s, r) \<in> set (sessionJoin db) \<longleftrightarrow> s \<in> set (adSessions db) \<and> r \<in> set (adRefreshTokens db) \<and> rtSessionID r = seID s"
  by (auto simp: sessionJoin_def)

lemma same_token: "sessionsOK db \<Longrightarrow> r \<in> set (adRefreshTokens db) \<Longrightarrow> q \<in> set (adRefreshTokens db) \<Longrightarrow> rtTokenHash q = rtTokenHash r \<Longrightarrow> q = r"
  unfolding sessionsOK_def using tokensOK_D(5) by (metis distinct_map inj_onD)

lemma same_session: "sessionsOK db \<Longrightarrow> s \<in> set (adSessions db) \<Longrightarrow> u \<in> set (adSessions db) \<Longrightarrow> seID u = seID s \<Longrightarrow> u = s"
  unfolding sessionsOK_def using tokensOK_D(3) by (metis distinct_map inj_onD)

lemma refresh_hash_found:
  assumes ok: "sessionsOK db" and r: "r \<in> set (adRefreshTokens db)" "liveToken r"
    and s: "s \<in> set (adSessions db)" "seID s = rtSessionID r" "seStatus s = StatusActive"
  shows "GetActiveAuthSessionByRefreshHash db (rtTokenHash r) = Inr s"
proof (cases "firstRow (\<lambda>(s, q). rtTokenHash q = rtTokenHash r \<and> rtStatus q = AuthRefreshTokenStatusActive \<and> seStatus s = StatusActive)
    (sessionJoin db)")
  case (Inl e)
  then show ?thesis using r s by (fastforce simp: firstRow_Inl sessionJoin_iff liveToken_def)
next
  case (Inr p)
  obtain u q where p: "p = (u, q)" by (cases p)
  note f = firstRow_Inr [OF Inr, unfolded p]
  then have "q = r" using same_token [OF ok r(1)] by (auto simp: sessionJoin_iff)
  then have "u = s" using same_session [OF ok s(1)] f s(2) by (auto simp: sessionJoin_iff)
  then show ?thesis using Inr p by (simp add: GetActiveAuthSessionByRefreshHash_def)
qed

lemma refresh_hash_refused:
  assumes ok: "sessionsOK db" and r: "r \<in> set (adRefreshTokens db)" and n: "\<not> liveToken r"
  shows "GetActiveAuthSessionByRefreshHash db (rtTokenHash r) = Inl ErrNotFound"
proof (cases "firstRow (\<lambda>(s, q). rtTokenHash q = rtTokenHash r \<and> rtStatus q = AuthRefreshTokenStatusActive \<and> seStatus s = StatusActive)
    (sessionJoin db)")
  case (Inl e)
  then have "e = ErrNotFound" using firstRow_Inl by blast
  then show ?thesis using Inl by (simp add: GetActiveAuthSessionByRefreshHash_def)
next
  case (Inr p)
  obtain u q where p: "p = (u, q)" by (cases p)
  note f = firstRow_Inr [OF Inr, unfolded p]
  then have "q = r" using same_token [OF ok r] by (auto simp: sessionJoin_iff)
  then show ?thesis using f n by (simp add: liveToken_def)
qed

lemma rotation_hash_refused:
  assumes ok: "sessionsOK db" and r: "r \<in> set (adRefreshTokens db)" "\<not> liveToken r"
    and late: "rtStatus r = AuthRefreshTokenStatusRotated \<longrightarrow> ts (rtRotatedAt r) < ts (now - w)"
  shows "GetAuthSessionByRefreshHashForRotation now db (rtTokenHash r) w = Inl ErrNotFound"
proof -
  let ?P = "\<lambda>(s, q). rtTokenHash q = rtTokenHash r \<and> seStatus s = StatusActive \<and> (rtStatus q = AuthRefreshTokenStatusActive \<or>
    rtStatus q = AuthRefreshTokenStatusRotated \<and> \<not> IsZero (rtRotatedAt q) \<and> ts (now - w) \<le> ts (rtRotatedAt q))"
  have "\<not> ?P (s, q)" if "(s, q) \<in> set (sessionJoin db)" for s q
  proof
    assume p: "?P (s, q)"
    then have "q = r" using that same_token [OF ok r(1)] by (auto simp: sessionJoin_iff)
    then show False using p r(2) late by (auto simp: liveToken_def)
  qed
  then have "firstRow ?P (sessionJoin db) = Inl ErrNotFound" unfolding firstRow_Inl by blast
  then show ?thesis by (simp add: GetAuthSessionByRefreshHashForRotation_def)
qed

lemma access_hash_found:
  assumes "sessionsOK db" "s \<in> set (adSessions db)" "seStatus s = StatusActive"
  shows "GetActiveAuthSessionByTokenHash db (seTokenHash s) = Inr s"
  unfolding GetActiveAuthSessionByTokenHash_def
  by (rule firstRow_eq [where key = seTokenHash])
    (use assms tokensOK_D(6) [OF assms(1) [unfolded sessionsOK_def]] in simp_all)

lemma RotateAuthRefreshToken_found:
  assumes ok: "sessionsOK db" and r: "old \<in> set (adRefreshTokens db)"
    and s: "session \<in> set (adSessions db)" "seID session = rtSessionID old"
  shows "RotateAuthRefreshToken rnd now (rtTokenHash old) th e rh re g db =
    (if seStatus session \<noteq> StatusActive then (Inl ErrNotFound, db)
     else if liveToken old then rotateActive rnd now old session th e rh re db
     else if rtStatus old = AuthRefreshTokenStatusRotated \<and> \<not> IsZero (rtRotatedAt old) \<and> now \<le> rtRotatedAt old + g
     then rotateGrace now old session db else (Inl ErrNotFound, revokeFamily now old session db))"
proof -
  have "firstRow (\<lambda>r. rtTokenHash r = rtTokenHash old) (adRefreshTokens db) = Inr old"
    by (rule firstRow_eq [where key = rtTokenHash]) (use r tokensOK_D(5) [OF ok [unfolded sessionsOK_def]] in simp_all)
  moreover have "firstRow (\<lambda>s. seID s = rtSessionID old) (adSessions db) = Inr session"
    by (rule firstRow_eq [where key = seID]) (use s tokensOK_D(3) [OF ok [unfolded sessionsOK_def]] in simp_all)
  ultimately show ?thesis by (simp add: RotateAuthRefreshToken_def liveToken_def)
qed

section \<open>Properties\<close>

text \<open>
  The tokens of a store are still listed in a later one; none of them is active again, and a rotated one was active before
  or had been rotated at that time.
\<close>

definition spends :: "AuthDB \<Rightarrow> AuthDB \<Rightarrow> bool" where
  "spends db db' \<longleftrightarrow> (\<forall>r \<in> set (adRefreshTokens db). \<exists>q \<in> set (adRefreshTokens db'). rtTokenHash q = rtTokenHash r \<and>
     (liveToken q \<longrightarrow> liveToken r) \<and>
     (rtStatus q = AuthRefreshTokenStatusRotated \<longrightarrow>
        liveToken r \<or> rtStatus r = AuthRefreshTokenStatusRotated \<and> rtRotatedAt q = rtRotatedAt r))"

lemma spends_trans:
  assumes "spends a b" "spends b c"
  shows "spends a c"
  unfolding spends_def
proof
  fix r assume "r \<in> set (adRefreshTokens a)"
  then obtain q where q: "q \<in> set (adRefreshTokens b)" "rtTokenHash q = rtTokenHash r" "liveToken q \<longrightarrow> liveToken r"
    "rtStatus q = AuthRefreshTokenStatusRotated \<longrightarrow> liveToken r \<or> rtStatus r = AuthRefreshTokenStatusRotated \<and> rtRotatedAt q = rtRotatedAt r"
    using assms(1) unfolding spends_def by blast
  obtain p where p: "p \<in> set (adRefreshTokens c)" "rtTokenHash p = rtTokenHash q" "liveToken p \<longrightarrow> liveToken q"
    "rtStatus p = AuthRefreshTokenStatusRotated \<longrightarrow> liveToken q \<or> rtStatus q = AuthRefreshTokenStatusRotated \<and> rtRotatedAt p = rtRotatedAt q"
    using assms(2) q(1) unfolding spends_def by blast
  show "\<exists>q \<in> set (adRefreshTokens c). rtTokenHash q = rtTokenHash r \<and> (liveToken q \<longrightarrow> liveToken r) \<and>
     (rtStatus q = AuthRefreshTokenStatusRotated \<longrightarrow>
        liveToken r \<or> rtStatus r = AuthRefreshTokenStatusRotated \<and> rtRotatedAt q = rtRotatedAt r)"
    using q p by (intro bexI [OF _ p(1)]) auto
qed

lemma spends_same [simp]: "adRefreshTokens db' = adRefreshTokens db \<Longrightarrow> spends db db'"
  by (auto simp: spends_def)

lemma spends_map:
  assumes "adRefreshTokens db' = map f (adRefreshTokens db) @ xs"
    and "\<And>r. r \<in> set (adRefreshTokens db) \<Longrightarrow> rtTokenHash (f r) = rtTokenHash r \<and> (liveToken (f r) \<longrightarrow> liveToken r) \<and>
      (rtStatus (f r) = AuthRefreshTokenStatusRotated \<longrightarrow>
        liveToken r \<or> rtStatus r = AuthRefreshTokenStatusRotated \<and> rtRotatedAt (f r) = rtRotatedAt r)"
  shows "spends db db'"
  unfolding spends_def using assms(2) by (auto simp: assms(1))

lemma spends_rows:
  assumes "adRefreshTokens db' = update_rows P f (adRefreshTokens db)"
    and "\<And>r. rtTokenHash (f r) = rtTokenHash r \<and> (liveToken (f r) \<longrightarrow> liveToken r) \<and>
      (rtStatus (f r) = AuthRefreshTokenStatusRotated \<longrightarrow> rtStatus r = AuthRefreshTokenStatusRotated \<and> rtRotatedAt (f r) = rtRotatedAt r)"
  shows "spends db db'"
  by (rule spends_map [where f = "\<lambda>r. if P r then f r else r" and xs = "[]"]) (use assms in \<open>simp_all add: update_rows_def\<close>)

lemma rotateActive_spends:
  assumes ok: "sessionsOK db" and old: "old \<in> set (adRefreshTokens db)" "liveToken old"
    and c: "rotateActive rnd now old session th e rh re db = (r, db')"
  shows "spends db db'"
  using c
proof (cases rule: rotateActive_cases)
  case 2
  have "r = old" if "r \<in> set (adRefreshTokens db)" "rtID r = rtID old" for r
    using that old(1) tokensOK_D(4) [OF ok [unfolded sessionsOK_def]] by (metis distinct_map inj_onD)
  then show ?thesis using old(2) by (intro spends_map [where f = "rotatedRow now old (seID session)"]) (auto simp: 2(3) rotatedRow_def liveToken_def)
qed simp

lemma RotateAuthRefreshToken_spends:
  assumes ok: "sessionsOK db" and c: "RotateAuthRefreshToken rnd now h th e rh re g db = (r, db')"
  shows "spends db db'"
proof -
  have b: "spends db db'" if "rotateGrace now old session db = (r, db')" for old session
    using that by (auto simp: rotateGrace_def Let_def liveToken_def split: option.splits intro!: spends_rows)
  have c: "spends db (revokeFamily now old session db)" for old session
    by (rule spends_rows [OF _]) (auto simp: revokeFamily_def liveToken_def split: if_split_asm)
  show ?thesis using assms rotateActive_spends [OF ok] b c unfolding RotateAuthRefreshToken_def
    by (auto simp: liveToken_def split: sum.splits if_split_asm dest!: firstRow_Inr)
qed

lemma CreateAuthSession_tables:
  assumes "CreateAuthSession rnd now s db = (r, db')"
  shows "(\<exists>ts. adRefreshTokens db' = adRefreshTokens db @ ts) \<and>
    (adSessions db' = adSessions db \<or> (\<exists>v. adSessions db' = adSessions db @ [v] \<and> seID v \<notin> seID ` set (adSessions db)))"
  using assms unfolding CreateAuthSession_def Let_def
  by (force simp: insert_row_eq sessionClash_def dest!: commit_state split: if_split_asm)

lemma auth_step_spends: "auth_step db db' \<Longrightarrow> sessionsOK db \<Longrightarrow> spends db db'"
proof (induction rule: auth_step.induct)
  case (create_session rnd now s db r db')
  then show ?case using CreateAuthSession_tables [OF create_session(1)] by (auto intro: spends_map [where f = id])
next
  case (rotate rnd8 now old th e rh re g db r db')
  then show ?case using RotateAuthRefreshToken_spends by blast
next
  case (revoke now i db r db')
  then show ?case by (auto simp: RevokeAuthSessionsByIdentityID_def revokeTokens_def liveToken_def intro!: spends_rows)
next
  case (revoke_others now i keep db r db')
  then show ?case by (auto simp: RevokeOtherAuthSessionsByIdentityID_def revokeTokens_def liveToken_def intro!: spends_rows)
qed (auto simp: CreateAuthIdentity_def UpdateAuthIdentity_def CreateAdminProfile_def UpdateAdminProfile_def
    CreateAuthCredential_def UpdateAuthCredential_def CreateAdminInvite_def MarkAdminInviteUsed_def RevokeAdminInvite_def
    CreateAuthRecoveryCode_def MarkAuthRecoveryCodeUsed_def UpdateAuthSessionTokens_def UpdateAuthSessionPresence_def Let_def
    split: sum.splits if_split_asm dest!: commit_state)

lemma run_spends: "auth_step\<^sup>*\<^sup>* db db' \<Longrightarrow> sessionsOK db \<Longrightarrow> spends db db' \<and> sessionsOK db'"
proof (induction rule: rtranclp_induct)
  case (step y z)
  then show ?case using spends_trans auth_step_spends auth_step_OK by blast
qed simp

text \<open>A session that has been deleted stays deleted.\<close>

definition ended :: "AuthDB \<Rightarrow> string \<Rightarrow> bool" where
  "ended db i \<longleftrightarrow> i \<in> seID ` set (adSessions db) \<and> (\<forall>s \<in> set (adSessions db). seID s = i \<longrightarrow> seStatus s = StatusDeleted)"

lemma ended_map:
  assumes "ended db i" "adSessions db' = map g (adSessions db)" "\<And>s. seID (g s) = seID s \<and> seStatus (g s) \<in> {seStatus s, StatusDeleted}"
  shows "ended db' i"
proof -
  have "seID ` set (adSessions db') = seID ` set (adSessions db)" using assms(3) by (simp add: assms(2) image_image)
  moreover have "seStatus (g s) = StatusDeleted" if "s \<in> set (adSessions db)" "seID s = i" for s
    using assms(1) assms(3) [of s] that by (auto simp: ended_def)
  ultimately show ?thesis using assms(1,3) by (auto simp: ended_def assms(2))
qed

lemma ended_rows:
  "ended db i \<Longrightarrow> adSessions db' = update_rows P g (adSessions db) \<Longrightarrow>
   (\<And>s. seID (g s) = seID s \<and> seStatus (g s) \<in> {seStatus s, StatusDeleted}) \<Longrightarrow> ended db' i"
  by (rule ended_map [where g = "\<lambda>s. if P s then g s else s"]) (simp_all add: update_rows_def)

lemma ended_same: "ended db i \<Longrightarrow> adSessions db' = adSessions db \<Longrightarrow> ended db' i"
  by (simp add: ended_def)

lemma RotateAuthRefreshToken_ended:
  assumes e: "ended db i" and c: "RotateAuthRefreshToken rnd now h th e rh re g db = (r, db')"
  shows "ended db' i"
proof -
  have a: "ended db' i" if "rotateActive rnd now old session th e rh re db = (r, db')" for old session
    using that e by (cases rule: rotateActive_cases) (auto intro: ended_map [OF e])
  have b: "ended db' i" if "rotateGrace now old session db = (r, db')" for old session
    using that e by (auto simp: rotateGrace_def Let_def ended_def split: option.splits)
  have f: "ended (revokeFamily now old session db) i" for old session
    by (rule ended_rows [OF e, where P = "\<lambda>s. seID s = seID session" and g = "\<lambda>s. s\<lparr>seStatus := StatusDeleted, seUpdatedAt := now\<rparr>"])
      (simp_all add: revokeFamily_def)
  show ?thesis using c e a b f unfolding RotateAuthRefreshToken_def by (auto split: sum.splits if_split_asm)
qed

lemma auth_step_ended: "auth_step db db' \<Longrightarrow> ended db i \<Longrightarrow> ended db' i"
proof (induction rule: auth_step.induct)
  case (create_session rnd now s db r db')
  then show ?case using CreateAuthSession_tables [OF create_session(1)] by (auto simp: ended_def)
next
  case (rotate rnd8 now old th e rh re g db r db')
  then show ?case using RotateAuthRefreshToken_ended by blast
next
  case (session_tokens now j th e rh re db r db')
  then show ?case unfolding UpdateAuthSessionTokens_def Let_def
    by (auto split: sum.splits dest!: noClash_checked_update intro: ended_rows)
next
  case (presence now j seen until db r db')
  then show ?case by (auto simp: UpdateAuthSessionPresence_def Let_def intro: ended_rows)
next
  case (revoke now j db r db')
  then show ?case by (auto simp: RevokeAuthSessionsByIdentityID_def deleteSessions_def elim!: ended_rows)
next
  case (revoke_others now j keep db r db')
  then show ?case by (auto simp: RevokeOtherAuthSessionsByIdentityID_def deleteSessions_def elim!: ended_rows)
qed (erule ended_same; auto simp: CreateAuthIdentity_def UpdateAuthIdentity_def CreateAdminProfile_def UpdateAdminProfile_def
    CreateAuthCredential_def UpdateAuthCredential_def CreateAdminInvite_def MarkAdminInviteUsed_def RevokeAdminInvite_def
    CreateAuthRecoveryCode_def MarkAuthRecoveryCodeUsed_def Let_def split: sum.splits if_split_asm dest!: commit_state)+

lemma run_ended: "auth_step\<^sup>*\<^sup>* db db' \<Longrightarrow> ended db i \<Longrightarrow> ended db' i"
  by (induction rule: rtranclp_induct) (auto intro: auth_step_ended)

lemma ended_lookup:
  assumes "ended db i"
  shows "GetActiveAuthSessionByTokenHash db h = Inr s \<Longrightarrow> seID s \<noteq> i"
    "GetAuthSessionByRefreshHashForRotation now db h w = Inr s \<Longrightarrow> seID s \<noteq> i"
  using assms unfolding GetActiveAuthSessionByTokenHash_def GetAuthSessionByRefreshHashForRotation_def
  by (auto simp: ended_def sessionJoin_iff dest!: firstRow_Inr)

text \<open>An example: a session is opened and its refresh token rotated once.\<close>

definition exampleSession :: AuthSession where
  "exampleSession = \<lparr>seID = ''s1'', seIdentityID = ''i1'', seAccountID = [], seTokenHash = ''t1'', seRefreshTokenHash = ''r1'',
     seRefreshExpiresAt = 9000, seRefreshAbsoluteUntil = 99000, seStatus = [], seExpiresAt = 5000, seLastUsedAt = zero_time,
     seLastSeenAt = zero_time, seOnlineUntil = zero_time, seCreatedAt = 0, seUpdatedAt = 0\<rparr>"

definition exampleSignedIn :: AuthDB where
  "exampleSignedIn = snd (CreateAuthSession (\<lambda>i. replicate 16 (of_nat i)) 1000 exampleSession emptyAuthDB)"

definition exampleRotated :: AuthDB where
  "exampleRotated = snd (RotateAuthRefreshToken (replicate 16 7) 2000 ''r1'' ''t2'' 9000 ''r2'' 12000 10 exampleSignedIn)"

lemma exampleSignedIn_reachable: "auth_step\<^sup>*\<^sup>* emptyAuthDB exampleSignedIn"
  unfolding exampleSignedIn_def
  by (rule r_into_rtranclp, rule auth_step.create_session [OF prod.collapse [symmetric]]) (simp_all add: emptyAuthDB_def exampleSession_def)

lemma exampleRotated_reachable: "auth_step\<^sup>*\<^sup>* emptyAuthDB exampleRotated"
  by (rule rtranclp.rtrancl_into_rtrancl [OF exampleSignedIn_reachable], unfold exampleRotated_def)
    (rule auth_step.rotate [OF prod.collapse [symmetric]])

definition exampleToken :: AuthRefreshToken where
  "exampleToken = refreshTokenFor (replicate 16 1) (replicate 16 2) 1000 exampleSession"

lemma exampleSignedIn_eq:
  "adSessions exampleSignedIn = [exampleSession\<lparr>seStatus := StatusActive, seCreatedAt := 1000, seUpdatedAt := 1000\<rparr>]"
  "adRefreshTokens exampleSignedIn = [exampleToken]"
  by (simp_all add: exampleSignedIn_def CreateAuthSession_def emptyAuthDB_def exampleSession_def exampleToken_def refreshTokenFor_def
      insert_row_def commit_def orNew_def orElse_def Let_def)

lemma exampleToken_ids: "NewID (replicate 16 7) \<noteq> NewID (replicate 16 1)"
  by code_simp

lemma exampleRotation:
  "RotateAuthRefreshToken (replicate 16 7) 2000 ''r1'' ''t2'' 9000 ''r2'' 12000 10 exampleSignedIn =
     (Inr \<lparr>roSession = rotatedSession 2000 ''s1'' ''t2'' 9000 ''r2'' 12000 (hd (adSessions exampleSignedIn)),
           roRefreshToken = successor (replicate 16 7) 2000 exampleToken exampleSession ''r2'' 12000,
           roGraceRefreshToken = zeroRefreshToken, roGrace = False\<rparr>,
      exampleSignedIn\<lparr>adSessions := map (rotatedSession 2000 ''s1'' ''t2'' 9000 ''r2'' 12000) (adSessions exampleSignedIn),
        adRefreshTokens := [rotatedRow 2000 exampleToken ''s1'' exampleToken,
          successor (replicate 16 7) 2000 exampleToken exampleSession ''r2'' 12000]\<rparr>)"
  using exampleToken_ids
  by (simp add: RotateAuthRefreshToken_def rotateActive_def exampleSignedIn_eq exampleToken_def exampleSession_def refreshTokenFor_def
      firstRow_def checked_update_def update_rows_def noClash_def insert_row_def refreshClash_def sessionClash_def commit_def Let_def
      rotatedSession_def successor_def rotatedRow_def)

lemmas exampleRotated_eq = exampleRotated_def exampleRotation exampleSignedIn_eq

lemma live_token_session:
  assumes "sessionsOK db" "r \<in> set (adRefreshTokens db)" "liveToken r"
  shows "\<exists>s \<in> set (adSessions db). seID s = rtSessionID r \<and> seIdentityID s = rtIdentityID r \<and> seStatus s \<noteq> StatusDeleted"
proof -
  have "(rtSessionID r, rtIdentityID r) \<in> (\<lambda>s. (seID s, seIdentityID s)) ` set (adSessions db)"
    "\<And>s. s \<in> set (adSessions db) \<Longrightarrow> seID s = rtSessionID r \<Longrightarrow> seStatus s \<noteq> StatusDeleted"
    using assms unfolding sessionsOK_def tokensOK_def by blast+
  then show ?thesis by auto
qed

lemma live_token_unique:
  assumes "sessionsOK db" "r \<in> set (adRefreshTokens db)" "liveToken r" "q \<in> set (adRefreshTokens db)" "liveToken q" "rtSessionID q = rtSessionID r"
  shows "q = r"
proof -
  have "keyed rtSessionID (filter liveToken (adRefreshTokens db))" using assms(1) tokensOK_D(7) unfolding sessionsOK_def by blast
  then show ?thesis using assms(2-) by (auto simp: distinct_map dest: inj_onD)
qed

text \<open>
  C18. In every reachable state of the authentication store an active refresh token belongs to a session of its own
  identity that has not been deleted, and no session has a second active refresh token.
\<close>

theorem refresh_tokens_invariant:
  assumes "auth_step\<^sup>*\<^sup>* emptyAuthDB db" "r \<in> set (adRefreshTokens db)" "rtStatus r = AuthRefreshTokenStatusActive"
  shows "(\<exists>s \<in> set (adSessions db). seID s = rtSessionID r \<and> seIdentityID s = rtIdentityID r \<and> seStatus s \<noteq> StatusDeleted) \<and>
    (\<forall>q \<in> set (adRefreshTokens db). rtStatus q = AuthRefreshTokenStatusActive \<and> rtSessionID q = rtSessionID r \<longrightarrow> q = r)"
  using live_token_session live_token_unique auth_reachable_OK [OF assms(1)] assms(2,3) unfolding liveToken_def by blast

theorem refresh_tokens_invariant_witness:
  "\<exists>s \<in> set (adSessions exampleRotated). seID s = ''s1'' \<and> seStatus s \<noteq> StatusDeleted"
proof -
  let ?r = "successor (replicate 16 7) 2000 exampleToken exampleSession ''r2'' 12000"
  have "?r \<in> set (adRefreshTokens exampleRotated)" "rtStatus ?r = AuthRefreshTokenStatusActive" "rtSessionID ?r = ''s1''"
    by (simp_all add: exampleRotated_eq successor_def exampleSession_def)
  with refresh_tokens_invariant [OF exampleRotated_reachable this(1,2)] show ?thesis by fastforce
qed

lemma spent_later:
  assumes "sessionsOK db" "auth_step\<^sup>*\<^sup>* db db'" "r \<in> set (adRefreshTokens db)" "\<not> liveToken r"
    and "rtStatus r = AuthRefreshTokenStatusRotated \<longrightarrow> ts (rtRotatedAt r) < ts (now - w)"
  shows "GetAuthSessionByRefreshHashForRotation now db' (rtTokenHash r) w = Inl ErrNotFound"
    "GetActiveAuthSessionByRefreshHash db' (rtTokenHash r) = Inl ErrNotFound"
proof -
  obtain q where q: "q \<in> set (adRefreshTokens db')" "rtTokenHash q = rtTokenHash r" "\<not> liveToken q"
    "rtStatus q = AuthRefreshTokenStatusRotated \<longrightarrow> ts (rtRotatedAt q) < ts (now - w)"
    using run_spends [OF assms(2,1)] assms(3-5) unfolding spends_def by metis
  have "sessionsOK db'" using run_spends [OF assms(2,1)] by blast
  then show "GetAuthSessionByRefreshHashForRotation now db' (rtTokenHash r) w = Inl ErrNotFound"
    "GetActiveAuthSessionByRefreshHash db' (rtTokenHash r) = Inl ErrNotFound"
    using rotation_hash_refused [OF _ q(1,3,4)] refresh_hash_refused [OF _ q(1,3)] q(2) by simp_all
qed

text \<open>
  C21. A refresh token that was revoked or reported as reused, or that was rotated longer ago than the grace window,
  never opens a session again: the lookups by which the refresh handlers find its session answer not found, whatever
  operations the store performs in between. (The window is compared on the texts of the times, as the query does.)
\<close>

theorem spent_token_stays_spent:
  assumes run: "auth_step\<^sup>*\<^sup>* emptyAuthDB db" "auth_step\<^sup>*\<^sup>* db db'"
    and r: "r \<in> set (adRefreshTokens db)" "rtStatus r \<noteq> AuthRefreshTokenStatusActive"
      "rtStatus r = AuthRefreshTokenStatusRotated \<longrightarrow> ts (rtRotatedAt r) < ts (now - w)"
  shows "GetAuthSessionByRefreshHashForRotation now db' (rtTokenHash r) w = Inl ErrNotFound \<and>
    GetActiveAuthSessionByRefreshHash db' (rtTokenHash r) = Inl ErrNotFound"
  using spent_later [OF auth_reachable_OK [OF run(1)] run(2) r(1) _ r(3)] r(2) by (simp add: liveToken_def)

theorem spent_token_stays_spent_witness:
  "GetAuthSessionByRefreshHashForRotation (5 * 10 ^ 9)
     (snd (RevokeOtherAuthSessionsByIdentityID 3000 ''i1'' ''s1'' exampleRotated)) ''r1'' (10 ^ 9) = Inl ErrNotFound"
proof -
  let ?r = "rotatedRow 2000 exampleToken ''s1'' exampleToken"
  have r: "?r \<in> set (adRefreshTokens exampleRotated)" "rtStatus ?r \<noteq> AuthRefreshTokenStatusActive" "rtTokenHash ?r = ''r1''" "rtRotatedAt ?r = 2000"
    by (simp_all add: exampleRotated_eq rotatedRow_def exampleToken_def refreshTokenFor_def exampleSession_def)
  have "auth_step\<^sup>*\<^sup>* exampleRotated (snd (RevokeOtherAuthSessionsByIdentityID 3000 ''i1'' ''s1'' exampleRotated))"
    by (rule r_into_rtranclp) (rule auth_step.revoke_others [OF prod.collapse [symmetric]])
  moreover have "ts 2000 < ts (5 * 10 ^ 9 - 10 ^ 9)" by code_simp
  ultimately show ?thesis using spent_token_stays_spent [OF exampleRotated_reachable _ r(1,2), of _ "5 * 10 ^ 9" "10 ^ 9"] r(3,4) by simp
qed

lemma rotate_OK:
  "auth_step\<^sup>*\<^sup>* emptyAuthDB db \<Longrightarrow> RotateAuthRefreshToken rnd now h th e rh re g db = (r, db') \<Longrightarrow> sessionsOK db'"
  using auth_reachable_OK sessionsOK_rotate by blast

lemma access_hash_refused:
  assumes "sessionsOK db" "s \<in> set (adSessions db)" "seStatus s \<noteq> StatusActive"
  shows "GetActiveAuthSessionByTokenHash db (seTokenHash s) = Inl ErrNotFound"
proof -
  have "u = s" if "u \<in> set (adSessions db)" "seTokenHash u = seTokenHash s" for u
    using that assms tokensOK_D(6) [OF assms(1) [unfolded sessionsOK_def]] by (metis distinct_map inj_onD)
  then show ?thesis using assms(3) unfolding GetActiveAuthSessionByTokenHash_def firstRow_Inl by blast
qed

lemma revokeFamily_row:
  assumes "q \<in> set (adRefreshTokens db)" "rtFamilyID q = rtFamilyID old"
  shows "\<exists>p \<in> set (adRefreshTokens (revokeFamily now old session db)). rtTokenHash p = rtTokenHash q \<and> \<not> liveToken p \<and>
    rtStatus p \<noteq> AuthRefreshTokenStatusRotated"
  by (rule bexI [of _ "q\<lparr>rtStatus := (if rtID q = rtID old then AuthRefreshTokenStatusReused else AuthRefreshTokenStatusRevoked),
        rtLastUsedAt := (if rtID q = rtID old then now else rtLastUsedAt q), rtUpdatedAt := now\<rparr>"])
    (use assms in \<open>auto simp: revokeFamily_def update_rows_def liveToken_def\<close>)

lemma filter_update_rows:
  "(\<And>r. r \<in> set t \<Longrightarrow> P r \<Longrightarrow> \<not> Q r \<and> \<not> Q (f r)) \<Longrightarrow> filter Q (update_rows P f t) = filter Q t"
  by (induction t) (auto simp: update_rows_def)

text \<open>
  C19. When the store is asked to rotate a refresh token that was already spent, later than the grace window, it answers
  not found and ends the session for good: in this and in every later state no access token and no refresh token leads to
  the session, and every refresh token ever issued for it is refused. The other sessions and their tokens stay as they are.
\<close>

theorem replay_ends_session:
  assumes run: "auth_step\<^sup>*\<^sup>* emptyAuthDB db" and old: "old \<in> set (adRefreshTokens db)" "rtStatus old \<noteq> AuthRefreshTokenStatusActive"
    and late: "rtStatus old = AuthRefreshTokenStatusRotated \<longrightarrow> rtRotatedAt old + g < now"
    and s: "session \<in> set (adSessions db)" "seID session = rtSessionID old" "seStatus session = StatusActive"
    and call: "RotateAuthRefreshToken rnd now (rtTokenHash old) th e rh re g db = (r, db')"
  shows "r = Inl ErrNotFound \<and>
    (\<forall>later. auth_step\<^sup>*\<^sup>* db' later \<longrightarrow>
       (\<forall>h u. GetActiveAuthSessionByTokenHash later h = Inr u \<longrightarrow> seID u \<noteq> seID session) \<and>
       (\<forall>t h w u. GetAuthSessionByRefreshHashForRotation t later h w = Inr u \<longrightarrow> seID u \<noteq> seID session) \<and>
       (\<forall>q \<in> set (adRefreshTokens db). rtSessionID q = seID session \<longrightarrow>
          (\<forall>t w. GetAuthSessionByRefreshHashForRotation t later (rtTokenHash q) w = Inl ErrNotFound))) \<and>
    filter (\<lambda>u. seID u \<noteq> seID session) (adSessions db') = filter (\<lambda>u. seID u \<noteq> seID session) (adSessions db) \<and>
    filter (\<lambda>q. rtSessionID q \<noteq> seID session) (adRefreshTokens db') = filter (\<lambda>q. rtSessionID q \<noteq> seID session) (adRefreshTokens db)"
proof -
  note ok = auth_reachable_OK [OF run] and ok' = rotate_OK [OF run call]
  have c: "r = Inl ErrNotFound" "db' = revokeFamily now old session db"
    using call old(2) late s(3) unfolding RotateAuthRefreshToken_found [OF ok old(1) s(1,2)] by (auto simp: liveToken_def split: if_split_asm)
  have family: "rtFamilyID q = rtFamilyID old \<longleftrightarrow> rtSessionID q = seID session" if "q \<in> set (adRefreshTokens db)" for q
    using ok that old(1) s(2) unfolding sessionsOK_def tokensOK_def by simp
  have "seID ` set (adSessions db') = seID ` set (adSessions db)" by (simp add: c(2) revokeFamily_def image_update_rows)
  then have gone: "ended db' (seID session)" using s(1) by (auto simp: ended_def c(2) revokeFamily_def set_update_rows)
  have refresh: "GetAuthSessionByRefreshHashForRotation t later (rtTokenHash q) w = Inl ErrNotFound"
    if q: "q \<in> set (adRefreshTokens db)" "rtSessionID q = seID session" and l: "auth_step\<^sup>*\<^sup>* db' later" for q later t w
  proof -
    obtain p where p: "p \<in> set (adRefreshTokens db')" "rtTokenHash p = rtTokenHash q" "\<not> liveToken p" "rtStatus p \<noteq> AuthRefreshTokenStatusRotated"
      using revokeFamily_row [OF q(1)] family [OF q(1)] q(2) unfolding c(2) by blast
    then show ?thesis using spent_later(1) [OF ok' l p(1,3)] by simp
  qed
  show ?thesis
  proof (intro conjI allI impI ballI)
    show "r = Inl ErrNotFound" by (rule c(1))
    show "seID u \<noteq> seID session" if "auth_step\<^sup>*\<^sup>* db' later" "GetActiveAuthSessionByTokenHash later h = Inr u" for later h u
      by (rule ended_lookup(1) [OF run_ended [OF that(1) gone] that(2)])
    show "seID u \<noteq> seID session" if "auth_step\<^sup>*\<^sup>* db' later" "GetAuthSessionByRefreshHashForRotation t later h w = Inr u" for later t h w u
      by (rule ended_lookup(2) [OF run_ended [OF that(1) gone] that(2)])
    show "filter (\<lambda>u. seID u \<noteq> seID session) (adSessions db') = filter (\<lambda>u. seID u \<noteq> seID session) (adSessions db)"
      unfolding c(2) revokeFamily_def by (simp add: filter_update_rows)
    show "filter (\<lambda>q. rtSessionID q \<noteq> seID session) (adRefreshTokens db') = filter (\<lambda>q. rtSessionID q \<noteq> seID session) (adRefreshTokens db)"
      unfolding c(2) revokeFamily_def using family by (simp, intro filter_update_rows) auto
  qed (rule refresh)
qed

text \<open>
  C20. A successful rotation of an active refresh token hands the session over to the new pair of tokens: the new
  access hash and the new refresh hash find it, the presented refresh hash and the former access hash do not, and
  the absolute end of the token family is inherited.
\<close>

theorem rotation_replaces_tokens:
  assumes run: "auth_step\<^sup>*\<^sup>* emptyAuthDB db" and old: "old \<in> set (adRefreshTokens db)"
    and s: "session \<in> set (adSessions db)" "seID session = rtSessionID old" and th: "th \<noteq> seTokenHash session"
    and call: "RotateAuthRefreshToken rnd now (rtTokenHash old) th e rh re g db = (Inr rot, db')" and n: "\<not> roGrace rot"
  shows "GetActiveAuthSessionByRefreshHash db' rh = Inr (roSession rot) \<and> GetActiveAuthSessionByTokenHash db' th = Inr (roSession rot) \<and>
    GetActiveAuthSessionByRefreshHash db' (rtTokenHash old) = Inl ErrNotFound \<and>
    GetActiveAuthSessionByTokenHash db' (seTokenHash session) = Inl ErrNotFound \<and>
    rtAbsoluteExpiresAt (roRefreshToken rot) = rtAbsoluteExpiresAt old"
proof -
  note ok = auth_reachable_OK [OF run] and ok' = rotate_OK [OF run call]
  have active: "seStatus session = StatusActive" and c: "rotateActive rnd now old session th e rh re db = (Inr rot, db')"
    using call n unfolding RotateAuthRefreshToken_found [OF ok old s]
    by (auto simp: rotateGrace_def Let_def split: if_split_asm option.splits)
  from c show ?thesis
  proof (cases rule: rotateActive_cases)
    case 2
    let ?s = "rotatedSession now (seID session) th e rh re session" and ?r = "successor rnd now old session rh re"
    have rot: "roSession rot = ?s" "roRefreshToken rot = ?r" using 2(4) by simp_all
    have mem: "?r \<in> set (adRefreshTokens db')" "?s \<in> set (adSessions db')"
      "rotatedRow now old (seID session) old \<in> set (adRefreshTokens db')" using old s(1) by (simp_all add: 2(3))
    have sel: "seTokenHash ?s = th" "seStatus ?s = StatusActive" "rtTokenHash ?r = rh" "rtSessionID ?r = seID session" "liveToken ?r"
      "rtAbsoluteExpiresAt ?r = rtAbsoluteExpiresAt old"
      using active by (simp_all add: rotatedSession_def successor_def liveToken_def)
    have "\<not> (seTokenHash u = seTokenHash session \<and> seStatus u = StatusActive)" if u: "u \<in> set (adSessions db')" for u
    proof
      obtain v where v: "v \<in> set (adSessions db)" "u = rotatedSession now (seID session) th e rh re v" using u by (auto simp: 2(3))
      assume "seTokenHash u = seTokenHash session \<and> seStatus u = StatusActive"
      then have "seID v \<noteq> seID session" "seTokenHash v = seTokenHash session"
        using v(2) th by (auto simp: rotatedSession_def split: if_split_asm)
      then show False using v(1) s(1) tokensOK_D(6) [OF ok [unfolded sessionsOK_def]] by (metis distinct_map inj_onD)
    qed
    then have "GetActiveAuthSessionByTokenHash db' (seTokenHash session) = Inl ErrNotFound"
      unfolding GetActiveAuthSessionByTokenHash_def firstRow_Inl by blast
    then show ?thesis using refresh_hash_found [OF ok' mem(1) sel(5) mem(2)] access_hash_found [OF ok' mem(2) sel(2)]
        refresh_hash_refused [OF ok' mem(3)] sel rot by simp
  qed simp
qed

lemmas example_rows = rotatedRow_def rotatedSession_def successor_def exampleToken_def refreshTokenFor_def exampleSession_def

theorem rotation_replaces_tokens_witness:
  "GetActiveAuthSessionByRefreshHash exampleRotated ''r1'' = Inl ErrNotFound \<and>
   GetActiveAuthSessionByTokenHash exampleRotated ''t1'' = Inl ErrNotFound \<and>
   (\<exists>s. GetActiveAuthSessionByRefreshHash exampleRotated ''r2'' = Inr s \<and> seID s = ''s1'')"
proof -
  let ?s = "exampleSession\<lparr>seStatus := StatusActive, seCreatedAt := 1000, seUpdatedAt := 1000\<rparr>"
  have m: "exampleToken \<in> set (adRefreshTokens exampleSignedIn)" "?s \<in> set (adSessions exampleSignedIn)" "seID ?s = rtSessionID exampleToken"
    "''t2'' \<noteq> seTokenHash ?s" "rtTokenHash exampleToken = ''r1''" "seTokenHash ?s = ''t1''"
    by (simp_all add: exampleSignedIn_eq example_rows)
  from rotation_replaces_tokens [OF exampleSignedIn_reachable m(1-4), unfolded m(5), OF exampleRotation]
  show ?thesis unfolding m(6) exampleRotated_def exampleRotation by (simp add: example_rows exampleSignedIn_eq)
qed

theorem replay_ends_session_witness:
  "GetAuthSessionByRefreshHashForRotation 3000 (snd (RotateAuthRefreshToken (replicate 16 8) 3000 ''r1'' ''t3'' 9000 ''r3'' 12000 10 exampleRotated))
     ''r1'' 10 = Inl ErrNotFound"
proof -
  let ?s = "rotatedSession 2000 ''s1'' ''t2'' 9000 ''r2'' 12000 (hd (adSessions exampleSignedIn))"
    and ?r = "rotatedRow 2000 exampleToken ''s1'' exampleToken"
  have m: "?r \<in> set (adRefreshTokens exampleRotated)" "rtStatus ?r \<noteq> AuthRefreshTokenStatusActive"
    "rtStatus ?r = AuthRefreshTokenStatusRotated \<longrightarrow> rtRotatedAt ?r + 10 < 3000" "?s \<in> set (adSessions exampleRotated)"
    "seID ?s = rtSessionID ?r" "seStatus ?s = StatusActive" "rtTokenHash ?r = ''r1''"
    by (simp_all add: exampleRotated_eq example_rows)
  from replay_ends_session [OF exampleRotated_reachable m(1-6) prod.collapse [symmetric], unfolded m(7)] m(1,5,7)
  show ?thesis by (metis rtranclp.rtrancl_refl)
qed

end
