(* ===== verification/Go_Text.thy ===== *)
theory Go_Text
  imports Go_JSON Base64
begin

text \<open>
  The functions of Go's \<open>strings\<close>, \<open>unicode\<close>, \<open>fmt\<close> and \<open>encoding/base64\<close> that the services apply to user input.
  ASCII is written out; the tables of the other code points are a parameter.
\<close>

section \<open>Code points\<close>

record UnicodeTables =
  utLetter :: "nat \<Rightarrow> bool"
  utDigit :: "nat \<Rightarrow> bool"
  utLower :: "nat \<Rightarrow> nat"
  utUpper :: "nat \<Rightarrow> nat"
  utSameFold :: "nat \<Rightarrow> nat \<Rightarrow> bool"

text \<open>The code points \<open>range\<close> yields on a string; a byte that begins no valid encoding counts as U+FFFD.\<close>

definition runeValue :: "nat list \<Rightarrow> nat" where
  "runeValue bs =
     (case bs of
        [a] \<Rightarrow> a
      | [a, b] \<Rightarrow> (a - 192) * 64 + (b - 128)
      | [a, b, c] \<Rightarrow> (a - 224) * 4096 + (b - 128) * 64 + (c - 128)
      | [a, b, c, d] \<Rightarrow> (a - 240) * 262144 + (b - 128) * 4096 + (c - 128) * 64 + (d - 128)
      | _ \<Rightarrow> 65533)"

function runes :: "string \<Rightarrow> nat list" where
  "runes s =
     (if s = [] then []
      else let n = runeLength s
           in if n = 0 then 65533 # runes (tl s) else runeValue (map code (take n s)) # runes (drop n s))"
  by pat_completeness auto
termination
  by (relation "measure length") (auto simp: Let_def)

declare runes.simps [simp del]

definition IsLetter :: "UnicodeTables \<Rightarrow> nat \<Rightarrow> bool" where
  "IsLetter u r = (if r < 128 then 65 \<le> r \<and> r \<le> 90 \<or> 97 \<le> r \<and> r \<le> 122 else utLetter u r)"

definition IsDigit :: "UnicodeTables \<Rightarrow> nat \<Rightarrow> bool" where
  "IsDigit u r = (if r < 128 then 48 \<le> r \<and> r \<le> 57 else utDigit u r)"

definition lowerRune :: "UnicodeTables \<Rightarrow> nat \<Rightarrow> nat" where
  "lowerRune u r = (if r < 128 then if 65 \<le> r \<and> r \<le> 90 then r + 32 else r else utLower u r)"

definition upperRune :: "UnicodeTables \<Rightarrow> nat \<Rightarrow> nat" where
  "upperRune u r = (if r < 128 then if 97 \<le> r \<and> r \<le> 122 then r - 32 else r else utUpper u r)"

definition ToLower :: "UnicodeTables \<Rightarrow> string \<Rightarrow> string" where
  "ToLower u s = concat (map (encodeRune \<circ> lowerRune u) (runes s))"

definition ToUpper :: "UnicodeTables \<Rightarrow> string \<Rightarrow> string" where
  "ToUpper u s = concat (map (encodeRune \<circ> upperRune u) (runes s))"

definition sameFold :: "UnicodeTables \<Rightarrow> nat \<Rightarrow> nat \<Rightarrow> bool" where
  "sameFold u a b \<longleftrightarrow> a = b \<or> (if a < 128 \<and> b < 128 then lowerRune u a = lowerRune u b else utSameFold u a b)"

definition EqualFold :: "UnicodeTables \<Rightarrow> string \<Rightarrow> string \<Rightarrow> bool" where
  "EqualFold u s t = list_all2 (sameFold u) (runes s) (runes t)"

lemma runes_Nil [simp]: "runes [] = []"
  by (simp add: runes.simps)

lemma runes_ascii: "list_all (\<lambda>c. code c < 128) s \<Longrightarrow> runes s = map code s"
proof (induction s)
  case (Cons c s)
  then have "runeLength (c # s) = 1" by (simp add: runeLength_def Let_def)
  then show ?case using Cons by (simp add: runes.simps [of "c # s"] runeValue_def)
qed simp

section \<open>Splitting and trimming\<close>

text \<open>\<open>strings.Split\<close> with a separator of one byte.\<close>

fun Split :: "char \<Rightarrow> string \<Rightarrow> string list" where
  "Split sep [] = [[]]"
| "Split sep (c # s) = (if c = sep then [] # Split sep s else case Split sep s of [] \<Rightarrow> [[c]] | p # ps \<Rightarrow> (c # p) # ps)"

definition TrimByte :: "char \<Rightarrow> string \<Rightarrow> string" where
  "TrimByte c s = rev (dropWhile (\<lambda>x. x = c) (rev (dropWhile (\<lambda>x. x = c) s)))"

lemma Split_nonempty [simp]: "Split sep s \<noteq> []"
  by (induction s) (auto split: list.splits)

lemma Split_append: "sep \<notin> set a \<Longrightarrow> Split sep (a @ sep # b) = a # Split sep b"
  by (induction a) auto

lemma Split_last: "sep \<notin> set a \<Longrightarrow> Split sep a = [a]"
  by (induction a) auto

lemma Split_three: "Split sep s = [a, b, c] \<Longrightarrow> s = a @ sep # b @ sep # c"
proof -
  have join: "concat (map (\<lambda>p. sep # p) (Split sep s)) = sep # s"
    by (induction s) (auto split: list.splits)
  assume "Split sep s = [a, b, c]"
  with join show ?thesis by simp
qed

section \<open>Scanning\<close>

text \<open>\<open>fmt.Sscanf\<close> with the format \<open>%d\<close>: white space is skipped, a newline is an error, the rest is not looked at.\<close>

function skipBlank :: "string \<Rightarrow> string option" where
  "skipBlank s =
     (case strip_one white_space s of
        None \<Rightarrow> Some s
      | Some t \<Rightarrow> if code (hd s) = 10 then None else skipBlank t)"
  by pat_completeness auto
termination
  by (relation "measure length") (auto dest: strip_one_length)

declare skipBlank.simps [simp del]

definition scanSign :: "string \<Rightarrow> string" where
  "scanSign s = (if s \<noteq> [] \<and> (hd s = CHR ''-'' \<or> hd s = CHR ''+'') then [hd s] else [])"

definition Sscanf_d :: "string \<Rightarrow> int option" where
  "Sscanf_d s =
     (case skipBlank s of
        None \<Rightarrow> None
      | Some t \<Rightarrow>
          let sign = scanSign t; digits = takeWhile is_digit (drop (length sign) t)
          in if digits = [] then None
             else case ParseInt64 (sign @ digits) of Inl _ \<Rightarrow> None | Inr v \<Rightarrow> Some v)"

lemma skipBlank_ascii: "s \<noteq> [] \<Longrightarrow> code (hd s) \<in> {33..126} \<Longrightarrow> skipBlank s = Some s"
proof -
  assume s: "s \<noteq> []" "code (hd s) \<in> {33..126}"
  then have "strip_one white_space s = None"
    using white_space_ends by (fastforce simp: strip_one_def find_None_iff prefix_def)
  then show ?thesis by (simp add: skipBlank.simps)
qed

lemma is_digit_ascii: "is_digit c \<Longrightarrow> code c \<in> {33..126}"
  by (simp add: is_digit_def)

lemma Sscanf_FormatInt:
  assumes "0 \<le> v" "in_int64 v"
  shows "Sscanf_d (FormatInt v) = Some v"
proof -
  let ?s = "show_nat (nat v)"
  have d: "list_all is_digit ?s" "?s \<noteq> []" using show_nat_digits by simp_all
  then have "is_digit (hd ?s)" by (cases ?s) simp_all
  then have "skipBlank ?s = Some ?s" using d(2) by (intro skipBlank_ascii is_digit_ascii)
  moreover have "scanSign ?s = []" using hd_show_nat by (simp add: scanSign_def)
  moreover have t: "takeWhile is_digit ?s = ?s" using d(1) unfolding takeWhile_eq_all_conv list_all_iff .
  ultimately show ?thesis using ParseInt_FormatInt [OF assms(2)] assms(1) d(2) by (simp add: Sscanf_d_def FormatInt_def Let_def t del: takeWhile_eq_all_conv)
qed

section \<open>Base64 for URLs\<close>

definition urlSymbol :: "char \<Rightarrow> char" where
  "urlSymbol c = (if c = CHR ''+'' then CHR ''-'' else if c = CHR ''/'' then CHR ''_'' else c)"

definition RawURLEncode :: "string \<Rightarrow> string" where
  "RawURLEncode raw = map urlSymbol (RawStdEncode raw)"

lemma urlSymbol_inj: "inj_on urlSymbol (set alphabet)"
proof -
  have "distinct (map urlSymbol alphabet)" by code_simp
  then show ?thesis by (simp add: distinct_map)
qed

lemma RawURLEncode_inj: "RawURLEncode a = RawURLEncode b \<Longrightarrow> a = b"
proof -
  assume "RawURLEncode a = RawURLEncode b"
  then have "RawStdEncode a = RawStdEncode b"
    using RawStdEncode_alphabet urlSymbol_inj unfolding RawURLEncode_def by (meson inj_on_map_eq_map inj_on_subset Un_least)
  then show "a = b" using RawStdDecode_Encode by (metis option.inject)
qed

end
