(* ===== verification/Admin_Auth.thy ===== *)
theory Admin_Auth
  imports Auth_Sessions Go_Text
begin

text \<open>
  The authenticator of the administration interface: \<open>server/adminauth/auth.go\<close>, \<open>server/adminauth/bootstrap.go\<close>
  and the tokens of \<open>server/security/tokens/tokens.go\<close>, on the authentication store.

  The hash functions and bcrypt are parameters (\<open>Crypto\<close>). One call reads one time \<open>now\<close>; \<open>rnd\<close> feeds the
  identifiers of the store and \<open>ent\<close> the secret tokens, an error of the random source included. A nil
  authenticator is \<open>None\<close>, and \<open>atStore\<close> says whether its store is set.
\<close>

section \<open>Tokens\<close>

record Crypto =
  cySum256 :: "string \<Rightarrow> 8 word list"
  cyHmac :: "string \<Rightarrow> string \<Rightarrow> 8 word list"
  cyCompare :: "string \<Rightarrow> string \<Rightarrow> bool"
  cyGenerate :: "string \<Rightarrow> string result"

type_synonym entropy = "nat \<Rightarrow> 8 word list result"

definition tokens_New :: "8 word list result \<Rightarrow> string result" where
  "tokens_New raw = bindR raw (\<lambda>bs. Inr (RawURLEncode (map (char_of \<circ> unat) bs)))"

definition tokens_Hash :: "Crypto \<Rightarrow> string \<Rightarrow> string" where
  "tokens_Hash cy token = hex (cySum256 cy token)"

section \<open>Roles and permissions\<close>

definition PermissionsForRole :: "string \<Rightarrow> string list" where
  "PermissionsForRole role =
     (if role = ''owner'' \<or> role = ''admin'' then
        [''admin:read'', ''accounts:write'', ''nodes:write'', ''connection:write'', ''configs:write'', ''tokens:write'',
         ''provision:write'', ''audit:read'']
      else if role = ''viewer'' then [''admin:read'', ''audit:read''] else [])"

record Principal =
  pcName :: string
  pcRole :: string
  pcPermissions :: "string list"
  pcIdentityID :: string
  pcSessionID :: string

definition zeroPrincipal :: Principal where
  "zeroPrincipal = \<lparr>pcName = [], pcRole = [], pcPermissions = [], pcIdentityID = [], pcSessionID = []\<rparr>"

definition HasPermission :: "Principal \<Rightarrow> string \<Rightarrow> bool" where
  "HasPermission p permission = list_ex (\<lambda>item. item = permission) (pcPermissions p)"

text \<open>The principal of the request context, when the request has one.\<close>

definition Authorize :: "Principal option \<Rightarrow> string \<Rightarrow> Principal \<times> bool" where
  "Authorize ctx permission =
     (case ctx of
        None \<Rightarrow> (zeroPrincipal, False)
      | Some p \<Rightarrow> if \<not> HasPermission p permission then (zeroPrincipal, False) else (p, True))"

section \<open>The authenticator\<close>

record Authenticator =
  atStore :: bool
  atCookieName :: string
  atCookiePath :: string
  atSessionTTL :: int
  atCsrfSecret :: string

record AuthConfig =
  cgStore :: bool
  cgCookieName :: string
  cgCookiePath :: string
  cgSessionTTL :: int
  cgCSRFSecret :: string

abbreviation (input) Second :: int where "Second \<equiv> 10 ^ 9"
abbreviation (input) Minute :: int where "Minute \<equiv> 60 * 10 ^ 9"
abbreviation (input) Hour :: int where "Hour \<equiv> 3600 * 10 ^ 9"

definition passwordMinLength :: nat where "passwordMinLength = 6"
definition lockoutAttempts :: int where "lockoutAttempts = 10"
definition lockoutDuration :: int where "lockoutDuration = 15 * Minute"
definition accessTTL :: int where "accessTTL = 10 * Minute"
definition refreshTTL :: int where "refreshTTL = 40 * Minute"
definition refreshAbsoluteTTL :: int where "refreshAbsoluteTTL = 6 * Hour"
definition csrfTTL :: int where "csrfTTL = accessTTL"
definition refreshReuseGrace :: int where "refreshReuseGrace = 10 * Second"

definition normalizeCookiePath :: "string \<Rightarrow> string" where
  "normalizeCookiePath path =
     (let path = TrimSpace path
      in if path = [] \<or> path = ''/'' then ''/'' else ''/'' @ TrimByte (CHR ''/'') path)"

definition Authenticator_New :: "AuthConfig \<Rightarrow> Authenticator" where
  "Authenticator_New config =
     \<lparr>atStore = cgStore config,
      atCookieName = (let n = TrimSpace (cgCookieName config) in if n = [] then ''laz_admin_session'' else n),
      atCookiePath = normalizeCookiePath (cgCookiePath config),
      atSessionTTL = (if cgSessionTTL config \<le> 0 then accessTTL else cgSessionTTL config),
      atCsrfSecret = (let c = TrimSpace (cgCSRFSecret config) in if c = [] then ''laz-admin-csrf-development-secret'' else c)\<rparr>"

definition CookieName :: "Authenticator option \<Rightarrow> string" where
  "CookieName a = (case a of None \<Rightarrow> ''laz_admin_session'' | Some x \<Rightarrow> if atCookieName x = [] then ''laz_admin_session'' else atCookieName x)"

definition CookiePath :: "Authenticator option \<Rightarrow> string" where
  "CookiePath a = (case a of None \<Rightarrow> ''/'' | Some x \<Rightarrow> if atCookiePath x = [] then ''/'' else atCookiePath x)"

definition RefreshCookieName :: "Authenticator option \<Rightarrow> string" where
  "RefreshCookieName a = CookieName a @ ''_refresh''"

text \<open>The guard at the head of the methods.\<close>

definition ready :: "Authenticator option \<Rightarrow> Authenticator option" where
  "ready a = (case a of None \<Rightarrow> None | Some x \<Rightarrow> if atStore x then Some x else None)"

definition ErrInvalidCredentials :: error where
  "ErrInvalidCredentials = Err ''invalid credentials''"

definition ErrPasswordChangeRequired :: error where
  "ErrPasswordChangeRequired = Err ''password change required''"

section \<open>CSRF tokens\<close>

definition csrfSignature :: "Crypto \<Rightarrow> Authenticator \<Rightarrow> string \<Rightarrow> string" where
  "csrfSignature cy a payload = hex (cyHmac cy (atCsrfSecret a) payload)"

abbreviation Unix :: "int \<Rightarrow> int" where
  "Unix t \<equiv> t div 10 ^ 9"

definition NewCSRFToken :: "Crypto \<Rightarrow> Authenticator \<Rightarrow> int \<Rightarrow> string \<Rightarrow> string" where
  "NewCSRFToken cy a now sessionID =
     (let payload = sessionID @ '':'' @ FormatInt (Unix (now + csrfTTL))
      in payload @ '':'' @ csrfSignature cy a payload)"

definition ValidateCSRF :: "Crypto \<Rightarrow> Authenticator option \<Rightarrow> int \<Rightarrow> AuthSession \<Rightarrow> string \<Rightarrow> bool" where
  "ValidateCSRF cy a now session token =
     (let token = TrimSpace token
      in case a of
           None \<Rightarrow> False
         | Some x \<Rightarrow>
             token \<noteq> [] \<and>
             (case Split (CHR '':'') token of
                [sessionID, expText, sig] \<Rightarrow>
                  sessionID = seID session \<and>
                  (case Sscanf_d expText of None \<Rightarrow> False | Some e \<Rightarrow> \<not> Unix now > e) \<and>
                  sig = csrfSignature cy x (sessionID @ '':'' @ expText)
              | _ \<Rightarrow> False))"

section \<open>Passwords\<close>

definition weakPasswords :: "string list" where
  "weakPasswords = [''admin'', ''password'', ''123456'', ''12345678'', ''qwerty'', ''letmein'']"

definition hasRequiredPasswordComposition :: "UnicodeTables \<Rightarrow> string \<Rightarrow> bool" where
  "hasRequiredPasswordComposition u password =
     (case fold (\<lambda>r (hasLetter, hasDigit, hasSymbol).
             if IsLetter u r then (True, hasDigit, hasSymbol)
             else if IsDigit u r then (hasLetter, True, hasSymbol)
             else (hasLetter, hasDigit, True)) (runes password) (False, False, False) of
        (hasLetter, hasDigit, hasSymbol) \<Rightarrow> hasLetter \<and> hasDigit \<and> hasSymbol)"

definition ValidateAdminPassword :: "UnicodeTables \<Rightarrow> string \<Rightarrow> string \<Rightarrow> error option" where
  "ValidateAdminPassword u login password =
     (let password = TrimSpace password
      in if length password < passwordMinLength then Some (Err ''password must be at least 6 characters'')
         else if List.member weakPasswords (ToLower u password) \<or> EqualFold u (TrimSpace login) password
         then Some (Err ''password is too weak'')
         else if \<not> hasRequiredPasswordComposition u password
         then Some (Err ''password must include at least one letter, one digit, and one symbol'')
         else None)"

section \<open>Sessions of administrators\<close>

definition zeroSession :: AuthSession where
  "zeroSession = \<lparr>seID = [], seIdentityID = [], seAccountID = [], seTokenHash = [], seRefreshTokenHash = [],
     seRefreshExpiresAt = zero_time, seRefreshAbsoluteUntil = zero_time, seStatus = [], seExpiresAt = zero_time,
     seLastUsedAt = zero_time, seLastSeenAt = zero_time, seOnlineUntil = zero_time, seCreatedAt = zero_time, seUpdatedAt = zero_time\<rparr>"

record LoginResult =
  lrPrincipal :: Principal
  lrSession :: AuthSession
  lrSessionToken :: string
  lrRefreshToken :: string
  lrCSRFToken :: string
  lrMustChangePassword :: bool
  lrPasswordChangeToken :: string
  lrPasswordChangeSessionID :: string

definition zeroLogin :: LoginResult where
  "zeroLogin = \<lparr>lrPrincipal = zeroPrincipal, lrSession = zeroSession, lrSessionToken = [], lrRefreshToken = [], lrCSRFToken = [],
     lrMustChangePassword = False, lrPasswordChangeToken = [], lrPasswordChangeSessionID = []\<rparr>"

text \<open>A login returns a result and an error; the demand to change the password carries both.\<close>

type_synonym login = "LoginResult \<times> error option"

definition refuse :: "error \<Rightarrow> login" where
  "refuse e = (zeroLogin, Some e)"

definition principalOf :: "AuthIdentity \<Rightarrow> AdminProfile \<Rightarrow> string \<Rightarrow> Principal" where
  "principalOf identity profile sessionID =
     \<lparr>pcName = idLogin identity, pcRole = apRole profile, pcPermissions = PermissionsForRole (apRole profile),
      pcIdentityID = idID identity, pcSessionID = sessionID\<rparr>"

text \<open>\<open>cookies\<close> are the cookies of the request, in their order.\<close>

definition AuthenticateSessionRequest ::
  "Crypto \<Rightarrow> Authenticator option \<Rightarrow> int \<Rightarrow> (string \<times> string) list \<Rightarrow> AuthDB \<Rightarrow> (Principal \<times> AuthSession) option \<times> AuthDB" where
  "AuthenticateSessionRequest cy a now cookies db =
     (case ready a of
        None \<Rightarrow> (None, db)
      | Some x \<Rightarrow>
          (case map_of cookies (atCookieName x) of
             None \<Rightarrow> (None, db)
           | Some cookie \<Rightarrow>
               if TrimSpace cookie = [] then (None, db)
               else case GetActiveAuthSessionByTokenHash db (tokens_Hash cy cookie) of
                 Inl _ \<Rightarrow> (None, db)
               | Inr session \<Rightarrow>
                   if seStatus session \<noteq> StatusActive then (None, db)
                   else if \<not> IsZero (seExpiresAt session) \<and> now > seExpiresAt session
                   then (None, snd (RevokeAuthSessionsByIdentityID now (seIdentityID session) db))
                   else case GetAuthIdentity db (seIdentityID session) of
                     Inl _ \<Rightarrow> (None, db)
                   | Inr identity \<Rightarrow>
                       if idStatus identity \<noteq> StatusActive \<or> idMustChangePassword identity then (None, db)
                       else case GetAdminProfile db (idID identity) of
                         Inl _ \<Rightarrow> (None, db)
                       | Inr profile \<Rightarrow>
                           if apStatus profile \<noteq> StatusActive then (None, db)
                           else (Some (principalOf identity profile (seID session), session), db)))"

definition issueNormalSession ::
  "Crypto \<Rightarrow> entropy \<Rightarrow> random \<Rightarrow> Authenticator \<Rightarrow> int \<Rightarrow> AuthIdentity \<Rightarrow> AuthDB \<Rightarrow> login \<times> AuthDB" where
  "issueNormalSession cy ent rnd a now identity db =
     (case GetAdminProfile db (idID identity) of
        Inl _ \<Rightarrow> (refuse ErrInvalidCredentials, db)
      | Inr profile \<Rightarrow>
          if apStatus profile \<noteq> StatusActive then (refuse ErrInvalidCredentials, db)
          else case tokens_New (ent 0) of
            Inl e \<Rightarrow> (refuse e, db)
          | Inr sessionToken \<Rightarrow>
              (case tokens_New (ent 1) of
                 Inl e \<Rightarrow> (refuse e, db)
               | Inr refreshToken \<Rightarrow>
                   (case CreateAuthSession rnd now
                           (zeroSession\<lparr>seIdentityID := idID identity, seAccountID := idAccountID identity,
                              seTokenHash := tokens_Hash cy sessionToken, seRefreshTokenHash := tokens_Hash cy refreshToken,
                              seRefreshExpiresAt := now + refreshTTL, seRefreshAbsoluteUntil := now + refreshAbsoluteTTL,
                              seStatus := StatusActive, seExpiresAt := now + atSessionTTL a\<rparr>) db of
                      (Inl e, db') \<Rightarrow> (refuse e, db')
                    | (Inr session, db') \<Rightarrow>
                        ((zeroLogin\<lparr>lrPrincipal := principalOf identity profile (seID session), lrSession := session,
                            lrSessionToken := sessionToken, lrRefreshToken := refreshToken,
                            lrCSRFToken := NewCSRFToken cy a now (seID session)\<rparr>, None), db'))))"

definition recordFailedLogin :: "int \<Rightarrow> AuthCredential \<Rightarrow> AuthDB \<Rightarrow> AuthDB" where
  "recordFailedLogin now credential db =
     (let n = crFailedAttempts credential + 1
      in snd (UpdateAuthCredential now
           (credential\<lparr>crFailedAttempts := n,
              crLockedUntil := (if n \<ge> lockoutAttempts then now + lockoutDuration else crLockedUntil credential)\<rparr>) db))"

definition LoginWithPassword ::
  "Crypto \<Rightarrow> entropy \<Rightarrow> random \<Rightarrow> Authenticator option \<Rightarrow> int \<Rightarrow> string \<Rightarrow> string \<Rightarrow> AuthDB \<Rightarrow> login \<times> AuthDB" where
  "LoginWithPassword cy ent rnd a now login password db =
     (case ready a of
        None \<Rightarrow> (refuse ErrInvalidCredentials, db)
      | Some x \<Rightarrow>
          (case FindActiveAdminIdentityByLogin db (TrimSpace login) of
             Inl _ \<Rightarrow> (refuse ErrInvalidCredentials, db)
           | Inr identity \<Rightarrow>
               if idStatus identity \<noteq> StatusActive then (refuse ErrInvalidCredentials, db)
               else case GetAuthCredential db (idID identity) AuthCredentialTypePassword of
                 Inl _ \<Rightarrow> (refuse ErrInvalidCredentials, db)
               | Inr credential \<Rightarrow>
                   if crStatus credential \<noteq> StatusActive then (refuse ErrInvalidCredentials, db)
                   else if \<not> IsZero (crLockedUntil credential) \<and> now < crLockedUntil credential
                   then (refuse ErrInvalidCredentials, db)
                   else if \<not> cyCompare cy (crSecretHash credential) password
                   then (refuse ErrInvalidCredentials, recordFailedLogin now credential db)
                   else
                     let db1 = (if crFailedAttempts credential \<noteq> 0 \<or> \<not> IsZero (crLockedUntil credential)
                                then snd (UpdateAuthCredential now (credential\<lparr>crFailedAttempts := 0, crLockedUntil := zero_time\<rparr>) db)
                                else db)
                     in if idMustChangePassword identity
                        then case tokens_New (ent 0) of
                          Inl e \<Rightarrow> (refuse e, db1)
                        | Inr changeToken \<Rightarrow>
                            (case CreateAuthSession rnd now
                                    (zeroSession\<lparr>seIdentityID := idID identity, seTokenHash := tokens_Hash cy changeToken,
                                       seStatus := StatusHeld, seExpiresAt := now + 15 * Minute\<rparr>) db1 of
                               (Inl e, db2) \<Rightarrow> (refuse e, db2)
                             | (Inr limited, db2) \<Rightarrow>
                                 ((zeroLogin\<lparr>lrMustChangePassword := True, lrPasswordChangeToken := changeToken,
                                     lrPasswordChangeSessionID := seID limited\<rparr>, Some ErrPasswordChangeRequired), db2))
                        else issueNormalSession cy ent rnd x now identity db1))"

definition ChangePassword ::
  "Crypto \<Rightarrow> UnicodeTables \<Rightarrow> entropy \<Rightarrow> random \<Rightarrow> Authenticator option \<Rightarrow> int \<Rightarrow> string \<Rightarrow> string \<Rightarrow> AuthDB \<Rightarrow> login \<times> AuthDB" where
  "ChangePassword cy u ent rnd a now changeToken newPassword db =
     (case ready a of
        None \<Rightarrow> (refuse ErrInvalidCredentials, db)
      | Some x \<Rightarrow>
          (case GetAuthSessionByTokenHash db (tokens_Hash cy changeToken) of
             Inl _ \<Rightarrow> (refuse ErrInvalidCredentials, db)
           | Inr session \<Rightarrow>
               if seStatus session \<noteq> StatusHeld \<or> \<not> IsZero (seExpiresAt session) \<and> now > seExpiresAt session
               then (refuse ErrInvalidCredentials, db)
               else case GetAuthIdentity db (seIdentityID session) of
                 Inl _ \<Rightarrow> (refuse ErrInvalidCredentials, db)
               | Inr identity \<Rightarrow>
                   if idStatus identity \<noteq> StatusActive \<or> \<not> idMustChangePassword identity
                   then (refuse ErrInvalidCredentials, db)
                   else case ValidateAdminPassword u (idLogin identity) newPassword of
                     Some e \<Rightarrow> (refuse e, db)
                   | None \<Rightarrow>
                       (case cyGenerate cy newPassword of
                          Inl e \<Rightarrow> (refuse e, db)
                        | Inr hash \<Rightarrow>
                            (case GetAuthCredential db (idID identity) AuthCredentialTypePassword of
                               Inl e \<Rightarrow> (refuse e, db)
                             | Inr credential \<Rightarrow>
                                 (case UpdateAuthCredential now
                                         (credential\<lparr>crSecretHash := hash, crFailedAttempts := 0, crLockedUntil := zero_time,
                                            crStatus := StatusActive\<rparr>) db of
                                    (Inl e, db1) \<Rightarrow> (refuse e, db1)
                                  | (Inr _, db1) \<Rightarrow>
                                      let identity' = identity\<lparr>idMustChangePassword := False\<rparr>
                                      in case UpdateAuthIdentity now identity' db1 of
                                           (Inl e, db2) \<Rightarrow> (refuse e, db2)
                                         | (Inr _, db2) \<Rightarrow>
                                             issueNormalSession cy ent rnd x now identity'
                                               (snd (RevokeAuthSessionsByIdentityID now (idID identity) db2)))))))"

definition Logout :: "Crypto \<Rightarrow> Authenticator option \<Rightarrow> int \<Rightarrow> (string \<times> string) list \<Rightarrow> (AuthDB, unit) op" where
  "Logout cy a now cookies db =
     (case AuthenticateSessionRequest cy a now cookies db of
        (None, db') \<Rightarrow> (Inl ErrInvalidCredentials, db')
      | (Some (_, session), db') \<Rightarrow> RevokeAuthSessionsByIdentityID now (seIdentityID session) db')"

definition Refresh ::
  "Crypto \<Rightarrow> entropy \<Rightarrow> 8 word list \<Rightarrow> Authenticator option \<Rightarrow> int \<Rightarrow> string \<Rightarrow> string \<Rightarrow> AuthDB \<Rightarrow> login \<times> AuthDB" where
  "Refresh cy ent rnd a now rawRefreshToken csrfToken db =
     (case ready a of
        None \<Rightarrow> (refuse ErrInvalidCredentials, db)
      | Some x \<Rightarrow>
          (let refreshHash = tokens_Hash cy rawRefreshToken
           in case tokens_New (ent 0) of
                Inl e \<Rightarrow> (refuse e, db)
              | Inr sessionToken \<Rightarrow>
                  (case tokens_New (ent 1) of
                     Inl e \<Rightarrow> (refuse e, db)
                   | Inr refreshToken \<Rightarrow>
                       (case GetAuthSessionByRefreshHashForRotation now db refreshHash refreshReuseGrace of
                          Inl _ \<Rightarrow> (refuse ErrInvalidCredentials, db)
                        | Inr session \<Rightarrow>
                            if seRefreshTokenHash session = [] \<or> now > seRefreshExpiresAt session \<or> now > seRefreshAbsoluteUntil session
                            then (refuse ErrInvalidCredentials, db)
                            else if \<not> ValidateCSRF cy a now session csrfToken then (refuse ErrInvalidCredentials, db)
                            else case GetAuthIdentity db (seIdentityID session) of
                              Inl _ \<Rightarrow> (refuse ErrInvalidCredentials, db)
                            | Inr identity \<Rightarrow>
                                if idStatus identity \<noteq> StatusActive \<or> idMustChangePassword identity
                                then (refuse ErrInvalidCredentials, db)
                                else case GetAdminProfile db (idID identity) of
                                  Inl _ \<Rightarrow> (refuse ErrInvalidCredentials, db)
                                | Inr profile \<Rightarrow>
                                    if apStatus profile \<noteq> StatusActive then (refuse ErrInvalidCredentials, db)
                                    else case RotateAuthRefreshToken rnd now refreshHash (tokens_Hash cy sessionToken)
                                                (now + atSessionTTL x) (tokens_Hash cy refreshToken) (now + refreshTTL) refreshReuseGrace db of
                                      (Inl e, db') \<Rightarrow> (refuse e, db')
                                    | (Inr rotation, db') \<Rightarrow>
                                        let s = roSession rotation;
                                            session' = (if roGrace rotation \<and> rtTokenHash (roGraceRefreshToken rotation) \<noteq> []
                                              then s\<lparr>seRefreshTokenHash := rtTokenHash (roGraceRefreshToken rotation)\<rparr> else s)
                                        in ((zeroLogin\<lparr>lrPrincipal := principalOf identity profile (seID session'),
                                               lrSession := session', lrSessionToken := sessionToken, lrRefreshToken := refreshToken,
                                               lrCSRFToken := NewCSRFToken cy x now (seID session')\<rparr>, None), db')))))"

text \<open>The times a client is told: access and refresh expiry, when to refresh, and the server's time.\<close>

definition Timings :: "int \<Rightarrow> AuthSession \<Rightarrow> int \<times> int \<times> int \<times> int" where
  "Timings now session =
     (let refreshAfter = seExpiresAt session + (- 2 * Minute)
      in (seExpiresAt session, seRefreshExpiresAt session, if refreshAfter < now then now else refreshAfter, now))"

section \<open>The first owner\<close>

record BootstrapInvite =
  biID :: string
  biURL :: string
  biCode :: string
  biExpiresAt :: int

definition activeOwnerExists :: "AdminIdentityProfile list \<Rightarrow> bool" where
  "activeOwnerExists items =
     list_ex (\<lambda>item. idStatus (aipIdentity item) = StatusActive \<and> apStatus (aipProfile item) = StatusActive \<and>
       apRole (aipProfile item) = ''owner'') items"

text \<open>\<open>create role ttl note invitedByID invitedByLogin\<close> makes the invite; a nil store or creator does nothing.\<close>

definition EnsureBootstrapOwnerInvite ::
  "int \<Rightarrow> bool \<Rightarrow> (string \<Rightarrow> int \<Rightarrow> string \<Rightarrow> string \<Rightarrow> string \<Rightarrow> (AuthDB, BootstrapInvite) op) option \<Rightarrow>
   (AuthDB, BootstrapInvite option) op" where
  "EnsureBootstrapOwnerInvite now store create db =
     (case create of
        None \<Rightarrow> (Inr None, db)
      | Some mk \<Rightarrow>
          if \<not> store \<or> activeOwnerExists (ListAdminIdentityProfiles now db) then (Inr None, db)
          else
            let db1 = (case FindActiveSystemOwnerInvite now db of
                         Inl _ \<Rightarrow> db
                       | Inr existing \<Rightarrow> snd (RevokeAdminInvite now (ivID existing) db))
            in case mk ''owner'' (24 * Hour) ''bootstrap owner invite'' [] ''system'' db1 of
                 (Inl e, db2) \<Rightarrow> (Inl e, db2)
               | (Inr invite, db2) \<Rightarrow> (Inr (Some invite), db2))"

end
