(* ===== verification/Admin_Properties.thy ===== *)
theory Admin_Properties
  imports Admin_Auth
begin

text \<open>
  What the authenticator guarantees: a login opens a session that authenticates as the same principal, ten failures
  lock the account, changing the password ends all other sessions, and so does a request with an expired access token.
\<close>

section \<open>The tables of identities\<close>

definition accountsOK :: "AuthDB \<Rightarrow> bool" where
  "accountsOK db \<longleftrightarrow> noClash identityClash (adIdentities db) \<and> noClash profileClash (adProfiles db) \<and>
     noClash credentialClash (adCredentials db)"

lemma accountsOK_D:
  assumes "accountsOK db"
  shows "keyed idID (adIdentities db)" "keyed apIdentityID (adProfiles db)" "keyed crID (adCredentials db)"
  using assms unfolding accountsOK_def
  by (auto intro!: noClash_keyed [of identityClash] noClash_keyed [of profileClash] noClash_keyed [of credentialClash]
      simp: identityClash_def profileClash_def credentialClash_def)

lemma accountsOK_same:
  "accountsOK db \<Longrightarrow> adIdentities db' = adIdentities db \<Longrightarrow> adProfiles db' = adProfiles db \<Longrightarrow> adCredentials db' = adCredentials db \<Longrightarrow> accountsOK db'"
  by (simp add: accountsOK_def)

lemma RotateAuthRefreshToken_accounts:
  assumes "RotateAuthRefreshToken rnd now h th e rh re g db = (r, db')"
  shows "adIdentities db' = adIdentities db" "adProfiles db' = adProfiles db" "adCredentials db' = adCredentials db"
  using assms unfolding RotateAuthRefreshToken_def
  by (auto simp: rotateGrace_def revokeFamily_def Let_def split: sum.splits if_split_asm option.splits elim!: rotateActive_cases)

lemma accountsOK_update_credential:
  assumes "accountsOK db" "UpdateAuthCredential now c db = (r, db')"
  shows "accountsOK db'"
  using assms conjunct1 [OF noClash_checked_update] unfolding UpdateAuthCredential_def Let_def
  by (auto simp: accountsOK_def split: sum.splits)

lemma accountsOK_update_identity:
  assumes "accountsOK db" "UpdateAuthIdentity now i db = (r, db')"
  shows "accountsOK db'"
  using assms conjunct1 [OF noClash_checked_update] unfolding UpdateAuthIdentity_def Let_def
  by (auto simp: accountsOK_def split: sum.splits)

lemma accountsOK_update_profile:
  assumes "accountsOK db" "UpdateAdminProfile now p db = (r, db')"
  shows "accountsOK db'"
  using assms unfolding UpdateAdminProfile_def Let_def accountsOK_def
  by (auto intro!: noClash_update_rows simp: profileClash_def split: if_split_asm)

lemma CreateAuthSession_accounts:
  assumes "CreateAuthSession rnd now s db = (r, db')"
  shows "adIdentities db' = adIdentities db" "adProfiles db' = adProfiles db" "adCredentials db' = adCredentials db"
  using assms unfolding CreateAuthSession_def Let_def by (auto dest!: commit_state)

lemma auth_step_accounts: "auth_step db db' \<Longrightarrow> accountsOK db \<Longrightarrow> accountsOK db'"
proof (induction rule: auth_step.induct)
  case (create_identity rnd now v db r db')
  then show ?case unfolding CreateAuthIdentity_def Let_def by (auto simp: accountsOK_def insert_row_eq noClash_append dest!: commit_state)
next
  case (create_profile rnd now p db r db')
  then show ?case unfolding CreateAdminProfile_def Let_def by (auto simp: accountsOK_def insert_row_eq noClash_append dest!: commit_state)
next
  case (create_credential rnd now c db r db')
  then show ?case unfolding CreateAuthCredential_def Let_def by (auto simp: accountsOK_def insert_row_eq noClash_append dest!: commit_state)
next
  case (update_identity now v db r db')
  then show ?case using accountsOK_update_identity by blast
next
  case (update_profile now p db r db')
  then show ?case using accountsOK_update_profile by blast
next
  case (update_credential now c db r db')
  then show ?case using accountsOK_update_credential by blast
next
  case (rotate rnd8 now old th e rh re g db r db')
  then show ?case using RotateAuthRefreshToken_accounts accountsOK_same by metis
next
  case (create_session rnd now s db r db')
  then show ?case using CreateAuthSession_accounts accountsOK_same by metis
qed (erule accountsOK_same; auto simp: CreateAdminInvite_def MarkAdminInviteUsed_def RevokeAdminInvite_def
    CreateAuthRecoveryCode_def MarkAuthRecoveryCodeUsed_def UpdateAuthSessionTokens_def UpdateAuthSessionPresence_def
    RevokeAuthSessionsByIdentityID_def RevokeOtherAuthSessionsByIdentityID_def Let_def
    split: sum.splits if_split_asm dest!: commit_state)+

lemma auth_accounts_reachable: "auth_step\<^sup>*\<^sup>* emptyAuthDB db \<Longrightarrow> accountsOK db"
proof (induction rule: rtranclp_induct)
  case base
  then show ?case by (simp add: accountsOK_def emptyAuthDB_def noClash_def)
qed (rule auth_step_accounts)

lemma GetAuthCredential_Inr:
  "GetAuthCredential db i k = Inr c \<Longrightarrow> c \<in> set (adCredentials db) \<and> crIdentityID c = i \<and> crType c = k \<and> crStatus c \<noteq> StatusDeleted"
  unfolding GetAuthCredential_def by (drule firstRow_Inr) simp

lemma credentialClash_sym: "credentialClash x y \<Longrightarrow> credentialClash y x"
  by (auto simp: credentialClash_def)

text \<open>Writing a changed credential back: the update goes through and the credential is found with its new columns.\<close>

lemma credential_rewrite:
  assumes ok: "accountsOK db" and c: "GetAuthCredential db i k = Inr c"
    and c': "crID c' = crID c" "crStatus c' \<noteq> StatusDeleted" "crIdentityID c' = i" "crType c' = k"
  shows "\<exists>db'. UpdateAuthCredential now c' db = (Inr (c'\<lparr>crCreatedAt := crCreatedAt c, crUpdatedAt := now\<rparr>), db') \<and>
    GetAuthCredential db' i k = Inr (c'\<lparr>crCreatedAt := crCreatedAt c, crUpdatedAt := now\<rparr>) \<and>
    adIdentities db' = adIdentities db \<and> adProfiles db' = adProfiles db \<and> adSessions db' = adSessions db \<and>
    adRefreshTokens db' = adRefreshTokens db \<and> accountsOK db'"
proof -
  let ?f = "\<lambda>r. r\<lparr>crSecretHash := crSecretHash c', crFailedAttempts := crFailedAttempts c', crLockedUntil := crLockedUntil c',
     crStatus := crStatus c', crUpdatedAt := now\<rparr>" and ?P = "\<lambda>r. crID r = crID c'"
  let ?t = "update_rows ?P ?f (adCredentials db)" and ?c = "c'\<lparr>crCreatedAt := crCreatedAt c, crUpdatedAt := now\<rparr>"
  let ?db = "db\<lparr>adCredentials := ?t\<rparr>"
  note m = GetAuthCredential_Inr [OF c]
  have only: "r = c" if "r \<in> set (adCredentials db)" "crID r = crID c" for r
    using that m accountsOK_D(3) [OF ok] by (metis distinct_map inj_onD)
  have t: "?t = map (\<lambda>r. if r = c then ?c else r) (adCredentials db)"
    unfolding update_rows_def by (rule map_cong) (use only c' m in auto)
  have nc: "noClash credentialClash ?t"
  proof -
    have "?t = update_rows (\<lambda>r. r = c) (\<lambda>_. ?c) (adCredentials db)" using t by (simp add: update_rows_def)
    moreover have "noClash credentialClash (update_rows (\<lambda>r. r = c) (\<lambda>_. ?c) (adCredentials db))"
      using ok c' m unfolding accountsOK_def by (intro noClash_update_rows) (auto simp: credentialClash_def split: if_split_asm)
    ultimately show ?thesis by simp
  qed
  have "GetAuthCredential ?db i k = Inr ?c" unfolding GetAuthCredential_def
  proof (rule firstRow_eq [where key = crID])
    show "keyed crID (adCredentials ?db)" using accountsOK_D(3) [OF ok] by simp
    show mem: "?c \<in> set (adCredentials ?db)" using m by (auto simp: t)
    show "crID x = crID ?c" if x: "x \<in> set (adCredentials ?db)" "crIdentityID x = i \<and> crType x = k \<and> crStatus x \<noteq> StatusDeleted" for x
    proof (rule ccontr)
      assume "crID x \<noteq> crID ?c"
      then have "x \<noteq> ?c" by auto
      then have "\<not> credentialClash x ?c" using noClash_D [OF nc _ _ _ credentialClash_sym] x(1) mem by simp
      then show False using x(2) m c' by (simp add: credentialClash_def)
    qed
  qed (use c' m in auto)
  moreover have "UpdateAuthCredential now c' db = (GetAuthCredential ?db i k, ?db)"
    using nc c' unfolding UpdateAuthCredential_def checked_update_def Let_def by simp
  ultimately show ?thesis using ok nc by (auto simp: accountsOK_def)
qed

section \<open>Lockout\<close>

text \<open>The state of an administrator who tries to log in: identity and password credential found, both active.\<close>

definition canTry :: "AuthDB \<Rightarrow> string \<Rightarrow> AuthIdentity \<Rightarrow> AuthCredential \<Rightarrow> bool" where
  "canTry db login identity c \<longleftrightarrow> FindActiveAdminIdentityByLogin db (TrimSpace login) = Inr identity \<and>
     GetAuthCredential db (idID identity) AuthCredentialTypePassword = Inr c \<and> crStatus c = StatusActive"

lemma canTry_active: "canTry db login identity c \<Longrightarrow> idStatus identity = StatusActive"
  unfolding canTry_def FindActiveAdminIdentityByLogin_def by (auto dest!: firstRow_Inr)

lemma failed_login:
  assumes ok: "accountsOK db" and r: "ready a = Some x" and c: "canTry db login identity c"
    and l: "IsZero (crLockedUntil c) \<or> crLockedUntil c \<le> now" and p: "\<not> cyCompare cy (crSecretHash c) password"
  shows "\<exists>db' c'. LoginWithPassword cy ent rnd a now login password db = (refuse ErrInvalidCredentials, db') \<and> accountsOK db' \<and>
    canTry db' login identity c' \<and> crSecretHash c' = crSecretHash c \<and> crFailedAttempts c' = crFailedAttempts c + 1 \<and>
    crLockedUntil c' = (if crFailedAttempts c + 1 \<ge> lockoutAttempts then now + lockoutDuration else crLockedUntil c)"
proof -
  let ?c = "c\<lparr>crFailedAttempts := crFailedAttempts c + 1,
     crLockedUntil := (if crFailedAttempts c + 1 \<ge> lockoutAttempts then now + lockoutDuration else crLockedUntil c)\<rparr>"
  have g: "GetAuthCredential db (idID identity) AuthCredentialTypePassword = Inr c" using c by (simp add: canTry_def)
  note m = GetAuthCredential_Inr [OF g]
  obtain db' where d: "snd (UpdateAuthCredential now ?c db) = db'" "accountsOK db'" "adIdentities db' = adIdentities db"
    "GetAuthCredential db' (idID identity) AuthCredentialTypePassword = Inr (?c\<lparr>crCreatedAt := crCreatedAt c, crUpdatedAt := now\<rparr>)"
    using credential_rewrite [OF ok g, of ?c now] m by auto
  have "LoginWithPassword cy ent rnd a now login password db = (refuse ErrInvalidCredentials, db')"
    using c l p canTry_active [OF c] d(1) r unfolding LoginWithPassword_def canTry_def recordFailedLogin_def Let_def
    by (cases "IsZero (crLockedUntil c)") simp_all
  moreover have "canTry db' login identity (?c\<lparr>crCreatedAt := crCreatedAt c, crUpdatedAt := now\<rparr>)"
    using c d(3,4) by (simp add: canTry_def FindActiveAdminIdentityByLogin_def)
  ultimately show ?thesis using d(2) by (intro exI conjI) (assumption | simp)+
qed

definition loginAttempts ::
  "Crypto \<Rightarrow> entropy \<Rightarrow> random \<Rightarrow> Authenticator option \<Rightarrow> string \<Rightarrow> (int \<times> string) list \<Rightarrow> AuthDB \<Rightarrow> AuthDB" where
  "loginAttempts cy ent rnd a login tries db = fold (\<lambda>(now, password) db. snd (LoginWithPassword cy ent rnd a now login password db)) tries db"

lemma failed_logins:
  assumes "ready a = Some x" "accountsOK db" "canTry db login identity c" "IsZero (crLockedUntil c)"
    "crFailedAttempts c + int (length tries) \<le> lockoutAttempts" "\<forall>(t, p) \<in> set tries. \<not> cyCompare cy (crSecretHash c) p" "tries \<noteq> []"
  shows "\<exists>c'. canTry (loginAttempts cy ent rnd a login tries db) login identity c' \<and>
    crLockedUntil c' = (if crFailedAttempts c + int (length tries) = lockoutAttempts then fst (last tries) + lockoutDuration else crLockedUntil c)"
  using assms(2-)
proof (induction tries arbitrary: db c)
  case (Cons tp tries)
  obtain t p where tp: "tp = (t, p)" by (cases tp)
  obtain db' c' where d: "LoginWithPassword cy ent rnd a t login p db = (refuse ErrInvalidCredentials, db')" "accountsOK db'"
    "canTry db' login identity c'" "crSecretHash c' = crSecretHash c" "crFailedAttempts c' = crFailedAttempts c + 1"
    "crLockedUntil c' = (if crFailedAttempts c + 1 \<ge> lockoutAttempts then t + lockoutDuration else crLockedUntil c)"
    using failed_login [OF Cons.prems(1) assms(1) Cons.prems(2), of t cy p ent rnd] Cons.prems(3,5) tp by auto
  have s: "loginAttempts cy ent rnd a login (tp # tries) db = loginAttempts cy ent rnd a login tries db'"
    by (simp add: loginAttempts_def tp d(1))
  show ?case
  proof (cases "tries = []")
    case True
    then show ?thesis unfolding s using d(3,6) Cons.prems(4) tp by (auto simp: loginAttempts_def)
  next
    case False
    then have "crLockedUntil c' = crLockedUntil c" using d(6) Cons.prems(4) by (cases tries) auto
    with Cons.IH [OF d(2,3)] show ?thesis unfolding s using Cons.prems(3-5) d(4,5) False
      by (auto simp: algebra_simps split: if_split_asm)
  qed
qed simp

text \<open>
  C25. After ten wrong passwords in a row for an administrator whose account was not locked, every login is refused
  for fifteen minutes after the last attempt, whatever password is given, and the refusals change nothing.
\<close>

theorem lockout_after_ten_failures:
  assumes run: "auth_step\<^sup>*\<^sup>* emptyAuthDB db" and a: "ready a = Some x"
    and i: "FindActiveAdminIdentityByLogin db (TrimSpace login) = Inr identity"
    and c: "GetAuthCredential db (idID identity) AuthCredentialTypePassword = Inr c" "crStatus c = StatusActive"
      "crFailedAttempts c = 0" "IsZero (crLockedUntil c)"
    and tries: "length tries = 10" "\<forall>(t, p) \<in> set tries. \<not> cyCompare cy (crSecretHash c) p"
    and now: "now < fst (last tries) + 15 * Minute" "0 \<le> fst (last tries)"
  shows "LoginWithPassword cy ent' rnd' a now login password (loginAttempts cy ent rnd a login tries db) =
    (refuse ErrInvalidCredentials, loginAttempts cy ent rnd a login tries db)"
proof -
  have "canTry db login identity c" "tries \<noteq> []" using i c tries(1) by (auto simp: canTry_def)
  from failed_logins [OF a auth_accounts_reachable [OF run] this(1) c(4), of tries cy ent rnd] this(2) c(3) tries
  obtain c' where c': "canTry (loginAttempts cy ent rnd a login tries db) login identity c'"
    "crLockedUntil c' = fst (last tries) + lockoutDuration" by (auto simp: lockoutAttempts_def)
  have "\<not> IsZero (crLockedUntil c')" "now < crLockedUntil c'"
    using now c'(2) by (simp_all add: IsZero_def zero_time_def lockoutDuration_def)
  then show ?thesis using c'(1) a canTry_active [OF c'(1)] unfolding LoginWithPassword_def canTry_def by simp
qed

text \<open>An example: one administrator, with toy stand-ins for the cryptography.\<close>

definition exampleCrypto :: Crypto where
  "exampleCrypto = \<lparr>cySum256 = map (\<lambda>c. of_nat (of_char c)), cyHmac = (\<lambda>k p. map (\<lambda>c. of_nat (of_char c)) (k @ p)),
     cyCompare = (\<lambda>h p. h = p), cyGenerate = Inr\<rparr>"

definition exampleAuthenticator :: Authenticator where
  "exampleAuthenticator = \<lparr>atStore = True, atCookieName = ''sid'', atCookiePath = ''/'', atSessionTTL = 10 * Minute, atCsrfSecret = ''k''\<rparr>"

definition exampleIdentity :: "bool \<Rightarrow> AuthIdentity" where
  "exampleIdentity must = \<lparr>idID = ''i1'', idKind = AuthIdentityKindAdmin, idLogin = ''root'', idDisplayName = ''Root'', idAccountID = [],
     idStatus = [], idMustChangePassword = must, idVerifiedAt = zero_time, idCreatedAt = 0, idUpdatedAt = 0\<rparr>"

definition exampleProfile :: AdminProfile where
  "exampleProfile = \<lparr>apID = ''p1'', apIdentityID = ''i1'', apRole = ''viewer'', apStatus = [], apCreatedAt = 0, apUpdatedAt = 0\<rparr>"

definition exampleCredential :: AuthCredential where
  "exampleCredential = \<lparr>crID = ''c1'', crIdentityID = ''i1'', crType = AuthCredentialTypePassword, crSecretHash = ''pw'', crFailedAttempts = 0,
     crLockedUntil = zero_time, crStatus = [], crCreatedAt = 0, crUpdatedAt = 0\<rparr>"

definition exampleAdmin :: "bool \<Rightarrow> AuthDB" where
  "exampleAdmin must =
     snd (CreateAuthCredential (\<lambda>_. []) 1000 exampleCredential
     (snd (CreateAdminProfile (\<lambda>_. []) 1000 exampleProfile
     (snd (CreateAuthIdentity (\<lambda>_. []) 1000 (exampleIdentity must) emptyAuthDB)))))"

lemma exampleAdmin_reachable: "auth_step\<^sup>*\<^sup>* emptyAuthDB (exampleAdmin must)"
  unfolding exampleAdmin_def
  by (rule rtranclp.rtrancl_into_rtrancl, rule rtranclp.rtrancl_into_rtrancl, rule r_into_rtranclp)
    (rule auth_step.create_identity auth_step.create_profile auth_step.create_credential, rule prod.collapse [symmetric])+

lemma exampleAdmin_eq:
  "exampleAdmin must = emptyAuthDB\<lparr>
     adIdentities := [(exampleIdentity must)\<lparr>idStatus := StatusActive, idCreatedAt := 1000, idUpdatedAt := 1000\<rparr>],
     adProfiles := [exampleProfile\<lparr>apStatus := StatusActive, apCreatedAt := 1000, apUpdatedAt := 1000\<rparr>],
     adCredentials := [exampleCredential\<lparr>crStatus := StatusActive, crCreatedAt := 1000, crUpdatedAt := 1000\<rparr>]\<rparr>"
  by (simp add: exampleAdmin_def CreateAuthCredential_def CreateAdminProfile_def CreateAuthIdentity_def emptyAuthDB_def insert_row_def
      commit_def orNew_def orElse_def exampleIdentity_def exampleProfile_def exampleCredential_def Let_def)

lemmas exampleAdmin_eval = exampleAdmin_eq emptyAuthDB_def exampleIdentity_def exampleProfile_def exampleCredential_def firstRow_def

lemma example_login: "TrimSpace ''root'' = ''root''" "TrimSpace ''tok'' = ''tok''"
  by (rule TrimSpace_ascii; simp)+

lemma exampleAdmin_found:
  "FindActiveAdminIdentityByLogin (exampleAdmin must) (TrimSpace ''root'') = Inr (hd (adIdentities (exampleAdmin must)))"
  "GetAuthCredential (exampleAdmin must) (idID (hd (adIdentities (exampleAdmin must)))) AuthCredentialTypePassword =
     Inr (exampleCredential\<lparr>crStatus := StatusActive, crCreatedAt := 1000, crUpdatedAt := 1000\<rparr>)"
  by (simp_all add: example_login FindActiveAdminIdentityByLogin_def GetAuthCredential_def exampleAdmin_eval)

theorem lockout_after_ten_failures_witness:
  "fst (LoginWithPassword exampleCrypto (\<lambda>_. Inr []) (\<lambda>_. []) (Some exampleAuthenticator) 60000000000 ''root'' ''pw''
     (loginAttempts exampleCrypto (\<lambda>_. Inr []) (\<lambda>_. []) (Some exampleAuthenticator) ''root'' (replicate 10 (5, ''guess'')) (exampleAdmin False))) =
   refuse ErrInvalidCredentials"
proof -
  have h: "ready (Some exampleAuthenticator) = Some exampleAuthenticator" "length (replicate 10 (5::int, ''guess'')) = 10"
    "\<forall>(t, p) \<in> set (replicate 10 (5::int, ''guess'')).
       \<not> cyCompare exampleCrypto (crSecretHash (exampleCredential\<lparr>crStatus := StatusActive, crCreatedAt := 1000, crUpdatedAt := 1000\<rparr>)) p"
    "(60000000000::int) < fst (last (replicate 10 (5, ''guess''))) + 15 * Minute" "0 \<le> fst (last (replicate 10 (5::int, ''guess'')))"
    by (simp_all add: ready_def exampleAuthenticator_def exampleCrypto_def exampleCredential_def)
  show ?thesis
    by (subst lockout_after_ten_failures [OF exampleAdmin_reachable h(1) exampleAdmin_found [where must = False] _ _ _ h(2-5)])
      (simp_all add: exampleCredential_def IsZero_def)
qed

section \<open>Logging in\<close>

definition freshSession :: "AuthSession \<Rightarrow> AuthDB \<Rightarrow> bool" where
  "freshSession s db \<longleftrightarrow> (\<forall>x \<in> set (adSessions db). \<not> sessionClash s x)"

lemma CreateAuthSession_Inr:
  assumes "CreateAuthSession rnd now v db = (Inr s, db')"
  shows "s = v\<lparr>seID := orNew (seID v) (rnd 0), seStatus := orElse (seStatus v) StatusActive, seCreatedAt := now, seUpdatedAt := now\<rparr>"
    "adSessions db' = adSessions db @ [s]" "freshSession s db"
  using assms unfolding CreateAuthSession_def Let_def by (auto simp: insert_row_eq freshSession_def)

lemma freshSession_found:
  assumes "freshSession s db" "adSessions db' = adSessions db @ [s]" "seStatus s = StatusActive"
  shows "GetActiveAuthSessionByTokenHash db' (seTokenHash s) = Inr s"
proof -
  have "find (\<lambda>x. seTokenHash x = seTokenHash s \<and> seStatus x = StatusActive) (adSessions db) = None"
    using assms(1) by (auto simp: find_None_iff freshSession_def sessionClash_def)
  then show ?thesis using assms(2,3) by (simp add: GetActiveAuthSessionByTokenHash_def firstRow_def find_append)
qed

text \<open>What a successful issue of a session leaves.\<close>

definition issued :: "Crypto \<Rightarrow> Authenticator \<Rightarrow> int \<Rightarrow> AuthIdentity \<Rightarrow> AuthDB \<Rightarrow> LoginResult \<Rightarrow> AuthDB \<Rightarrow> bool" where
  "issued cy x now identity db res db' \<longleftrightarrow>
     freshSession (lrSession res) db \<and> adSessions db' = adSessions db @ [lrSession res] \<and>
     seStatus (lrSession res) = StatusActive \<and> seIdentityID (lrSession res) = idID identity \<and>
     seTokenHash (lrSession res) = tokens_Hash cy (lrSessionToken res) \<and> seExpiresAt (lrSession res) = now + atSessionTTL x \<and>
     adIdentities db' = adIdentities db \<and> adProfiles db' = adProfiles db \<and> adCredentials db' = adCredentials db \<and>
     (\<exists>profile. GetAdminProfile db (idID identity) = Inr profile \<and> apStatus profile = StatusActive \<and>
        lrPrincipal res = principalOf identity profile (seID (lrSession res)))"

lemma issueNormalSession_issued:
  assumes "issueNormalSession cy ent rnd x now identity db = ((res, None), db')"
  shows "issued cy x now identity db res db'" "\<exists>raw. ent 0 = Inr raw \<and> lrSessionToken res = RawURLEncode (map (char_of \<circ> unat) raw)"
proof -
  obtain profile st rt session where p: "GetAdminProfile db (idID identity) = Inr profile" "apStatus profile = StatusActive"
    and t: "tokens_New (ent 0) = Inr st"
    and c: "CreateAuthSession rnd now (zeroSession\<lparr>seIdentityID := idID identity, seAccountID := idAccountID identity,
        seTokenHash := tokens_Hash cy st, seRefreshTokenHash := tokens_Hash cy rt, seRefreshExpiresAt := now + refreshTTL,
        seRefreshAbsoluteUntil := now + refreshAbsoluteTTL, seStatus := StatusActive, seExpiresAt := now + atSessionTTL x\<rparr>) db = (Inr session, db')"
    and r: "res = zeroLogin\<lparr>lrPrincipal := principalOf identity profile (seID session), lrSession := session, lrSessionToken := st,
        lrRefreshToken := rt, lrCSRFToken := NewCSRFToken cy x now (seID session)\<rparr>"
    using assms unfolding issueNormalSession_def refuse_def by (auto split: sum.splits if_split_asm prod.splits)
  note s = CreateAuthSession_Inr [OF c] and acc = CreateAuthSession_accounts [OF c]
  have r': "lrSession res = session" "lrSessionToken res = st" "lrPrincipal res = principalOf identity profile (seID session)"
    by (simp_all add: r)
  have sel: "seStatus session = StatusActive" "seIdentityID session = idID identity" "seTokenHash session = tokens_Hash cy st"
    "seExpiresAt session = now + atSessionTTL x" using s(1) by (simp_all add: orElse_def)
  show "issued cy x now identity db res db'" using s(2,3) acc p sel unfolding issued_def r' by blast
  show "\<exists>raw. ent 0 = Inr raw \<and> lrSessionToken res = RawURLEncode (map (char_of \<circ> unat) raw)"
    using t by (auto simp: r' tokens_New_def)
qed

lemma issued_authenticates:
  assumes ok: "accountsOK db" and i: "identity \<in> set (adIdentities db)" "idStatus identity = StatusActive" "\<not> idMustChangePassword identity"
    and iss: "issued cy x now identity db res db'" and a: "ready a = Some x" and t: "t \<le> seExpiresAt (lrSession res)"
    and c: "map_of cookies (atCookieName x) = Some (lrSessionToken res)" "TrimSpace (lrSessionToken res) \<noteq> []"
  shows "AuthenticateSessionRequest cy a t cookies db' = (Some (lrPrincipal res, lrSession res), db')"
proof -
  note is' = iss [unfolded issued_def]
  have s: "GetActiveAuthSessionByTokenHash db' (tokens_Hash cy (lrSessionToken res)) = Inr (lrSession res)"
    using freshSession_found [of "lrSession res" db db'] is' by simp
  have "lookup_row idID (adIdentities db) (idID identity) = Some identity"
    using i(1) accountsOK_D(1) [OF ok] by (simp add: lookup_row_keyed)
  then have "GetAuthIdentity db' (seIdentityID (lrSession res)) = Inr identity"
    using is' by (simp add: GetAuthIdentity_def getRow_def)
  moreover obtain profile where "GetAdminProfile db' (idID identity) = Inr profile" "apStatus profile = StatusActive"
    "lrPrincipal res = principalOf identity profile (seID (lrSession res))"
    using is' by (auto simp: GetAdminProfile_def)
  ultimately show ?thesis using s a c i(2,3) t is' unfolding AuthenticateSessionRequest_def by simp
qed

lemma login_success:
  assumes ok: "accountsOK db" and a: "ready a = Some x"
    and call: "LoginWithPassword cy ent rnd a now login password db = ((res, None), db')"
  shows "\<exists>identity c db1. canTry db login identity c \<and> \<not> (\<not> IsZero (crLockedUntil c) \<and> now < crLockedUntil c) \<and>
    cyCompare cy (crSecretHash c) password \<and> \<not> idMustChangePassword identity \<and> accountsOK db1 \<and>
    adIdentities db1 = adIdentities db \<and> adProfiles db1 = adProfiles db \<and> adSessions db1 = adSessions db \<and>
    issueNormalSession cy ent rnd x now identity db1 = ((res, None), db')"
proof -
  obtain identity c where c: "canTry db login identity c" "\<not> (\<not> IsZero (crLockedUntil c) \<and> now < crLockedUntil c)"
    "cyCompare cy (crSecretHash c) password" "\<not> idMustChangePassword identity"
    and iss: "issueNormalSession cy ent rnd x now identity (if crFailedAttempts c \<noteq> 0 \<or> \<not> IsZero (crLockedUntil c)
       then snd (UpdateAuthCredential now (c\<lparr>crFailedAttempts := 0, crLockedUntil := zero_time\<rparr>) db) else db) = ((res, None), db')"
    using call a unfolding LoginWithPassword_def refuse_def canTry_def Let_def
    by (auto split: sum.splits if_split_asm prod.splits)
  let ?c = "c\<lparr>crFailedAttempts := 0, crLockedUntil := zero_time\<rparr>"
  have g: "GetAuthCredential db (idID identity) AuthCredentialTypePassword = Inr c" using c(1) by (simp add: canTry_def)
  obtain d where "snd (UpdateAuthCredential now ?c db) = d" "accountsOK d" "adIdentities d = adIdentities db" "adProfiles d = adProfiles db"
    "adSessions d = adSessions db"
    using credential_rewrite [OF ok g, of ?c now] GetAuthCredential_Inr [OF g] by auto
  then show ?thesis using c iss ok by (cases "crFailedAttempts c \<noteq> 0 \<or> \<not> IsZero (crLockedUntil c)") (auto simp del: not_not)
qed

lemma url_text: "c \<in> set (RawURLEncode raw) \<Longrightarrow> code c \<in> {33..126}"
proof -
  have "\<forall>c \<in> set alphabet. code (urlSymbol c) \<in> {33..126}" by code_simp
  then show "c \<in> set (RawURLEncode raw) \<Longrightarrow> code c \<in> {33..126}"
    using RawStdEncode_alphabet [of raw] unfolding RawURLEncode_def by auto
qed

lemma token_text:
  assumes "raw \<noteq> []"
  shows "TrimSpace (RawURLEncode raw) = RawURLEncode raw" "RawURLEncode raw \<noteq> []"
proof -
  show n: "RawURLEncode raw \<noteq> []"
    using assms RawURLEncode_inj [of raw "[]"] by (auto simp: RawURLEncode_def RawStdEncode_def)
  show "TrimSpace (RawURLEncode raw) = RawURLEncode raw" by (rule TrimSpace_ascii [OF n url_text [of _ raw] url_text [of _ raw]]) (use n in simp_all)
qed

text \<open>
  C26. A login that succeeds was made with the password of the active administrator of that login name; the principal it
  returns has the name and the role stored for that administrator, whose profile is active; and until the session
  expires a request with the session cookie it handed out is authenticated as exactly this principal and session.
\<close>

theorem login_authenticates:
  assumes run: "auth_step\<^sup>*\<^sup>* emptyAuthDB db" and a: "ready a = Some x" and raw: "ent 0 \<noteq> Inr []"
    and call: "LoginWithPassword cy ent rnd a now login password db = ((res, None), db')"
    and t: "t \<le> now + atSessionTTL x" and cookies: "map_of cookies (atCookieName x) = Some (lrSessionToken res)"
  shows "AuthenticateSessionRequest cy a t cookies db' = (Some (lrPrincipal res, lrSession res), db') \<and>
    (\<exists>identity c profile. FindActiveAdminIdentityByLogin db (TrimSpace login) = Inr identity \<and>
       GetAdminProfile db (idID identity) = Inr profile \<and> apStatus profile = StatusActive \<and>
       lrPrincipal res = principalOf identity profile (seID (lrSession res)) \<and>
       GetAuthCredential db (idID identity) AuthCredentialTypePassword = Inr c \<and> cyCompare cy (crSecretHash c) password)"
proof -
  obtain identity c db1 where l: "canTry db login identity c" "cyCompare cy (crSecretHash c) password" "\<not> idMustChangePassword identity"
    "accountsOK db1" "adIdentities db1 = adIdentities db" "issueNormalSession cy ent rnd x now identity db1 = ((res, None), db')"
    "adProfiles db1 = adProfiles db"
    using login_success [OF auth_accounts_reachable [OF run] a call] by blast
  note iss = issueNormalSession_issued [OF l(6)]
  obtain bs where "ent 0 = Inr bs" "lrSessionToken res = RawURLEncode (map (char_of \<circ> unat) bs)" using iss(2) by blast
  then have tok: "TrimSpace (lrSessionToken res) \<noteq> []" using token_text [of "map (char_of \<circ> unat) bs"] raw by auto
  have "identity \<in> set (adIdentities db1)" using l(1,5) unfolding canTry_def FindActiveAdminIdentityByLogin_def by (auto dest!: firstRow_Inr)
  moreover have "t \<le> seExpiresAt (lrSession res)" using iss(1) t by (simp add: issued_def)
  ultimately have "AuthenticateSessionRequest cy a t cookies db' = (Some (lrPrincipal res, lrSession res), db')"
    using issued_authenticates [OF l(4) _ canTry_active [OF l(1)] l(3) iss(1) a _ cookies tok] by blast
  moreover obtain profile where "GetAdminProfile db (idID identity) = Inr profile" "apStatus profile = StatusActive"
    "lrPrincipal res = principalOf identity profile (seID (lrSession res))"
    using iss(1) l(7) by (auto simp: issued_def GetAdminProfile_def)
  ultimately show ?thesis using l(1,2) unfolding canTry_def by blast
qed

definition exampleEntropy :: entropy where
  "exampleEntropy i = Inr [of_nat (i + 1)]"

definition exampleIDs :: random where
  "exampleIDs i = replicate 16 (of_nat i)"

lemma example_ready: "ready (Some exampleAuthenticator) = Some exampleAuthenticator"
  by (simp add: ready_def exampleAuthenticator_def)

lemma example_login_ok:
  "\<exists>res db'. LoginWithPassword exampleCrypto exampleEntropy exampleIDs (Some exampleAuthenticator) 5000 ''root'' ''pw'' (exampleAdmin False) = ((res, None), db')"
  unfolding LoginWithPassword_def example_ready exampleAdmin_found option.case sum.case
  by (simp add: exampleAdmin_eval exampleCrypto_def IsZero_def issueNormalSession_def GetAdminProfile_def getRow_def lookup_row_Cons
      tokens_New_def exampleEntropy_def CreateAuthSession_def insert_row_def commit_def zeroSession_def Let_def)

theorem login_authenticates_witness:
  "\<exists>res db'. LoginWithPassword exampleCrypto exampleEntropy exampleIDs (Some exampleAuthenticator) 5000 ''root'' ''pw'' (exampleAdmin False) =
       ((res, None), db') \<and>
     fst (AuthenticateSessionRequest exampleCrypto (Some exampleAuthenticator) 6000 [(''sid'', lrSessionToken res)] db') =
       Some (lrPrincipal res, lrSession res)"
proof -
  obtain res db' where l: "LoginWithPassword exampleCrypto exampleEntropy exampleIDs (Some exampleAuthenticator) 5000 ''root'' ''pw''
      (exampleAdmin False) = ((res, None), db')" using example_login_ok by blast
  have "exampleEntropy 0 \<noteq> Inr []" "(6000::int) \<le> 5000 + atSessionTTL exampleAuthenticator"
    "map_of [(''sid'', lrSessionToken res)] (atCookieName exampleAuthenticator) = Some (lrSessionToken res)"
    by (simp_all add: exampleEntropy_def exampleAuthenticator_def)
  from login_authenticates [OF exampleAdmin_reachable example_ready this(1) l this(2,3)] l show ?thesis by auto
qed

section \<open>Expired access tokens\<close>

lemma revokeTokens_row:
  assumes "r \<in> set t" "P r"
  shows "\<exists>q \<in> set (revokeTokens now P t). rtTokenHash q = rtTokenHash r \<and> \<not> liveToken q \<and> rtStatus q \<noteq> AuthRefreshTokenStatusRotated"
proof -
  let ?f = "\<lambda>r. if P r \<and> rtStatus r \<in> {AuthRefreshTokenStatusActive, AuthRefreshTokenStatusRotated}
    then r\<lparr>rtStatus := AuthRefreshTokenStatusRevoked, rtUpdatedAt := now\<rparr> else r"
  have "?f r \<in> set (revokeTokens now P t)" unfolding revokeTokens_def set_update_rows using assms(1) by (rule imageI)
  moreover have "rtTokenHash (?f r) = rtTokenHash r" "\<not> liveToken (?f r)" "rtStatus (?f r) \<noteq> AuthRefreshTokenStatusRotated"
    using assms(2) by (auto simp: liveToken_def)
  ultimately show ?thesis by blast
qed

lemma deleteSessions_row:
  assumes "s \<in> set t" "P s"
  shows "\<exists>d \<in> set (deleteSessions now P t). seTokenHash d = seTokenHash s \<and> seStatus d = StatusDeleted"
proof -
  let ?f = "\<lambda>s. if P s \<and> seStatus s \<noteq> StatusDeleted then s\<lparr>seStatus := StatusDeleted, seUpdatedAt := now\<rparr> else s"
  have "?f s \<in> set (deleteSessions now P t)" unfolding deleteSessions_def set_update_rows using assms(1) by (rule imageI)
  moreover have "seTokenHash (?f s) = seTokenHash s" "seStatus (?f s) = StatusDeleted" using assms(2) by auto
  ultimately show ?thesis by blast
qed

text \<open>
  C30. A request with an access token that has expired is refused and ends every session of the identity: the access tokens
  and the refresh tokens of all its sessions are refused, those of other devices included, whose own tokens are still valid.
\<close>

theorem expired_access_ends_all_sessions:
  assumes run: "auth_step\<^sup>*\<^sup>* emptyAuthDB db" and a: "ready a = Some x"
    and cookie: "map_of cookies (atCookieName x) = Some token" "TrimSpace token \<noteq> []"
    and s: "GetActiveAuthSessionByTokenHash db (tokens_Hash cy token) = Inr session" "\<not> IsZero (seExpiresAt session)" "seExpiresAt session < now"
  shows "\<exists>db'. AuthenticateSessionRequest cy a now cookies db = (None, db') \<and>
    (\<forall>s \<in> set (adSessions db). seIdentityID s = seIdentityID session \<longrightarrow>
       GetActiveAuthSessionByTokenHash db' (seTokenHash s) = Inl ErrNotFound) \<and>
    (\<forall>r \<in> set (adRefreshTokens db). rtIdentityID r = seIdentityID session \<longrightarrow>
       (\<forall>t w. GetAuthSessionByRefreshHashForRotation t db' (rtTokenHash r) w = Inl ErrNotFound))"
proof -
  let ?db = "snd (RevokeAuthSessionsByIdentityID now (seIdentityID session) db)"
  have call: "AuthenticateSessionRequest cy a now cookies db = (None, ?db)"
    using a cookie s unfolding AuthenticateSessionRequest_def by (auto simp: GetActiveAuthSessionByTokenHash_def dest!: firstRow_Inr)
  have step: "auth_step db ?db" by (rule auth_step.revoke [OF prod.collapse [symmetric]])
  have ok: "sessionsOK ?db" using run step by (intro auth_reachable_OK) (rule rtranclp.rtrancl_into_rtrancl)
  have refresh: "GetAuthSessionByRefreshHashForRotation t ?db (rtTokenHash r) w = Inl ErrNotFound"
    if r: "r \<in> set (adRefreshTokens db)" "rtIdentityID r = seIdentityID session" for r t w
    using revokeTokens_row [OF r(1), of "\<lambda>r. rtIdentityID r = seIdentityID session"] r(2) rotation_hash_refused [OF ok]
    by (fastforce simp: RevokeAuthSessionsByIdentityID_def)
  have access: "GetActiveAuthSessionByTokenHash ?db (seTokenHash s) = Inl ErrNotFound"
    if s: "s \<in> set (adSessions db)" "seIdentityID s = seIdentityID session" for s
    using deleteSessions_row [OF s(1), of "\<lambda>s. seIdentityID s = seIdentityID session"] s(2) access_hash_refused [OF ok]
    by (fastforce simp: RevokeAuthSessionsByIdentityID_def)
  show ?thesis using call refresh access by blast
qed

definition exampleOnline :: AuthDB where
  "exampleOnline = snd (CreateAuthSession exampleIDs 1000 (exampleSession\<lparr>seTokenHash := tokens_Hash exampleCrypto ''tok''\<rparr>) emptyAuthDB)"

lemma exampleOnline_reachable: "auth_step\<^sup>*\<^sup>* emptyAuthDB exampleOnline"
  unfolding exampleOnline_def
  by (rule r_into_rtranclp, rule auth_step.create_session [OF prod.collapse [symmetric]]) (simp_all add: emptyAuthDB_def exampleSession_def)

lemma exampleOnline_eq:
  "adSessions exampleOnline = [exampleSession\<lparr>seTokenHash := tokens_Hash exampleCrypto ''tok'', seStatus := StatusActive, seCreatedAt := 1000, seUpdatedAt := 1000\<rparr>]"
  "adRefreshTokens exampleOnline = [exampleToken]"
  by (simp_all add: exampleOnline_def CreateAuthSession_def emptyAuthDB_def example_rows insert_row_def commit_def orNew_def orElse_def
      exampleIDs_def Let_def)

theorem expired_access_ends_all_sessions_witness:
  "GetAuthSessionByRefreshHashForRotation 6000
     (snd (AuthenticateSessionRequest exampleCrypto (Some exampleAuthenticator) 6000 [(''sid'', ''tok'')] exampleOnline)) ''r1'' 10 = Inl ErrNotFound"
proof -
  let ?s = "hd (adSessions exampleOnline)"
  have h: "map_of [(''sid'', ''tok'')] (atCookieName exampleAuthenticator) = Some ''tok''" "TrimSpace ''tok'' \<noteq> []"
    "GetActiveAuthSessionByTokenHash exampleOnline (tokens_Hash exampleCrypto ''tok'') = Inr ?s"
    "\<not> IsZero (seExpiresAt ?s)" "seExpiresAt ?s < 6000"
    by (simp_all add: exampleAuthenticator_def example_login GetActiveAuthSessionByTokenHash_def firstRow_def exampleOnline_eq exampleSession_def
        IsZero_def zero_time_def)
  have "exampleToken \<in> set (adRefreshTokens exampleOnline)" "rtIdentityID exampleToken = seIdentityID ?s" "rtTokenHash exampleToken = ''r1''"
    by (simp_all add: exampleOnline_eq example_rows)
  then show ?thesis using expired_access_ends_all_sessions [OF exampleOnline_reachable example_ready h] by force
qed

section \<open>Changing the password\<close>

lemma change_success:
  assumes "ready a = Some x" "ChangePassword cy u ent rnd a now changeToken newPassword db = ((res, None), db')"
  shows "\<exists>session identity hash c r1 r2 db1 db2. GetAuthSessionByTokenHash db (tokens_Hash cy changeToken) = Inr session \<and>
    GetAuthIdentity db (seIdentityID session) = Inr identity \<and> idStatus identity = StatusActive \<and> cyGenerate cy newPassword = Inr hash \<and>
    GetAuthCredential db (idID identity) AuthCredentialTypePassword = Inr c \<and>
    UpdateAuthCredential now (c\<lparr>crSecretHash := hash, crFailedAttempts := 0, crLockedUntil := zero_time, crStatus := StatusActive\<rparr>) db = (Inr r1, db1) \<and>
    UpdateAuthIdentity now (identity\<lparr>idMustChangePassword := False\<rparr>) db1 = (Inr r2, db2) \<and>
    issueNormalSession cy ent rnd x now (identity\<lparr>idMustChangePassword := False\<rparr>)
      (snd (RevokeAuthSessionsByIdentityID now (idID identity) db2)) = ((res, None), db')"
  using assms unfolding ChangePassword_def refuse_def Let_def by (auto split: sum.splits if_split_asm option.splits prod.splits)

lemma GetAuthIdentity_ID: "GetAuthIdentity db i = Inr identity \<Longrightarrow> idID identity = i"
  unfolding GetAuthIdentity_def getRow_def by (auto split: option.splits dest: lookup_row_SomeD)

lemma UpdateAuthIdentity_tables:
  assumes "UpdateAuthIdentity now v db = (r, db')"
  shows "adCredentials db' = adCredentials db" "adSessions db' = adSessions db" "adRefreshTokens db' = adRefreshTokens db" "adProfiles db' = adProfiles db"
  using assms unfolding UpdateAuthIdentity_def Let_def by (auto split: sum.splits)

text \<open>The store after the sessions of an identity were revoked and a new one opened.\<close>

lemma reissued:
  assumes run: "auth_step\<^sup>*\<^sup>* emptyAuthDB db" and iss: "issueNormalSession cy ent rnd x now identity (snd (RevokeAuthSessionsByIdentityID now i db)) = ((res, None), db')"
    and fresh: "NewID (rnd 2) \<notin> rtFamilyID ` set (adRefreshTokens db)"
  shows "auth_step\<^sup>*\<^sup>* emptyAuthDB db'"
    "s \<in> set (adSessions db) \<Longrightarrow> seIdentityID s = i \<Longrightarrow> \<exists>d \<in> set (adSessions db'). seTokenHash d = seTokenHash s \<and> seStatus d = StatusDeleted"
    "r \<in> set (adRefreshTokens db) \<Longrightarrow> rtIdentityID r = i \<Longrightarrow> \<exists>q \<in> set (adRefreshTokens db'). rtTokenHash q = rtTokenHash r \<and> \<not> liveToken q"
proof -
  let ?db = "snd (RevokeAuthSessionsByIdentityID now i db)"
  obtain v where c: "CreateAuthSession rnd now v ?db = (Inr (lrSession res), db')" "seStatus v \<noteq> StatusDeleted"
    using iss unfolding issueNormalSession_def refuse_def by (auto split: sum.splits if_split_asm prod.splits)
  have tok: "adRefreshTokens ?db = revokeTokens now (\<lambda>r. rtIdentityID r = i) (adRefreshTokens db)"
    "adSessions ?db = deleteSessions now (\<lambda>s. seIdentityID s = i) (adSessions db)" by (simp_all add: RevokeAuthSessionsByIdentityID_def)
  have "rtFamilyID ` set (adRefreshTokens ?db) = rtFamilyID ` set (adRefreshTokens db)"
    unfolding tok revokeTokens_def set_update_rows image_image by (rule image_cong) simp_all
  then have step: "auth_step ?db db'" using auth_step.create_session [OF c] fresh by simp
  have run': "auth_step\<^sup>*\<^sup>* emptyAuthDB ?db"
    by (rule rtranclp.rtrancl_into_rtrancl [OF run]) (rule auth_step.revoke [OF prod.collapse [symmetric]])
  then show "auth_step\<^sup>*\<^sup>* emptyAuthDB db'" using step by (rule rtranclp.rtrancl_into_rtrancl)
  have sp: "spends ?db db'" by (rule auth_step_spends [OF step auth_reachable_OK [OF run']])
  show "\<exists>d \<in> set (adSessions db'). seTokenHash d = seTokenHash s \<and> seStatus d = StatusDeleted"
    if "s \<in> set (adSessions db)" "seIdentityID s = i"
    using deleteSessions_row [OF that(1), of "\<lambda>s. seIdentityID s = i" now] that(2) CreateAuthSession_Inr(2) [OF c(1)] unfolding tok by auto
  show "\<exists>q \<in> set (adRefreshTokens db'). rtTokenHash q = rtTokenHash r \<and> \<not> liveToken q"
    if "r \<in> set (adRefreshTokens db)" "rtIdentityID r = i"
    using revokeTokens_row [OF that(1), of "\<lambda>r. rtIdentityID r = i" now] that(2) sp unfolding spends_def tok by metis
qed

text \<open>
  C27. A successful change of the password stores the hash of the new password with a clean counter, ends every
  session the administrator had (their access tokens and refresh tokens are refused) and uses up the change token:
  presenting it again is refused. The session it returns is the one active session of the administrator, found by the
  token that was handed out.
\<close>

theorem password_change_ends_sessions:
  assumes run: "auth_step\<^sup>*\<^sup>* emptyAuthDB db" and a: "ready a = Some x"
    and fresh: "NewID (rnd 2) \<notin> rtFamilyID ` set (adRefreshTokens db)"
    and call: "ChangePassword cy u ent rnd a now changeToken newPassword db = ((res, None), db')"
  shows "\<exists>(identity :: AuthIdentity) hash c. pcIdentityID (lrPrincipal res) = idID identity \<and> cyGenerate cy newPassword = Inr hash \<and>
    GetAuthCredential db' (idID identity) AuthCredentialTypePassword = Inr c \<and> crSecretHash c = hash \<and> crFailedAttempts c = 0 \<and>
    IsZero (crLockedUntil c) \<and>
    (\<forall>s \<in> set (adSessions db). seIdentityID s = idID identity \<longrightarrow> GetActiveAuthSessionByTokenHash db' (seTokenHash s) = Inl ErrNotFound) \<and>
    (\<forall>r \<in> set (adRefreshTokens db). rtIdentityID r = idID identity \<longrightarrow>
       GetActiveAuthSessionByRefreshHash db' (rtTokenHash r) = Inl ErrNotFound) \<and>
    (\<forall>ent' rnd' now' p. ChangePassword cy u ent' rnd' a now' changeToken p db' = (refuse ErrInvalidCredentials, db')) \<and>
    GetActiveAuthSessionByTokenHash db' (tokens_Hash cy (lrSessionToken res)) = Inr (lrSession res) \<and>
    (\<forall>s \<in> set (adSessions db'). seIdentityID s = idID identity \<and> seStatus s = StatusActive \<longrightarrow> s = lrSession res)"
proof -
  obtain session identity hash c r1 r2 db1 db2 where s: "GetAuthSessionByTokenHash db (tokens_Hash cy changeToken) = Inr session"
    and i: "GetAuthIdentity db (seIdentityID session) = Inr identity" and h: "cyGenerate cy newPassword = Inr hash"
    and c: "GetAuthCredential db (idID identity) AuthCredentialTypePassword = Inr c"
    and u: "UpdateAuthCredential now (c\<lparr>crSecretHash := hash, crFailedAttempts := 0, crLockedUntil := zero_time, crStatus := StatusActive\<rparr>) db = (Inr r1, db1)"
      "UpdateAuthIdentity now (identity\<lparr>idMustChangePassword := False\<rparr>) db1 = (Inr r2, db2)"
    and iss: "issueNormalSession cy ent rnd x now (identity\<lparr>idMustChangePassword := False\<rparr>)
      (snd (RevokeAuthSessionsByIdentityID now (idID identity) db2)) = ((res, None), db')"
    using change_success [OF a call] by blast
  let ?c = "c\<lparr>crSecretHash := hash, crFailedAttempts := 0, crLockedUntil := zero_time, crStatus := StatusActive, crUpdatedAt := now\<rparr>"
  have w: "GetAuthCredential db1 (idID identity) AuthCredentialTypePassword = Inr ?c" "adSessions db1 = adSessions db"
    "adRefreshTokens db1 = adRefreshTokens db"
    using credential_rewrite [OF auth_accounts_reachable [OF run] c, of "c\<lparr>crSecretHash := hash, crFailedAttempts := 0, crLockedUntil := zero_time,
      crStatus := StatusActive\<rparr>" now] GetAuthCredential_Inr [OF c] u(1) by auto
  note t2 = UpdateAuthIdentity_tables [OF u(2)]
  have run2: "auth_step\<^sup>*\<^sup>* emptyAuthDB db2" using run auth_step.update_credential [OF u(1)] auth_step.update_identity [OF u(2)]
    by (meson rtranclp.rtrancl_into_rtrancl)
  have fresh2: "NewID (rnd 2) \<notin> rtFamilyID ` set (adRefreshTokens db2)" using fresh w(3) t2(3) by simp
  note re = reissued [OF run2 iss fresh2] and ok = auth_reachable_OK [OF reissued(1) [OF run2 iss fresh2]]
  note si = issueNormalSession_issued(1) [OF iss, unfolded issued_def]
  have "adCredentials db' = adCredentials db1" using si t2(1) by (simp add: RevokeAuthSessionsByIdentityID_def)
  then have cred: "GetAuthCredential db' (idID identity) AuthCredentialTypePassword = Inr ?c" using w(1) by (simp add: GetAuthCredential_def)
  have access: "GetActiveAuthSessionByTokenHash db' (seTokenHash s) = Inl ErrNotFound" if "s \<in> set (adSessions db)" "seIdentityID s = idID identity" for s
    using re(2) [of s] that w(2) t2(2) access_hash_refused [OF ok] by fastforce
  have refresh: "GetActiveAuthSessionByRefreshHash db' (rtTokenHash r) = Inl ErrNotFound"
    if "r \<in> set (adRefreshTokens db)" "rtIdentityID r = idID identity" for r
    using re(3) [of r] that w(3) t2(3) refresh_hash_refused [OF ok] by fastforce
  have m: "session \<in> set (adSessions db)" "seTokenHash session = tokens_Hash cy changeToken"
    using s unfolding GetAuthSessionByTokenHash_def by (auto dest!: firstRow_Inr)
  obtain d where d: "d \<in> set (adSessions db')" "seTokenHash d = tokens_Hash cy changeToken" "seStatus d = StatusDeleted"
    using re(2) [of session] m w(2) t2(2) GetAuthIdentity_ID [OF i] by auto
  then have "GetAuthSessionByTokenHash db' (tokens_Hash cy changeToken) = Inr d" unfolding GetAuthSessionByTokenHash_def
    using tokensOK_D(6) [OF ok [unfolded sessionsOK_def]] by (intro firstRow_eq [where key = seTokenHash]) auto
  then have "ChangePassword cy u ent' rnd' a now' changeToken p db' = (refuse ErrInvalidCredentials, db')" for ent' rnd' now' p
    using a d(3) unfolding ChangePassword_def by simp
  moreover have "pcIdentityID (lrPrincipal res) = idID identity" using si by (auto simp: principalOf_def)
  moreover have "GetActiveAuthSessionByTokenHash db' (tokens_Hash cy (lrSessionToken res)) = Inr (lrSession res)"
    using si access_hash_found [OF ok, of "lrSession res"] by simp
  moreover have "\<forall>s \<in> set (adSessions db'). seIdentityID s = idID identity \<and> seStatus s = StatusActive \<longrightarrow> s = lrSession res"
    using si by (auto simp: RevokeAuthSessionsByIdentityID_def deleteSessions_def set_update_rows split: if_split_asm)
  ultimately show ?thesis using h cred access refresh by (intro exI [of _ identity] exI [of _ hash] exI [of _ ?c] conjI)
    (simp_all add: IsZero_def)
qed

definition exampleUnicode :: UnicodeTables where
  "exampleUnicode = \<lparr>utLetter = (\<lambda>_. False), utDigit = (\<lambda>_. False), utLower = id, utUpper = id, utSameFold = (=)\<rparr>"

lemma example_password: "ValidateAdminPassword exampleUnicode ''root'' ''abc1!x'' = None"
proof -
  have t: "TrimSpace ''abc1!x'' = ''abc1!x''" by (rule TrimSpace_ascii; simp)
  have r: "runes ''abc1!x'' = [97, 98, 99, 49, 33, 120]" "runes ''root'' = [114, 111, 111, 116]" by (simp_all add: runes_ascii)
  have "\<not> length ''abc1!x'' < passwordMinLength" "\<not> EqualFold exampleUnicode ''root'' ''abc1!x''"
    "hasRequiredPasswordComposition exampleUnicode ''abc1!x''"
    by (simp_all add: passwordMinLength_def EqualFold_def hasRequiredPasswordComposition_def r IsLetter_def IsDigit_def)
  moreover have a: "char_of (97 :: nat) = CHR ''a''" by code_simp
  have "hd (ToLower exampleUnicode ''abc1!x'') = CHR ''a''" "length (ToLower exampleUnicode ''abc1!x'') = 6"
    by (simp_all add: ToLower_def r lowerRune_def encodeRune_def a)
  then have "\<not> List.member weakPasswords (ToLower exampleUnicode ''abc1!x'')"
    by (auto simp: weakPasswords_def)
  ultimately show ?thesis unfolding ValidateAdminPassword_def t example_login Let_def by simp
qed

definition exampleHeld :: AuthDB where
  "exampleHeld = snd (CreateAuthSession exampleIDs 2000 (zeroSession\<lparr>seIdentityID := ''i1'', seTokenHash := tokens_Hash exampleCrypto ''tok'',
     seStatus := StatusHeld, seExpiresAt := 90000\<rparr>) (exampleAdmin True))"

definition exampleHeldSession :: AuthSession where
  "exampleHeldSession = zeroSession\<lparr>seID := NewID (exampleIDs 0), seIdentityID := ''i1'', seTokenHash := tokens_Hash exampleCrypto ''tok'',
     seStatus := StatusHeld, seExpiresAt := 90000, seCreatedAt := 2000, seUpdatedAt := 2000\<rparr>"

lemma exampleHeld_eq: "exampleHeld = (exampleAdmin True)\<lparr>adSessions := [exampleHeldSession]\<rparr>"
  by (simp add: exampleHeld_def CreateAuthSession_def exampleAdmin_eval zeroSession_def insert_row_def commit_def orNew_def orElse_def
      exampleHeldSession_def Let_def)

lemma exampleHeld_reachable: "auth_step\<^sup>*\<^sup>* emptyAuthDB exampleHeld"
  unfolding exampleHeld_def
  by (rule rtranclp.rtrancl_into_rtrancl [OF exampleAdmin_reachable], rule auth_step.create_session [OF prod.collapse [symmetric]])
    (simp_all add: exampleAdmin_eval)

lemma example_fresh_ids: "NewID (exampleIDs 3) \<noteq> NewID (exampleIDs 0)" "tokens_Hash exampleCrypto (RawURLEncode (map (char_of \<circ> unat) [1::8 word])) \<noteq> tokens_Hash exampleCrypto ''tok''"
  by code_simp+

lemma example_change_ok:
  "\<exists>res db'. ChangePassword exampleCrypto exampleUnicode exampleEntropy (\<lambda>i. exampleIDs (i + 3)) (Some exampleAuthenticator) 5000 ''tok'' ''abc1!x'' exampleHeld =
     ((res, None), db')"
  unfolding ChangePassword_def example_ready
  using example_fresh_ids
  by (simp add: exampleHeld_eq exampleHeldSession_def exampleAdmin_eval zeroSession_def GetAuthSessionByTokenHash_def GetAuthIdentity_def getRow_def
      lookup_row_Cons IsZero_def zero_time_def example_password [unfolded exampleUnicode_def] exampleUnicode_def exampleCrypto_def GetAuthCredential_def
      UpdateAuthCredential_def UpdateAuthIdentity_def checked_update_def update_rows_def noClash_def RevokeAuthSessionsByIdentityID_def
      revokeTokens_def deleteSessions_def issueNormalSession_def GetAdminProfile_def tokens_New_def exampleEntropy_def CreateAuthSession_def
      insert_row_def commit_def sessionClash_def orNew_def Let_def)

theorem password_change_ends_sessions_witness:
  "\<exists>res db'. ChangePassword exampleCrypto exampleUnicode exampleEntropy (\<lambda>i. exampleIDs (i + 3)) (Some exampleAuthenticator) 5000 ''tok'' ''abc1!x'' exampleHeld =
     ((res, None), db') \<and>
   ChangePassword exampleCrypto exampleUnicode exampleEntropy (\<lambda>i. exampleIDs (i + 6)) (Some exampleAuthenticator) 6000 ''tok'' ''zyx1!a'' db' =
     (refuse ErrInvalidCredentials, db')"
proof -
  have "NewID (exampleIDs (2 + 3)) \<notin> rtFamilyID ` set (adRefreshTokens exampleHeld)" by (simp add: exampleHeld_eq exampleAdmin_eval)
  from password_change_ends_sessions [where rnd = "\<lambda>i. exampleIDs (i + 3)", OF exampleHeld_reachable example_ready this] example_change_ok
  show ?thesis by blast
qed

end
