(* ===== verification/Admin_Access.thy ===== *)
theory Admin_Access
  imports Admin_Properties
begin

text \<open>
  CSRF tokens, authorisation by role, and refreshing within the grace window.
\<close>

section \<open>CSRF tokens\<close>

lemma hex_text: "c \<in> set (hex bs) \<Longrightarrow> code c \<in> {33..126} \<and> c \<noteq> CHR '':''"
proof -
  have d: "code (hex_digit k) \<in> {48..57} \<union> {97..102}" if "k < 16" for k
    using that by (auto simp: hex_digit_def)
  have "code c \<in> {48..57} \<union> {97..102}" if c: "c \<in> set (hex bs)"
  proof -
    obtain b :: "8 word" where "c = hex_digit (unat b div 16) \<or> c = hex_digit (unat b mod 16)" using c by (auto simp: hex_def hex_byte_def)
    moreover have "unat (b :: 8 word) div 16 < 16" for b using unsigned_less [of b, where ?'a = nat] by simp
    moreover have "unat b mod 16 < 16" by simp
    ultimately show ?thesis using d by metis
  qed
  then show "c \<in> set (hex bs) \<Longrightarrow> code c \<in> {33..126} \<and> c \<noteq> CHR '':''" by fastforce
qed

lemma NewID_text: "c \<in> set (NewID rnd) \<Longrightarrow> code c \<in> {33..126} \<and> c \<noteq> CHR '':''"
  using hex_text unfolding NewID_def Let_def by fastforce

lemma FormatInt_text: "0 \<le> v \<Longrightarrow> c \<in> set (FormatInt v) \<Longrightarrow> c \<noteq> CHR '':''"
  using show_nat_digits [of "nat v"] by (auto simp: FormatInt_def list_all_iff is_digit_def)

lemma NewCSRFToken_parts:
  assumes "0 \<le> now"
  shows "Split (CHR '':'') (NewCSRFToken cy a now (NewID rnd)) =
      [NewID rnd, FormatInt (Unix (now + csrfTTL)), csrfSignature cy a (NewID rnd @ '':'' @ FormatInt (Unix (now + csrfTTL)))]"
    "TrimSpace (NewCSRFToken cy a now (NewID rnd)) = NewCSRFToken cy a now (NewID rnd)"
proof -
  let ?e = "FormatInt (Unix (now + csrfTTL))"
  let ?sig = "csrfSignature cy a (NewID rnd @ '':'' @ ?e)"
  have t: "NewCSRFToken cy a now (NewID rnd) = NewID rnd @ CHR '':'' # ?e @ CHR '':'' # ?sig" by (simp add: NewCSRFToken_def Let_def)
  have "0 \<le> Unix (now + csrfTTL)" using assms by (simp add: csrfTTL_def accessTTL_def)
  then have c: "CHR '':'' \<notin> set (NewID rnd)" "CHR '':'' \<notin> set ?e" "CHR '':'' \<notin> set ?sig"
    using NewID_text FormatInt_text hex_text unfolding csrfSignature_def by blast+
  show "Split (CHR '':'') (NewCSRFToken cy a now (NewID rnd)) = [NewID rnd, ?e, ?sig]"
    unfolding t using c by (simp add: Split_append Split_last)
  have "code (hd (NewID rnd)) \<in> {33..126}" using NewID_text [of "hd (NewID rnd)" rnd] by simp
  moreover have "code (last (CHR '':'' # ?sig)) \<in> {33..126}"
    using hex_text [of "last ?sig" "cyHmac cy (atCsrfSecret a) (NewID rnd @ '':'' @ ?e)"] last_in_set [of ?sig]
    unfolding csrfSignature_def by (cases "?sig = []") (auto simp: csrfSignature_def)
  ultimately show "TrimSpace (NewCSRFToken cy a now (NewID rnd)) = NewCSRFToken cy a now (NewID rnd)"
    unfolding t by (intro TrimSpace_ascii) auto
qed

lemma CSRF_iff:
  assumes "0 \<le> now" "now \<le> max_int64"
  shows "ValidateCSRF cy (Some a) later session (NewCSRFToken cy a now (NewID rnd)) \<longleftrightarrow>
    seID session = NewID rnd \<and> Unix later \<le> Unix (now + csrfTTL)"
proof -
  have "0 \<le> Unix (now + csrfTTL)" "in_int64 (Unix (now + csrfTTL))"
    using assms by (auto simp: csrfTTL_def accessTTL_def in_int64_def)
  then have "Sscanf_d (FormatInt (Unix (now + csrfTTL))) = Some (Unix (now + csrfTTL))" by (rule Sscanf_FormatInt)
  moreover have "NewCSRFToken cy a now (NewID rnd) \<noteq> []" by (simp add: NewCSRFToken_def Let_def)
  ultimately show ?thesis unfolding ValidateCSRF_def Let_def NewCSRFToken_parts [OF assms(1)] by auto
qed

lemma CSRF_signed:
  "ValidateCSRF cy (Some a) later session token \<Longrightarrow>
    \<exists>e v. TrimSpace token = seID session @ '':'' @ e @ '':'' @ csrfSignature cy a (seID session @ '':'' @ e) \<and>
      Sscanf_d e = Some v \<and> Unix later \<le> v"
  unfolding ValidateCSRF_def Let_def by (auto split: list.splits option.splits dest!: Split_three)

text \<open>
  C28. The CSRF token issued for a session is accepted for exactly that session, up to and including the second it
  expires, and whatever token is accepted carries the server's signature of the session and the expiry in it.
\<close>

theorem csrf_token_exact:
  assumes now: "0 \<le> now" "now \<le> max_int64"
  shows "(ValidateCSRF cy (Some a) later session (NewCSRFToken cy a now (NewID rnd)) \<longleftrightarrow>
      seID session = NewID rnd \<and> Unix later \<le> Unix (now + csrfTTL)) \<and>
    (ValidateCSRF cy (Some a) later session token \<longrightarrow>
      (\<exists>e v. TrimSpace token = seID session @ '':'' @ e @ '':'' @ csrfSignature cy a (seID session @ '':'' @ e) \<and>
         Sscanf_d e = Some v \<and> Unix later \<le> v))"
  using CSRF_iff [OF now] CSRF_signed by blast

theorem csrf_token_exact_witness:
  "ValidateCSRF exampleCrypto (Some exampleAuthenticator) 300000000000 (exampleSession\<lparr>seID := NewID (exampleIDs 1)\<rparr>)
     (NewCSRFToken exampleCrypto exampleAuthenticator 5 (NewID (exampleIDs 1)))"
  using csrf_token_exact [of 5 exampleCrypto exampleAuthenticator 300000000000 "exampleSession\<lparr>seID := NewID (exampleIDs 1)\<rparr>" "exampleIDs 1"]
  by (simp add: csrfTTL_def accessTTL_def)

section \<open>Authorisation\<close>

lemma Authorize_iff: "snd (Authorize (Some p) permission) \<longleftrightarrow> permission \<in> set (pcPermissions p)"
  by (auto simp: Authorize_def HasPermission_def list_ex_iff)

lemma authenticated:
  assumes "AuthenticateSessionRequest cy a now cookies db = (Some (p, session), db')"
  shows "db' = db \<and> (\<exists>x cookie identity profile. ready a = Some x \<and> map_of cookies (atCookieName x) = Some cookie \<and>
    GetActiveAuthSessionByTokenHash db (tokens_Hash cy cookie) = Inr session \<and>
    (IsZero (seExpiresAt session) \<or> now \<le> seExpiresAt session) \<and>
    GetAuthIdentity db (seIdentityID session) = Inr identity \<and> idStatus identity = StatusActive \<and> \<not> idMustChangePassword identity \<and>
    GetAdminProfile db (idID identity) = Inr profile \<and> apStatus profile = StatusActive \<and> p = principalOf identity profile (seID session))"
  using assms unfolding AuthenticateSessionRequest_def
  by (simp split: option.split_asm sum.split_asm if_split_asm prod.split_asm) (metis linorder_not_less)

text \<open>
  C29. A request that is authenticated carries the role its administrator has in the store at that moment, with an
  active identity and an active profile. It is authorised for exactly the permissions of that role: an owner and an
  administrator for the eight permissions of the server, a viewer for the two reading ones, any other role for none.
\<close>

theorem authorisation_follows_role:
  assumes "AuthenticateSessionRequest cy a now cookies db = (Some (p, session), db')"
  shows "db' = db \<and> (\<exists>identity profile. GetAuthIdentity db (pcIdentityID p) = Inr identity \<and> idStatus identity = StatusActive \<and>
      GetAdminProfile db (pcIdentityID p) = Inr profile \<and> apStatus profile = StatusActive \<and> pcRole p = apRole profile) \<and>
    (snd (Authorize (Some p) permission) \<longleftrightarrow>
       pcRole p \<in> {''owner'', ''admin''} \<and> permission \<in> {''admin:read'', ''accounts:write'', ''nodes:write'', ''connection:write'',
         ''configs:write'', ''tokens:write'', ''provision:write'', ''audit:read''} \<or>
       pcRole p = ''viewer'' \<and> permission \<in> {''admin:read'', ''audit:read''})"
proof -
  obtain identity profile where i: "GetAuthIdentity db (seIdentityID session) = Inr identity" "idStatus identity = StatusActive"
    "GetAdminProfile db (idID identity) = Inr profile" "apStatus profile = StatusActive" "p = principalOf identity profile (seID session)" "db' = db"
    using authenticated [OF assms] by blast
  have "GetAuthIdentity db (pcIdentityID p) = Inr identity" using i(1,5) GetAuthIdentity_ID [OF i(1)] by (simp add: principalOf_def)
  moreover have "pcPermissions p = PermissionsForRole (pcRole p)" "pcRole p = apRole profile" "pcIdentityID p = idID identity"
    using i(5) by (simp_all add: principalOf_def)
  ultimately show ?thesis
    using i(2-4,6) unfolding Authorize_iff by (intro conjI) (auto simp: PermissionsForRole_def split: if_split_asm)
qed

lemma example_request_ok:
  "\<exists>p session db'. AuthenticateSessionRequest exampleCrypto (Some exampleAuthenticator) 3000 [(''sid'', ''tok'')]
     ((exampleAdmin False)\<lparr>adSessions := adSessions exampleOnline\<rparr>) = (Some (p, session), db') \<and> pcRole p = ''viewer''"
  unfolding AuthenticateSessionRequest_def example_ready
  by (simp add: exampleAuthenticator_def example_login GetActiveAuthSessionByTokenHash_def exampleOnline_eq exampleSession_def
      GetAuthIdentity_def GetAdminProfile_def getRow_def lookup_row_Cons exampleAdmin_eval principalOf_def)

theorem authorisation_follows_role_witness:
  "\<exists>p session db'. AuthenticateSessionRequest exampleCrypto (Some exampleAuthenticator) 3000 [(''sid'', ''tok'')]
     ((exampleAdmin False)\<lparr>adSessions := adSessions exampleOnline\<rparr>) = (Some (p, session), db') \<and> \<not> snd (Authorize (Some p) ''nodes:write'')"
proof -
  obtain p session db' where l: "AuthenticateSessionRequest exampleCrypto (Some exampleAuthenticator) 3000 [(''sid'', ''tok'')]
     ((exampleAdmin False)\<lparr>adSessions := adSessions exampleOnline\<rparr>) = (Some (p, session), db')" "pcRole p = ''viewer''"
    using example_request_ok by blast
  from authorisation_follows_role [OF l(1), of "''nodes:write''"] l(2) have "\<not> snd (Authorize (Some p) ''nodes:write'')" by auto
  with l(1) show ?thesis by blast
qed

section \<open>Refreshing within the grace window\<close>

lemma refresh_success:
  assumes "ready a = Some x" "Refresh cy ent rnd a now raw csrf db = ((res, None), db')"
  shows "\<exists>rot. RotateAuthRefreshToken rnd now (tokens_Hash cy raw) (tokens_Hash cy (lrSessionToken res)) (now + atSessionTTL x)
    (tokens_Hash cy (lrRefreshToken res)) (now + refreshTTL) refreshReuseGrace db = (Inr rot, db')"
  using assms unfolding Refresh_def refuse_def Let_def by (auto split: sum.splits if_split_asm prod.splits)

text \<open>
  C31. When a refresh with a token that was already rotated succeeds (it does within the grace window, see the example
  below), the session token and the refresh token it returns are not in the store right after the call: neither a request
  nor a refresh with them finds a session, although the client was told they are valid.
\<close>

theorem grace_refresh_returns_dead_tokens:
  assumes run: "auth_step\<^sup>*\<^sup>* emptyAuthDB db" and a: "ready a = Some x"
    and call: "Refresh cy ent rnd a now raw csrf db = ((res, None), db')"
    and old: "old \<in> set (adRefreshTokens db)" "rtTokenHash old = tokens_Hash cy raw" "rtStatus old = AuthRefreshTokenStatusRotated"
    and fresh: "tokens_Hash cy (lrSessionToken res) \<notin> seTokenHash ` set (adSessions db)"
      "tokens_Hash cy (lrRefreshToken res) \<notin> rtTokenHash ` set (adRefreshTokens db)"
  shows "GetActiveAuthSessionByTokenHash db' (tokens_Hash cy (lrSessionToken res)) = Inl ErrNotFound \<and>
    (\<forall>g. GetAuthSessionByRefreshHashForRotation now db' (tokens_Hash cy (lrRefreshToken res)) g = Inl ErrNotFound)"
proof -
  note ok = auth_reachable_OK [OF run]
  obtain rot where rot: "RotateAuthRefreshToken rnd now (rtTokenHash old) (tokens_Hash cy (lrSessionToken res)) (now + atSessionTTL x)
      (tokens_Hash cy (lrRefreshToken res)) (now + refreshTTL) refreshReuseGrace db = (Inr rot, db')"
    using refresh_success [OF a call] unfolding old(2) by blast
  obtain session where s: "session \<in> set (adSessions db)" "seID session = rtSessionID old"
    using ok old(1) unfolding sessionsOK_def tokensOK_def by force
  have "rotateGrace now old session db = (Inr rot, db')"
    using rot old(3) unfolding RotateAuthRefreshToken_found [OF ok old(1) s] by (auto simp: liveToken_def split: if_split_asm)
  then have d: "adSessions db' = adSessions db" "map rtTokenHash (adRefreshTokens db') = map rtTokenHash (adRefreshTokens db)"
    unfolding rotateGrace_def Let_def by (auto simp: update_rows_def split: option.splits)
  have "tokens_Hash cy (lrRefreshToken res) \<notin> rtTokenHash ` set (adRefreshTokens db')" using d(2) fresh(2) by (metis list.set_map)
  then have "firstRow (\<lambda>(s, r). rtTokenHash r = tokens_Hash cy (lrRefreshToken res) \<and> P s r) (sessionJoin db') = Inl ErrNotFound" for P
    unfolding firstRow_Inl by (metis (mono_tags, lifting) case_prodE image_eqI sessionJoin_iff)
  moreover have "GetActiveAuthSessionByTokenHash db' (tokens_Hash cy (lrSessionToken res)) = Inl ErrNotFound"
    using d(1) fresh(1) unfolding GetActiveAuthSessionByTokenHash_def firstRow_Inl by (metis image_eqI)
  ultimately show ?thesis by (simp add: GetAuthSessionByRefreshHashForRotation_def)
qed

text \<open>
  C32. A replay of a refresh token that was rotated longer ago than the grace window, or that was revoked, is refused by
  \<open>Refresh\<close> before it reaches the store operation that would end the session: nothing is written, so the session and its
  current tokens stay as they are. (The window is compared on the texts of the times, as the query does.)
\<close>

theorem late_replay_not_detected:
  assumes run: "auth_step\<^sup>*\<^sup>* emptyAuthDB db"
    and old: "old \<in> set (adRefreshTokens db)" "rtTokenHash old = tokens_Hash cy raw" "rtStatus old \<noteq> AuthRefreshTokenStatusActive"
    and late: "rtStatus old = AuthRefreshTokenStatusRotated \<longrightarrow> ts (rtRotatedAt old) < ts (now - refreshReuseGrace)"
  shows "\<exists>e. Refresh cy ent rnd a now raw csrf db = (refuse e, db)"
proof -
  have "GetAuthSessionByRefreshHashForRotation now db (tokens_Hash cy raw) refreshReuseGrace = Inl ErrNotFound"
    using rotation_hash_refused [OF auth_reachable_OK [OF run] old(1) _ late] old(2,3) by (simp add: liveToken_def)
  then show ?thesis unfolding Refresh_def Let_def by (auto split: option.splits sum.splits)
qed

text \<open>An example: the refresh token of a session is rotated and presented again one second later.\<close>

definition graceSession :: AuthSession where
  "graceSession = exampleSession\<lparr>seID := NewID (exampleIDs 9), seRefreshTokenHash := tokens_Hash exampleCrypto ''old'', seStatus := StatusActive,
     seRefreshExpiresAt := 60 * Minute, seRefreshAbsoluteUntil := 60 * Minute\<rparr>"

definition exampleGrace :: AuthDB where
  "exampleGrace =
     snd (RotateAuthRefreshToken (exampleIDs 7) (20 * Second) (tokens_Hash exampleCrypto ''old'') ''t2'' (10 * Minute) ''r2'' (60 * Minute) (10 * Second)
       (snd (CreateAuthSession exampleIDs 1000 graceSession (exampleAdmin False))))"

lemma exampleGrace_reachable: "auth_step\<^sup>*\<^sup>* emptyAuthDB exampleGrace"
proof -
  have "auth_step\<^sup>*\<^sup>* emptyAuthDB (snd (CreateAuthSession exampleIDs 1000 graceSession (exampleAdmin False)))"
    by (rule rtranclp.rtrancl_into_rtrancl [OF exampleAdmin_reachable [of False]],
        rule auth_step.create_session [OF prod.collapse [symmetric]])
      (simp_all add: exampleAdmin_eval graceSession_def)
  then show ?thesis unfolding exampleGrace_def
    by (rule rtranclp.rtrancl_into_rtrancl) (rule auth_step.rotate [OF prod.collapse [symmetric]])
qed

definition graceOld :: AuthRefreshToken where
  "graceOld = (refreshTokenFor (exampleIDs 1) (exampleIDs 2) 1000 graceSession)
     \<lparr>rtStatus := AuthRefreshTokenStatusRotated, rtRotatedAt := 20 * Second, rtLastUsedAt := 20 * Second, rtUpdatedAt := 20 * Second\<rparr>"

lemma grace_ids: "NewID (exampleIDs 7) \<noteq> NewID (exampleIDs 1)" "tokens_Hash exampleCrypto ''old'' \<noteq> ''r2''" "tokens_Hash exampleCrypto ''old'' \<noteq> []"
  "ts (21 * Second - 10 * Second) \<le> ts (20 * Second)"
  by code_simp+

lemma exampleGrace_eq:
  "exampleGrace = (exampleAdmin False)\<lparr>
     adSessions := [graceSession\<lparr>seTokenHash := ''t2'', seExpiresAt := 10 * Minute, seRefreshTokenHash := ''r2'', seRefreshExpiresAt := 60 * Minute,
       seLastUsedAt := 20 * Second, seCreatedAt := 1000, seUpdatedAt := 20 * Second\<rparr>],
     adRefreshTokens := [graceOld, successor (exampleIDs 7) (20 * Second) graceOld graceSession ''r2'' (60 * Minute)]\<rparr>"
  using grace_ids(1-3)
  by (simp add: exampleGrace_def CreateAuthSession_def RotateAuthRefreshToken_def rotateActive_def exampleAdmin_eval graceSession_def graceOld_def
      exampleSession_def refreshTokenFor_def orNew_def orElse_def checked_update_def update_rows_def noClash_def insert_row_def refreshClash_def
      sessionClash_def commit_def Let_def successor_def)

lemma grace_csrf:
  "ValidateCSRF exampleCrypto (Some exampleAuthenticator) (21 * Second) (graceSession\<lparr>seTokenHash := ''t2'', seExpiresAt := 10 * Minute,
       seRefreshTokenHash := ''r2'', seRefreshExpiresAt := 60 * Minute, seLastUsedAt := 20 * Second, seCreatedAt := 1000, seUpdatedAt := 20 * Second\<rparr>)
     (NewCSRFToken exampleCrypto exampleAuthenticator (21 * Second) (NewID (exampleIDs 9)))"
  by (subst CSRF_iff) (simp_all add: graceSession_def csrfTTL_def accessTTL_def)

lemma example_refresh_ok:
  "\<exists>res db'. Refresh exampleCrypto exampleEntropy (exampleIDs 8) (Some exampleAuthenticator) (21 * Second) ''old''
     (NewCSRFToken exampleCrypto exampleAuthenticator (21 * Second) (NewID (exampleIDs 9))) exampleGrace = ((res, None), db') \<and>
     lrSessionToken res = RawURLEncode [char_of (1::nat)] \<and> lrRefreshToken res = RawURLEncode [char_of (2::nat)]"
  unfolding Refresh_def example_ready option.case Let_def
  using grace_ids grace_csrf
  by (simp add: exampleEntropy_def tokens_New_def exampleGrace_eq GetAuthSessionByRefreshHashForRotation_def sessionJoin_def refreshReuseGrace_def
      graceOld_def graceSession_def exampleSession_def refreshTokenFor_def successor_def exampleAdmin_eval IsZero_def zero_time_def GetAuthIdentity_def
      GetAdminProfile_def getRow_def lookup_row_Cons RotateAuthRefreshToken_def rotateGrace_def update_rows_def Let_def)

lemma grace_fresh:
  "tokens_Hash exampleCrypto (RawURLEncode [char_of (1::nat)]) \<noteq> ''t2''" "tokens_Hash exampleCrypto (RawURLEncode [char_of (2::nat)]) \<noteq> ''r2''"
  "tokens_Hash exampleCrypto (RawURLEncode [char_of (2::nat)]) \<noteq> tokens_Hash exampleCrypto ''old''"
  by code_simp+

theorem grace_refresh_returns_dead_tokens_witness:
  "\<exists>res db'. Refresh exampleCrypto exampleEntropy (exampleIDs 8) (Some exampleAuthenticator) (21 * Second) ''old''
     (NewCSRFToken exampleCrypto exampleAuthenticator (21 * Second) (NewID (exampleIDs 9))) exampleGrace = ((res, None), db') \<and>
     GetActiveAuthSessionByTokenHash db' (tokens_Hash exampleCrypto (lrSessionToken res)) = Inl ErrNotFound"
proof -
  obtain res db' where r: "Refresh exampleCrypto exampleEntropy (exampleIDs 8) (Some exampleAuthenticator) (21 * Second) ''old''
     (NewCSRFToken exampleCrypto exampleAuthenticator (21 * Second) (NewID (exampleIDs 9))) exampleGrace = ((res, None), db')"
    "lrSessionToken res = RawURLEncode [char_of (1::nat)]" "lrRefreshToken res = RawURLEncode [char_of (2::nat)]"
    using example_refresh_ok by blast
  have o: "graceOld \<in> set (adRefreshTokens exampleGrace)" "rtTokenHash graceOld = tokens_Hash exampleCrypto ''old''"
    "rtStatus graceOld = AuthRefreshTokenStatusRotated"
    by (simp_all add: exampleGrace_eq graceOld_def refreshTokenFor_def graceSession_def)
  have "tokens_Hash exampleCrypto (lrSessionToken res) \<notin> seTokenHash ` set (adSessions exampleGrace)"
    "tokens_Hash exampleCrypto (lrRefreshToken res) \<notin> rtTokenHash ` set (adRefreshTokens exampleGrace)"
    using grace_fresh o(2) by (simp_all add: r exampleGrace_eq successor_def)
  from grace_refresh_returns_dead_tokens [OF exampleGrace_reachable example_ready r(1) o this] r(1) show ?thesis by blast
qed

theorem late_replay_not_detected_witness:
  "\<exists>e. Refresh exampleCrypto exampleEntropy (exampleIDs 8) (Some exampleAuthenticator) (50 * Second) ''old'' ''x'' exampleGrace = (refuse e, exampleGrace)"
proof -
  have o: "graceOld \<in> set (adRefreshTokens exampleGrace)" "rtTokenHash graceOld = tokens_Hash exampleCrypto ''old''"
    "rtStatus graceOld \<noteq> AuthRefreshTokenStatusActive" "rtRotatedAt graceOld = 20 * Second"
    by (simp_all add: exampleGrace_eq graceOld_def refreshTokenFor_def graceSession_def)
  have "ts (20 * Second) < ts (50 * Second - refreshReuseGrace)" by code_simp
  then show ?thesis using late_replay_not_detected [OF exampleGrace_reachable o(1-3)] o(4) by simp
qed

end
