(* ===== verification/Admin_Management.thy ===== *)
theory Admin_Management
  imports Admin_Auth
begin

text \<open>
  The handlers of \<open>server/transport/http/admin\<close> that manage administrators: \<open>admins.go\<close>, \<open>invites.go\<close>,
  \<open>security.go\<close> and the audit trail of \<open>server/audit/audit.go\<close>.

  A handler gets what the framework decodes from the request (the principal of its context, the decoded body or
  \<open>None\<close> for invalid JSON) and answers with a status and a message or a payload. Rendering the payload is left out.
\<close>

section \<open>Requests and replies\<close>

datatype 'a reply = NoBody nat | Failure nat string | Payload nat 'a

definition StatusOK :: nat where "StatusOK = 200"
definition StatusCreated :: nat where "StatusCreated = 201"
definition StatusBadRequest :: nat where "StatusBadRequest = 400"
definition StatusUnauthorized :: nat where "StatusUnauthorized = 401"
definition StatusForbidden :: nat where "StatusForbidden = 403"
definition StatusNotFound :: nat where "StatusNotFound = 404"
definition StatusMethodNotAllowed :: nat where "StatusMethodNotAllowed = 405"
definition StatusConflict :: nat where "StatusConflict = 409"
definition StatusInternalServerError :: nat where "StatusInternalServerError = 500"

definition isMutatingMethod :: "string \<Rightarrow> bool" where
  "isMutatingMethod m = List.member [''POST'', ''PUT'', ''PATCH'', ''DELETE''] m"

definition TrimPrefix :: "string \<Rightarrow> string \<Rightarrow> string" where
  "TrimPrefix p s = (if prefix p s then drop (length p) s else s)"

definition permissionForRequest :: "string \<Rightarrow> string \<Rightarrow> string \<Rightarrow> string" where
  "permissionForRequest webPrefix httpMethod urlPath =
     (let path = TrimPrefix webPrefix urlPath
      in if httpMethod = ''GET''
         then if path = ''/api/v1/audit-logs'' then ''audit:read'' else ''admin:read''
         else if prefix ''/api/v1/accounts/'' path then ''accounts:write''
         else if path = ''/api/v1/accounts'' \<or> path = ''/api/v1/enrollments'' then ''accounts:write''
         else if prefix ''/api/v1/nodes'' path then ''nodes:write''
         else if prefix ''/api/v1/connections'' path then ''connection:write''
         else if path = ''/api/v1/configs'' \<or> path = ''/api/v1/config-profiles'' then ''configs:write''
         else if path = ''/api/v1/policy-tags'' then ''accounts:write''
         else if path = ''/api/v1/tokens'' then ''tokens:write''
         else if path = ''/api/v1/qr'' \<or> prefix ''/api/v1/auth/'' path then ''admin:read''
         else ''admin:read'')"

text \<open>\<open>next\<close> is the handler behind the guard.\<close>

definition permissionGuard ::
  "string \<Rightarrow> string \<Rightarrow> string \<Rightarrow> Principal option \<Rightarrow> ('s \<Rightarrow> 'a reply \<times> 's) \<Rightarrow> 's \<Rightarrow> 'a reply \<times> 's" where
  "permissionGuard webPrefix httpMethod urlPath ctx handler st =
     (let permission = permissionForRequest webPrefix httpMethod urlPath
      in if permission = [] then handler st
         else if \<not> snd (Authorize ctx permission) then (Failure StatusForbidden ''permission denied'', st)
         else handler st)"

section \<open>The audit trail\<close>

record AuditLog =
  alID :: string
  alActor :: string
  alAction :: string
  alEntityType :: string
  alEntityID :: string
  alDetails :: string
  alCreatedAt :: int

record AuditEvent =
  aeAction :: string
  aeEntityType :: string
  aeEntityID :: string
  aeDetails :: "json option"

record AdminState =
  stAuth :: AuthDB
  stAudit :: "AuditLog list"

definition CreateAuditLog :: "8 word list \<Rightarrow> int \<Rightarrow> AuditLog \<Rightarrow> AuditLog list \<Rightarrow> AuditLog list result" where
  "CreateAuditLog rnd now log t = insert_row (sameKey alID) (log\<lparr>alID := NewID rnd, alCreatedAt := now\<rparr>) t"

definition detailsJSON :: "json option \<Rightarrow> string" where
  "detailsJSON v = (case v of None \<Rightarrow> [] | Some j \<Rightarrow> render j)"

definition Recorder_Record :: "8 word list \<Rightarrow> int \<Rightarrow> Principal option \<Rightarrow> AuditEvent \<Rightarrow> AuditLog list \<Rightarrow> AuditLog list result" where
  "Recorder_Record rnd now ctx event t =
     (let actor = (case ctx of Some p \<Rightarrow> if pcName p \<noteq> [] then pcName p else ''unknown'' | None \<Rightarrow> ''unknown'')
      in CreateAuditLog rnd now
           \<lparr>alID = [], alActor = actor, alAction = aeAction event, alEntityType = aeEntityType event, alEntityID = aeEntityID event,
            alDetails = detailsJSON (aeDetails event), alCreatedAt = zero_time\<rparr> t)"

text \<open>The recorder may be missing; an error of the store is ignored.\<close>

definition recordAudit :: "bool \<Rightarrow> 8 word list \<Rightarrow> int \<Rightarrow> Principal option \<Rightarrow> AuditEvent \<Rightarrow> AdminState \<Rightarrow> AdminState" where
  "recordAudit audit rnd now ctx event st =
     (if \<not> audit then st
      else case Recorder_Record rnd now ctx event (stAudit st) of Inl _ \<Rightarrow> st | Inr t \<Rightarrow> st\<lparr>stAudit := t\<rparr>)"

definition adminEvent :: "string \<Rightarrow> string \<Rightarrow> string \<Rightarrow> (string \<times> json) list option \<Rightarrow> AuditEvent" where
  "adminEvent action entity i details = \<lparr>aeAction = action, aeEntityType = entity, aeEntityID = i, aeDetails = map_option JObj details\<rparr>"

section \<open>Administrators\<close>

definition requireOwner :: "Principal option \<Rightarrow> (nat \<times> string) option" where
  "requireOwner ctx =
     (case ctx of
        None \<Rightarrow> Some (StatusUnauthorized, ''unauthorized'')
      | Some p \<Rightarrow> if pcRole p \<noteq> ''owner'' then Some (StatusForbidden, ''owner role required'') else None)"

definition validAdminRole :: "string \<Rightarrow> bool" where
  "validAdminRole role \<longleftrightarrow> role = ''owner'' \<or> role = ''admin'' \<or> role = ''viewer''"

definition adminIdentityProfile :: "AuthDB \<Rightarrow> string \<Rightarrow> (nat \<times> string) + AuthIdentity \<times> AdminProfile" where
  "adminIdentityProfile db i =
     (case GetAuthIdentity db i of
        Inl _ \<Rightarrow> Inl (StatusNotFound, ''admin not found'')
      | Inr identity \<Rightarrow>
          if idKind identity \<noteq> AuthIdentityKindAdmin then Inl (StatusNotFound, ''admin not found'')
          else case GetAdminProfile db (idID identity) of
            Inl _ \<Rightarrow> Inl (StatusNotFound, ''admin profile not found'')
          | Inr profile \<Rightarrow> Inr (identity, profile))"

definition ownerAfter :: "string \<Rightarrow> string \<Rightarrow> string \<Rightarrow> string \<Rightarrow> AdminIdentityProfile \<Rightarrow> bool" where
  "ownerAfter targetID targetRole identityStatus profileStatus item =
     (let item' = (if idID (aipIdentity item) = targetID
                   then item\<lparr>aipProfile := (aipProfile item)\<lparr>apRole := targetRole, apStatus := profileStatus\<rparr>,
                             aipIdentity := (aipIdentity item)\<lparr>idStatus := identityStatus\<rparr>\<rparr>
                   else item)
      in apRole (aipProfile item') = ''owner'' \<and> idStatus (aipIdentity item') = StatusActive \<and> apStatus (aipProfile item') = StatusActive)"

definition preventLastActiveOwner :: "int \<Rightarrow> AuthDB \<Rightarrow> string \<Rightarrow> string \<Rightarrow> string \<Rightarrow> string \<Rightarrow> error option" where
  "preventLastActiveOwner now db targetID targetRole identityStatus profileStatus =
     (if targetRole = ''owner'' \<and> identityStatus = StatusActive \<and> profileStatus = StatusActive then None
      else
        let activeOwners = length (filter (ownerAfter targetID targetRole identityStatus profileStatus) (ListAdminIdentityProfiles now db))
        in if activeOwners = 0 then Some (Err ''cannot remove the last active owner'') else None)"

record UpdateAdminInput =
  uaRole :: "string option"
  uaStatus :: "string option"
  uaDisplayName :: "string option"

definition updateAdmin ::
  "bool \<Rightarrow> 8 word list \<Rightarrow> int \<Rightarrow> Principal option \<Rightarrow> string \<Rightarrow> UpdateAdminInput option \<Rightarrow> AdminState \<Rightarrow>
   (AuthIdentity \<times> AdminProfile) reply \<times> AdminState" where
  "updateAdmin audit rnd now ctx i body st =
     (case adminIdentityProfile (stAuth st) i of
        Inl (http, m) \<Rightarrow> (Failure http m, st)
      | Inr (identity, profile) \<Rightarrow>
          (case body of
             None \<Rightarrow> (Failure StatusBadRequest ''invalid json'', st)
           | Some input \<Rightarrow>
               let role = (case uaRole input of None \<Rightarrow> apRole profile | Some r \<Rightarrow> TrimSpace r);
                   status = map_option TrimSpace (uaStatus input)
               in if uaRole input \<noteq> None \<and> \<not> validAdminRole role then (Failure StatusBadRequest ''invalid role'', st)
                  else if status \<noteq> None \<and> the status \<noteq> StatusActive \<and> the status \<noteq> StatusDeleted
                  then (Failure StatusBadRequest ''invalid status'', st)
                  else
                    let identity' = identity\<lparr>idStatus := (case status of None \<Rightarrow> idStatus identity | Some s \<Rightarrow> s),
                          idDisplayName := (case uaDisplayName input of None \<Rightarrow> idDisplayName identity | Some d \<Rightarrow> TrimSpace d)\<rparr>;
                        profile' = profile\<lparr>apRole := role, apStatus := (case status of None \<Rightarrow> apStatus profile | Some s \<Rightarrow> s)\<rparr>
                    in case preventLastActiveOwner now (stAuth st) (idID identity') (apRole profile') (idStatus identity') (apStatus profile') of
                         Some e \<Rightarrow> (Failure StatusBadRequest (errorText e), st)
                       | None \<Rightarrow>
                           (case UpdateAuthIdentity now identity' (stAuth st) of
                              (Inl _, db) \<Rightarrow> (Failure StatusInternalServerError ''failed to update admin identity'', st\<lparr>stAuth := db\<rparr>)
                            | (Inr updatedIdentity, db) \<Rightarrow>
                                (case UpdateAdminProfile now profile' db of
                                   (Inl _, db1) \<Rightarrow> (Failure StatusInternalServerError ''failed to update admin profile'', st\<lparr>stAuth := db1\<rparr>)
                                 | (Inr updatedProfile, db1) \<Rightarrow>
                                     let db2 = snd (RevokeAuthSessionsByIdentityID now (idID identity') db1);
                                         st' = recordAudit audit rnd now ctx
                                           (adminEvent ''admin.identity_update'' ''admin_identity'' (idID identity')
                                             (Some [(''role'', JStr (apRole updatedProfile)), (''status'', JStr (idStatus updatedIdentity))]))
                                           (st\<lparr>stAuth := db2\<rparr>)
                                     in (Payload StatusOK (updatedIdentity, updatedProfile), st')))))"

definition revokeAdminSessions ::
  "bool \<Rightarrow> 8 word list \<Rightarrow> int \<Rightarrow> Principal option \<Rightarrow> string \<Rightarrow> AdminState \<Rightarrow> unit reply \<times> AdminState" where
  "revokeAdminSessions audit rnd now ctx i st =
     (case adminIdentityProfile (stAuth st) i of
        Inl (http, m) \<Rightarrow> (Failure http m, st)
      | Inr (identity, _) \<Rightarrow>
          (case RevokeAuthSessionsByIdentityID now (idID identity) (stAuth st) of
             (Inl _, db) \<Rightarrow> (Failure StatusInternalServerError ''failed to revoke sessions'', st\<lparr>stAuth := db\<rparr>)
           | (Inr _, db) \<Rightarrow>
               (Payload StatusOK (),
                recordAudit audit rnd now ctx (adminEvent ''admin.sessions_revoke'' ''admin_identity'' (idID identity) None) (st\<lparr>stAuth := db\<rparr>))))"

section \<open>Passwords of administrators\<close>

definition updateAdminPasswordCredential ::
  "Crypto \<Rightarrow> int \<Rightarrow> AuthCredential \<Rightarrow> string \<Rightarrow> AuthDB \<Rightarrow> (nat \<times> string) option \<times> AuthDB" where
  "updateAdminPasswordCredential cy now credential password db =
     (case cyGenerate cy (TrimSpace password) of
        Inl _ \<Rightarrow> (Some (StatusInternalServerError, ''failed to hash password''), db)
      | Inr hash \<Rightarrow>
          (case UpdateAuthCredential now
                  (credential\<lparr>crSecretHash := hash, crFailedAttempts := 0, crLockedUntil := zero_time, crStatus := StatusActive\<rparr>) db of
             (Inl _, db') \<Rightarrow> (Some (StatusInternalServerError, ''failed to update credential''), db')
           | (Inr _, db') \<Rightarrow> (None, db')))"

text \<open>The payload says what became of the sessions.\<close>

definition changeOwnAdminPassword ::
  "Crypto \<Rightarrow> UnicodeTables \<Rightarrow> bool \<Rightarrow> 8 word list \<Rightarrow> int \<Rightarrow> Principal option \<Rightarrow> AuthIdentity \<Rightarrow> string \<Rightarrow> string \<Rightarrow> AdminState \<Rightarrow>
   string reply \<times> AdminState" where
  "changeOwnAdminPassword cy u audit rnd now ctx identity currentPassword newPassword st =
     (case GetAuthCredential (stAuth st) (idID identity) AuthCredentialTypePassword of
        Inl _ \<Rightarrow> (Failure StatusNotFound ''credential not found'', st)
      | Inr credential \<Rightarrow>
          if \<not> cyCompare cy (crSecretHash credential) currentPassword
          then (Failure StatusUnauthorized ''current password is invalid'', st)
          else case ValidateAdminPassword u (idLogin identity) newPassword of
            Some e \<Rightarrow> (Failure StatusBadRequest (errorText e), st)
          | None \<Rightarrow>
              (case updateAdminPasswordCredential cy now credential newPassword (stAuth st) of
                 (Some (http, m), db) \<Rightarrow> (Failure http m, st\<lparr>stAuth := db\<rparr>)
               | (None, db) \<Rightarrow>
                   (case UpdateAuthIdentity now (identity\<lparr>idMustChangePassword := False\<rparr>) db of
                      (Inl _, db1) \<Rightarrow> (Failure StatusInternalServerError ''failed to update admin identity'', st\<lparr>stAuth := db1\<rparr>)
                    | (Inr _, db1) \<Rightarrow>
                        let event = (\<lambda>how. adminEvent ''admin.password_change'' ''admin_identity'' (idID identity) (Some [(''sessions'', JStr how)]));
                            sessionID = (case ctx of None \<Rightarrow> [] | Some p \<Rightarrow> pcSessionID p)
                        in if sessionID = []
                           then (Payload StatusOK ''revoked'',
                                 recordAudit audit rnd now ctx (event ''all_revoked'')
                                   (st\<lparr>stAuth := snd (RevokeAuthSessionsByIdentityID now (idID identity) db1)\<rparr>))
                           else (Payload StatusOK ''current_kept'',
                                 recordAudit audit rnd now ctx (event ''other_revoked'')
                                   (st\<lparr>stAuth := snd (RevokeOtherAuthSessionsByIdentityID now (idID identity) sessionID db1)\<rparr>)))))"

definition ownerResetAdminPassword ::
  "Crypto \<Rightarrow> UnicodeTables \<Rightarrow> bool \<Rightarrow> 8 word list \<Rightarrow> int \<Rightarrow> Principal option \<Rightarrow> AuthIdentity \<Rightarrow> string \<Rightarrow> AdminState \<Rightarrow> string reply \<times> AdminState" where
  "ownerResetAdminPassword cy u audit rnd now ctx identity password st =
     (case ValidateAdminPassword u (idLogin identity) password of
        Some e \<Rightarrow> (Failure StatusBadRequest (errorText e), st)
      | None \<Rightarrow>
          (case GetAuthCredential (stAuth st) (idID identity) AuthCredentialTypePassword of
             Inl _ \<Rightarrow> (Failure StatusNotFound ''credential not found'', st)
           | Inr credential \<Rightarrow>
               (case updateAdminPasswordCredential cy now credential password (stAuth st) of
                  (Some (http, m), db) \<Rightarrow> (Failure http m, st\<lparr>stAuth := db\<rparr>)
                | (None, db) \<Rightarrow>
                    (case UpdateAuthIdentity now (identity\<lparr>idMustChangePassword := True\<rparr>) db of
                       (Inl _, db1) \<Rightarrow> (Failure StatusInternalServerError ''failed to update admin identity'', st\<lparr>stAuth := db1\<rparr>)
                     | (Inr _, db1) \<Rightarrow>
                         (Payload StatusOK ''target_revoked'',
                          recordAudit audit rnd now ctx (adminEvent ''admin.password_reset'' ''admin_identity'' (idID identity) None)
                            (st\<lparr>stAuth := snd (RevokeAuthSessionsByIdentityID now (idID identity) db1)\<rparr>))))))"

record ResetPasswordInput =
  rpPassword :: string
  rpNewPassword :: string
  rpCurrentPassword :: string

definition resetAdminPassword ::
  "Crypto \<Rightarrow> UnicodeTables \<Rightarrow> bool \<Rightarrow> 8 word list \<Rightarrow> int \<Rightarrow> Principal option \<Rightarrow> string \<Rightarrow> ResetPasswordInput option \<Rightarrow> AdminState \<Rightarrow>
   string reply \<times> AdminState" where
  "resetAdminPassword cy u audit rnd now ctx i body st =
     (case adminIdentityProfile (stAuth st) i of
        Inl (http, m) \<Rightarrow> (Failure http m, st)
      | Inr (identity, _) \<Rightarrow>
          (case body of
             None \<Rightarrow> (Failure StatusBadRequest ''invalid json'', st)
           | Some input \<Rightarrow>
               if idID identity = (case ctx of None \<Rightarrow> [] | Some p \<Rightarrow> pcIdentityID p)
               then changeOwnAdminPassword cy u audit rnd now ctx identity (rpCurrentPassword input) (rpNewPassword input) st
               else case requireOwner ctx of
                 Some (http, m) \<Rightarrow> (Failure http m, st)
               | None \<Rightarrow> ownerResetAdminPassword cy u audit rnd now ctx identity (rpPassword input) st))"

text \<open>The routes below \<open>/api/v1/admins/\<close>.\<close>

datatype admin_reply = UpdateReply "(AuthIdentity \<times> AdminProfile) reply" | ResetReply "string reply" | RevokeReply "unit reply" | RouteReply "unit reply"

definition adminSubroutes ::
  "Crypto \<Rightarrow> UnicodeTables \<Rightarrow> bool \<Rightarrow> 8 word list \<Rightarrow> int \<Rightarrow> string \<Rightarrow> Principal option \<Rightarrow> string \<Rightarrow> string \<Rightarrow>
   UpdateAdminInput option \<Rightarrow> ResetPasswordInput option \<Rightarrow> AdminState \<Rightarrow> admin_reply \<times> AdminState" where
  "adminSubroutes cy u audit rnd now webPrefix ctx httpMethod urlPath updateBody resetBody st =
     (let path = TrimByte (CHR ''/'') (TrimPrefix (webPrefix @ ''/api/v1/admins/'') urlPath);
          parts = Split (CHR ''/'') path;
          i = hd parts
      in if path = [] then (RouteReply (Failure StatusNotFound ''admin not found''), st)
         else if length parts = 1 \<and> httpMethod = ''PATCH''
         then case requireOwner ctx of
             Some (http, m) \<Rightarrow> (RouteReply (Failure http m), st)
           | None \<Rightarrow> apfst UpdateReply (updateAdmin audit rnd now ctx i updateBody st)
         else if length parts = 2 \<and> httpMethod = ''POST'' \<and> parts ! 1 = ''reset-password''
         then apfst ResetReply (resetAdminPassword cy u audit rnd now ctx i resetBody st)
         else if length parts = 2 \<and> httpMethod = ''POST'' \<and> parts ! 1 = ''revoke-sessions''
         then case requireOwner ctx of
             Some (http, m) \<Rightarrow> (RouteReply (Failure http m), st)
           | None \<Rightarrow> apfst RevokeReply (revokeAdminSessions audit rnd now ctx i st)
         else (RouteReply (NoBody StatusMethodNotAllowed), st))"

section \<open>Invites\<close>

record AdminApp =
  aaWebPrefix :: string
  aaPublicBaseURL :: string
  aaAudit :: bool
  aaAuth :: Authenticator

definition inviteValue :: "8 word list \<Rightarrow> nat" where
  "inviteValue raw = foldl (\<lambda>v b. v * 256 + unat b) 0 raw mod 1000000000000"

text \<open>Six random bytes as twelve decimal digits; 48 bits do not overflow the 64-bit accumulator.\<close>

definition newInviteCode :: "8 word list result \<Rightarrow> string result" where
  "newInviteCode raw =
     bindR raw (\<lambda>bs. let v = inviteValue bs
       in Inr (pad 4 (int (v div 100000000)) @ ''-'' @ pad 4 (int (v div 10000 mod 10000)) @ ''-'' @ pad 4 (int (v mod 10000))))"

definition normalizeInviteCode :: "UnicodeTables \<Rightarrow> string \<Rightarrow> string" where
  "normalizeInviteCode u code' = ToUpper u (TrimSpace code')"

definition adminInviteURL :: "AdminApp \<Rightarrow> string \<Rightarrow> string" where
  "adminInviteURL a token =
     (let path = aaWebPrefix a @ ''/invite/'' @ token in if aaPublicBaseURL a \<noteq> [] then aaPublicBaseURL a @ path else path)"

record CreatedAdminInvite =
  ciInvite :: AdminInvite
  ciToken :: string
  ciCode :: string
  ciURL :: string

definition zeroInvite :: AdminInvite where
  "zeroInvite = \<lparr>ivID = [], ivTokenHash = [], ivCodeHash = [], ivRole = [], ivStatus = [], ivExpiresAt = zero_time, ivInvitedByIdentityID = [],
     ivInvitedByLoginSnapshot = [], ivUsedByIdentityID = [], ivUsedByLogin = [], ivUsedByDisplayName = [], ivUsedAt = zero_time,
     ivRevokedAt = zero_time, ivNote = [], ivCreatedAt = zero_time, ivUpdatedAt = zero_time\<rparr>"

definition createAdminInviteRecord ::
  "Crypto \<Rightarrow> entropy \<Rightarrow> random \<Rightarrow> int \<Rightarrow> AdminApp \<Rightarrow> string \<Rightarrow> int \<Rightarrow> string \<Rightarrow> string \<Rightarrow> string \<Rightarrow> (AuthDB, CreatedAdminInvite) op" where
  "createAdminInviteRecord cy ent rnd now a role ttl note invitedByID invitedByLogin db =
     (case tokens_New (ent 0) of
        Inl e \<Rightarrow> (Inl e, db)
      | Inr token \<Rightarrow>
          (case newInviteCode (ent 1) of
             Inl e \<Rightarrow> (Inl e, db)
           | Inr icode \<Rightarrow>
               (case cyGenerate cy icode of
                  Inl e \<Rightarrow> (Inl e, db)
                | Inr codeHash \<Rightarrow>
                    (case CreateAdminInvite rnd now
                            (zeroInvite\<lparr>ivTokenHash := tokens_Hash cy token, ivCodeHash := codeHash, ivRole := role,
                               ivStatus := AdminInviteStatusActive, ivExpiresAt := now + ttl, ivInvitedByIdentityID := invitedByID,
                               ivInvitedByLoginSnapshot := invitedByLogin, ivNote := note\<rparr>) db of
                       (Inl e, db') \<Rightarrow> (Inl e, db')
                     | (Inr invite, db') \<Rightarrow>
                         (Inr \<lparr>ciInvite = invite, ciToken = token, ciCode = icode, ciURL = adminInviteURL a token\<rparr>, db')))))"

definition CreatedAdminInvite_BootstrapInvite :: "CreatedAdminInvite \<Rightarrow> BootstrapInvite" where
  "CreatedAdminInvite_BootstrapInvite c =
     \<lparr>biID = ivID (ciInvite c), biURL = ciURL c, biCode = ciCode c, biExpiresAt = ivExpiresAt (ciInvite c)\<rparr>"

text \<open>The part of \<open>New\<close> that makes sure there is an owner to be.\<close>

definition App_bootstrap :: "Crypto \<Rightarrow> entropy \<Rightarrow> random \<Rightarrow> int \<Rightarrow> AdminApp \<Rightarrow> (AuthDB, BootstrapInvite option) op" where
  "App_bootstrap cy ent rnd now a =
     EnsureBootstrapOwnerInvite now True
       (Some (\<lambda>role ttl note byID byLogin db.
          case createAdminInviteRecord cy ent rnd now a role ttl note byID byLogin db of
            (Inl e, db') \<Rightarrow> (Inl e, db')
          | (Inr c, db') \<Rightarrow> (Inr (CreatedAdminInvite_BootstrapInvite c), db')))"

record EnrollInput =
  eiInviteToken :: string
  eiInviteCode :: string
  eiLogin :: string
  eiDisplayName :: string
  eiPassword :: string

definition zeroIdentity :: AuthIdentity where
  "zeroIdentity = \<lparr>idID = [], idKind = [], idLogin = [], idDisplayName = [], idAccountID = [], idStatus = [], idMustChangePassword = False,
     idVerifiedAt = zero_time, idCreatedAt = zero_time, idUpdatedAt = zero_time\<rparr>"

definition zeroCredential :: AuthCredential where
  "zeroCredential = \<lparr>crID = [], crIdentityID = [], crType = [], crSecretHash = [], crFailedAttempts = 0, crLockedUntil = zero_time,
     crStatus = [], crCreatedAt = zero_time, crUpdatedAt = zero_time\<rparr>"

definition zeroProfile :: AdminProfile where
  "zeroProfile = \<lparr>apID = [], apIdentityID = [], apRole = [], apStatus = [], apCreatedAt = zero_time, apUpdatedAt = zero_time\<rparr>"

text \<open>
  The writes of an enrolment, one after the other and not in one transaction; each failure is answered at once and
  keeps what was written before. \<open>rnd k\<close> feeds the k-th of them.
\<close>

definition enrollWrites ::
  "Crypto \<Rightarrow> entropy \<Rightarrow> (nat \<Rightarrow> random) \<Rightarrow> int \<Rightarrow> AdminApp \<Rightarrow> AdminInvite \<Rightarrow> string \<Rightarrow> string \<Rightarrow> string \<Rightarrow> AdminState \<Rightarrow>
   LoginResult reply \<times> AdminState" where
  "enrollWrites cy ent rnd now a invite login displayName hash st =
     (case CreateAuthIdentity (rnd 0) now (zeroIdentity\<lparr>idKind := AuthIdentityKindAdmin, idLogin := login, idDisplayName := displayName,
             idStatus := StatusActive, idVerifiedAt := now\<rparr>) (stAuth st) of
        (Inl _, db) \<Rightarrow> (Failure StatusConflict ''admin login already exists'', st\<lparr>stAuth := db\<rparr>)
      | (Inr identity, db) \<Rightarrow>
          (case CreateAuthCredential (rnd 1) now (zeroCredential\<lparr>crIdentityID := idID identity, crType := AuthCredentialTypePassword,
                  crSecretHash := hash, crStatus := StatusActive\<rparr>) db of
             (Inl _, db1) \<Rightarrow> (Failure StatusInternalServerError ''failed to create credential'', st\<lparr>stAuth := db1\<rparr>)
           | (Inr _, db1) \<Rightarrow>
               (case CreateAdminProfile (rnd 2) now (zeroProfile\<lparr>apIdentityID := idID identity, apRole := ivRole invite,
                       apStatus := StatusActive\<rparr>) db1 of
                  (Inl _, db2) \<Rightarrow> (Failure StatusInternalServerError ''failed to create admin profile'', st\<lparr>stAuth := db2\<rparr>)
                | (Inr _, db2) \<Rightarrow>
                    (case MarkAdminInviteUsed now (ivID invite) (idID identity) db2 of
                       (Inl _, db3) \<Rightarrow> (Failure StatusInternalServerError ''failed to mark invite used'', st\<lparr>stAuth := db3\<rparr>)
                     | (Inr _, db3) \<Rightarrow>
                         (case issueNormalSession cy ent (rnd 3) (aaAuth a) now identity db3 of
                            ((_, Some _), db4) \<Rightarrow> (Failure StatusInternalServerError ''failed to issue session'', st\<lparr>stAuth := db4\<rparr>)
                          | ((res, None), db4) \<Rightarrow>
                              (Payload StatusOK res,
                               recordAudit (aaAudit a) (rnd 4 0) now (Some (lrPrincipal res))
                                 (adminEvent ''admin.enroll'' ''admin_identity'' (idID identity) (Some [(''role'', JStr (ivRole invite))]))
                                 (st\<lparr>stAuth := db4\<rparr>)))))))"

text \<open>\<open>crossSite\<close>: the Origin or the Referer header names another host.\<close>

definition enrollAdmin ::
  "Crypto \<Rightarrow> UnicodeTables \<Rightarrow> entropy \<Rightarrow> (nat \<Rightarrow> random) \<Rightarrow> int \<Rightarrow> AdminApp \<Rightarrow> string \<Rightarrow> bool \<Rightarrow> EnrollInput option \<Rightarrow> AdminState \<Rightarrow>
   LoginResult reply \<times> AdminState" where
  "enrollAdmin cy u ent rnd now a httpMethod crossSite body st =
     (if httpMethod \<noteq> ''POST'' then (NoBody StatusMethodNotAllowed, st)
      else if crossSite then (Failure StatusForbidden ''cross-site admin request rejected'', st)
      else case body of
        None \<Rightarrow> (Failure StatusBadRequest ''invalid json'', st)
      | Some input \<Rightarrow>
          (case GetAdminInviteByTokenHash (stAuth st) (tokens_Hash cy (TrimSpace (eiInviteToken input))) of
             Inl _ \<Rightarrow> (Failure StatusUnauthorized ''invite is invalid or expired'', st)
           | Inr invite \<Rightarrow>
               if ivStatus invite \<noteq> AdminInviteStatusActive \<or> \<not> now < ivExpiresAt invite
               then (Failure StatusUnauthorized ''invite is invalid or expired'', st)
               else if \<not> cyCompare cy (ivCodeHash invite) (normalizeInviteCode u (eiInviteCode input))
               then (Failure StatusUnauthorized ''invite code is invalid'', st)
               else
                 let login = TrimSpace (eiLogin input)
                 in if login = [] then (Failure StatusBadRequest ''login is required'', st)
                    else case FindActiveAdminIdentityByLogin (stAuth st) login of
                      Inr _ \<Rightarrow> (Failure StatusConflict ''admin login already exists'', st)
                    | Inl _ \<Rightarrow>
                        (case ValidateAdminPassword u login (eiPassword input) of
                           Some e \<Rightarrow> (Failure StatusBadRequest (errorText e), st)
                         | None \<Rightarrow>
                             let displayName = (let d = TrimSpace (eiDisplayName input) in if d = [] then login else d)
                             in case cyGenerate cy (TrimSpace (eiPassword input)) of
                                  Inl _ \<Rightarrow> (Failure StatusInternalServerError ''failed to hash password'', st)
                                | Inr hash \<Rightarrow> enrollWrites cy ent rnd now a invite login displayName hash st)))"

definition revokeInvite ::
  "AdminApp \<Rightarrow> 8 word list \<Rightarrow> int \<Rightarrow> Principal option \<Rightarrow> string \<Rightarrow> string \<Rightarrow> AdminState \<Rightarrow> AdminInvite reply \<times> AdminState" where
  "revokeInvite a rnd now ctx httpMethod urlPath st =
     (case requireOwner ctx of
        Some (http, m) \<Rightarrow> (Failure http m, st)
      | None \<Rightarrow>
          let parts = Split (CHR ''/'') (TrimByte (CHR ''/'') (TrimPrefix (aaWebPrefix a @ ''/api/v1/admin-invites/'') urlPath))
          in if length parts = 2 \<and> parts ! 1 = ''revoke'' \<and> httpMethod = ''POST''
             then case RevokeAdminInvite now (hd parts) (stAuth st) of
                 (Inl _, db) \<Rightarrow> (Failure StatusNotFound ''invite not found or not active'', st\<lparr>stAuth := db\<rparr>)
               | (Inr invite, db) \<Rightarrow>
                   (Payload StatusOK invite,
                    recordAudit (aaAudit a) rnd now ctx (adminEvent ''admin.invite_revoke'' ''admin_invite'' (ivID invite) None) (st\<lparr>stAuth := db\<rparr>))
             else (NoBody StatusMethodNotAllowed, st))"

end
