(* ===== verification/Admin_Owners.thy ===== *)
theory Admin_Owners
  imports Admin_Management Admin_Properties
begin

text \<open>
  What the management of administrators guarantees: a handler never takes the last active owner away, an invite is used
  once, and which routes the permission guard keeps a viewer from.
\<close>

section \<open>The last owner\<close>

definition activeOwner :: "AuthDB \<Rightarrow> bool" where
  "activeOwner db \<longleftrightarrow> (\<exists>i \<in> set (adIdentities db). \<exists>p \<in> set (adProfiles db). idKind i = AuthIdentityKindAdmin \<and> apIdentityID p = idID i \<and>
     idStatus i = StatusActive \<and> apStatus p = StatusActive \<and> apRole p = ''owner'')"

lemma ListAdminIdentityProfiles_iff:
  "(\<exists>item \<in> set (ListAdminIdentityProfiles now db). Q (aipIdentity item) (aipProfile item)) \<longleftrightarrow>
     (\<exists>i \<in> set (adIdentities db). \<exists>p \<in> set (adProfiles db). idKind i = AuthIdentityKindAdmin \<and> apIdentityID p = idID i \<and> Q i p)"
  by (auto simp: ListAdminIdentityProfiles_def Let_def)

lemma activeOwnerExists_iff: "activeOwnerExists (ListAdminIdentityProfiles now db) \<longleftrightarrow> activeOwner db"
  using ListAdminIdentityProfiles_iff [of now db "\<lambda>i p. idStatus i = StatusActive \<and> apStatus p = StatusActive \<and> apRole p = ''owner''"]
  by (simp add: activeOwnerExists_def list_ex_iff activeOwner_def)

lemma adminIdentityProfile_Inr:
  assumes "adminIdentityProfile db i = Inr (identity, profile)"
  shows "identity \<in> set (adIdentities db)" "idKind identity = AuthIdentityKindAdmin" "profile \<in> set (adProfiles db)" "apIdentityID profile = idID identity"
  using assms unfolding adminIdentityProfile_def GetAuthIdentity_def GetAdminProfile_def getRow_def
  by (auto split: sum.splits if_split_asm option.splits dest!: lookup_row_SomeD)

text \<open>The two writes of an update, on their tables.\<close>

definition changedIdentity :: "int \<Rightarrow> AuthIdentity \<Rightarrow> AuthIdentity \<Rightarrow> AuthIdentity" where
  "changedIdentity now v r = (if idID r = idID v then r\<lparr>idLogin := idLogin v, idDisplayName := idDisplayName v, idAccountID := idAccountID v,
     idStatus := idStatus v, idMustChangePassword := idMustChangePassword v, idVerifiedAt := idVerifiedAt v, idUpdatedAt := now\<rparr> else r)"

definition changedProfile :: "int \<Rightarrow> AdminProfile \<Rightarrow> AdminProfile \<Rightarrow> AdminProfile" where
  "changedProfile now v r = (if apID r = apID v then r\<lparr>apRole := apRole v, apStatus := apStatus v, apUpdatedAt := now\<rparr> else r)"

lemma UpdateAuthIdentity_cases:
  assumes "UpdateAuthIdentity now v db = (r, db')"
  shows "(\<exists>e. r = Inl e) \<and> db' = db \<or>
    adIdentities db' = map (changedIdentity now v) (adIdentities db) \<and> adProfiles db' = adProfiles db \<and> r = GetAuthIdentity db' (idID v)"
proof (cases "checked_update identityClash (\<lambda>r. idID r = idID v) (\<lambda>r. r\<lparr>idLogin := idLogin v, idDisplayName := idDisplayName v,
    idAccountID := idAccountID v, idStatus := idStatus v, idMustChangePassword := idMustChangePassword v, idVerifiedAt := idVerifiedAt v,
    idUpdatedAt := now\<rparr>) (adIdentities db)")
  case (Inr t)
  have "t = map (changedIdentity now v) (adIdentities db)"
    using conjunct2 [OF noClash_checked_update [OF Inr]] unfolding update_rows_def changedIdentity_def .
  then show ?thesis using assms Inr by (auto simp: UpdateAuthIdentity_def Let_def)
qed (use assms in \<open>auto simp: UpdateAuthIdentity_def\<close>)

lemma UpdateAdminProfile_rows:
  "UpdateAdminProfile now v db = (r, db') \<Longrightarrow> adProfiles db' = map (changedProfile now v) (adProfiles db) \<and> adIdentities db' = adIdentities db"
  by (auto simp: UpdateAdminProfile_def Let_def update_rows_def changedProfile_def)

lemma recordAudit_auth [simp]: "stAuth (recordAudit audit rnd now ctx ev st) = stAuth st"
  by (simp add: recordAudit_def split: sum.split)

text \<open>The target of the update as the row it becomes, and the other rows as they were.\<close>

lemma owner_kept:
  assumes ok: "noClash profileClash (adProfiles db)" and m: "identity \<in> set (adIdentities db)" "idKind identity = AuthIdentityKindAdmin" "profile \<in> set (adProfiles db)"
      "apIdentityID profile = idID identity"
    and v: "idID v = idID identity" "apID w = apID profile"
    and guard: "preventLastActiveOwner now' db (idID v) (apRole w) (idStatus v) (apStatus w) = None"
    and t: "adIdentities db' = map (changedIdentity now v) (adIdentities db)" "adProfiles db' = map (changedProfile now w) (adProfiles db)"
  shows "activeOwner db'"
proof -
  have target: "activeOwner db'" if "apRole w = ''owner''" "idStatus v = StatusActive" "apStatus w = StatusActive"
  proof -
    have "changedIdentity now v identity \<in> set (adIdentities db')" "changedProfile now w profile \<in> set (adProfiles db')"
      using m(1,3) t by simp_all
    then show ?thesis using that m(2,4) v unfolding activeOwner_def
      by (intro bexI [of _ "changedIdentity now v identity"] bexI [of _ "changedProfile now w profile"])
        (simp_all add: changedIdentity_def changedProfile_def)
  qed
  show ?thesis
  proof (cases "apRole w = ''owner'' \<and> idStatus v = StatusActive \<and> apStatus w = StatusActive")
    case False
    then obtain item where "item \<in> set (ListAdminIdentityProfiles now' db)" "ownerAfter (idID v) (apRole w) (idStatus v) (apStatus w) item"
      using guard unfolding preventLastActiveOwner_def Let_def by (auto simp: filter_empty_conv split: if_split_asm)
    then obtain i p where ip: "i \<in> set (adIdentities db)" "p \<in> set (adProfiles db)" "idKind i = AuthIdentityKindAdmin" "apIdentityID p = idID i"
      "idID i \<noteq> idID v" "apRole p = ''owner''" "idStatus i = StatusActive" "apStatus p = StatusActive"
      using False ListAdminIdentityProfiles_iff [of now' db "\<lambda>i p. idID i \<noteq> idID v \<and> apRole p = ''owner'' \<and> idStatus i = StatusActive \<and> apStatus p = StatusActive"]
      by (auto simp: ownerAfter_def Let_def split: if_split_asm)
    have "keyed apID (adProfiles db)"
      using ok by (auto intro!: noClash_keyed [of profileClash] simp: profileClash_def)
    then have "apID p \<noteq> apID w" using ip m v by (metis distinct_map inj_onD)
    then have "changedProfile now w p = p" "changedIdentity now v i = i" using ip(5) by (simp_all add: changedProfile_def changedIdentity_def)
    then have "p \<in> set (adProfiles db')" "i \<in> set (adIdentities db')" using ip(1,2) t by (metis image_eqI list.set_map)+
    then show ?thesis using ip unfolding activeOwner_def by blast
  qed (use target in blast)
qed

lemma UpdateAuthIdentity_Inl:
  assumes "UpdateAuthIdentity now v db = (Inl e, db')" "identity \<in> set (adIdentities db)" "idID identity = idID v"
  shows "db' = db"
proof (rule ccontr)
  assume "db' \<noteq> db"
  then have t: "adIdentities db' = map (changedIdentity now v) (adIdentities db)" "GetAuthIdentity db' (idID v) = Inl e"
    using UpdateAuthIdentity_cases [OF assms(1)] by auto
  have "idID (changedIdentity now v identity) = idID v" using assms(3) by (simp add: changedIdentity_def)
  then have "idID v \<in> idID ` set (adIdentities db')" using assms(2) t(1) by (metis image_eqI list.set_map)
  then have "lookup_row idID (adIdentities db') (idID v) \<noteq> None" unfolding lookup_row_None_iff by blast
  with t(2) show False by (auto simp: GetAuthIdentity_def getRow_def)
qed

lemma updateAdmin_cases:
  assumes "updateAdmin audit rnd now ctx i body st = (r, st')" "stAuth st' \<noteq> stAuth st"
  shows "\<exists>identity profile v w x db1. adminIdentityProfile (stAuth st) i = Inr (identity, profile) \<and> idID v = idID identity \<and> apID w = apID profile \<and>
    preventLastActiveOwner now (stAuth st) (idID v) (apRole w) (idStatus v) (apStatus w) = None \<and>
    UpdateAuthIdentity now v (stAuth st) = (x, db1) \<and>
    ((\<exists>e. x = Inl e) \<and> stAuth st' = db1 \<or>
     (\<exists>a. x = Inr a) \<and> adIdentities (stAuth st') = adIdentities (snd (UpdateAdminProfile now w db1)) \<and>
       adProfiles (stAuth st') = adProfiles (snd (UpdateAdminProfile now w db1)))"
proof -
  obtain identity profile where p: "adminIdentityProfile (stAuth st) i = Inr (identity, profile)"
    using assms unfolding updateAdmin_def by (cases "adminIdentityProfile (stAuth st) i") auto
  obtain input where b: "body = Some input" using assms p unfolding updateAdmin_def by (cases body) auto
  let ?role = "case uaRole input of None \<Rightarrow> apRole profile | Some r \<Rightarrow> TrimSpace r" and ?status = "map_option TrimSpace (uaStatus input)"
  let ?v = "identity\<lparr>idStatus := (case ?status of None \<Rightarrow> idStatus identity | Some s \<Rightarrow> s),
      idDisplayName := (case uaDisplayName input of None \<Rightarrow> idDisplayName identity | Some d \<Rightarrow> TrimSpace d)\<rparr>"
    and ?w = "profile\<lparr>apRole := ?role, apStatus := (case ?status of None \<Rightarrow> apStatus profile | Some s \<Rightarrow> s)\<rparr>"
  obtain x db1 where u: "UpdateAuthIdentity now ?v (stAuth st) = (x, db1)" by (cases "UpdateAuthIdentity now ?v (stAuth st)")
  obtain y db2 where w: "UpdateAdminProfile now ?w db1 = (y, db2)" by (cases "UpdateAdminProfile now ?w db1")
  have g: "preventLastActiveOwner now (stAuth st) (idID ?v) (apRole ?w) (idStatus ?v) (apStatus ?w) = None"
    using assms p b unfolding updateAdmin_def Let_def by (auto split: if_split_asm option.splits)
  have "(\<exists>e. x = Inl e) \<and> stAuth st' = db1 \<or> (\<exists>a. x = Inr a) \<and> adIdentities (stAuth st') = adIdentities db2 \<and>
      adProfiles (stAuth st') = adProfiles db2"
    using assms p b g u w unfolding updateAdmin_def Let_def
    by (cases x; cases y) (auto simp: RevokeAuthSessionsByIdentityID_def split: if_split_asm)
  with p g u w show ?thesis
    by (intro exI [of _ identity] exI [of _ profile] exI [of _ ?v] exI [of _ ?w] exI [of _ x] exI [of _ db1]) simp
qed

section \<open>Invites\<close>

definition invitesOK :: "AuthDB \<Rightarrow> bool" where
  "invitesOK db \<longleftrightarrow> noClash inviteClash (adInvites db)"

lemma RotateAuthRefreshToken_invites: "RotateAuthRefreshToken rnd now h th e rh re g db = (r, db') \<Longrightarrow> adInvites db' = adInvites db"
  unfolding RotateAuthRefreshToken_def
  by (auto simp: rotateGrace_def revokeFamily_def Let_def split: sum.splits if_split_asm option.splits elim!: rotateActive_cases)

lemma CreateAuthSession_invites: "CreateAuthSession rnd now s db = (r, db') \<Longrightarrow> adInvites db' = adInvites db"
  unfolding CreateAuthSession_def Let_def by (auto dest!: commit_state)

lemma invitesOK_status:
  "noClash inviteClash t \<Longrightarrow> (\<And>r. ivID (f r) = ivID r \<and> ivTokenHash (f r) = ivTokenHash r) \<Longrightarrow> noClash inviteClash (update_rows P f t)"
  by (rule noClash_update_rows) (auto simp: inviteClash_def split: if_split_asm)

lemma auth_step_invites: "auth_step db db' \<Longrightarrow> invitesOK db \<Longrightarrow> invitesOK db'"
proof (induction rule: auth_step.induct)
  case (create_invite rnd now i db r db')
  then show ?case unfolding CreateAdminInvite_def Let_def by (auto simp: invitesOK_def insert_row_eq noClash_append dest!: commit_state)
next
  case (use_invite now i j db r db')
  then show ?case unfolding MarkAdminInviteUsed_def Let_def by (auto simp: invitesOK_def intro!: invitesOK_status split: if_split_asm)
next
  case (revoke_invite now i db r db')
  then show ?case unfolding RevokeAdminInvite_def Let_def by (auto simp: invitesOK_def intro!: invitesOK_status split: if_split_asm)
next
  case (rotate rnd8 now old th e rh re g db r db')
  then show ?case using RotateAuthRefreshToken_invites by (simp add: invitesOK_def)
next
  case (create_session rnd now s db r db')
  then show ?case using CreateAuthSession_invites by (simp add: invitesOK_def)
qed (auto simp: invitesOK_def CreateAuthIdentity_def UpdateAuthIdentity_def CreateAdminProfile_def UpdateAdminProfile_def
    CreateAuthCredential_def UpdateAuthCredential_def
    CreateAuthRecoveryCode_def MarkAuthRecoveryCodeUsed_def UpdateAuthSessionTokens_def UpdateAuthSessionPresence_def
    RevokeAuthSessionsByIdentityID_def RevokeOtherAuthSessionsByIdentityID_def Let_def
    split: sum.splits if_split_asm dest!: commit_state)

lemma invites_reachable: "auth_step\<^sup>*\<^sup>* emptyAuthDB db \<Longrightarrow> invitesOK db"
proof (induction rule: rtranclp_induct)
  case base
  then show ?case by (simp add: invitesOK_def emptyAuthDB_def noClash_def)
qed (rule auth_step_invites)

lemma enrollAdmin_Payload:
  assumes "enrollAdmin cy u ent rnd now a m cross body st = (Payload c res, st')"
  shows "\<exists>input invite hash displayName. body = Some input \<and>
    GetAdminInviteByTokenHash (stAuth st) (tokens_Hash cy (TrimSpace (eiInviteToken input))) = Inr invite \<and>
    cyGenerate cy (TrimSpace (eiPassword input)) = Inr hash \<and>
    enrollWrites cy ent rnd now a invite (TrimSpace (eiLogin input)) displayName hash st = (Payload c res, st')"
  using assms unfolding enrollAdmin_def Let_def
  by (simp split: if_split_asm option.split_asm sum.split_asm) blast+

text \<open>What a completed enrolment wrote.\<close>

lemma enrollWrites_Payload:
  assumes "enrollWrites cy ent rnd now a invite login displayName hash st = (Payload c res, st')"
  shows "\<exists>identity credential profile db1 db2 db3 db4 inv.
    CreateAuthIdentity (rnd 0) now (zeroIdentity\<lparr>idKind := AuthIdentityKindAdmin, idLogin := login, idDisplayName := displayName,
      idStatus := StatusActive, idVerifiedAt := now\<rparr>) (stAuth st) = (Inr identity, db1) \<and>
    CreateAuthCredential (rnd 1) now (zeroCredential\<lparr>crIdentityID := idID identity, crType := AuthCredentialTypePassword,
      crSecretHash := hash, crStatus := StatusActive\<rparr>) db1 = (Inr credential, db2) \<and>
    CreateAdminProfile (rnd 2) now (zeroProfile\<lparr>apIdentityID := idID identity, apRole := ivRole invite, apStatus := StatusActive\<rparr>) db2 =
      (Inr profile, db3) \<and>
    MarkAdminInviteUsed now (ivID invite) (idID identity) db3 = (Inr inv, db4) \<and>
    issueNormalSession cy ent (rnd 3) (aaAuth a) now identity db4 = ((res, None), stAuth st')"
  using assms unfolding enrollWrites_def
  by (auto split: sum.splits prod.splits option.splits)

lemma firstRow_append: "firstRow P t = Inl e \<Longrightarrow> P r \<Longrightarrow> firstRow P (t @ [r]) = Inr r"
  by (auto simp: firstRow_def find_append split: option.splits)

lemma issueNormalSession_invites:
  assumes "issueNormalSession cy ent rnd x now identity db = ((res, None), db')"
  shows "adInvites db' = adInvites db"
  using assms CreateAuthSession_invites unfolding issueNormalSession_def refuse_def
  by (auto split: sum.splits if_split_asm prod.splits)

text \<open>The rows of a new administrator, found again when the enrolment is over.\<close>

lemma enrolled_rows:
  assumes e: "enrollWrites cy ent rnd now a invite login displayName hash st = (Payload c res, st')"
    and n: "FindActiveAdminIdentityByLogin (stAuth st) login = Inl err"
  shows "\<exists>identity credential. FindActiveAdminIdentityByLogin (stAuth st') login = Inr identity \<and>
      credential \<in> set (adCredentials (stAuth st')) \<and> crIdentityID credential = idID identity \<and> crType credential = AuthCredentialTypePassword \<and>
      crSecretHash credential = hash \<and> crStatus credential = StatusActive"
    "pcRole (lrPrincipal res) = ivRole invite"
    "adInvites (stAuth st') = update_rows (\<lambda>r. ivID r = ivID invite \<and> ivStatus r = AdminInviteStatusActive)
       (\<lambda>r. r\<lparr>ivStatus := AdminInviteStatusUsed, ivUsedByIdentityID := pcIdentityID (lrPrincipal res), ivUsedAt := now, ivUpdatedAt := now\<rparr>)
       (adInvites (stAuth st))"
proof -
  obtain identity credential profile db1 db2 db3 db4 inv where
    w1: "CreateAuthIdentity (rnd 0) now (zeroIdentity\<lparr>idKind := AuthIdentityKindAdmin, idLogin := login, idDisplayName := displayName,
      idStatus := StatusActive, idVerifiedAt := now\<rparr>) (stAuth st) = (Inr identity, db1)"
    and w2: "CreateAuthCredential (rnd 1) now (zeroCredential\<lparr>crIdentityID := idID identity, crType := AuthCredentialTypePassword,
      crSecretHash := hash, crStatus := StatusActive\<rparr>) db1 = (Inr credential, db2)"
    and w3: "CreateAdminProfile (rnd 2) now (zeroProfile\<lparr>apIdentityID := idID identity, apRole := ivRole invite, apStatus := StatusActive\<rparr>) db2 =
      (Inr profile, db3)"
    and w4: "MarkAdminInviteUsed now (ivID invite) (idID identity) db3 = (Inr inv, db4)"
    and w5: "issueNormalSession cy ent (rnd 3) (aaAuth a) now identity db4 = ((res, None), stAuth st')"
    using enrollWrites_Payload [OF e] by blast
  have r1: "adIdentities db1 = adIdentities (stAuth st) @ [identity]" "idKind identity = AuthIdentityKindAdmin" "idLogin identity = login"
    "idStatus identity = StatusActive" "adInvites db1 = adInvites (stAuth st)"
    using w1 unfolding CreateAuthIdentity_def Let_def by (auto simp: insert_row_eq orElse_def)
  have r2: "adCredentials db2 = adCredentials db1 @ [credential]" "crIdentityID credential = idID identity" "crType credential = AuthCredentialTypePassword"
    "crSecretHash credential = hash" "crStatus credential = StatusActive" "adInvites db2 = adInvites db1" "adIdentities db2 = adIdentities db1"
    using w2 unfolding CreateAuthCredential_def Let_def by (auto simp: insert_row_eq orElse_def)
  have r3: "adProfiles db3 = adProfiles db2 @ [profile]" "\<forall>p \<in> set (adProfiles db2). apIdentityID p \<noteq> idID identity" "apIdentityID profile = idID identity"
    "apRole profile = ivRole invite" "adInvites db3 = adInvites db2" "adIdentities db3 = adIdentities db2" "adCredentials db3 = adCredentials db2"
    using w3 unfolding CreateAdminProfile_def Let_def by (auto simp: insert_row_eq orElse_def profileClash_def)
  have r4: "adProfiles db4 = adProfiles db3" "adIdentities db4 = adIdentities db3" "adCredentials db4 = adCredentials db3"
    "adInvites db4 = update_rows (\<lambda>r. ivID r = ivID invite \<and> ivStatus r = AdminInviteStatusActive)
       (\<lambda>r. r\<lparr>ivStatus := AdminInviteStatusUsed, ivUsedByIdentityID := idID identity, ivUsedAt := now, ivUpdatedAt := now\<rparr>) (adInvites db3)"
    using w4 unfolding MarkAdminInviteUsed_def Let_def by (auto split: if_split_asm)
  note iss = issueNormalSession_issued(1) [OF w5, unfolded issued_def] issueNormalSession_invites [OF w5]
  have "lookup_row apIdentityID (adProfiles db2) (idID identity) = None" unfolding lookup_row_None_iff using r3(2) by (metis imageE)
  then have "lookup_row apIdentityID (adProfiles db4) (idID identity) = Some profile"
    using r3(3) unfolding r4(1) r3(1) by (simp add: lookup_row_append lookup_row_Cons)
  then have "GetAdminProfile db4 (idID identity) = Inr profile" by (simp add: GetAdminProfile_def getRow_def)
  then have p: "lrPrincipal res = principalOf identity profile (seID (lrSession res))" using iss(1) by auto
  then show "pcRole (lrPrincipal res) = ivRole invite" using r3(4) by (simp add: principalOf_def)
  show "adInvites (stAuth st') = update_rows (\<lambda>r. ivID r = ivID invite \<and> ivStatus r = AdminInviteStatusActive)
       (\<lambda>r. r\<lparr>ivStatus := AdminInviteStatusUsed, ivUsedByIdentityID := pcIdentityID (lrPrincipal res), ivUsedAt := now, ivUpdatedAt := now\<rparr>)
       (adInvites (stAuth st))"
    using iss(2) r4(4) r3(5) r2(6) r1(5) p by (simp add: principalOf_def)
  have "FindActiveAdminIdentityByLogin (stAuth st') login = Inr identity"
    using n iss(1) r4(2) r3(6) r2(7) r1 unfolding FindActiveAdminIdentityByLogin_def by (simp add: firstRow_append)
  then show "\<exists>identity credential. FindActiveAdminIdentityByLogin (stAuth st') login = Inr identity \<and>
      credential \<in> set (adCredentials (stAuth st')) \<and> crIdentityID credential = idID identity \<and> crType credential = AuthCredentialTypePassword \<and>
      crSecretHash credential = hash \<and> crStatus credential = StatusActive"
    using iss(1) r4(3) r3(7) r2(1-5) by (intro exI [of _ identity] exI [of _ credential]) simp
qed

lemma enrollAdmin_new_login:
  assumes "enrollAdmin cy u ent rnd now a m cross (Some input) st = (Payload c res, st')"
  shows "\<exists>e. FindActiveAdminIdentityByLogin (stAuth st) (TrimSpace (eiLogin input)) = Inl e"
  using assms unfolding enrollAdmin_def Let_def by (auto split: if_split_asm sum.splits)

lemma enrolled_accounts:
  assumes ok: "accountsOK (stAuth st)" and e: "enrollWrites cy ent rnd now a invite login displayName hash st = (Payload c res, st')"
  shows "accountsOK (stAuth st')"
proof -
  obtain identity credential profile db1 db2 db3 db4 inv where
    w: "CreateAuthIdentity (rnd 0) now (zeroIdentity\<lparr>idKind := AuthIdentityKindAdmin, idLogin := login, idDisplayName := displayName,
      idStatus := StatusActive, idVerifiedAt := now\<rparr>) (stAuth st) = (Inr identity, db1)"
    "CreateAuthCredential (rnd 1) now (zeroCredential\<lparr>crIdentityID := idID identity, crType := AuthCredentialTypePassword,
      crSecretHash := hash, crStatus := StatusActive\<rparr>) db1 = (Inr credential, db2)"
    "CreateAdminProfile (rnd 2) now (zeroProfile\<lparr>apIdentityID := idID identity, apRole := ivRole invite, apStatus := StatusActive\<rparr>) db2 =
      (Inr profile, db3)"
    "MarkAdminInviteUsed now (ivID invite) (idID identity) db3 = (Inr inv, db4)"
    and i: "issueNormalSession cy ent (rnd 3) (aaAuth a) now identity db4 = ((res, None), stAuth st')"
    using enrollWrites_Payload [OF e] by blast
  have "accountsOK db4"
    using ok auth_step_accounts auth_step.create_identity [OF w(1)] auth_step.create_credential [OF w(2)] auth_step.create_profile [OF w(3)]
      auth_step.use_invite [OF w(4)] by blast
  then show ?thesis using issueNormalSession_issued(1) [OF i] accountsOK_same unfolding issued_def by blast
qed

text \<open>
  C23. An enrolment that succeeds gives the new administrator the role of the invite and uses the invite up: every
  further enrolment with the same invite token is refused and changes nothing.
\<close>

theorem invite_used_once:
  assumes run: "auth_step\<^sup>*\<^sup>* emptyAuthDB (stAuth st)"
    and call: "enrollAdmin cy u ent rnd now a m cross (Some input) st = (Payload c res, st')"
    and again: "TrimSpace (eiInviteToken input') = TrimSpace (eiInviteToken input)"
  shows "(\<exists>invite. GetAdminInviteByTokenHash (stAuth st) (tokens_Hash cy (TrimSpace (eiInviteToken input))) = Inr invite \<and>
      pcRole (lrPrincipal res) = ivRole invite) \<and>
    enrollAdmin cy u ent' rnd' now' a ''POST'' False (Some input') st' = (Failure StatusUnauthorized ''invite is invalid or expired'', st')"
proof -
  let ?h = "tokens_Hash cy (TrimSpace (eiInviteToken input))"
  obtain invite hash displayName where i: "GetAdminInviteByTokenHash (stAuth st) ?h = Inr invite"
    and w: "enrollWrites cy ent rnd now a invite (TrimSpace (eiLogin input)) displayName hash st = (Payload c res, st')"
    using enrollAdmin_Payload [OF call] by blast
  obtain e where n: "FindActiveAdminIdentityByLogin (stAuth st) (TrimSpace (eiLogin input)) = Inl e" using enrollAdmin_new_login [OF call] by blast
  note rows = enrolled_rows [OF w n]
  have m: "invite \<in> set (adInvites (stAuth st))" "ivTokenHash invite = ?h"
    using i unfolding GetAdminInviteByTokenHash_def by (auto dest!: firstRow_Inr)
  have key: "keyed ivTokenHash (adInvites (stAuth st))"
    using invites_reachable [OF run] unfolding invitesOK_def by (auto intro!: noClash_keyed [of inviteClash] simp: inviteClash_def)
  have used: "ivStatus r \<noteq> AdminInviteStatusActive" if r: "GetAdminInviteByTokenHash (stAuth st') ?h = Inr r" for r
  proof -
    obtain q where q: "q \<in> set (adInvites (stAuth st))" "ivTokenHash q = ?h" "r = (if ivID q = ivID invite \<and> ivStatus q = AdminInviteStatusActive
        then q\<lparr>ivStatus := AdminInviteStatusUsed, ivUsedByIdentityID := pcIdentityID (lrPrincipal res), ivUsedAt := now, ivUpdatedAt := now\<rparr> else q)"
      using r unfolding GetAdminInviteByTokenHash_def rows(3)
      by (auto dest!: firstRow_Inr simp: set_update_rows split: if_split_asm)
    have "q = invite" using key m q(1,2) by (metis distinct_map inj_onD)
    then show ?thesis using q(3) by simp
  qed
  have "enrollAdmin cy u ent' rnd' now' a ''POST'' False (Some input') st' = (Failure StatusUnauthorized ''invite is invalid or expired'', st')"
    using used [folded again] unfolding enrollAdmin_def by (auto split: sum.split)
  then show ?thesis using i rows(2) by blast
qed

lemma trim_left_set: "set (trim_left ws s) \<subseteq> set s"
proof (induction ws s rule: trim_left.induct)
  case (1 ws s)
  have "set t \<subseteq> set s" if "strip_one ws s = Some t" for t
    using that by (auto simp: strip_one_def dest: in_set_dropD)
  then show ?case using 1 by (cases "strip_one ws s") (auto simp: trim_left.simps [of ws s])
qed

lemma TrimSpace_set: "set (TrimSpace s) \<subseteq> set s"
  unfolding TrimSpace_def set_rev using trim_left_set set_rev by (metis order_trans)

text \<open>
  bcrypt reads a password up to its first 72 bytes and as text that a zero byte ends; \<open>plainPassword\<close> is what it tells apart.
\<close>

definition plainPassword :: "string \<Rightarrow> bool" where
  "plainPassword p \<longleftrightarrow> length p \<le> 72 \<and> CHR 0x00 \<notin> set p"

text \<open>
  C33. An administrator who enrols with a password that has white space around it cannot log in with that password: the
  enrolment stores the hash of the trimmed text, the login compares the text as it was typed. Of bcrypt it is assumed that the
  hash of a password without zero bytes matches no other password that bcrypt reads in full.
\<close>

theorem padded_password_locks_out:
  assumes run: "auth_step\<^sup>*\<^sup>* emptyAuthDB (stAuth st)"
    and call: "enrollAdmin cy u ent rnd now a m cross (Some input) st = (Payload c res, st')"
    and bcrypt: "\<And>p q h. CHR 0x00 \<notin> set p \<Longrightarrow> plainPassword q \<Longrightarrow> cyGenerate cy p = Inr h \<Longrightarrow> cyCompare cy h q \<Longrightarrow> q = p"
    and padded: "TrimSpace (eiPassword input) \<noteq> eiPassword input" "plainPassword (eiPassword input)"
  shows "fst (LoginWithPassword cy ent' rnd' auth' now' (eiLogin input) (eiPassword input) (stAuth st')) = refuse ErrInvalidCredentials"
proof -
  let ?db = "stAuth st'" and ?login = "TrimSpace (eiLogin input)"
  obtain invite hash displayName where h: "cyGenerate cy (TrimSpace (eiPassword input)) = Inr hash"
    and w: "enrollWrites cy ent rnd now a invite ?login displayName hash st = (Payload c res, st')"
    using enrollAdmin_Payload [OF call] by blast
  obtain e where n: "FindActiveAdminIdentityByLogin (stAuth st) ?login = Inl e" using enrollAdmin_new_login [OF call] by blast
  obtain identity credential where f: "FindActiveAdminIdentityByLogin ?db ?login = Inr identity" "credential \<in> set (adCredentials ?db)"
    "crIdentityID credential = idID identity" "crType credential = AuthCredentialTypePassword" "crSecretHash credential = hash"
    "crStatus credential = StatusActive" using enrolled_rows(1) [OF w n] by blast
  have ok: "noClash credentialClash (adCredentials ?db)"
    using enrolled_accounts [OF auth_accounts_reachable [OF run] w] by (simp add: accountsOK_def)
  have "crSecretHash x = hash" if x: "GetAuthCredential ?db (idID identity) AuthCredentialTypePassword = Inr x" for x
  proof (rule ccontr)
    assume "crSecretHash x \<noteq> hash"
    then have "x \<noteq> credential" using f(5) by auto
    then show False using noClash_D [OF ok _ f(2) _ credentialClash_sym] GetAuthCredential_Inr [OF x] f(3,4,6) by (auto simp: credentialClash_def)
  qed
  then have "\<not> cyCompare cy (crSecretHash x) (eiPassword input)"
    if "GetAuthCredential ?db (idID identity) AuthCredentialTypePassword = Inr x" for x
    using bcrypt [OF _ padded(2) h] TrimSpace_set padded that unfolding plainPassword_def by (metis subsetD)
  then show ?thesis using f(1) unfolding LoginWithPassword_def by (auto split: option.splits sum.splits)
qed

text \<open>An example: one invite, enrolled with a password that begins with a blank.\<close>

lemma TrimSpace_blank: "TrimSpace (CHR '' '' # s) = TrimSpace s"
proof -
  have "char_of (32 :: nat) = CHR '' ''" by code_simp
  then have "strip_one white_space (CHR '' '' # s) = Some s" by (simp add: strip_one_def white_space_def)
  then show ?thesis by (simp add: TrimSpace_def trim_left.simps [of white_space "CHR '' '' # s"])
qed

definition exampleApp :: AdminApp where
  "exampleApp = \<lparr>aaWebPrefix = ''/web'', aaPublicBaseURL = [], aaAudit = True, aaAuth = exampleAuthenticator\<rparr>"

definition exampleInvite :: AdminInvite where
  "exampleInvite = zeroInvite\<lparr>ivID := ''v1'', ivTokenHash := tokens_Hash exampleCrypto ''tok'', ivCodeHash := ''0'', ivRole := ''owner'', ivExpiresAt := 90000\<rparr>"

definition exampleInvited :: AdminState where
  "exampleInvited = \<lparr>stAuth = snd (CreateAdminInvite (\<lambda>_. []) 1000 exampleInvite emptyAuthDB), stAudit = []\<rparr>"

lemma exampleInvited_reachable: "auth_step\<^sup>*\<^sup>* emptyAuthDB (stAuth exampleInvited)"
  unfolding exampleInvited_def AdminState.select_convs
  by (rule r_into_rtranclp) (rule auth_step.create_invite [OF prod.collapse [symmetric]])

definition exampleEnrol :: EnrollInput where
  "exampleEnrol = \<lparr>eiInviteToken = ''tok'', eiInviteCode = ''0'', eiLogin = ''root'', eiDisplayName = ''Root'', eiPassword = '' abc1!x''\<rparr>"

definition enrolIDs :: "nat \<Rightarrow> random" where
  "enrolIDs k i = exampleIDs (10 * k + i)"

lemma example_code: "normalizeInviteCode exampleUnicode ''0'' = ''0''"
proof -
  have "TrimSpace ''0'' = ''0''" by (rule TrimSpace_ascii; simp)
  moreover have "char_of (48 :: nat) = CHR ''0''" by code_simp
  ultimately show ?thesis by (simp add: normalizeInviteCode_def ToUpper_def runes_ascii upperRune_def encodeRune_def)
qed

lemma example_enrol_text: "TrimSpace '' abc1!x'' = ''abc1!x''" "TrimSpace ''Root'' = ''Root''" "ValidateAdminPassword exampleUnicode ''root'' '' abc1!x'' = None"
proof -
  show t: "TrimSpace '' abc1!x'' = ''abc1!x''" unfolding TrimSpace_blank by (rule TrimSpace_ascii; simp)
  show "TrimSpace ''Root'' = ''Root''" by (rule TrimSpace_ascii; simp)
  have "TrimSpace ''abc1!x'' = ''abc1!x''" by (rule TrimSpace_ascii; simp)
  then show "ValidateAdminPassword exampleUnicode ''root'' '' abc1!x'' = None"
    using example_password unfolding ValidateAdminPassword_def t by simp
qed

lemma example_enrol_ok:
  "\<exists>c res st'. enrollAdmin exampleCrypto exampleUnicode exampleEntropy enrolIDs 5000 exampleApp ''POST'' False (Some exampleEnrol) exampleInvited =
     (Payload c res, st')"
  unfolding enrollAdmin_def enrollWrites_def
  by (simp add: exampleEnrol_def exampleInvited_def exampleInvite_def zeroInvite_def CreateAdminInvite_def emptyAuthDB_def insert_row_def commit_def
      orNew_def orElse_def example_login example_code example_enrol_text GetAdminInviteByTokenHash_def firstRow_def exampleCrypto_def
      FindActiveAdminIdentityByLogin_def CreateAuthIdentity_def zeroIdentity_def CreateAuthCredential_def zeroCredential_def CreateAdminProfile_def
      zeroProfile_def MarkAdminInviteUsed_def GetAdminInvite_def update_rows_def issueNormalSession_def GetAdminProfile_def getRow_def lookup_row_Cons
      tokens_New_def exampleEntropy_def CreateAuthSession_def zeroSession_def exampleApp_def Let_def)

theorem invite_used_once_witness:
  "\<exists>c res st'. enrollAdmin exampleCrypto exampleUnicode exampleEntropy enrolIDs 5000 exampleApp ''POST'' False (Some exampleEnrol) exampleInvited =
      (Payload c res, st') \<and>
    fst (enrollAdmin exampleCrypto exampleUnicode exampleEntropy enrolIDs 6000 exampleApp ''POST'' False (Some exampleEnrol) st') =
      Failure StatusUnauthorized ''invite is invalid or expired''"
proof -
  obtain c res st' where e: "enrollAdmin exampleCrypto exampleUnicode exampleEntropy enrolIDs 5000 exampleApp ''POST'' False (Some exampleEnrol) exampleInvited =
      (Payload c res, st')" using example_enrol_ok by blast
  note again = invite_used_once [OF exampleInvited_reachable e refl, THEN conjunct2]
  have "fst (enrollAdmin exampleCrypto exampleUnicode exampleEntropy enrolIDs 6000 exampleApp ''POST'' False (Some exampleEnrol) st') =
      Failure StatusUnauthorized ''invite is invalid or expired''" by (simp only: again fst_conv)
  then show ?thesis using e by blast
qed

theorem padded_password_locks_out_witness:
  "\<exists>c res st'. enrollAdmin exampleCrypto exampleUnicode exampleEntropy enrolIDs 5000 exampleApp ''POST'' False (Some exampleEnrol) exampleInvited =
      (Payload c res, st') \<and>
    fst (LoginWithPassword exampleCrypto exampleEntropy exampleIDs (Some exampleAuthenticator) 6000 ''root'' '' abc1!x'' (stAuth st')) =
      refuse ErrInvalidCredentials"
proof -
  obtain c res st' where e: "enrollAdmin exampleCrypto exampleUnicode exampleEntropy enrolIDs 5000 exampleApp ''POST'' False (Some exampleEnrol) exampleInvited =
      (Payload c res, st')" using example_enrol_ok by blast
  have b: "\<And>p q h. CHR 0x00 \<notin> set p \<Longrightarrow> plainPassword q \<Longrightarrow> cyGenerate exampleCrypto p = Inr h \<Longrightarrow> cyCompare exampleCrypto h q \<Longrightarrow> q = p"
    by (simp add: exampleCrypto_def)
  have i: "TrimSpace (eiPassword exampleEnrol) \<noteq> eiPassword exampleEnrol" "plainPassword (eiPassword exampleEnrol)"
    and l: "eiLogin exampleEnrol = ''root''" "eiPassword exampleEnrol = '' abc1!x''"
    by (simp_all add: exampleEnrol_def example_enrol_text plainPassword_def)
  have locked: "fst (LoginWithPassword exampleCrypto exampleEntropy exampleIDs (Some exampleAuthenticator) 6000 ''root'' '' abc1!x'' (stAuth st')) =
      refuse ErrInvalidCredentials"
    by (rule padded_password_locks_out [OF exampleInvited_reachable e _ i, unfolded l]) (rule b)
  show ?thesis using e locked by blast
qed

section \<open>Viewers\<close>

text \<open>
  C24. What the permission guard lets a viewer do: a request other than GET to accounts, enrolments, nodes, connections,
  configurations, configuration profiles, policy tags or tokens is answered with 403 and the handler is not run, whatever
  it would do; every other request reaches its handler. (The handlers of administrators and invites check for an owner
  themselves, those of the own session and password are meant for every role.)
\<close>

theorem viewer_cannot_write:
  assumes "pcPermissions p = PermissionsForRole ''viewer''"
  shows "permissionGuard webPrefix httpMethod (webPrefix @ path) (Some p) handler st =
    (if httpMethod \<noteq> ''GET'' \<and>
        (path \<in> {''/api/v1/accounts'', ''/api/v1/enrollments'', ''/api/v1/configs'', ''/api/v1/config-profiles'', ''/api/v1/policy-tags'',
           ''/api/v1/tokens''} \<or>
         prefix ''/api/v1/accounts/'' path \<or> prefix ''/api/v1/nodes'' path \<or> prefix ''/api/v1/connections'' path)
     then (Failure StatusForbidden ''permission denied'', st) else handler st)" (is "_ = (if ?w then _ else _)")
proof -
  have t: "TrimPrefix webPrefix (webPrefix @ path) = path" by (simp add: TrimPrefix_def)
  let ?p = "permissionForRequest webPrefix httpMethod (webPrefix @ path)"
  have "?w \<Longrightarrow> ?p \<in> {''accounts:write'', ''nodes:write'', ''connection:write'', ''configs:write'', ''tokens:write''}"
    unfolding permissionForRequest_def t Let_def by (elim conjE disjE insertE) (simp_all split: if_split)
  moreover have "\<not> ?w \<Longrightarrow> ?p \<in> {''admin:read'', ''audit:read''}" unfolding permissionForRequest_def t Let_def by auto
  ultimately show ?thesis using assms
    by (cases ?w) (auto simp: permissionGuard_def Let_def Authorize_def HasPermission_def PermissionsForRole_def)
qed

theorem viewer_cannot_write_witness:
  "permissionGuard ''/web'' ''DELETE'' ''/web/api/v1/nodes/n1'' (Some (principalOf (exampleIdentity False) exampleProfile ''s1''))
     (\<lambda>st. (NoBody 204, st)) () = (Failure StatusForbidden ''permission denied'', ())"
  using viewer_cannot_write [of "principalOf (exampleIdentity False) exampleProfile ''s1''" "''/web''" "''DELETE''" "''/api/v1/nodes/n1''"
      "\<lambda>st. (NoBody 204, st)" "()"]
  by (simp add: principalOf_def exampleProfile_def)

end
