(* ===== verification/Admin_Runs.thy ===== *)
theory Admin_Runs
  imports Admin_Owners
begin

text \<open>
  The administration of the server over time: every handler and every call of the authenticator that writes the
  authentication tables, in any order. Once an installation has an active owner it keeps one.
\<close>

section \<open>What the calls do to the administrators\<close>

text \<open>Most calls leave the identities and the profiles alone.\<close>

definition sameAdmins :: "AuthDB \<Rightarrow> AuthDB \<Rightarrow> bool" where
  "sameAdmins db db' \<longleftrightarrow> adIdentities db' = adIdentities db \<and> adProfiles db' = adProfiles db"

lemma sameAdmins_refl [simp]: "sameAdmins db db"
  by (simp add: sameAdmins_def)

lemma sameAdmins_trans: "sameAdmins a b \<Longrightarrow> sameAdmins b c \<Longrightarrow> sameAdmins a c"
  by (simp add: sameAdmins_def)

lemma sameAdmins_ops:
  "UpdateAuthCredential now c db = (r1, db') \<Longrightarrow> sameAdmins db db'"
  "CreateAuthCredential rnd now c db = (r1, db') \<Longrightarrow> sameAdmins db db'"
  "CreateAuthSession rnd now s db = (r2, db') \<Longrightarrow> sameAdmins db db'"
  "RotateAuthRefreshToken rnd8 now old th e rh re g db = (r3, db') \<Longrightarrow> sameAdmins db db'"
  "RevokeAuthSessionsByIdentityID now i db = (r4, db') \<Longrightarrow> sameAdmins db db'"
  "RevokeOtherAuthSessionsByIdentityID now i keep db = (r4, db') \<Longrightarrow> sameAdmins db db'"
  "CreateAdminInvite rnd now v db = (r5, db') \<Longrightarrow> sameAdmins db db'"
  "MarkAdminInviteUsed now i j db = (r5, db') \<Longrightarrow> sameAdmins db db'"
  "RevokeAdminInvite now i db = (r5, db') \<Longrightarrow> sameAdmins db db'"
  using CreateAuthSession_accounts RotateAuthRefreshToken_accounts
  by (auto simp: sameAdmins_def UpdateAuthCredential_def CreateAuthCredential_def RevokeAuthSessionsByIdentityID_def
      RevokeOtherAuthSessionsByIdentityID_def CreateAdminInvite_def MarkAdminInviteUsed_def RevokeAdminInvite_def Let_def
      split: sum.splits if_split_asm dest!: commit_state)

lemmas sameAdmins_snd = sameAdmins_ops [OF prod.collapse [symmetric]]

lemma sameAdmins_issue: "issueNormalSession cy ent rnd x now identity db = (r, db') \<Longrightarrow> sameAdmins db db'"
  unfolding issueNormalSession_def
  by (auto split: sum.splits if_split_asm prod.splits dest: sameAdmins_ops)

lemma sameAdmins_request: "sameAdmins db (snd (AuthenticateSessionRequest cy a now cookies db))"
  unfolding AuthenticateSessionRequest_def by (simp add: sameAdmins_snd split: option.split sum.split)

lemma sameAdmins_login:
  assumes "LoginWithPassword cy ent rnd a now login password db = (r, db')"
  shows "sameAdmins db db'"
proof -
  have c: "sameAdmins db (recordFailedLogin now credential db)" for credential by (simp add: recordFailedLogin_def Let_def sameAdmins_snd)
  note d = sameAdmins_trans [OF sameAdmins_snd(1)]
  show ?thesis using assms c unfolding LoginWithPassword_def Let_def
    by (simp split: option.split_asm sum.split_asm if_split_asm prod.split_asm)
      (auto intro: d sameAdmins_snd dest: sameAdmins_ops(3) sameAdmins_issue)
qed

lemma sameAdmins_refresh:
  assumes "Refresh cy ent rnd a now raw csrf db = (r, db')"
  shows "sameAdmins db db'"
  using assms unfolding Refresh_def Let_def
  by (simp split: option.split_asm sum.split_asm if_split_asm prod.split_asm) (auto dest: sameAdmins_ops(4))

lemma sameAdmins_logout: "Logout cy a now cookies db = (r, db') \<Longrightarrow> sameAdmins db db'"
  using sameAdmins_request [of db cy a now cookies] unfolding Logout_def
  by (auto split: prod.splits option.splits dest: sameAdmins_ops intro: sameAdmins_trans)

lemma sameAdmins_invite:
  "createAdminInviteRecord cy ent rnd now a role ttl note byID byLogin db = (r, db') \<Longrightarrow> sameAdmins db db'"
  unfolding createAdminInviteRecord_def by (auto split: sum.splits prod.splits dest: sameAdmins_ops)

section \<open>Keeping an owner\<close>

definition adminsOK :: "AuthDB \<Rightarrow> bool" where
  "adminsOK db \<longleftrightarrow> noClash identityClash (adIdentities db) \<and> noClash profileClash (adProfiles db)"

definition keepsOwner :: "AuthDB \<Rightarrow> AuthDB \<Rightarrow> bool" where
  "keepsOwner db db' \<longleftrightarrow> (adminsOK db \<longrightarrow> adminsOK db' \<and> (activeOwner db \<longrightarrow> activeOwner db'))"

lemma keepsOwner_trans: "keepsOwner a b \<Longrightarrow> keepsOwner b c \<Longrightarrow> keepsOwner a c"
  by (simp add: keepsOwner_def)

lemma keepsOwner_same: "sameAdmins db db' \<Longrightarrow> keepsOwner db db'"
  by (simp add: keepsOwner_def adminsOK_def activeOwner_def sameAdmins_def)

lemma keepsOwner_create:
  "CreateAuthIdentity rnd now v db = (r, db') \<Longrightarrow> keepsOwner db db'"
  "CreateAdminProfile rnd now p db = (q, db') \<Longrightarrow> keepsOwner db db'"
  unfolding CreateAuthIdentity_def CreateAdminProfile_def Let_def
  by (auto simp: keepsOwner_def adminsOK_def activeOwner_def insert_row_eq noClash_append dest!: commit_state) blast+

text \<open>Writing an identity back with the status it has in the table.\<close>

lemma keepsOwner_update:
  assumes i: "identity \<in> set (adIdentities db)" "idID v = idID identity" "idStatus v = idStatus identity"
    and c: "UpdateAuthIdentity now v db = (r, db')"
  shows "keepsOwner db db'"
  unfolding keepsOwner_def
proof (intro impI conjI)
  assume ok: "adminsOK db"
  show "adminsOK db'" using ok c conjunct1 [OF noClash_checked_update] unfolding UpdateAuthIdentity_def Let_def
    by (auto simp: adminsOK_def split: sum.splits)
  assume "activeOwner db"
  then obtain j p where j: "j \<in> set (adIdentities db)" "p \<in> set (adProfiles db)" "idKind j = AuthIdentityKindAdmin" "apIdentityID p = idID j"
    "idStatus j = StatusActive" "apStatus p = StatusActive" "apRole p = ''owner''" unfolding activeOwner_def by blast
  have "keyed idID (adIdentities db)"
    using ok unfolding adminsOK_def by (auto intro!: noClash_keyed [of identityClash] simp: identityClash_def)
  then have same: "idStatus (changedIdentity now v j) = StatusActive" using i j(1,5)
    by (auto simp: changedIdentity_def) (metis distinct_map inj_onD)
  from UpdateAuthIdentity_cases [OF c] show "activeOwner db'"
  proof
    assume t: "adIdentities db' = map (changedIdentity now v) (adIdentities db) \<and> adProfiles db' = adProfiles db \<and> r = GetAuthIdentity db' (idID v)"
    then have "changedIdentity now v j \<in> set (adIdentities db')" "p \<in> set (adProfiles db')" using j(1,2) by auto
    then show ?thesis unfolding activeOwner_def using same j(3-7)
      by (intro bexI [of _ "changedIdentity now v j"] bexI [of _ p]) (auto simp: changedIdentity_def)
  qed (use \<open>activeOwner db\<close> in simp)
qed

lemma keepsOwner_password:
  assumes i: "identity \<in> set (adIdentities db)" and c: "UpdateAuthCredential now c db = (r1, db1)"
  shows "keepsOwner db db1"
    "UpdateAuthIdentity now (identity\<lparr>idMustChangePassword := b\<rparr>) db1 = (r2, db2) \<Longrightarrow> keepsOwner db db2"
    "UpdateAuthIdentity now (identity\<lparr>idMustChangePassword := b\<rparr>) db1 = (r2, db2) \<Longrightarrow> sameAdmins db2 db' \<Longrightarrow> keepsOwner db db'"
proof -
  have s: "sameAdmins db db1" by (rule sameAdmins_ops(1) [OF c])
  show k: "keepsOwner db db1" by (rule keepsOwner_same [OF s])
  have "identity \<in> set (adIdentities db1)" using i s by (simp add: sameAdmins_def)
  then show u: "keepsOwner db db2" if "UpdateAuthIdentity now (identity\<lparr>idMustChangePassword := b\<rparr>) db1 = (r2, db2)"
    using keepsOwner_trans [OF k keepsOwner_update [OF _ _ _ that]] by simp
  show "keepsOwner db db'" if "UpdateAuthIdentity now (identity\<lparr>idMustChangePassword := b\<rparr>) db1 = (r2, db2)" "sameAdmins db2 db'"
    by (rule keepsOwner_trans [OF u [OF that(1)] keepsOwner_same [OF that(2)]])
qed

lemma GetAuthIdentity_in: "GetAuthIdentity db i = Inr identity \<Longrightarrow> identity \<in> set (adIdentities db)"
  unfolding GetAuthIdentity_def getRow_def by (auto split: option.splits dest: lookup_row_SomeD)

lemma sameAdmins_reissue:
  "issueNormalSession cy ent rnd x now identity (snd (RevokeAuthSessionsByIdentityID now i db)) = (r, db') \<Longrightarrow> sameAdmins db db'"
  by (rule sameAdmins_trans [OF sameAdmins_snd(5) sameAdmins_issue])

lemma keepsOwner_change:
  assumes "ChangePassword cy u ent rnd a now changeToken newPassword db = (r, db')"
  shows "keepsOwner db db'"
  using assms keepsOwner_same [OF sameAdmins_refl] unfolding ChangePassword_def Let_def
  by (simp only: prod.inject split: option.split_asm sum.split_asm if_split_asm prod.split_asm)
    (metis GetAuthIdentity_in keepsOwner_password sameAdmins_reissue)+

text \<open>The handlers, on the authentication tables of the state.\<close>

lemma keepsOwner_credential:
  assumes "updateAdminPasswordCredential cy now c password db = (r, db1)"
  shows "sameAdmins db db1"
  using assms unfolding updateAdminPasswordCredential_def by (auto split: sum.splits prod.splits dest: sameAdmins_ops)

lemma keepsOwner_rewrite:
  assumes i: "identity \<in> set (adIdentities db)" and c: "updateAdminPasswordCredential cy now c password db = (r, db1)"
  shows "keepsOwner db db1"
    "UpdateAuthIdentity now (identity\<lparr>idMustChangePassword := b\<rparr>) db1 = (r2, db2) \<Longrightarrow> sameAdmins db2 db' \<Longrightarrow> keepsOwner db db'"
proof -
  note s = keepsOwner_credential [OF c]
  show k: "keepsOwner db db1" by (rule keepsOwner_same [OF s])
  have "identity \<in> set (adIdentities db1)" using i s by (simp add: sameAdmins_def)
  then show "keepsOwner db db'" if "UpdateAuthIdentity now (identity\<lparr>idMustChangePassword := b\<rparr>) db1 = (r2, db2)" "sameAdmins db2 db'"
    using keepsOwner_trans [OF k keepsOwner_trans [OF keepsOwner_update [OF _ _ _ that(1)] keepsOwner_same [OF that(2)]]] by simp
qed

lemma keepsOwner_reset:
  assumes "resetAdminPassword cy u audit rnd now ctx i body st = (r, st')"
  shows "keepsOwner (stAuth st) (stAuth st')"
proof -
  have own: "keepsOwner (stAuth st) (stAuth st')" if "identity \<in> set (adIdentities (stAuth st))"
      "changeOwnAdminPassword cy u audit rnd now ctx identity p q st = (r, st')" for identity p q
    using that keepsOwner_same [OF sameAdmins_refl] sameAdmins_snd(5,6) sameAdmins_refl unfolding changeOwnAdminPassword_def Let_def
    by (simp only: prod.inject split: option.split_asm sum.split_asm if_split_asm prod.split_asm)
      (auto intro: keepsOwner_rewrite)
  have other: "keepsOwner (stAuth st) (stAuth st')" if "identity \<in> set (adIdentities (stAuth st))"
      "ownerResetAdminPassword cy u audit rnd now ctx identity p st = (r, st')" for identity p
    using that keepsOwner_same [OF sameAdmins_refl] sameAdmins_snd(5,6) sameAdmins_refl unfolding ownerResetAdminPassword_def Let_def
    by (simp only: prod.inject split: option.split_asm sum.split_asm if_split_asm prod.split_asm)
      (auto intro: keepsOwner_rewrite)
  show ?thesis using assms own other keepsOwner_same [OF sameAdmins_refl] unfolding resetAdminPassword_def Let_def
    by (auto split: sum.splits prod.splits option.splits if_split_asm dest: adminIdentityProfile_Inr(1))
qed

lemma keepsOwner_revoke_sessions:
  "revokeAdminSessions audit rnd now ctx i st = (r, st') \<Longrightarrow> keepsOwner (stAuth st) (stAuth st')"
  unfolding revokeAdminSessions_def
  by (auto intro!: keepsOwner_same split: sum.splits prod.splits dest: sameAdmins_ops)

lemma keepsOwner_revoke_invite:
  "revokeInvite a rnd now ctx m path st = (r, st') \<Longrightarrow> keepsOwner (stAuth st) (stAuth st')"
  unfolding revokeInvite_def Let_def
  by (auto intro!: keepsOwner_same split: option.splits sum.splits prod.splits if_split_asm dest: sameAdmins_ops)

lemma keepsOwner_enrol_writes:
  assumes "enrollWrites cy ent rnd now a invite login displayName hash st = (r, st')"
  shows "keepsOwner (stAuth st) (stAuth st')"
  using assms unfolding enrollWrites_def
  by (simp only: prod.inject split: option.split_asm sum.split_asm prod.split_asm)
    (auto dest!: keepsOwner_create keepsOwner_same [OF sameAdmins_ops(2)] keepsOwner_same [OF sameAdmins_ops(8)]
      keepsOwner_same [OF sameAdmins_issue] intro: keepsOwner_trans simp: keepsOwner_def)

lemma keepsOwner_enrol:
  assumes "enrollAdmin cy u ent rnd now a m cross body st = (r, st')"
  shows "keepsOwner (stAuth st) (stAuth st')"
  using assms keepsOwner_same [OF sameAdmins_refl] keepsOwner_enrol_writes unfolding enrollAdmin_def Let_def
  by (auto split: if_split_asm option.splits sum.splits)

lemma keepsOwner_updateAdmin:
  assumes call: "updateAdmin audit rnd now ctx i body st = (r, st')"
  shows "keepsOwner (stAuth st) (stAuth st')"
  unfolding keepsOwner_def
proof (intro impI)
  assume ok: "adminsOK (stAuth st)"
  show "adminsOK (stAuth st') \<and> (activeOwner (stAuth st) \<longrightarrow> activeOwner (stAuth st'))"
  proof (cases "stAuth st' = stAuth st")
    case False
    obtain identity profile v w x db1 where p: "adminIdentityProfile (stAuth st) i = Inr (identity, profile)"
      and v: "idID v = idID identity" "apID w = apID profile"
      and guard: "preventLastActiveOwner now (stAuth st) (idID v) (apRole w) (idStatus v) (apStatus w) = None"
      and u: "UpdateAuthIdentity now v (stAuth st) = (x, db1)"
      and c: "(\<exists>e. x = Inl e) \<and> stAuth st' = db1 \<or> (\<exists>a. x = Inr a) \<and> adIdentities (stAuth st') = adIdentities (snd (UpdateAdminProfile now w db1)) \<and>
        adProfiles (stAuth st') = adProfiles (snd (UpdateAdminProfile now w db1))"
      using updateAdmin_cases [OF call False] by blast
    note m = adminIdentityProfile_Inr [OF p]
    have "\<not> ((\<exists>e. x = Inl e) \<and> stAuth st' = db1)" using UpdateAuthIdentity_Inl [OF _ m(1)] u v(1) False by metis
    with c obtain a where x: "x = Inr a" and t: "adIdentities (stAuth st') = adIdentities (snd (UpdateAdminProfile now w db1))"
      "adProfiles (stAuth st') = adProfiles (snd (UpdateAdminProfile now w db1))" by blast
    have rows: "adIdentities db1 = map (changedIdentity now v) (adIdentities (stAuth st))" "adProfiles db1 = adProfiles (stAuth st)"
      using UpdateAuthIdentity_cases [OF u] x by auto
    note w = UpdateAdminProfile_rows [OF prod.collapse [symmetric], of now w db1]
    have "activeOwner (stAuth st')" using owner_kept [OF _ m v guard] ok rows t w unfolding adminsOK_def by metis
    moreover have "noClash identityClash (adIdentities db1)"
      using ok u conjunct1 [OF noClash_checked_update] unfolding UpdateAuthIdentity_def Let_def by (auto simp: adminsOK_def split: sum.splits)
    moreover have "noClash profileClash (adProfiles (snd (UpdateAdminProfile now w db1)))"
      using ok rows(2) by (auto simp: adminsOK_def UpdateAdminProfile_def Let_def profileClash_def intro!: noClash_update_rows split: if_split_asm)
    ultimately show ?thesis using t w by (simp add: adminsOK_def)
  qed (use ok in simp)
qed

lemma keepsOwner_admins:
  assumes "adminSubroutes cy u audit rnd now webPrefix ctx m path updateBody resetBody st = (r, st')"
  shows "keepsOwner (stAuth st) (stAuth st')"
  using assms keepsOwner_same [OF sameAdmins_refl] unfolding adminSubroutes_def Let_def
  by (simp only: prod.inject split: option.split_asm prod.split_asm if_split_asm)
    (auto simp: apfst_def map_prod_def split: prod.split_asm intro: keepsOwner_updateAdmin keepsOwner_reset keepsOwner_revoke_sessions)

section \<open>The administration as a transition system\<close>

text \<open>
  The routes below \<open>/api/v1/admins/\<close>, the invites, enrolment, and the calls of the authenticator, in any order and with any
  arguments.
\<close>

inductive admin_step :: "AdminState \<Rightarrow> AdminState \<Rightarrow> bool" where
  admins: "adminSubroutes cy u audit rnd now webPrefix ctx m path updateBody resetBody st = (r, st') \<Longrightarrow> admin_step st st'"
| create_invite: "createAdminInviteRecord cy ent rnd now a role ttl note byID byLogin (stAuth st) = (r, db) \<Longrightarrow> admin_step st (st\<lparr>stAuth := db\<rparr>)"
| revoke_invite: "revokeInvite a rnd now ctx m path st = (r, st') \<Longrightarrow> admin_step st st'"
| enrol: "enrollAdmin cy u ent rnd now a m cross body st = (r, st') \<Longrightarrow> admin_step st st'"
| login: "LoginWithPassword cy ent rnd x now name password (stAuth st) = (r, db) \<Longrightarrow> admin_step st (st\<lparr>stAuth := db\<rparr>)"
| change_password: "ChangePassword cy u ent rnd x now token password (stAuth st) = (r, db) \<Longrightarrow> admin_step st (st\<lparr>stAuth := db\<rparr>)"
| refresh: "Refresh cy ent rnd x now raw csrf (stAuth st) = (r, db) \<Longrightarrow> admin_step st (st\<lparr>stAuth := db\<rparr>)"
| request: "AuthenticateSessionRequest cy x now cookies (stAuth st) = (r, db) \<Longrightarrow> admin_step st (st\<lparr>stAuth := db\<rparr>)"
| logout: "Logout cy x now cookies (stAuth st) = (r, db) \<Longrightarrow> admin_step st (st\<lparr>stAuth := db\<rparr>)"

lemma admin_step_keeps: "admin_step st st' \<Longrightarrow> keepsOwner (stAuth st) (stAuth st')"
proof (induction rule: admin_step.induct)
  case (request cy x now cookies st r db)
  then show ?case using sameAdmins_request [of "stAuth st" cy x now cookies] keepsOwner_same by simp
qed (auto intro: keepsOwner_admins keepsOwner_revoke_invite keepsOwner_enrol keepsOwner_change keepsOwner_same sameAdmins_invite
    sameAdmins_login sameAdmins_refresh sameAdmins_logout)

lemma admin_run_keeps: "admin_step\<^sup>*\<^sup>* st st' \<Longrightarrow> keepsOwner (stAuth st) (stAuth st')"
proof (induction rule: rtranclp_induct)
  case (step y z)
  then show ?case using admin_step_keeps keepsOwner_trans by blast
qed (simp add: keepsOwner_same)

text \<open>
  C22. Once an installation has an active owner it always has one: whatever handlers and calls run afterwards, in any
  order and with any requests (changes of role and status, password changes and resets, enrolments, logins, refreshes,
  revocations), the list of administrators still contains an active owner.
\<close>

theorem owner_never_lost:
  assumes "auth_step\<^sup>*\<^sup>* emptyAuthDB (stAuth st)" "activeOwnerExists (ListAdminIdentityProfiles now (stAuth st))" "admin_step\<^sup>*\<^sup>* st st'"
  shows "activeOwnerExists (ListAdminIdentityProfiles now' (stAuth st'))"
proof -
  have "adminsOK (stAuth st)" using auth_accounts_reachable [OF assms(1)] by (simp add: adminsOK_def accountsOK_def)
  then show ?thesis using admin_run_keeps [OF assms(3)] assms(2) by (simp add: keepsOwner_def activeOwnerExists_iff)
qed

text \<open>An example: an owner demotes itself while it is the only one.\<close>

definition exampleOwner :: AdminState where
  "exampleOwner = \<lparr>stAuth = snd (CreateAdminProfile (\<lambda>_. []) 1000 (exampleProfile\<lparr>apRole := ''owner''\<rparr>)
      (snd (CreateAuthIdentity (\<lambda>_. []) 1000 (exampleIdentity False) emptyAuthDB))), stAudit = []\<rparr>"

lemma exampleOwner_reachable: "auth_step\<^sup>*\<^sup>* emptyAuthDB (stAuth exampleOwner)"
  unfolding exampleOwner_def AdminState.select_convs
  by (rule rtranclp.rtrancl_into_rtrancl, rule r_into_rtranclp)
    (rule auth_step.create_identity auth_step.create_profile, rule prod.collapse [symmetric])+

lemma exampleOwner_owner: "activeOwnerExists (ListAdminIdentityProfiles 2000 (stAuth exampleOwner))"
  unfolding activeOwnerExists_iff activeOwner_def
  by (simp add: exampleOwner_def CreateAdminProfile_def CreateAuthIdentity_def emptyAuthDB_def insert_row_def commit_def orNew_def orElse_def
      exampleIdentity_def exampleProfile_def Let_def)

theorem owner_never_lost_witness:
  "activeOwnerExists (ListAdminIdentityProfiles 3000 (stAuth (snd (adminSubroutes exampleCrypto exampleUnicode True [] 2000 ''/web''
     (Some (principalOf (exampleIdentity False) (exampleProfile\<lparr>apRole := ''owner''\<rparr>) ''s1'')) ''PATCH'' ''/web/api/v1/admins/i1''
     (Some \<lparr>uaRole = Some ''viewer'', uaStatus = None, uaDisplayName = None\<rparr>) None exampleOwner))))"
  by (rule owner_never_lost [OF exampleOwner_reachable exampleOwner_owner]) (rule r_into_rtranclp, rule admin_step.admins, rule prod.collapse [symmetric])

end
