(* ===== verification/Net_Address.thy ===== *)
theory Net_Address
  imports Model Go_Text
begin

text \<open>
  IP addresses as Go's library reads and writes them (\<open>net.ParseIP\<close>, \<open>net.IP.To4\<close>, \<open>net.IP.String\<close>, \<open>netip.ParsePrefix\<close>),
  the pool of client addresses of \<open>server/connections/service.go\<close> (\<open>compareIP\<close>, \<open>nextIP\<close>, \<open>nextAvailableIPv4\<close>) and the
  subnets of \<open>server/provisioning/awg_subnet.go\<close>.

  The search of the pool is a loop that is left when an address is free or the end of the pool is passed; it is a
  \<open>partial_function\<close> whose value \<open>None\<close> means that it does not end, and that it ends is proved.
\<close>

section \<open>Reading addresses\<close>

text \<open>
  \<open>parseIPv4Fields\<close>: \<open>octs\<close> are the octets stored so far, \<open>v\<close> and \<open>n\<close> the value and the number of digits of the current
  one. A dot at the start or after another dot is one with no digit before it.
\<close>

fun parseIPv4Fields :: "nat list \<Rightarrow> nat \<Rightarrow> nat \<Rightarrow> string \<Rightarrow> nat list option" where
  "parseIPv4Fields octs v n [] = (if length octs < 3 then None else Some (octs @ [v]))"
| "parseIPv4Fields octs v n (c # cs) =
     (if is_digit c
      then if n = 1 \<and> v = 0 then None
           else let v' = v * 10 + digit_val c in if v' > 255 then None else parseIPv4Fields octs v' (n + 1) cs
      else if c = CHR ''.''
      then if n = 0 \<or> cs = [] \<or> length octs = 3 then None else parseIPv4Fields (octs @ [v]) 0 0 cs
      else None)"

abbreviation parseIPv4 :: "string \<Rightarrow> nat list option" where
  "parseIPv4 \<equiv> parseIPv4Fields [] 0 0"

definition hexNumber :: "string \<Rightarrow> nat" where
  "hexNumber ds = foldl (\<lambda>v c. v * 16 + the (hexValue c)) 0 ds"

text \<open>The groups of an IPv6 address: the bytes so far, the position of the ellipsis, and the text that is left.\<close>

function ipv6Groups :: "nat list \<Rightarrow> nat option \<Rightarrow> string \<Rightarrow> (nat list \<times> nat option \<times> string) option" where
  "ipv6Groups ip e s =
     (if length ip \<ge> 16 then Some (ip, e, s)
      else let ds = takeWhile (\<lambda>c. hexValue c \<noteq> None) s; rest = drop (length ds) s
           in if ds = [] \<or> length ds > 4 then None
              else if rest \<noteq> [] \<and> hd rest = CHR ''.''
              then if e = None \<and> length ip \<noteq> 12 \<or> length ip + 4 > 16 then None
                   else map_option (\<lambda>q. (ip @ q, e, [])) (parseIPv4 s)
              else let v = hexNumber ds; ip' = ip @ [v div 256, v mod 256]
                   in case rest of
                        [] \<Rightarrow> Some (ip', e, [])
                      | c # t \<Rightarrow>
                          if c \<noteq> CHR '':'' \<or> t = [] then None
                          else if hd t \<noteq> CHR '':'' then ipv6Groups ip' e t
                          else if e \<noteq> None then None
                          else if tl t = [] then Some (ip', Some (length ip'), [])
                          else ipv6Groups ip' (Some (length ip')) (tl t))"
  by pat_completeness auto
termination
  by (relation "measure (\<lambda>(ip, _). 16 - length ip)") (auto simp: Let_def)

declare ipv6Groups.simps [simp del]

definition parseIPv6 :: "string \<Rightarrow> nat list option" where
  "parseIPv6 s =
     (let (e, s1) = (if prefix ''::'' s then (Some 0, drop 2 s) else (None, s))
      in if e = Some 0 \<and> s1 = [] then Some (replicate 16 0)
         else case ipv6Groups [] e s1 of
           None \<Rightarrow> None
         | Some (ip, e', rest) \<Rightarrow>
             if rest \<noteq> [] then None
             else if length ip < 16
             then map_option (\<lambda>k. take k ip @ replicate (16 - length ip) 0 @ drop k ip) e'
             else if e' \<noteq> None then None else Some ip)"

text \<open>The sixteen bytes of an address; a zone makes \<open>net.ParseIP\<close> refuse the text.\<close>

definition ParseIP :: "string \<Rightarrow> nat list option" where
  "ParseIP s =
     (case filter (\<lambda>c. c = CHR ''.'' \<or> c = CHR '':'' \<or> c = CHR ''%'') s of
        [] \<Rightarrow> None
      | c # _ \<Rightarrow>
          if c = CHR ''.'' then map_option (\<lambda>q. replicate 10 0 @ [255, 255] @ q) (parseIPv4 s)
          else if c = CHR ''%'' \<or> CHR ''%'' \<in> set s then None
          else parseIPv6 s)"

definition To4 :: "nat list option \<Rightarrow> 8 word list option" where
  "To4 ip =
     (case ip of
        None \<Rightarrow> None
      | Some bs \<Rightarrow> if take 12 bs = replicate 10 0 @ [255, 255] then Some (map of_nat (drop 12 bs)) else None)"

definition IP_String :: "8 word list \<Rightarrow> string" where
  "IP_String ip = joinWith ''.'' (map (show_nat \<circ> unat) ip)"

section \<open>The pool of client addresses\<close>

fun compareIP :: "8 word list \<Rightarrow> 8 word list \<Rightarrow> int" where
  "compareIP (a # as) (b # bs) = (if a < b then - 1 else if a > b then 1 else compareIP as bs)"
| "compareIP _ _ = 0"

text \<open>The loop of \<open>nextIP\<close> runs from the last byte; \<open>carry\<close> sees the bytes in that order.\<close>

fun carry :: "8 word list \<Rightarrow> 8 word list" where
  "carry [] = []"
| "carry (b # bs) = (if b + 1 \<noteq> 0 then (b + 1) # bs else (b + 1) # carry bs)"

definition nextIP :: "8 word list \<Rightarrow> 8 word list" where
  "nextIP ip = rev (carry (rev ip))"

partial_function (option) searchPool :: "string list \<Rightarrow> 8 word list \<Rightarrow> 8 word list \<Rightarrow> string result option" where
  "searchPool used final current =
     (if compareIP current final \<le> 0
      then if \<not> List.member used (IP_String current) then Some (Inr (IP_String current))
           else searchPool used final (nextIP current)
      else Some (Inl (Err ''amneziawg IPv4 pool exhausted'')))"

definition nextAvailableIPv4 :: "AmneziaWGNodeConfig \<Rightarrow> AmneziaWGConnectionMaterial list \<Rightarrow> string result option" where
  "nextAvailableIPv4 config materials =
     (case (To4 (ParseIP (awFirstClientIPv4 config)), To4 (ParseIP (awLastClientIPv4 config))) of
        (Some first, Some final) \<Rightarrow>
          if compareIP first final > 0 then Some (Inl (Err ''invalid amneziawg IPv4 pool''))
          else searchPool (awServerIPv4 config # map amAssignedIPv4 materials) final first
      | _ \<Rightarrow> Some (Inl (Err ''invalid amneziawg IPv4 pool'')))"

section \<open>Subnets\<close>

text \<open>An IPv4 address of \<open>net/netip\<close> is its 32-bit value; its bytes are big endian.\<close>

definition ipBytes :: "nat \<Rightarrow> 8 word list" where
  "ipBytes v = map of_nat [v div 2 ^ 24, v div 2 ^ 16, v div 2 ^ 8, v]"

definition addrText :: "32 word \<Rightarrow> string" where
  "addrText a = IP_String (ipBytes (unat a))"

definition splitLast :: "char \<Rightarrow> string \<Rightarrow> (string \<times> string) option" where
  "splitLast c s =
     (case dropWhile (\<lambda>x. x \<noteq> c) (rev s) of [] \<Rightarrow> None | _ # t \<Rightarrow> Some (rev t, rev (takeWhile (\<lambda>x. x \<noteq> c) (rev s))))"

text \<open>The IPv4 prefixes among those \<open>netip.ParsePrefix\<close> reads.\<close>

definition ParsePrefix4 :: "string \<Rightarrow> (32 word \<times> nat) option" where
  "ParsePrefix4 s =
     (case splitLast (CHR ''/'') s of
        None \<Rightarrow> None
      | Some (addr, bitsText) \<Rightarrow>
          (case parseIPv4 addr of
             None \<Rightarrow> None
           | Some q \<Rightarrow>
               if length bitsText > 1 \<and> \<not> (CHR ''1'' \<le> hd bitsText \<and> hd bitsText \<le> CHR ''9'') then None
               else case ParseInt64 bitsText of
                 Inl _ \<Rightarrow> None
               | Inr bits \<Rightarrow>
                   if bits < 0 \<or> bits > 32 then None
                   else Some (of_nat (foldl (\<lambda>v b. v * 256 + b) 0 q), nat bits)))"

record awgSubnet =
  suNetwork :: "32 word \<times> nat"
  suServer :: "32 word"
  suFirst :: "32 word"
  suLast :: "32 word"

definition parseAWGSubnet :: "string \<Rightarrow> awgSubnet result" where
  "parseAWGSubnet s =
     (case ParsePrefix4 s of
        None \<Rightarrow> Inl (Err ''subnet must be an IPv4 network with prefix /16 through /30 and no host bits, for example 10.8.1.0/24'')
      | Some (addr, bits) \<Rightarrow>
          if bits < 16 \<or> bits > 30 \<or> addr \<noteq> push_bit (32 - bits) (drop_bit (32 - bits) addr) \<or>
             addrText addr @ ''/'' @ show_nat bits \<noteq> s
          then Inl (Err ''subnet must be an IPv4 network with prefix /16 through /30 and no host bits, for example 10.8.1.0/24'')
          else Inr \<lparr>suNetwork = (addr, bits), suServer = addr + 1, suFirst = addr + 1 + 1,
                    suLast = addr + (push_bit (32 - bits) 1 - 2)\<rparr>)"

section \<open>Addresses as numbers\<close>

primrec ipValue :: "8 word list \<Rightarrow> nat" where
  "ipValue [] = 0"
| "ipValue (b # bs) = unat b * 256 ^ length bs + ipValue bs"

lemma unat_byte: "unat (b :: 8 word) < 256"
  using unsigned_less [of b] by simp

lemma ipValue_bound: "ipValue bs < 256 ^ length bs"
proof (induction bs)
  case (Cons b bs)
  have "unat b * 256 ^ length bs + ipValue bs < unat b * 256 ^ length bs + 256 ^ length bs" using Cons by simp
  also have "\<dots> = (unat b + 1) * 256 ^ length bs" by simp
  also have "\<dots> \<le> 256 * 256 ^ length bs" by (rule mult_right_mono) (use unat_byte [of b] in auto)
  finally show ?case by simp
qed simp

lemma ipValue_append: "ipValue (as @ bs) = ipValue as * 256 ^ length bs + ipValue bs"
  by (induction as) (simp_all add: power_add algebra_simps)

lemma ipValue_less:
  assumes "unat a < unat b" and "length as = length bs"
  shows "ipValue (a # as) < ipValue (b # bs)"
proof -
  have "ipValue (a # as) < unat a * 256 ^ length bs + 256 ^ length bs" using ipValue_bound [of as] assms(2) by simp
  also have "\<dots> = (unat a + 1) * 256 ^ length bs" by simp
  also have "\<dots> \<le> unat b * 256 ^ length bs" by (rule mult_right_mono) (use assms(1) in auto)
  finally show ?thesis by simp
qed

lemma compareIP_value:
  "length as = length bs \<Longrightarrow>
   (compareIP as bs < 0 \<longleftrightarrow> ipValue as < ipValue bs) \<and> (compareIP as bs > 0 \<longleftrightarrow> ipValue as > ipValue bs)"
proof (induction as bs rule: compareIP.induct)
  case (1 a as b bs)
  then show ?case using ipValue_less [of a b as bs] ipValue_less [of b a bs as]
    by (cases a b rule: linorder_cases) (auto simp: word_less_nat_alt)
qed simp_all

lemma compareIP_le: "length as = length bs \<Longrightarrow> compareIP as bs \<le> 0 \<longleftrightarrow> ipValue as \<le> ipValue bs"
  using compareIP_value [of as bs] by linarith

lemma ipValue_inject: "length as = length bs \<Longrightarrow> ipValue as = ipValue bs \<Longrightarrow> as = bs"
proof (induction as bs rule: list_induct2)
  case (Cons a as b bs)
  have "unat a = unat b"
    using Cons.prems Cons.hyps ipValue_less [of a b as bs] ipValue_less [of b a bs as] by (cases "unat a" "unat b" rule: linorder_cases) simp_all
  then show ?case using Cons by (auto simp: unsigned_word_eqI)
qed simp

lemma carry_length [simp]: "length (carry bs) = length bs"
  by (induction bs) auto

lemma nextIP_length [simp]: "length (nextIP ip) = length ip"
  by (simp add: nextIP_def)

text \<open>Counting up wraps around after the last address.\<close>

lemma carry_value: "ipValue (rev (carry bs)) = (ipValue (rev bs) + 1) mod 256 ^ length bs"
proof (induction bs)
  case (Cons b bs)
  have s: "unat (b + 1) = (if b + 1 = 0 then 0 else unat b + 1)" using unatSuc [of b] by (simp add: add.commute)
  have m: "b + 1 = 0 \<Longrightarrow> unat b = 255"
  proof -
    assume "b + 1 = 0"
    then have "b = - 1" by (simp add: eq_neg_iff_add_eq_0)
    then show "unat b = 255" by (simp add: unsigned_minus_1_eq_mask mask_eq_exp_minus_1)
  qed
  show ?case
  proof (cases "b + 1 = 0")
    case True
    have "(ipValue (rev bs) * 256 + 255 + 1) mod (256 * 256 ^ length bs) = ((ipValue (rev bs) + 1) * 256) mod (256 ^ length bs * 256)"
      by (simp add: algebra_simps)
    also have "\<dots> = ((ipValue (rev bs) + 1) mod 256 ^ length bs) * 256" by (rule mult_mod_left [symmetric])
    finally show ?thesis using True m Cons by (simp add: ipValue_append)
  next
    case False
    have "ipValue (rev bs @ [b + 1]) < 256 ^ length (rev bs @ [b + 1])" by (rule ipValue_bound)
    then show ?thesis using False s by (simp add: ipValue_append)
  qed
qed simp

lemma nextIP_value: "ipValue (nextIP ip) = (ipValue ip + 1) mod 256 ^ length ip"
  using carry_value [of "rev ip"] by (simp add: nextIP_def)

lemma ipBytes_length [simp]: "length (ipBytes v) = 4"
  by (simp add: ipBytes_def)

lemma ipValue_ipBytes:
  assumes "v < 2 ^ 32"
  shows "ipValue (ipBytes v) = v"
proof -
  let ?a = "v div 256" and ?b = "v div 256 div 256" and ?c = "v div 256 div 256 div 256"
  have d: "v div 2 ^ 24 = ?c" "v div 2 ^ 16 = ?b" "v div 2 ^ 8 = ?a" by (simp_all add: div_mult2_eq [symmetric])
  have c: "?c mod 256 = ?c" using assms by (simp add: div_mult2_eq [symmetric] less_mult_imp_div_less)
  have "ipValue (ipBytes v) = ((?c mod 256 * 256 + ?b mod 256) * 256 + ?a mod 256) * 256 + v mod 256"
    unfolding ipBytes_def d by (simp add: unat_of_nat)
  then show ?thesis unfolding c by simp
qed

lemma ipBytes_ipValue: "length ip = 4 \<Longrightarrow> ipBytes (ipValue ip) = ip"
  using ipValue_bound [of ip] by (intro ipValue_inject) (simp_all add: ipValue_ipBytes)

section \<open>Addresses as text\<close>

lemma foldl_digits_mono: "(v :: nat) \<le> foldl (\<lambda>a c. a * 10 + digit_val c) v ds"
proof (induction ds arbitrary: v)
  case (Cons d ds)
  have "v \<le> v * 10 + digit_val d" by simp
  then show ?case using Cons [of "v * 10 + digit_val d"] by simp
qed simp

lemma parseIPv4_digits:
  assumes "list_all is_digit ds" and "foldl (\<lambda>a c. a * 10 + digit_val c) v ds \<le> 255" and "0 < v"
  shows "parseIPv4Fields octs v n (ds @ rest) = parseIPv4Fields octs (foldl (\<lambda>a c. a * 10 + digit_val c) v ds) (n + length ds) rest"
  using assms
proof (induction ds arbitrary: v n)
  case (Cons d ds)
  then show ?case using foldl_digits_mono [of "v * 10 + digit_val d" ds] by (auto simp: Let_def)
qed simp

lemma show_nat_leading: "0 < n \<Longrightarrow> 0 < digit_val (hd (show_nat n))"
proof (induction n rule: show_nat.induct)
  case (1 n)
  then show ?case by (cases "n < 10") (auto simp: show_nat.simps [of n] digit_char_props)
qed

lemma parseIPv4_octet:
  assumes "v \<le> 255"
  shows "parseIPv4Fields octs 0 0 (show_nat v @ rest) = parseIPv4Fields octs v (length (show_nat v)) rest"
proof (cases "show_nat v")
  case (Cons d ds)
  have all: "list_all is_digit (d # ds)" using show_nat_digits [of v] Cons by simp
  have val: "foldl (\<lambda>a c. a * 10 + digit_val c) (digit_val d) ds = v" using read_show_nat [of v] Cons by (simp add: read_nat_def)
  show ?thesis
  proof (cases "v = 0")
    case True
    then have "d # ds = [digit_char 0]" using Cons by (simp add: show_nat.simps)
    then show ?thesis using Cons True by (simp add: digit_char_props Let_def)
  next
    case False
    then have "0 < digit_val d" using show_nat_leading [of v] Cons by simp
    then show ?thesis using Cons all val assms foldl_digits_mono [of "digit_val d" ds] parseIPv4_digits [of ds "digit_val d" octs 1 rest]
      by (simp add: Let_def)
  qed
qed simp

lemma dot_no_digit: "\<not> is_digit (CHR ''.'')" "\<not> is_digit (CHR '':'')" "\<not> is_digit (CHR ''%'')" "\<not> is_digit (CHR ''/'')"
  by code_simp+

lemma IP_String_four:
  "IP_String [a, b, c, d] = show_nat (unat a) @ CHR ''.'' # show_nat (unat b) @ CHR ''.'' # show_nat (unat c) @ CHR ''.'' # show_nat (unat d)"
  by (simp add: IP_String_def)

lemma four_bytes: "length ip = 4 \<Longrightarrow> \<exists>a b c d. ip = [a, b, c, d]"
  by (auto simp: numeral_eq_Suc length_Suc_conv)

lemma parseIPv4_String:
  assumes "length ip = 4"
  shows "parseIPv4 (IP_String ip) = Some (map unat ip)"
proof -
  obtain a b c d where ip: "ip = [a, b, c, d]" using four_bytes [OF assms] by blast
  have le: "unat (x :: 8 word) \<le> 255" for x using unat_byte [of x] by simp
  have l: "length (show_nat x) \<noteq> 0" for x by simp
  have "parseIPv4Fields [unat a, unat b, unat c] 0 0 (show_nat (unat d)) = Some [unat a, unat b, unat c, unat d]"
    using parseIPv4_octet [OF le [of d], of "[unat a, unat b, unat c]" "[]"] by simp
  then show ?thesis unfolding ip IP_String_four by (simp add: parseIPv4_octet le l dot_no_digit)
qed

lemma digits_no_dot: "x \<in> set (show_nat n) \<Longrightarrow> is_digit x"
  using show_nat_digits [of n] by (simp add: list_all_iff)

lemma ParseIP_String:
  assumes "length ip = 4"
  shows "To4 (ParseIP (IP_String ip)) = Some ip"
proof -
  obtain a b c d where ip: "ip = [a, b, c, d]" using four_bytes [OF assms] by blast
  have e: "filter (\<lambda>c. c = CHR ''.'' \<or> c = CHR '':'' \<or> c = CHR ''%'') (show_nat n) = []" for n
    using digits_no_dot dot_no_digit by (fastforce simp: filter_empty_conv)
  have "ParseIP (IP_String ip) = Some (replicate 10 0 @ [255, 255] @ map unat ip)"
    unfolding ParseIP_def parseIPv4_String [OF assms] unfolding ip IP_String_four by (simp add: e)
  then show ?thesis unfolding ip by (simp add: To4_def numeral_eq_Suc)
qed

lemma IP_String_inject: "length a = 4 \<Longrightarrow> length b = 4 \<Longrightarrow> IP_String a = IP_String b \<Longrightarrow> a = b"
  using ParseIP_String by (metis option.inject)

lemma parseIPv4_length: "parseIPv4Fields octs v n s = Some q \<Longrightarrow> length octs \<le> 3 \<Longrightarrow> length q = 4"
  by (induction octs v n s rule: parseIPv4Fields.induct) (auto simp: Let_def split: if_splits)

text \<open>One group of an IPv6 address is the embedded IPv4 address, the last one, or is followed by others.\<close>

lemma ipv6Groups_cases:
  assumes "ipv6Groups ip e s = Some r" and "length ip < 16"
  shows "(\<exists>q. parseIPv4 s = Some q \<and> length ip + 4 \<le> 16 \<and> r = (ip @ q, e, [])) \<or>
    (\<exists>x y e'. (e' = e \<or> e' = Some (length ip + 2)) \<and>
       (r = (ip @ [x, y], e', []) \<or> (\<exists>t. ipv6Groups (ip @ [x, y]) e' t = Some r)))"
proof -
  have "16 \<le> length ip \<longleftrightarrow> False" using assms(2) by simp
  then show ?thesis using assms(1) unfolding ipv6Groups.simps [of ip e s]
    by (simp add: Let_def split: if_split_asm list.split_asm) blast+
qed

lemma ipv6Groups_length:
  "ipv6Groups ip e s = Some (ip', e', rest) \<Longrightarrow> even (length ip) \<Longrightarrow> length ip \<le> 16 \<Longrightarrow> (\<forall>k. e = Some k \<longrightarrow> k \<le> length ip) \<Longrightarrow>
   length ip' \<le> 16 \<and> (\<forall>k. e' = Some k \<longrightarrow> k \<le> length ip')"
proof (induction "16 - length ip" arbitrary: ip e s rule: less_induct)
  case less
  show ?case
  proof (cases "length ip < 16")
    case False
    then show ?thesis using less.prems by (auto simp: ipv6Groups.simps [of ip e s])
  next
    case True
    then have two: "length ip + 2 \<le> 16" using less.prems(2) by presburger
    have le: "\<forall>k. f = Some k \<longrightarrow> k \<le> length ip + 2" if "f = e \<or> f = Some (length ip + 2)" for f using that less.prems(4) by fastforce
    from ipv6Groups_cases [OF less.prems(1) True] consider
      (quad) q where "parseIPv4 s = Some q" "length ip + 4 \<le> 16" "ip' = ip @ q" "e' = e"
    | (stop) x y f where "f = e \<or> f = Some (length ip + 2)" "ip' = ip @ [x, y]" "e' = f"
    | (go) x y f t where "f = e \<or> f = Some (length ip + 2)" "ipv6Groups (ip @ [x, y]) f t = Some (ip', e', rest)"
      by (simp only: prod.inject) blast
    then show ?thesis
    proof cases
      case quad
      then show ?thesis using parseIPv4_length [OF quad(1)] less.prems(4) by fastforce
    next
      case stop
      then show ?thesis using two le [OF stop(1)] by simp
    next
      case go
      show ?thesis by (rule less.hyps [OF _ go(2)]) (use True two less.prems(2) le [OF go(1)] in auto)
    qed
  qed
qed

lemma parseIPv6_length: "parseIPv6 s = Some bs \<Longrightarrow> length bs = 16"
proof -
  assume "parseIPv6 s = Some bs"
  then show ?thesis using ipv6Groups_length [of "[]" "if prefix ''::'' s then Some 0 else None" "if prefix ''::'' s then drop 2 s else s"]
    by (auto simp: parseIPv6_def Let_def split: if_splits option.splits prod.splits)
qed

lemma To4_length: "To4 (ParseIP s) = Some ip \<Longrightarrow> length ip = 4"
  by (auto simp: To4_def ParseIP_def dest!: parseIPv6_length parseIPv4_length split: option.splits if_splits list.splits)

section \<open>What the search finds\<close>

abbreviation ipText :: "nat \<Rightarrow> string" where
  "ipText v \<equiv> IP_String (ipBytes v)"

lemma nextIP_ipBytes: "v < 2 ^ 32 \<Longrightarrow> nextIP (ipBytes v) = ipBytes ((v + 1) mod 2 ^ 32)"
  by (rule ipValue_inject) (simp_all add: nextIP_value ipValue_ipBytes)

lemma searchPool_step:
  assumes "v < 2 ^ 32" and "l < 2 ^ 32"
  shows "searchPool used (ipBytes l) (ipBytes v) =
    (if l < v then Some (Inl (Err ''amneziawg IPv4 pool exhausted''))
     else if ipText v \<notin> set used then Some (Inr (ipText v)) else searchPool used (ipBytes l) (ipBytes ((v + 1) mod 2 ^ 32)))"
  using assms by (simp add: searchPool.simps [of used "ipBytes l" "ipBytes v"] compareIP_le ipValue_ipBytes nextIP_ipBytes not_less)

lemma searchPool_find:
  assumes "v \<le> Suc l" and "Suc l < 2 ^ 32"
  shows "searchPool used (ipBytes l) (ipBytes v) =
    Some (case find (\<lambda>w. ipText w \<notin> set used) [v..<Suc l] of
            Some w \<Rightarrow> Inr (ipText w) | None \<Rightarrow> Inl (Err ''amneziawg IPv4 pool exhausted''))"
  using assms(1)
proof (induction rule: inc_induct)
  case base
  then show ?case using assms(2) by (simp add: searchPool_step)
next
  case (step v)
  have "[v..<Suc l] = v # [Suc v..<Suc l]" using step(2) by (simp add: upt_conv_Cons)
  then show ?case using step assms(2) by (simp add: searchPool_step)
qed

lemma searchPool_full:
  assumes "v \<le> 2 ^ 32 - 1" and "\<And>w. v \<le> w \<Longrightarrow> w \<le> 2 ^ 32 - 1 \<Longrightarrow> ipText w \<in> set used"
  shows "searchPool used (ipBytes (2 ^ 32 - 1)) (ipBytes v) = searchPool used (ipBytes (2 ^ 32 - 1)) (ipBytes 0)"
  using assms
proof (induction rule: inc_induct)
  case base
  then show ?case by (subst searchPool_step) simp_all
next
  case (step v)
  then show ?case by (subst searchPool_step) simp_all
qed

definition usedAddresses :: "AmneziaWGNodeConfig \<Rightarrow> AmneziaWGConnectionMaterial list \<Rightarrow> string set" where
  "usedAddresses config materials = insert (awServerIPv4 config) (amAssignedIPv4 ` set materials)"

lemma nextAvailableIPv4_pool:
  assumes "To4 (ParseIP (awFirstClientIPv4 config)) = Some first" and "To4 (ParseIP (awLastClientIPv4 config)) = Some final"
    and "ipValue first \<le> ipValue final"
  shows nextAvailableIPv4_search: "nextAvailableIPv4 config materials =
      searchPool (awServerIPv4 config # map amAssignedIPv4 materials) (ipBytes (ipValue final)) (ipBytes (ipValue first))"
    and nextAvailableIPv4_find: "ipValue final < 2 ^ 32 - 1 \<Longrightarrow> nextAvailableIPv4 config materials =
      Some (case find (\<lambda>v. ipText v \<notin> usedAddresses config materials) [ipValue first..<Suc (ipValue final)] of
            Some v \<Rightarrow> Inr (ipText v) | None \<Rightarrow> Inl (Err ''amneziawg IPv4 pool exhausted''))"
proof -
  show search: "nextAvailableIPv4 config materials =
      searchPool (awServerIPv4 config # map amAssignedIPv4 materials) (ipBytes (ipValue final)) (ipBytes (ipValue first))"
    using assms(3) To4_length [OF assms(1)] To4_length [OF assms(2)]
    by (simp add: nextAvailableIPv4_def assms(1,2) compareIP_value ipBytes_ipValue not_less [symmetric])
  show "nextAvailableIPv4 config materials =
      Some (case find (\<lambda>v. ipText v \<notin> usedAddresses config materials) [ipValue first..<Suc (ipValue final)] of
            Some v \<Rightarrow> Inr (ipText v) | None \<Rightarrow> Inl (Err ''amneziawg IPv4 pool exhausted''))" if "ipValue final < 2 ^ 32 - 1"
    unfolding search using assms(3) that by (subst searchPool_find) (simp_all add: usedAddresses_def)
qed

lemma octetDigits: "digit_char 0 = CHR ''0''" "digit_char 2 = CHR ''2''" "digit_char 5 = CHR ''5''"
  by code_simp+

lemma ipText_bounds: "ipText 0 = ''0.0.0.0''" "ipText (2 ^ 32 - 1) = ''255.255.255.255''"
  by (simp_all add: ipBytes_def IP_String_def show_nat.simps octetDigits)

text \<open>
  C34. For a pool that does not end at 255.255.255.255 the search for a client address ends, and it returns the lowest address
  of the pool that neither the server nor a connection of the node has, or the error that the pool is exhausted when there is none.
\<close>

theorem pool_lowest_free:
  assumes "To4 (ParseIP (awFirstClientIPv4 config)) = Some first" and "To4 (ParseIP (awLastClientIPv4 config)) = Some final"
    and "ipValue first \<le> ipValue final" and "ipValue final < 2 ^ 32 - 1"
  shows "nextAvailableIPv4 config materials =
    Some (case find (\<lambda>v. ipText v \<notin> usedAddresses config materials) [ipValue first..<Suc (ipValue final)] of
            Some v \<Rightarrow> Inr (ipText v) | None \<Rightarrow> Inl (Err ''amneziawg IPv4 pool exhausted''))"
  by (rule nextAvailableIPv4_find [OF assms])

text \<open>
  C36. When the pool ends at 255.255.255.255 and every address of it is taken, the search runs on from 0.0.0.0 and hands that
  address out, outside the pool.
\<close>

theorem pool_wraps_around:
  assumes "To4 (ParseIP (awFirstClientIPv4 config)) = Some first" and "awLastClientIPv4 config = ''255.255.255.255''"
    and "\<forall>v. ipValue first \<le> v \<and> v < 2 ^ 32 \<longrightarrow> ipText v \<in> usedAddresses config materials"
    and "''0.0.0.0'' \<notin> usedAddresses config materials"
  shows "nextAvailableIPv4 config materials = Some (Inr ''0.0.0.0'') \<and> 0 < ipValue first"
proof -
  note z = ipText_bounds(1)
  have l: "To4 (ParseIP (awLastClientIPv4 config)) = Some (ipBytes (2 ^ 32 - 1))"
    unfolding assms(2) ipText_bounds(2) [symmetric] by (simp only: ParseIP_String ipBytes_length)
  have v: "ipValue (ipBytes (2 ^ 32 - 1)) = 2 ^ 32 - 1" by (rule ipValue_ipBytes) simp
  have b: "ipValue first \<le> 2 ^ 32 - 1" using ipValue_bound [of first] To4_length [OF assms(1)] by simp
  let ?used = "awServerIPv4 config # map amAssignedIPv4 materials"
  have u: "set ?used = usedAddresses config materials" by (simp add: usedAddresses_def)
  have "nextAvailableIPv4 config materials = searchPool ?used (ipBytes (2 ^ 32 - 1)) (ipBytes (ipValue first))"
    using nextAvailableIPv4_search [OF assms(1) l] b unfolding v by blast
  also have "\<dots> = searchPool ?used (ipBytes (2 ^ 32 - 1)) (ipBytes 0)"
    by (rule searchPool_full [OF b]) (use assms(3) u in auto)
  also have "\<dots> = Some (Inr (ipText 0))" using assms(4) by (subst searchPool_step) (simp_all add: u z del: list.set)
  finally have "nextAvailableIPv4 config materials = Some (Inr ''0.0.0.0'')" unfolding z .
  moreover have "ipValue first \<noteq> 0" using assms(3,4) z by (metis le0 zero_less_numeral zero_less_power)
  ultimately show ?thesis by simp
qed

section \<open>Pools made from subnets\<close>

lemma unat_word32: "unat (a :: 32 word) < 2 ^ 32"
  using unsigned_less [of a] by simp

lemma masked_dvd:
  assumes "(addr :: 32 word) = push_bit k (drop_bit k addr)"
  shows "2 ^ k dvd unat addr"
proof -
  have "take_bit k addr = 0" using bits_ident [of k addr] assms by simp
  then have "take_bit k (unat addr) = 0" by (metis unsigned_take_bit_eq unsigned_0)
  then show ?thesis by (simp add: take_bit_eq_mod dvd_eq_mod_eq_0)
qed

lemma subnet_room:
  assumes "(addr :: 32 word) = push_bit k (drop_bit k addr)" and "k \<le> 32"
  shows "unat addr + 2 ^ k \<le> 2 ^ 32"
proof -
  obtain m where m: "unat addr = 2 ^ k * m" using masked_dvd [OF assms(1)] by (auto simp: dvd_def)
  have e: "(2 :: nat) ^ 32 = 2 ^ k * 2 ^ (32 - k)" using assms(2) by (simp flip: power_add)
  have "2 ^ k * m < 2 ^ k * 2 ^ (32 - k)" using unat_word32 [of addr] unfolding m e .
  then have "m < 2 ^ (32 - k)" by simp
  then have "2 ^ k * Suc m \<le> 2 ^ k * 2 ^ (32 - k)" by (intro mult_le_mono2) simp
  then show ?thesis using m e by simp
qed

lemma unat_plus_small: "unat (a :: 32 word) + n < 2 ^ 32 \<Longrightarrow> unat (a + of_nat n) = unat a + n"
  by (simp add: unat_word_ariths unat_of_nat)

lemma parseAWGSubnet_values:
  assumes "parseAWGSubnet s = Inr sn"
  obtains k where "2 \<le> k" "k \<le> 16" "unat (fst (suNetwork sn)) + 2 ^ k \<le> 2 ^ 32" "snd (suNetwork sn) = 32 - k"
    "2 ^ k dvd unat (fst (suNetwork sn))" "unat (suServer sn) = unat (fst (suNetwork sn)) + 1"
    "unat (suFirst sn) = unat (fst (suNetwork sn)) + 2" "unat (suLast sn) = unat (fst (suNetwork sn)) + (2 ^ k - 2)"
proof -
  obtain addr bits where b: "16 \<le> bits" "bits \<le> 30" "addr = push_bit (32 - bits) (drop_bit (32 - bits) addr)"
    and sn: "sn = \<lparr>suNetwork = (addr, bits), suServer = addr + 1, suFirst = addr + 1 + 1, suLast = addr + (push_bit (32 - bits) 1 - 2)\<rparr>"
    using assms by (auto simp: parseAWGSubnet_def not_less split: option.splits if_splits)
  let ?k = "32 - bits"
  have k: "2 \<le> ?k" "?k \<le> 16" using b(1,2) by simp_all
  have room: "unat addr + 2 ^ ?k \<le> 2 ^ 32" by (rule subnet_room [OF b(3)]) simp
  have four: "(4 :: nat) \<le> 2 ^ ?k" using power_increasing [OF k(1), of "2 :: nat"] by simp
  have "push_bit ?k 1 - 2 = (of_nat (2 ^ ?k - 2) :: 32 word)" using four by (simp add: push_bit_eq_mult of_nat_diff)
  moreover have "addr + 1 + 1 = addr + of_nat 2" by simp
  moreover have "unat addr + 2 < 2 ^ 32" using room four by linarith
  moreover have "unat addr + (2 ^ ?k - 2) < 2 ^ 32" using room four by linarith
  ultimately have "unat (addr + 1) = unat addr + 1" "unat (addr + 1 + 1) = unat addr + 2"
    "unat (addr + (push_bit ?k 1 - 2)) = unat addr + (2 ^ ?k - 2)"
    using unat_plus_small [of addr 1] unat_plus_small [of addr 2] unat_plus_small [of addr "2 ^ ?k - 2"] by (simp_all add: add.commute)
  then show thesis using that [OF k] room masked_dvd [OF b(3)] b(2) sn by simp
qed

text \<open>
  C35. A node configuration made from an accepted subnet has a pool that lies strictly between the server's address and the
  broadcast address of the network: every address the search hands out is in the network, is not the network, server or
  broadcast address and is not in use, and it reports exhaustion only when all addresses of the pool are taken.
\<close>

theorem subnet_pool_sound:
  assumes "parseAWGSubnet s = Inr sn" and "suNetwork sn = (network, bits)"
    and "awServerIPv4 config = addrText (suServer sn)" and "awFirstClientIPv4 config = addrText (suFirst sn)"
    and "awLastClientIPv4 config = addrText (suLast sn)"
  shows "(\<exists>v. nextAvailableIPv4 config materials = Some (Inr (ipText v)) \<and> unat network + 1 < v \<and>
      v < unat network + (2 ^ (32 - bits) - 1) \<and> v div 2 ^ (32 - bits) = unat network div 2 ^ (32 - bits) \<and>
      ipText v \<notin> usedAddresses config materials) \<or>
    nextAvailableIPv4 config materials = Some (Inl (Err ''amneziawg IPv4 pool exhausted'')) \<and>
    (\<forall>v. unat network + 1 < v \<and> v < unat network + (2 ^ (32 - bits) - 1) \<longrightarrow> ipText v \<in> usedAddresses config materials)"
proof -
  obtain k where k: "2 \<le> k" "k \<le> 16" "unat network + 2 ^ k \<le> 2 ^ 32" "bits = 32 - k" "2 ^ k dvd unat network"
    and f: "unat (suFirst sn) = unat network + 2" and l: "unat (suLast sn) = unat network + (2 ^ k - 2)"
    using parseAWGSubnet_values [OF assms(1)] assms(2) by (metis fst_conv snd_conv)
  have four: "(4 :: nat) \<le> 2 ^ k" using power_increasing [OF k(1), of "2 :: nat"] by simp
  have bits: "32 - bits = k" using k(2,4) by simp
  let ?free = "\<lambda>v. ipText v \<notin> usedAddresses config materials"
  have p: "nextAvailableIPv4 config materials =
      Some (case find ?free [unat network + 2..<Suc (unat network + (2 ^ k - 2))] of
              Some v \<Rightarrow> Inr (ipText v) | None \<Rightarrow> Inl (Err ''amneziawg IPv4 pool exhausted''))"
  proof -
    have v: "ipValue (ipBytes (unat (suFirst sn))) = unat network + 2" "ipValue (ipBytes (unat (suLast sn))) = unat network + (2 ^ k - 2)"
      unfolding f [symmetric] l [symmetric] by (rule ipValue_ipBytes [OF unat_word32])+
    have t: "To4 (ParseIP (addrText a)) = Some (ipBytes (unat a))" for a unfolding addrText_def by (rule ParseIP_String) simp
    have le: "unat network + 2 \<le> unat network + (2 ^ k - 2)" "unat network + (2 ^ k - 2) < 2 ^ 32 - 1" using four k(3) by linarith+
    show ?thesis using nextAvailableIPv4_find [of config "ipBytes (unat (suFirst sn))" "ipBytes (unat (suLast sn))" materials]
      unfolding v assms(4,5) t using le by blast
  qed
  show ?thesis
  proof (cases "find ?free [unat network + 2..<Suc (unat network + (2 ^ k - 2))]")
    case None
    have "ipText v \<in> usedAddresses config materials" if "unat network + 1 < v \<and> v < unat network + (2 ^ k - 1)" for v
    proof -
      have "v \<in> set [unat network + 2..<Suc (unat network + (2 ^ k - 2))]" using that four unfolding set_upt atLeastLessThan_iff by linarith
      then show ?thesis using None unfolding find_None_iff by blast
    qed
    then show ?thesis using p None unfolding bits by simp
  next
    case (Some v)
    then have v: "?free v" "unat network + 2 \<le> v" "v \<le> unat network + (2 ^ k - 2)"
      using find_Some_iff [THEN iffD1, OF Some] by (auto simp del: upt_Suc simp: nth_upt)
    obtain m where m: "unat network = 2 ^ k * m" using k(5) by (auto simp: dvd_def)
    have "v div 2 ^ k = m" using v(2,3) four unfolding m by (intro div_nat_eqI) (simp_all add: algebra_simps)
    then have "v div 2 ^ k = unat network div 2 ^ k" unfolding m by simp
    moreover have "unat network + 1 < v" "v < unat network + (2 ^ k - 1)" using v(2,3) four by linarith+
    ultimately show ?thesis using p Some v(1) unfolding bits by auto
  qed
qed

definition exampleAWG :: "string \<Rightarrow> string \<Rightarrow> string \<Rightarrow> AmneziaWGNodeConfig" where
  "exampleAWG server first final =
     \<lparr>awNodeID = ''n1'', awEndpointHost = ''vpn.example'', awEndpointPort = 443, awListenPort = 443, awServerIPv4 = server,
      awClientIPv4CIDR = [], awFirstClientIPv4 = first, awLastClientIPv4 = final, awDNS = [], awMTU = 0, awPersistentKeepalive = 0,
      awClientRouteAllowedIPs = [], awClientRouteMode = [], awClientExcludedRoutes = [], awServerPrivateKey = [],
      awHeaderProtectionKey = [], awContentPaddingAddition = [], awTimingsJSON = [], awRandomTrailers = False,
      awDisableCookies = False, awAppliedConfigVersionMS = 0, awConfigErrorID = [], awServerPublicKey = [], awJC = 0, awJMin = 0,
      awJMax = 0, awS1 = 0, awS2 = 0, awH1 = [], awH2 = [], awH3 = [], awH4 = [], awS3 = 0, awS4 = 0, awI1 = [], awI2 = [],
      awI3 = [], awI4 = [], awI5 = [], awConfigVersionMS = 0, awCreatedAt = 0, awUpdatedAt = 0\<rparr>"

definition examplePeer :: "string \<Rightarrow> AmneziaWGConnectionMaterial" where
  "examplePeer address =
     \<lparr>amConnectionID = ''c1'', amNodeID = ''n1'', amClientPublicKey = [], amClientPrivateKey = [], amPresharedKey = [],
      amAssignedIPv4 = address, amCreatedAt = 0, amUpdatedAt = 0\<rparr>"

lemma example_texts:
  "IP_String [10, 8, 1, 1] = ''10.8.1.1''" "IP_String [10, 8, 1, 2] = ''10.8.1.2''" "IP_String [10, 8, 1, 3] = ''10.8.1.3''"
  "IP_String [10, 8, 1, 254] = ''10.8.1.254''" "IP_String [10, 8, 1, 0] = ''10.8.1.0''"
  by code_simp+

lemma example_bytes:
  "ipBytes 168296704 = [10, 8, 1, 0]" "ipBytes 168296705 = [10, 8, 1, 1]" "ipBytes 168296706 = [10, 8, 1, 2]"
  "ipBytes 168296707 = [10, 8, 1, 3]" "ipBytes 168296958 = [10, 8, 1, 254]"
  by (simp_all add: ipBytes_def)

theorem pool_lowest_free_witness:
  "nextAvailableIPv4 (exampleAWG ''10.8.1.1'' ''10.8.1.2'' ''10.8.1.3'') [examplePeer ''10.8.1.2''] = Some (Inr ''10.8.1.3'')"
proof -
  have t: "To4 (ParseIP ''10.8.1.2'') = Some [10, 8, 1, 2]" "To4 (ParseIP ''10.8.1.3'') = Some [10, 8, 1, 3]"
    using ParseIP_String [of "[10, 8, 1, 2]"] ParseIP_String [of "[10, 8, 1, 3]"] by (simp_all add: example_texts)
  show ?thesis
    using pool_lowest_free [of "exampleAWG ''10.8.1.1'' ''10.8.1.2'' ''10.8.1.3''" "[10, 8, 1, 2]" "[10, 8, 1, 3]" "[examplePeer ''10.8.1.2'']"]
    by (simp add: exampleAWG_def examplePeer_def t usedAddresses_def upt_rec example_bytes example_texts)
qed

theorem pool_wraps_around_witness:
  "nextAvailableIPv4 (exampleAWG ''255.255.255.254'' ''255.255.255.255'' ''255.255.255.255'') [examplePeer ''255.255.255.255''] =
    Some (Inr ''0.0.0.0'')"
proof -
  have t: "To4 (ParseIP ''255.255.255.255'') = Some (ipBytes (2 ^ 32 - 1))"
    using ParseIP_String [of "ipBytes (2 ^ 32 - 1)"] unfolding ipText_bounds by simp
  have v: "ipValue (ipBytes (2 ^ 32 - 1)) = 2 ^ 32 - 1" by (rule ipValue_ipBytes) simp
  have all: "\<forall>v. 2 ^ 32 - 1 \<le> v \<and> v < 2 ^ 32 \<longrightarrow> ipText v = ''255.255.255.255''"
  proof (intro allI impI)
    fix v :: nat
    assume "2 ^ 32 - 1 \<le> v \<and> v < 2 ^ 32"
    then have "v = 2 ^ 32 - 1" by simp
    then show "ipText v = ''255.255.255.255''" using ipText_bounds(2) by (simp only:)
  qed
  show ?thesis
    using pool_wraps_around [of "exampleAWG ''255.255.255.254'' ''255.255.255.255'' ''255.255.255.255''" "ipBytes (2 ^ 32 - 1)"
        "[examplePeer ''255.255.255.255'']", unfolded v] all
    by (simp add: exampleAWG_def examplePeer_def t usedAddresses_def)
qed

lemma example_subnet:
  "parseAWGSubnet ''10.8.1.0/24'' =
     Inr \<lparr>suNetwork = (168296704, 24), suServer = 168296705, suFirst = 168296706, suLast = 168296958\<rparr>"
proof -
  have s: "splitLast (CHR ''/'') ''10.8.1.0/24'' = Some (''10.8.1.0'', ''24'')" by code_simp
  have q: "parseIPv4 ''10.8.1.0'' = Some [10, 8, 1, 0]"
    using parseIPv4_String [of "[10, 8, 1, 0]"] by (simp add: example_texts)
  have n: "ParseInt64 ''24'' = Inr 24" "show_nat 24 = ''24''" by code_simp+
  have c: "CHR ''1'' \<le> CHR ''2''" "CHR ''2'' \<le> CHR ''9''" by code_simp+
  have p: "ParsePrefix4 ''10.8.1.0/24'' = Some (168296704, 24)" unfolding ParsePrefix4_def s option.case prod.case q by (simp add: n c)
  have a: "addrText 168296704 = ''10.8.1.0''" by (simp add: addrText_def example_bytes example_texts)
  have m: "push_bit 8 (drop_bit 8 (168296704 :: 32 word)) = 168296704" by simp
  show ?thesis unfolding parseAWGSubnet_def p by (simp add: a n m)
qed

theorem subnet_pool_sound_witness:
  "\<exists>v. nextAvailableIPv4 (exampleAWG ''10.8.1.1'' ''10.8.1.2'' ''10.8.1.254'') [] = Some (Inr (ipText v)) \<and> 168296705 < v \<and> v < 168296959"
proof -
  have t: "addrText 168296705 = ''10.8.1.1''" "addrText 168296706 = ''10.8.1.2''" "addrText 168296958 = ''10.8.1.254''"
    by (simp_all add: addrText_def example_bytes example_texts)
  have free: "ipText 168296706 \<notin> usedAddresses (exampleAWG ''10.8.1.1'' ''10.8.1.2'' ''10.8.1.254'') []"
    by (simp add: example_bytes example_texts usedAddresses_def exampleAWG_def)
  show ?thesis
    using subnet_pool_sound [OF example_subnet, of 168296704 24 "exampleAWG ''10.8.1.1'' ''10.8.1.2'' ''10.8.1.254''" "[]"] free
    by (auto simp: exampleAWG_def t)
qed

end
