(* ===== verification/Spec2Isabelle.thy ===== *)
theory Spec2Isabelle
  imports Accounting Sync_Runs Admin_Access Admin_Runs Net_Address
begin

text \<open>
LazGate is the control plane of a VPN service. A server keeps accounts, nodes and connections in a SQL store. An agent
on every node pulls the connections it has to authorise as pages of a manifest, keeps them in a database of its own,
answers the authentication requests of the VPN process from it, and reports traffic counters. Both sides exchange
messages through durable queues. Administrators log in to the server, manage one another and the domain data. All
paths below are relative to \<open>src/internal/\<close>.

\<^bold>\<open>Conventions.\<close> A struct is a record with the fields of the source; a table is the list of its rows in the order of
insertion, with the unique indexes, foreign keys and checks of the schema as errors of the statements; a method is a
function from the state to its result (an \<open>error\<close> on the left of a sum) and the state it leaves; a transaction that fails
leaves the tables as they were. Clock and random bytes are the arguments \<open>now\<close> and \<open>rnd\<close>. A \<open>time.Time\<close> is an integer
number of nanoseconds, 64-bit columns and conversions carry their range checks, and an overflow of a sum in a
statement is an error of it, as it is on PostgreSQL.

\<^bold>\<open>Foundations.\<close>
\<^item> \<open>Prelude\<close>: errors, results, tables and transactions, with the lemmas on rows all stores share.
\<^item> \<open>Strconv\<close>, \<open>Base64\<close>, \<open>Core_Text\<close>, \<open>Go_Text\<close>, \<open>Go_JSON\<close>: what the sources use of Go's library on data: decimal numbers,
  base64, identifiers and timestamps (\<open>server/storage/core.go\<close>, \<open>ts\<close> of \<open>server/storage/sqlite.go\<close>), trimming and
  case of text, JSON. The lemmas are the round trips of the encoders and decoders.

\<^bold>\<open>Queues and traffic.\<close>
\<^item> \<open>Queue\<close>: \<open>queue/transport.go\<close>, \<open>queue/sqlstore.go\<close>, \<open>queue/secure.go\<close>, \<open>util/time.go\<close>. The relations \<open>message_step\<close> and
  \<open>leased_step\<close> hold the operations of the store in any order. A leased message is handed out to nobody else before its
  lease ends and is handed out again after it; cleanup keeps every live message; an enqueue that is absent-only happens
  once; the encrypting store reads back what it recorded.
\<^item> \<open>Agent_Store\<close>: the agent's database, \<open>agent/common/store/store.go\<close>: authorised users, sync state, traffic counters.
\<^item> \<open>Usage\<close>: \<open>server/storage/telemetry_sql.go\<close> and \<open>HandleUsage\<close> of \<open>server/agenttelemetry/telemetry.go\<close>.
\<^item> \<open>Accounting\<close>: an agent, a network that delays, loses, repeats and reorders, and the server as one transition system
  \<open>acct_step\<close>. Every byte the agent observed is counted once, at the server or as outstanding at the agent, and a positive
  acknowledgement of the server is accepted whenever it arrives.

\<^bold>\<open>The domain store.\<close>
\<^item> \<open>Model\<close>: \<open>server/model/model.go\<close>. \<open>Domain\<close>: \<open>server/storage/domain_sql.go\<close> and the accounts of
  \<open>server/storage/sqlite.go\<close>. \<open>Node_Config\<close>: the node configurations and file sets (\<open>hysteria_settings.go\<close>,
  \<open>amnezia_settings.go\<close>, \<open>masquerade_files.go\<close>).
\<^item> \<open>Domain_Invariant\<close>, \<open>Domain_Steps\<close>: the invariant of the tables, the relation \<open>domain_step\<close> of the operations, and that
  each of them keeps the invariant. \<open>Domain_Properties\<close>: a desired status changes only with a larger version, finalising
  after a snapshot settles exactly the acknowledged connections, stale configurations are refused.

\<^bold>\<open>Synchronisation.\<close>
\<^item> \<open>Protocol\<close>: \<open>protocol/types.go\<close>, \<open>protocol/manifest_builder.go\<close>. \<open>Projection\<close>: \<open>server/agentprotocol\<close> (stored projection,
  projector, manifest handlers) with the credential builders of \<open>server/hysteriaagent\<close> and \<open>server/amneziaagent\<close>. The
  locale \<open>stored_source\<close> is the contract of a listing; \<open>Sync_Source\<close> interprets it on the two listings of the store.
\<^item> \<open>Sync_Engine\<close>: \<open>agent/common/sync_engine.go\<close>, \<open>agent/common/credential_sync.go\<close>. \<open>Credential_Sync\<close>:
  \<open>agent/hysteria2/sync/sync.go\<close> and the endpoint of \<open>legacy/agent/hysteria2/auth/auth.go\<close>.
\<^item> \<open>Sync_Properties\<close>: a run ends and leaves exactly the users the server wants. \<open>Sync_Runs\<close>: the same for any history of
  server operations and runs (\<open>node_step\<close>), up to the answers of the endpoint; and the one operation it fails for:
  \<open>UpdateAccountStatus\<close> changes what the server wants without a new version, so incremental runs miss it.

\<^bold>\<open>Administration.\<close>
\<^item> \<open>Auth_Store\<close>: the authentication tables of \<open>server/storage/sqlite.go\<close>. \<open>Auth_Sessions\<close>: their operations as a
  transition system; active refresh tokens belong to live sessions, a rotation replaces the tokens, the replay of a
  spent token ends the session, a spent token stays spent.
\<^item> \<open>Admin_Auth\<close>: \<open>server/adminauth/auth.go\<close>, \<open>server/adminauth/bootstrap.go\<close>, \<open>server/security/tokens/tokens.go\<close>.
  \<open>Admin_Properties\<close>, \<open>Admin_Access\<close>: login, lockout, password change, CSRF tokens, authorisation by role, and what a
  refresh with an already rotated token does inside and outside the grace window.
\<^item> \<open>Admin_Management\<close>: the handlers of \<open>server/transport/http/admin\<close> (\<open>admins.go\<close>, \<open>invites.go\<close>, \<open>security.go\<close>) and
  \<open>server/audit/audit.go\<close>. \<open>Admin_Owners\<close>: invites enrol once, the permission guard. \<open>Admin_Runs\<close>: no sequence of the
  handlers (\<open>admin_step\<close>) takes the last active owner away.

\<^bold>\<open>Addresses.\<close> \<open>Net_Address\<close>: \<open>compareIP\<close>, \<open>nextIP\<close>, \<open>nextAvailableIPv4\<close> of \<open>server/connections/service.go\<close> and
\<open>parseAWGSubnet\<close> of \<open>server/provisioning/awg_subnet.go\<close>: the search of the pool ends with the lowest free address, except
for a full pool that ends at 255.255.255.255, where it wraps around.

\<^bold>\<open>Parameters.\<close> Code outside the repository is an argument of the definitions that use it: bcrypt, SHA-256 and HMAC, the
cipher of the encrypting queue, the encoding of acknowledgements, the Unicode tables beyond ASCII, and the process the
agent kicks connections from. What a theorem needs of them is a named hypothesis, and its witness instantiates it.

\<^bold>\<open>Loops and fuel.\<close> The loop of the sync engine and the search of the address pool may run forever in general; they are
partial functions whose value \<open>None\<close> means so, and that they end is part of the theorems. The JSON parser takes fuel;
it is twice the length of the text plus one, because between two characters consumed there are at most two calls, and
\<open>json_roundtrip\<close> shows it enough for every text the program renders. All other recursions are total.

\<^bold>\<open>Limits of the model.\<close>
\<^item> Store calls fail by the constraints and errors written in the code, not by the disk or the connection.
\<^item> A call is atomic. For \<open>leasePending\<close>, a select followed by updates, this is the behaviour of SQLite, where the store
  has one connection; the handlers that enrol or update administrators are likewise run without another request between
  their statements. The server's tables do not change in the middle of a sync run; between runs they change freely.
\<^item> \<open>Accounting\<close> has one agent identity and one server.
\<^item> \<open>strings.ToLower\<close> of certificate fingerprints, which are hexadecimal, covers the ASCII letters.
\<^item> The decoder's limit of 10000 nested JSON levels is left out.

\<^bold>\<open>Not modelled.\<close> The goroutines around the gRPC streams, shell scripts run on remote hosts, the drivers of the AmneziaWG
tools, rendering of HTML, JSON listings and subscription documents, the encrypting wrapper of the domain store, the
YAML and archive formats of third-party programs, command lines, generated protocol buffers and SQL migrations: they
are I/O, generated, or read the stores modelled here.
\<close>

end
